(* ===== verification/Prelude.thy ===== *)
theory Prelude
  imports
    Main
    "HOL-Library.Word"
    "HOL-Library.Char_ord"
    "HOL-Library.List_Lexorder"
    "HOL-Library.Product_Lexorder"
begin

text \<open>
  Shared vocabulary of the development: the machine types, a state-and-error computation type
  that mirrors \<^verbatim>\<open>async fn ... -> Result<T, E>\<close> with the \<^verbatim>\<open>?\<close> operator, the rules that
  carry invariants and frame facts through such computations, and the list lemmas the
  components share.

  A Rust function that may fail and that touches the outside world is a function from the world
  to a result and the new world.  \<open>Inl e\<close> is \<^verbatim>\<open>Err(e)\<close>, \<open>Inr x\<close> is \<^verbatim>\<open>Ok(x)\<close>.  The world after an
  error is kept, because effects made before an early return stay.
\<close>

section \<open>Machine types\<close>

type_synonym u8 = "8 word"
type_synonym u32 = "32 word"
type_synonym u64 = "64 word"
type_synonym uuid = "128 word"
type_synonym i64 = int

section \<open>Computations with state and errors\<close>

type_synonym ('w, 'e, 'a) comp = "'w \<Rightarrow> ('e + 'a) \<times> 'w"

definition ok :: "'a \<Rightarrow> ('w, 'e, 'a) comp" where
  "ok x = (\<lambda>w. (Inr x, w))"

definition fail :: "'e \<Rightarrow> ('w, 'e, 'a) comp" where
  "fail e = (\<lambda>w. (Inl e, w))"

text \<open>The \<^verbatim>\<open>?\<close> operator followed by the rest of the function body.\<close>

definition try_bind :: "('w, 'e, 'a) comp \<Rightarrow> ('a \<Rightarrow> ('w, 'e, 'b) comp) \<Rightarrow> ('w, 'e, 'b) comp" where
  "try_bind m f = (\<lambda>w. case m w of (Inl e, w') \<Rightarrow> (Inl e, w') | (Inr x, w') \<Rightarrow> f x w')"

text \<open>A pure \<^verbatim>\<open>Result\<close> used with \<^verbatim>\<open>?\<close>.\<close>

definition lift :: "'e + 'a \<Rightarrow> ('w, 'e, 'a) comp" where
  "lift r = (\<lambda>w. (r, w))"

text \<open>\<^verbatim>\<open>ok_or\<close> on an \<^verbatim>\<open>Option\<close> used with \<^verbatim>\<open>?\<close>.\<close>

definition ok_or :: "'e \<Rightarrow> 'a option \<Rightarrow> ('w, 'e, 'a) comp" where
  "ok_or e r = (case r of None \<Rightarrow> fail e | Some x \<Rightarrow> ok x)"

text \<open>The result kept as a value, for \<^verbatim>\<open>match m.await\<close> and \<^verbatim>\<open>if let Err(e) = m.await\<close>.\<close>

definition attempt :: "('w, 'e, 'a) comp \<Rightarrow> ('w, 'f, 'e + 'a) comp" where
  "attempt m = (\<lambda>w. case m w of (r, w') \<Rightarrow> (Inr r, w'))"

text \<open>\<^verbatim>\<open>let _ = m.await\<close>: the effect stays, the result is dropped.\<close>

definition ignore :: "('w, 'e, 'a) comp \<Rightarrow> ('w, 'f, unit) comp" where
  "ignore m = (\<lambda>w. (Inr (), snd (m w)))"

definition map_err :: "('e \<Rightarrow> 'f) \<Rightarrow> ('w, 'e, 'a) comp \<Rightarrow> ('w, 'f, 'a) comp" where
  "map_err g m = (\<lambda>w. case m w of (r, w') \<Rightarrow> (map_sum g id r, w'))"

definition gets :: "('w \<Rightarrow> 'a) \<Rightarrow> ('w, 'e, 'a) comp" where
  "gets f = (\<lambda>w. (Inr (f w), w))"

text \<open>A \<^verbatim>\<open>for\<close> loop whose body may return early with \<^verbatim>\<open>?\<close>, collecting the body's values.\<close>

fun for_each :: "'a list \<Rightarrow> ('a \<Rightarrow> ('w, 'e, 'b) comp) \<Rightarrow> ('w, 'e, 'b list) comp" where
  "for_each [] f = ok []"
| "for_each (x # xs) f = try_bind (f x) (\<lambda>y. try_bind (for_each xs f) (\<lambda>ys. ok (y # ys)))"

definition when_do :: "bool \<Rightarrow> ('w, 'e, unit) comp \<Rightarrow> ('w, 'e, unit) comp" where
  "when_do b m = (if b then m else ok ())"

definition is_ok :: "'e + 'a \<Rightarrow> bool" where
  "is_ok r = (case r of Inl _ \<Rightarrow> False | Inr _ \<Rightarrow> True)"

named_theorems run_simps \<open>how the computation combinators run on a world\<close>
named_theorems ok_simps \<open>what it means that a computation returned Ok\<close>
named_theorems keeps_intro \<open>computations that keep a predicate on the world\<close>

subsection \<open>Running the combinators\<close>

lemma ok_run [run_simps, simp]: "ok x w = (Inr x, w)"
  by (simp add: ok_def)

lemma fail_run [run_simps, simp]: "fail e w = (Inl e, w)"
  by (simp add: fail_def)

lemma lift_run [run_simps, simp]: "lift r w = (r, w)"
  by (simp add: lift_def)

lemma gets_run [run_simps, simp]: "gets f w = (Inr (f w), w)"
  by (simp add: gets_def)

lemma ignore_run [run_simps]: "ignore m w = (Inr (), snd (m w))"
  by (simp add: ignore_def)

lemma attempt_run [run_simps]: "attempt m w = (Inr (fst (m w)), snd (m w))"
  by (simp add: attempt_def split: prod.splits)

lemma map_err_run [run_simps]: "map_err g m w = (map_sum g id (fst (m w)), snd (m w))"
  by (simp add: map_err_def split: prod.splits)

lemma try_bind_run_Inl [run_simps]: "m w = (Inl e, w') \<Longrightarrow> try_bind m f w = (Inl e, w')"
  by (simp add: try_bind_def)

lemma try_bind_run_Inr [run_simps]: "m w = (Inr x, w') \<Longrightarrow> try_bind m f w = f x w'"
  by (simp add: try_bind_def)

lemma ok_or_None [run_simps, simp]: "ok_or e None = fail e"
  by (simp add: ok_or_def)

lemma ok_or_Some [run_simps, simp]: "ok_or e (Some x) = ok x"
  by (simp add: ok_or_def)

lemma try_bind_ok_left [simp]: "try_bind (ok x) f = f x"
  by (simp add: try_bind_def fun_eq_iff)

lemma try_bind_fail_left [simp]: "try_bind (fail e) f = fail e"
  by (simp add: try_bind_def fun_eq_iff)

lemma try_bind_ok_right [simp]: "try_bind m ok = m"
  by (auto simp: try_bind_def fun_eq_iff split: prod.splits sum.splits)

lemma try_bind_assoc: "try_bind (try_bind m f) g = try_bind m (\<lambda>x. try_bind (f x) g)"
  by (auto simp: try_bind_def fun_eq_iff split: prod.splits sum.splits)

lemma try_bind_lift_Inr [simp]: "try_bind (lift (Inr x)) f = f x"
  by (simp add: try_bind_def fun_eq_iff)

lemma try_bind_lift_Inl [simp]: "try_bind (lift (Inl e)) f = fail e"
  by (simp add: try_bind_def fun_eq_iff)

lemma is_ok_simps [simp]: "is_ok (Inr x)" "\<not> is_ok (Inl e)"
  by (simp_all add: is_ok_def)

subsection \<open>Inverting a successful run\<close>

lemma try_bind_okD [ok_simps]:
  "(try_bind m f w = (Inr y, w')) \<longleftrightarrow> (\<exists>x w1. m w = (Inr x, w1) \<and> f x w1 = (Inr y, w'))"
  by (auto simp: try_bind_def split: prod.splits sum.splits)

lemma try_bind_errD:
  "(try_bind m f w = (Inl e, w')) \<longleftrightarrow>
     m w = (Inl e, w') \<or> (\<exists>x w1. m w = (Inr x, w1) \<and> f x w1 = (Inl e, w'))"
  by (auto simp: try_bind_def split: prod.splits sum.splits)

lemma map_err_okD [ok_simps]: "(map_err g m w = (Inr y, w')) \<longleftrightarrow> m w = (Inr y, w')"
  by (cases "m w"; cases "fst (m w)") (auto simp: map_err_def)

lemma ok_or_okD [ok_simps]: "(ok_or e r w = (Inr y, w')) \<longleftrightarrow> r = Some y \<and> w' = w"
  by (cases r) auto

lemma ignore_okD [ok_simps]: "(ignore m w = (r, w')) \<longleftrightarrow> r = Inr () \<and> w' = snd (m w)"
  by (auto simp: ignore_def)

lemma attempt_okD [ok_simps]: "(attempt m w = (r, w')) \<longleftrightarrow> (\<exists>x. r = Inr x \<and> m w = (x, w'))"
  by (auto simp: attempt_run prod_eq_iff)

lemma when_do_okD [ok_simps]:
  "(when_do b m w = (Inr y, w')) \<longleftrightarrow> (if b then m w = (Inr y, w') else w' = w)"
  by (auto simp: when_do_def)

lemma if_comp_run: "(if b then m else n) w = (if b then m w else n w)"
  by simp

subsection \<open>Predicates that a computation keeps\<close>

definition keeps :: "('w \<Rightarrow> bool) \<Rightarrow> ('w, 'e, 'a) comp \<Rightarrow> bool" where
  "keeps P m \<longleftrightarrow> (\<forall>w. P w \<longrightarrow> P (snd (m w)))"

lemma keepsI: "(\<And>w. P w \<Longrightarrow> P (snd (m w))) \<Longrightarrow> keeps P m"
  by (simp add: keeps_def)

lemma keepsD: "keeps P m \<Longrightarrow> P w \<Longrightarrow> P (snd (m w))"
  by (simp add: keeps_def)

lemma keeps_runD: "keeps P m \<Longrightarrow> P w \<Longrightarrow> m w = (r, w') \<Longrightarrow> P w'"
  by (auto simp: keeps_def dest: spec [of _ w])

lemma keeps_ok [keeps_intro]: "keeps P (ok x)"
  by (simp add: keeps_def)

lemma keeps_fail [keeps_intro]: "keeps P (fail e)"
  by (simp add: keeps_def)

lemma keeps_lift [keeps_intro]: "keeps P (lift r)"
  by (simp add: keeps_def)

lemma keeps_gets [keeps_intro]: "keeps P (gets f)"
  by (simp add: keeps_def)

lemma keeps_ok_or [keeps_intro]: "keeps P (ok_or e r)"
  by (cases r) (simp_all add: keeps_def)

lemma keeps_try_bind [keeps_intro]:
  "keeps P m \<Longrightarrow> (\<And>x. keeps P (f x)) \<Longrightarrow> keeps P (try_bind m f)"
  by (fastforce simp: keeps_def try_bind_def split: prod.splits sum.splits)

lemma keeps_attempt [keeps_intro]: "keeps P m \<Longrightarrow> keeps P (attempt m)"
  by (simp add: keeps_def attempt_run)

lemma keeps_ignore [keeps_intro]: "keeps P m \<Longrightarrow> keeps P (ignore m)"
  by (simp add: keeps_def ignore_run)

lemma keeps_map_err [keeps_intro]: "keeps P m \<Longrightarrow> keeps P (map_err g m)"
  by (simp add: keeps_def map_err_run)

lemma keeps_when_do [keeps_intro]: "keeps P m \<Longrightarrow> keeps P (when_do b m)"
  by (simp add: when_do_def keeps_ok)

lemma keeps_if [keeps_intro]: "keeps P m \<Longrightarrow> keeps P n \<Longrightarrow> keeps P (if b then m else n)"
  by simp

lemma keeps_case_option [keeps_intro]:
  "keeps P m \<Longrightarrow> (\<And>x. keeps P (f x)) \<Longrightarrow> keeps P (case r of None \<Rightarrow> m | Some x \<Rightarrow> f x)"
  by (cases r) simp_all

lemma keeps_case_sum [keeps_intro]:
  "(\<And>x. keeps P (f x)) \<Longrightarrow> (\<And>x. keeps P (g x)) \<Longrightarrow> keeps P (case r of Inl x \<Rightarrow> f x | Inr y \<Rightarrow> g y)"
  by (cases r) simp_all

lemma keeps_case_prod [keeps_intro]:
  "(\<And>a b. keeps P (f a b)) \<Longrightarrow> keeps P (case r of (a, b) \<Rightarrow> f a b)"
  by (cases r) simp_all

lemma keeps_case_list [keeps_intro]:
  "keeps P m \<Longrightarrow> (\<And>x xs. keeps P (f x xs)) \<Longrightarrow> keeps P (case r of [] \<Rightarrow> m | x # xs \<Rightarrow> f x xs)"
  by (cases r) simp_all

lemma keeps_Let [keeps_intro]: "(\<And>x. keeps P (f x)) \<Longrightarrow> keeps P (let x = v in f x)"
  by simp

lemma keeps_for_each [keeps_intro]: "(\<And>x. keeps P (f x)) \<Longrightarrow> keeps P (for_each xs f)"
  by (induction xs) (auto intro!: keeps_intro)

lemma for_each_rel:
  assumes "for_each xs f w = (Inr ys, w')" and "\<And>x w y w'. f x w = (Inr y, w') \<Longrightarrow> R x y"
  shows "list_all2 R xs ys"
  using assms(1)
proof (induction xs arbitrary: w ys)
  case (Cons x xs)
  then obtain y w1 zs where "f x w = (Inr y, w1)" "for_each xs f w1 = (Inr zs, w')" "ys = y # zs"
    by (auto simp: ok_simps)
  with Cons.IH assms(2) show ?case by auto
qed simp

section \<open>Words\<close>

text \<open>\<^verbatim>\<open>u64 as i64\<close> is exact below \<open>2 ^ 63\<close>.\<close>

lemma sint_small:
  fixes x :: u64
  assumes "uint x < 2 ^ 63"
  shows "sint x = uint x"
proof -
  have "0 \<le> uint x" by simp
  with assms have "signed_take_bit 63 (uint x) = uint x"
    by (intro signed_take_bit_int_eq_self) linarith+
  then show ?thesis
    by (simp add: sint_uint)
qed

end
