(* ===== verification/Rust_Str.thy ===== *)
theory Rust_Str
  imports Prelude
begin

text \<open>
  The parts of Rust's \<^verbatim>\<open>str\<close> and \<^verbatim>\<open>char\<close> that the backend uses.

  A \<^verbatim>\<open>String\<close> is a \<open>string\<close> that holds its UTF-8 bytes, so \<^verbatim>\<open>s.len()\<close> is \<open>length s\<close> and \<^verbatim>\<open>==\<close> is
  equality.  A \<^verbatim>\<open>char\<close> is the group of one to four bytes that encodes it, so \<open>chars s\<close> is
  \<^verbatim>\<open>s.chars()\<close> and \<open>concat (chars s) = s\<close>.  White space and control characters are the exact
  Unicode classes.  The two big Unicode tables (which non-ASCII characters are alphanumeric, and
  how non-ASCII text is lower-cased) are parameters, \<open>unicode\<close>; on ASCII text the functions are
  exact.
\<close>

section \<open>Characters\<close>

definition utf8_width :: "char \<Rightarrow> nat" where
  "utf8_width c =
     (if of_char c < (128 :: nat) then 1
      else if of_char c < (224 :: nat) then 2
      else if of_char c < (240 :: nat) then 3
      else 4)"

fun chars :: "string \<Rightarrow> string list" where
  "chars [] = []"
| "chars (c # cs) = (c # take (utf8_width c - 1) cs) # chars (drop (utf8_width c - 1) cs)"

definition is_ascii_char :: "char \<Rightarrow> bool" where
  "is_ascii_char c = (of_char c < (128 :: nat))"

definition is_ascii :: "string \<Rightarrow> bool" where
  "is_ascii s = list_all is_ascii_char s"

definition in_range :: "char \<Rightarrow> nat \<Rightarrow> nat \<Rightarrow> bool" where
  "in_range c lo hi = (lo \<le> of_char c \<and> of_char c \<le> hi)"

definition ascii_upper_case :: "char \<Rightarrow> bool" where
  "ascii_upper_case c = in_range c 65 90"

definition ascii_alphanumeric :: "char \<Rightarrow> bool" where
  "ascii_alphanumeric c = (in_range c 48 57 \<or> in_range c 65 90 \<or> in_range c 97 122)"

definition ascii_hexdigit :: "char \<Rightarrow> bool" where
  "ascii_hexdigit c = (in_range c 48 57 \<or> in_range c 65 70 \<or> in_range c 97 102)"

definition ascii_graphic :: "char \<Rightarrow> bool" where
  "ascii_graphic c = in_range c 33 126"

definition ascii_lower :: "char \<Rightarrow> char" where
  "ascii_lower c = (if ascii_upper_case c then char_of (of_char c + (32 :: nat)) else c)"

text \<open>\<^verbatim>\<open>char::is_whitespace\<close>: the Unicode \<^verbatim>\<open>White_Space\<close> property, by UTF-8 encoding.\<close>

definition is_whitespace :: "string \<Rightarrow> bool" where
  "is_whitespace g =
     (case g of
        [a] \<Rightarrow> in_range a 9 13 \<or> of_char a = (32 :: nat)
      | [a, b] \<Rightarrow> of_char a = (194 :: nat) \<and> (of_char b = (133 :: nat) \<or> of_char b = (160 :: nat))
      | [a, b, c] \<Rightarrow>
          (of_char a = (225 :: nat) \<and> of_char b = (154 :: nat) \<and> of_char c = (128 :: nat))
          \<or> (of_char a = (226 :: nat) \<and> of_char b = (128 :: nat) \<and>
               (in_range c 128 138 \<or> of_char c = (168 :: nat) \<or> of_char c = (169 :: nat)
                \<or> of_char c = (175 :: nat)))
          \<or> (of_char a = (226 :: nat) \<and> of_char b = (129 :: nat) \<and> of_char c = (159 :: nat))
          \<or> (of_char a = (227 :: nat) \<and> of_char b = (128 :: nat) \<and> of_char c = (128 :: nat))
      | _ \<Rightarrow> False)"

text \<open>\<^verbatim>\<open>char::is_control\<close>: the Unicode general category \<^verbatim>\<open>Cc\<close>, U+0000..U+001F and U+007F..U+009F.\<close>

definition is_control :: "string \<Rightarrow> bool" where
  "is_control g =
     (case g of
        [a] \<Rightarrow> of_char a < (32 :: nat) \<or> of_char a = (127 :: nat)
      | [a, b] \<Rightarrow> of_char a = (194 :: nat) \<and> in_range b 128 159
      | _ \<Rightarrow> False)"

record unicode =
  uni_alnum :: "string \<Rightarrow> bool"
  uni_lower :: "string \<Rightarrow> string"

definition is_alphanumeric :: "unicode \<Rightarrow> string \<Rightarrow> bool" where
  "is_alphanumeric U g =
     (case g of [a] \<Rightarrow> (if is_ascii_char a then ascii_alphanumeric a else uni_alnum U g)
      | _ \<Rightarrow> uni_alnum U g)"

definition to_lowercase :: "unicode \<Rightarrow> string \<Rightarrow> string" where
  "to_lowercase U s = (if is_ascii s then map ascii_lower s else uni_lower U s)"

section \<open>Slicing\<close>

definition trim_list :: "('a \<Rightarrow> bool) \<Rightarrow> 'a list \<Rightarrow> 'a list" where
  "trim_list p xs = rev (dropWhile p (rev (dropWhile p xs)))"

definition trim :: "string \<Rightarrow> string" where
  "trim s = concat (trim_list is_whitespace (chars s))"

text \<open>\<^verbatim>\<open>str::trim_matches\<close> with a predicate on characters.\<close>

definition trim_matches :: "(string \<Rightarrow> bool) \<Rightarrow> string \<Rightarrow> string" where
  "trim_matches p s = concat (trim_list p (chars s))"

text \<open>\<^verbatim>\<open>str::split\<close> on a separator predicate: always at least one piece.\<close>

fun split_on :: "('a \<Rightarrow> bool) \<Rightarrow> 'a list \<Rightarrow> 'a list list" where
  "split_on p [] = [[]]"
| "split_on p (x # xs) =
     (if p x then [] # split_on p xs
      else (case split_on p xs of [] \<Rightarrow> [[x]] | ys # yss \<Rightarrow> (x # ys) # yss))"

definition split_whitespace :: "string \<Rightarrow> string list" where
  "split_whitespace s = map concat (filter (\<lambda>p. p \<noteq> []) (split_on is_whitespace (chars s)))"

definition strip_prefix :: "char \<Rightarrow> string \<Rightarrow> string option" where
  "strip_prefix c s = (case s of [] \<Rightarrow> None | x # xs \<Rightarrow> if x = c then Some xs else None)"

text \<open>\<^verbatim>\<open>str::split_once\<close> with an ASCII separator.\<close>

fun split_once :: "char \<Rightarrow> string \<Rightarrow> (string \<times> string) option" where
  "split_once c [] = None"
| "split_once c (x # xs) =
     (if x = c then Some ([], xs)
      else map_option (\<lambda>(a, b). (x # a, b)) (split_once c xs))"

definition starts_with :: "string \<Rightarrow> string \<Rightarrow> bool" where
  "starts_with p s = (take (length p) s = p)"

text \<open>\<^verbatim>\<open>Iterator::find_map\<close>.\<close>

fun find_map :: "('a \<Rightarrow> 'b option) \<Rightarrow> 'a list \<Rightarrow> 'b option" where
  "find_map f [] = None"
| "find_map f (x # xs) = (case f x of None \<Rightarrow> find_map f xs | Some y \<Rightarrow> Some y)"

text \<open>\<^verbatim>\<open>Display\<close> of an unsigned integer.\<close>

fun show_nat :: "nat \<Rightarrow> string" where
  "show_nat n = (if n < 10 then [char_of (48 + n)] else show_nat (n div 10) @ [char_of (48 + n mod 10)])"

declare show_nat.simps [simp del]

text \<open>\<^verbatim>\<open>str::parse::<usize>\<close>: an optional \<^verbatim>\<open>+\<close>, then decimal digits, on a 64-bit target.\<close>

definition digit_value :: "char \<Rightarrow> nat option" where
  "digit_value c = (if in_range c 48 57 then Some (of_char c - 48) else None)"

fun parse_digits :: "nat \<Rightarrow> string \<Rightarrow> nat option" where
  "parse_digits acc [] = Some acc"
| "parse_digits acc (c # cs) =
     (case digit_value c of None \<Rightarrow> None | Some v \<Rightarrow> parse_digits (10 * acc + v) cs)"

definition parse_usize :: "string \<Rightarrow> nat option" where
  "parse_usize s =
     (let ds = (case s of CHR ''+'' # cs \<Rightarrow> cs | _ \<Rightarrow> s)
      in if ds = [] then None
         else case parse_digits 0 ds of
                None \<Rightarrow> None
              | Some n \<Rightarrow> if n < 2 ^ 64 then Some n else None)"

text \<open>U+2013, which several messages of the source contain.\<close>

definition en_dash :: string where
  "en_dash = [CHR 0xE2, CHR 0x80, CHR 0x93]"

section \<open>Facts\<close>

lemma concat_chars [simp]: "concat (chars s) = s"
  by (induction s rule: chars.induct) auto

lemma chars_not_Nil [simp]: "g \<in> set (chars s) \<Longrightarrow> g \<noteq> []"
  by (induction s rule: chars.induct) auto

lemma chars_eq_Nil [simp]: "chars s = [] \<longleftrightarrow> s = []"
  by (cases s) auto

lemma utf8_width_ascii [simp]: "is_ascii_char c \<Longrightarrow> utf8_width c = 1"
  by (simp add: is_ascii_char_def utf8_width_def)

lemma chars_ascii: "is_ascii s \<Longrightarrow> chars s = map (\<lambda>c. [c]) s"
  by (induction s) (auto simp: is_ascii_def)

lemma is_ascii_Nil [simp]: "is_ascii []"
  by (simp add: is_ascii_def)

lemma is_ascii_Cons [simp]: "is_ascii (c # s) \<longleftrightarrow> is_ascii_char c \<and> is_ascii s"
  by (simp add: is_ascii_def)

lemma is_ascii_append [simp]: "is_ascii (s @ t) \<longleftrightarrow> is_ascii s \<and> is_ascii t"
  by (simp add: is_ascii_def)

lemma of_char_ascii_lower:
  "of_char (ascii_lower c) = (if ascii_upper_case c then of_char c + 32 else of_char c :: nat)"
proof (cases "ascii_upper_case c")
  case True
  then have "of_char c + 32 < (256 :: nat)"
    by (simp add: ascii_upper_case_def in_range_def)
  with True show ?thesis
    by (simp add: ascii_lower_def)
qed (simp add: ascii_lower_def)

lemma ascii_lower_no_upper [simp]: "\<not> ascii_upper_case (ascii_lower c)"
  using of_char_ascii_lower [of c]
  by (auto simp: ascii_upper_case_def in_range_def split: if_splits)

lemma ascii_lower_idem [simp]: "ascii_lower (ascii_lower c) = ascii_lower c"
  using ascii_lower_no_upper [of c] by (simp add: ascii_lower_def)

lemma is_ascii_char_lower [simp]: "is_ascii_char (ascii_lower c) \<longleftrightarrow> is_ascii_char c"
  using of_char_ascii_lower [of c]
  by (auto simp: is_ascii_char_def ascii_upper_case_def in_range_def split: if_splits)

lemma ascii_alphanumeric_lower [simp]:
  "ascii_alphanumeric (ascii_lower c) \<longleftrightarrow> ascii_alphanumeric c"
  using of_char_ascii_lower [of c]
  by (auto simp: ascii_alphanumeric_def ascii_upper_case_def in_range_def split: if_splits)

lemma ascii_alphanumeric_is_ascii: "ascii_alphanumeric c \<Longrightarrow> is_ascii_char c"
  by (auto simp: ascii_alphanumeric_def is_ascii_char_def in_range_def)

lemma is_ascii_map_lower [simp]: "is_ascii (map ascii_lower s) \<longleftrightarrow> is_ascii s"
  by (simp add: is_ascii_def list_all_iff)

lemma to_lowercase_ascii: "is_ascii s \<Longrightarrow> to_lowercase U s = map ascii_lower s"
  by (simp add: to_lowercase_def)

lemma to_lowercase_idem: "is_ascii s \<Longrightarrow> to_lowercase U (to_lowercase U s) = to_lowercase U s"
  by (simp add: to_lowercase_def)

lemma trim_list_Nil [simp]: "trim_list p [] = []"
  by (simp add: trim_list_def)

lemma set_trim_list: "set (trim_list p xs) \<subseteq> set xs"
  unfolding trim_list_def
  by (metis (no_types, lifting) set_dropWhileD set_rev subsetI)

lemma trim_list_hd: "trim_list p xs \<noteq> [] \<Longrightarrow> \<not> p (hd (trim_list p xs))"
proof -
  assume ne: "trim_list p xs \<noteq> []"
  let ?ys = "dropWhile p xs"
  from ne have "?ys \<noteq> []" unfolding trim_list_def by (metis dropWhile.simps(1) rev.simps(1))
  then have hd: "\<not> p (hd ?ys)" by (rule hd_dropWhile)
  have "?ys = trim_list p xs @ rev (takeWhile p (rev ?ys))"
    unfolding trim_list_def by (metis rev_append rev_rev_ident takeWhile_dropWhile_id)
  with ne have "hd ?ys = hd (trim_list p xs)" by (metis hd_append2)
  with hd show ?thesis by simp
qed

lemma trim_list_last: "trim_list p xs \<noteq> [] \<Longrightarrow> \<not> p (last (trim_list p xs))"
  unfolding trim_list_def by (metis hd_dropWhile last_rev rev.simps(1) rev_rev_ident)

lemma trim_list_id:
  "xs = [] \<or> (\<not> p (hd xs) \<and> \<not> p (last xs)) \<Longrightarrow> trim_list p xs = xs"
proof (cases "xs = []")
  case False
  moreover assume "xs = [] \<or> (\<not> p (hd xs) \<and> \<not> p (last xs))"
  ultimately have h: "\<not> p (hd xs)" and l: "\<not> p (last xs)" and ne: "xs \<noteq> []" by auto
  from ne h have "dropWhile p xs = xs" by (cases xs) auto
  moreover from ne l have "dropWhile p (rev xs) = rev xs"
    by (metis dropWhile.simps(2) hd_rev list.exhaust_sel rev_is_Nil_conv)
  ultimately show ?thesis by (simp add: trim_list_def)
qed simp

lemma trim_list_idem [simp]: "trim_list p (trim_list p xs) = trim_list p xs"
  by (rule trim_list_id) (use trim_list_hd trim_list_last in blast)

lemma trim_list_map_singleton: "trim_list p (map (\<lambda>c. [c]) s) = map (\<lambda>c. [c]) (trim_list (\<lambda>c. p [c]) s)"
  by (simp add: trim_list_def dropWhile_map rev_map comp_def)

lemma trim_ascii: "is_ascii s \<Longrightarrow> trim s = trim_list (\<lambda>c. is_whitespace [c]) s"
  by (simp add: trim_def chars_ascii trim_list_map_singleton)

lemma is_ascii_trim_list: "is_ascii s \<Longrightarrow> is_ascii (trim_list p s)"
  using set_trim_list [of p s] by (auto simp: is_ascii_def list_all_iff)

lemma trim_idem_ascii: "is_ascii s \<Longrightarrow> trim (trim s) = trim s"
  by (simp add: trim_ascii is_ascii_trim_list)

lemma length_trim_list: "length (trim_list p xs) \<le> length xs"
  unfolding trim_list_def by (metis dual_order.trans length_dropWhile_le length_rev)

lemma length_trim: "length (trim s) \<le> length s"
proof -
  have "length (concat (dropWhile p xs)) \<le> length (concat xs)" for p :: "string \<Rightarrow> bool" and xs
    by (induction xs) auto
  moreover have "length (concat (rev xs)) = length (concat xs)" for xs :: "string list"
    by (induction xs) auto
  ultimately have "length (concat (trim_list p xs)) \<le> length (concat xs)"
    for p :: "string \<Rightarrow> bool" and xs
    unfolding trim_list_def by (metis dual_order.trans)
  from this [of is_whitespace "chars s"] show ?thesis by (simp add: trim_def)
qed

lemma split_on_not_Nil [simp]: "split_on p xs \<noteq> []"
  by (induction xs) (auto split: list.splits)

lemma split_on_no_sep: "ys \<in> set (split_on p xs) \<Longrightarrow> y \<in> set ys \<Longrightarrow> \<not> p y"
  by (induction xs arbitrary: ys y) (fastforce split: if_splits list.splits)+

lemma set_split_on: "ys \<in> set (split_on p xs) \<Longrightarrow> set ys \<subseteq> set xs"
  by (induction xs arbitrary: ys) (fastforce split: if_splits list.splits)+

lemma find_map_Some: "find_map f xs = Some y \<Longrightarrow> \<exists>x \<in> set xs. f x = Some y"
  by (induction xs) (auto split: option.splits)

lemma find_map_None: "find_map f xs = None \<longleftrightarrow> (\<forall>x \<in> set xs. f x = None)"
  by (induction xs) (auto split: option.splits)

lemma split_once_Some:
  "split_once c s = Some (a, b) \<longleftrightarrow> s = a @ c # b \<and> c \<notin> set a"
proof (induction s arbitrary: a)
  case (Cons x xs)
  then show ?case by (cases a) auto
qed simp

lemma char_sep_eq:
  fixes c :: char
  assumes "a @ c # b = a' @ c # b'" and "c \<notin> set a" and "c \<notin> set a'"
  shows "a = a' \<and> b = b'"
  using assms split_once_Some [of c "a @ c # b"] by (metis option.inject prod.inject)

end
