(* ===== verification/Errors.thy ===== *)
theory Errors
  imports Rust_Str
begin

text \<open>
  The error types of \<^verbatim>\<open>backend/src/error.rs\<close>: \<open>app_error\<close> is what a handler answers,
  \<open>repository_error\<close> what the repository returns, and the conversions between them decide which
  HTTP status and which text a client sees.  \<open>sqlx_error\<close> names the variants of \<^verbatim>\<open>sqlx::Error\<close>
  that the backend tells apart.
\<close>

section \<open>Data\<close>

datatype status_code =
    NO_CONTENT | CREATED | BAD_REQUEST | UNAUTHORIZED | FORBIDDEN | NOT_FOUND
  | TOO_MANY_REQUESTS | INTERNAL_SERVER_ERROR | SERVICE_UNAVAILABLE

record app_error =
  status :: status_code
  message :: string

datatype sqlx_error =
    SqlxDatabase string   \<comment> \<open>the server refused the statement, e.g. a constraint violation\<close>
  | SqlxDecode string     \<comment> \<open>a column could not be decoded\<close>
  | SqlxRowNotFound       \<comment> \<open>fetch_one on an empty result\<close>
  | SqlxIo                \<comment> \<open>the connection, the pool or the network failed\<close>

datatype repository_error =
    Database sqlx_error
  | Migration string
  | NotFound
  | Forbidden

section \<open>Constructors\<close>

definition bad_request :: "string \<Rightarrow> app_error" where
  "bad_request m = \<lparr>status = BAD_REQUEST, message = m\<rparr>"

definition unauthorized :: "string \<Rightarrow> app_error" where
  "unauthorized m = \<lparr>status = UNAUTHORIZED, message = m\<rparr>"

definition forbidden :: "string \<Rightarrow> app_error" where
  "forbidden m = \<lparr>status = FORBIDDEN, message = m\<rparr>"

definition not_found :: "string \<Rightarrow> app_error" where
  "not_found m = \<lparr>status = NOT_FOUND, message = m\<rparr>"

definition internal_server_error :: "string \<Rightarrow> app_error" where
  "internal_server_error m = \<lparr>status = INTERNAL_SERVER_ERROR, message = m\<rparr>"

definition service_unavailable :: "string \<Rightarrow> app_error" where
  "service_unavailable m = \<lparr>status = SERVICE_UNAVAILABLE, message = m\<rparr>"

definition too_many_requests :: "string \<Rightarrow> app_error" where
  "too_many_requests m = \<lparr>status = TOO_MANY_REQUESTS, message = m\<rparr>"

section \<open>Conversions\<close>

text \<open>\<^verbatim>\<open>impl From<redis::RedisError> for AppError\<close>: the error itself is only logged.\<close>

definition app_of_redis :: app_error where
  "app_of_redis = service_unavailable ''cache service unavailable''"

text \<open>\<^verbatim>\<open>impl From<sqlx::Error> for AppError\<close>\<close>

definition app_of_sqlx :: "sqlx_error \<Rightarrow> app_error" where
  "app_of_sqlx e = \<lparr>status = INTERNAL_SERVER_ERROR, message = ''database request failed''\<rparr>"

text \<open>\<^verbatim>\<open>impl From<RepositoryError> for AppError\<close>\<close>

fun app_of_repository :: "repository_error \<Rightarrow> app_error" where
  "app_of_repository NotFound = not_found ''resource not found''"
| "app_of_repository Forbidden = forbidden ''operation not permitted''"
| "app_of_repository (Database e) = internal_server_error ''database request failed''"
| "app_of_repository (Migration e) = internal_server_error ''database initialization failed''"

fun map_conflict :: "repository_error \<Rightarrow> app_error" where
  "map_conflict (Database (SqlxDatabase d)) = bad_request ''email or username already exists''"
| "map_conflict other = app_of_repository other"

text \<open>\<^verbatim>\<open>impl IntoResponse for AppError\<close>: status, extra headers, and the text of the JSON body.\<close>

definition into_response :: "app_error \<Rightarrow> status_code \<times> (string \<times> string) list \<times> (string \<times> string) list" where
  "into_response e =
     (status e,
      (if status e = TOO_MANY_REQUESTS then [(''retry-after'', ''1'')] else []),
      [(''error'', message e)])"

lemmas app_error_defs =
  bad_request_def unauthorized_def forbidden_def not_found_def internal_server_error_def
  service_unavailable_def too_many_requests_def

lemma status_simps [simp]:
  "status (bad_request m) = BAD_REQUEST"
  "status (unauthorized m) = UNAUTHORIZED"
  "status (forbidden m) = FORBIDDEN"
  "status (not_found m) = NOT_FOUND"
  "status (internal_server_error m) = INTERNAL_SERVER_ERROR"
  "status (service_unavailable m) = SERVICE_UNAVAILABLE"
  "status (too_many_requests m) = TOO_MANY_REQUESTS"
  "status (app_of_sqlx e) = INTERNAL_SERVER_ERROR"
  "status app_of_redis = SERVICE_UNAVAILABLE"
  by (simp_all add: app_error_defs app_of_sqlx_def app_of_redis_def)

text \<open>The answer to a server-side failure does not depend on what went wrong inside.\<close>

lemma app_of_repository_internal:
  "status (app_of_repository e) = INTERNAL_SERVER_ERROR \<longleftrightarrow> (\<exists>d. e = Database d) \<or> (\<exists>s. e = Migration s)"
  by (cases e) auto

end
