(* ===== verification/Models.thy ===== *)
theory Models
  imports Errors
begin

text \<open>
  The wire and storage types of \<^verbatim>\<open>backend/src/models.rs\<close>, the limits of \<^verbatim>\<open>config.rs\<close>, and the
  conversions between a database row, a chat message and the form kept in the hot cache.  The
  serializers (\<^verbatim>\<open>serde_json\<close>, \<^verbatim>\<open>bitcode\<close>) are third-party code: the record \<open>codecs\<close> holds them as
  parameters.
\<close>

section \<open>Limits (config.rs)\<close>

definition MAIN_CHANNEL :: string where "MAIN_CHANNEL = ''main''"
definition HISTORY_PAGE_SIZE :: nat where "HISTORY_PAGE_SIZE = 50"
definition HOT_HISTORY_LIMIT :: nat where "HOT_HISTORY_LIMIT = 300"
definition SESSION_TTL_SECONDS :: int where "SESSION_TTL_SECONDS = 60 * 60 * 24 * 14"
definition CSRF_HEADER :: string where "CSRF_HEADER = ''x-csrf-token''"
definition PRESENCE_TTL_SECONDS :: int where "PRESENCE_TTL_SECONDS = 45"
definition MAX_FILE_BYTES :: nat where "MAX_FILE_BYTES = 25 * 1024 * 1024"

section \<open>Values\<close>

datatype json =
    JNull
  | JBool bool
  | JNum int
  | JStr string
  | JArr "json list"
  | JObj "(string \<times> json) list"

fun json_get :: "string \<Rightarrow> json \<Rightarrow> json option" where
  "json_get k (JObj kvs) = map_of kvs k"
| "json_get k _ = None"

fun json_str :: "json \<Rightarrow> string option" where
  "json_str (JStr s) = Some s"
| "json_str _ = None"

fun json_array :: "json \<Rightarrow> json list option" where
  "json_array (JArr js) = Some js"
| "json_array _ = None"

record auth_user =
  au_id :: uuid
  au_email :: string
  au_username :: string
  au_roles :: "string list"
  au_permissions :: "string list"

record session =
  s_id :: uuid
  s_csrf :: string
  s_user :: auth_user

text \<open>The \<^verbatim>\<open>CHECK\<close> constraints of the schema close these two text columns.\<close>

datatype channel_kind = Public | Private | Direct

datatype membership_role = RoleOwner | RoleModerator | RoleMember

record conversation_summary =
  cs_id :: uuid
  cs_name :: string
  cs_kind :: channel_kind
  cs_owner_user_id :: "uuid option"
  cs_display_name :: string
  cs_peer_user_id :: "uuid option"
  cs_peer_username :: "string option"
  cs_last_message_at :: "i64 option"

record channel_member =
  cme_user_id :: uuid
  cme_username :: string
  cme_membership_role :: membership_role

record reaction_summary =
  rs_message_id :: uuid
  rs_emoji :: string
  rs_user_ids :: "uuid list"

datatype client_event =
    ListChannels
  | CreateChannel string
  | CreatePrivateChannel string
  | OpenDirect uuid
  | InviteMember string uuid
  | RemoveMember string uuid
  | JoinChannel string
  | DeleteChannel string
  | DeleteMessage uuid
  | AddReaction uuid string
  | RemoveReaction uuid string
  | TypingEvent bool
  | MarkRead uuid u64
  | SendMessage string "uuid option" "string option" "uuid list"
  | EditMessage uuid string
  | LoadHistory string u64 uuid
  | LoadThread uuid "u64 option" "uuid option"
  | Heartbeat

record chat_message =
  cm_id :: uuid
  cm_channel :: string
  cm_username :: string
  cm_text :: string
  cm_created_at :: u64
  cm_edited :: bool
  cm_deleted :: bool
  cm_root_message_id :: "uuid option"
  cm_reply_count :: u32
  cm_metadata :: json
  cm_mentions :: "string list"
  cm_client_id :: "string option"
  cm_file_ids :: "uuid list"

record stored_message =
  sm_id :: uuid
  sm_channel :: string
  sm_username :: string
  sm_text :: string
  sm_created_at :: u64
  sm_edited :: bool
  sm_deleted :: bool
  sm_root_message_id :: "uuid option"
  sm_reply_count :: u32
  sm_metadata_json :: string
  sm_mentions :: "string list"
  sm_client_id :: "string option"
  sm_file_ids :: "uuid list"
  sm_owner_session :: uuid

record participant =
  pa_user_id :: uuid
  pa_username :: string
  pa_display_name :: string
  pa_custom_status :: string
  pa_roles :: "string list"
  pa_online :: bool

datatype history_source = Cache | FromDatabase

datatype server_event =
    Welcome string
  | Channels "string list"
  | PrivateConversations "conversation_summary list"
  | Members string "channel_member list"
  | ChannelCreated string
  | ChannelDeleted string
  | Joined string
  | History string "chat_message list" history_source bool
  | HistoryPage string "chat_message list" history_source bool
  | MessageEvent chat_message
  | MessageUpdated chat_message
  | ThreadHistory uuid "chat_message list" bool
  | ReactionUpdated string reaction_summary
  | Typing string uuid string bool
  | ReadStateUpdated string uuid uuid u64
  | ErrorEvent string
  | Participants string "participant list"
  | ParticipantJoined string participant
  | ParticipantLeft string uuid
  | PresenceSync string "participant list"

record codecs =
  json_print :: "json \<Rightarrow> string option"    \<comment> \<open>\<^verbatim>\<open>serde_json::to_string\<close>\<close>
  json_display :: "json \<Rightarrow> string"          \<comment> \<open>\<^verbatim>\<open>Value::to_string\<close>\<close>
  json_parse :: "string \<Rightarrow> json option"
  bitcode_encode :: "stored_message \<Rightarrow> string"
  bitcode_decode :: "string \<Rightarrow> stored_message option"
  user_print :: "auth_user \<Rightarrow> string option"
  user_parse :: "string \<Rightarrow> auth_user option"
  participant_print :: "participant \<Rightarrow> string option"
  participant_parse :: "string \<Rightarrow> participant option"
  event_print :: "server_event \<Rightarrow> string option"
  event_parse :: "string \<Rightarrow> server_event option"
  client_event_parse :: "string \<Rightarrow> client_event option"

section \<open>Rows to messages\<close>

text \<open>
  The columns that every message query of the backend selects: \<^verbatim>\<open>created_at\<close> and \<^verbatim>\<open>reply_count\<close> are
  signed in the database and unsigned in the program.
\<close>

record message_row =
  mr_id :: uuid
  mr_channel :: string
  mr_username :: string
  mr_text :: string
  mr_created_at :: i64
  mr_edited :: bool
  mr_deleted :: bool
  mr_root_message_id :: "uuid option"
  mr_reply_count :: i64
  mr_metadata :: json
  mr_mentions :: "string list"
  mr_client_id :: "string option"
  mr_file_ids :: "uuid list"

text \<open>\<^verbatim>\<open>checked_unsigned\<close>: \<^verbatim>\<open>i64::try_into\<close> for an unsigned type of \<open>LENGTH('a)\<close> bits.\<close>

definition checked_unsigned :: "i64 \<Rightarrow> string \<Rightarrow> sqlx_error + ('a :: len) word" where
  "checked_unsigned v field =
     (if 0 \<le> v \<and> v < 2 ^ LENGTH('a) then Inr (word_of_int v)
      else Inl (SqlxDecode (field @ '' cannot be negative or out of range'')))"

definition try_from_row :: "message_row \<Rightarrow> sqlx_error + chat_message" where
  "try_from_row row =
     (case checked_unsigned (mr_created_at row) ''created_at'' of
        Inl e \<Rightarrow> Inl e
      | Inr created_at \<Rightarrow>
          (case checked_unsigned (mr_reply_count row) ''reply_count'' of
             Inl e \<Rightarrow> Inl e
           | Inr reply_count \<Rightarrow>
               Inr \<lparr>cm_id = mr_id row, cm_channel = mr_channel row, cm_username = mr_username row,
                    cm_text = mr_text row, cm_created_at = created_at, cm_edited = mr_edited row,
                    cm_deleted = mr_deleted row, cm_root_message_id = mr_root_message_id row,
                    cm_reply_count = reply_count, cm_metadata = mr_metadata row,
                    cm_mentions = mr_mentions row, cm_client_id = mr_client_id row,
                    cm_file_ids = mr_file_ids row\<rparr>))"

text \<open>\<^verbatim>\<open>rows.iter().map(try_from_row).collect::<Result<Vec<_>, _>>()\<close>\<close>

fun try_from_rows :: "message_row list \<Rightarrow> sqlx_error + chat_message list" where
  "try_from_rows [] = Inr []"
| "try_from_rows (r # rs) =
     (case try_from_row r of
        Inl e \<Rightarrow> Inl e
      | Inr m \<Rightarrow> map_sum id (\<lambda>ms. m # ms) (try_from_rows rs))"

section \<open>Messages in the hot cache\<close>

definition from_message :: "codecs \<Rightarrow> chat_message \<Rightarrow> uuid \<Rightarrow> stored_message" where
  "from_message C m owner_session =
     \<lparr>sm_id = cm_id m, sm_channel = cm_channel m, sm_username = cm_username m,
      sm_text = cm_text m, sm_created_at = cm_created_at m, sm_edited = cm_edited m,
      sm_deleted = cm_deleted m, sm_root_message_id = cm_root_message_id m,
      sm_reply_count = cm_reply_count m,
      sm_metadata_json = (case json_print C (cm_metadata m) of None \<Rightarrow> ''{}'' | Some s \<Rightarrow> s),
      sm_mentions = cm_mentions m, sm_client_id = cm_client_id m,
      sm_file_ids = cm_file_ids m, sm_owner_session = owner_session\<rparr>"

definition into_message :: "codecs \<Rightarrow> stored_message \<Rightarrow> chat_message" where
  "into_message C s =
     \<lparr>cm_id = sm_id s, cm_channel = sm_channel s, cm_username = sm_username s,
      cm_text = sm_text s, cm_created_at = sm_created_at s, cm_edited = sm_edited s,
      cm_deleted = sm_deleted s, cm_root_message_id = sm_root_message_id s,
      cm_reply_count = sm_reply_count s,
      cm_metadata = (case json_parse C (sm_metadata_json s) of None \<Rightarrow> JObj [] | Some j \<Rightarrow> j),
      cm_mentions = sm_mentions s, cm_client_id = sm_client_id s,
      cm_file_ids = sm_file_ids s\<rparr>"

section \<open>Facts\<close>

lemma checked_unsigned_ok:
  "checked_unsigned v f = Inr (u :: ('a :: len) word) \<longleftrightarrow> 0 \<le> v \<and> v < 2 ^ LENGTH('a) \<and> u = word_of_int v"
  by (auto simp: checked_unsigned_def)

lemma checked_unsigned_uint:
  "checked_unsigned v f = Inr (u :: ('a :: len) word) \<Longrightarrow> uint u = v"
  by (auto simp: checked_unsigned_ok take_bit_int_eq_self uint_word_of_int_eq)

lemma try_from_row_ok:
  "try_from_row r = Inr m \<longleftrightarrow>
     0 \<le> mr_created_at r \<and> mr_created_at r < 2 ^ 64 \<and> 0 \<le> mr_reply_count r \<and> mr_reply_count r < 2 ^ 32 \<and>
     m = \<lparr>cm_id = mr_id r, cm_channel = mr_channel r, cm_username = mr_username r,
          cm_text = mr_text r, cm_created_at = word_of_int (mr_created_at r), cm_edited = mr_edited r,
          cm_deleted = mr_deleted r, cm_root_message_id = mr_root_message_id r,
          cm_reply_count = word_of_int (mr_reply_count r), cm_metadata = mr_metadata r,
          cm_mentions = mr_mentions r, cm_client_id = mr_client_id r,
          cm_file_ids = mr_file_ids r\<rparr>"
  by (auto simp: try_from_row_def checked_unsigned_def)

lemma try_from_rows_ok:
  "try_from_rows rs = Inr ms \<longleftrightarrow> list_all2 (\<lambda>r m. try_from_row r = Inr m) rs ms"
proof (induction rs arbitrary: ms)
  case Nil
  then show ?case by auto
next
  case (Cons r rs)
  show ?case
  proof (cases "try_from_row r")
    case (Inl e)
    then show ?thesis by (simp add: list_all2_Cons1)
  next
    case (Inr m)
    then show ?thesis
      by (cases "try_from_rows rs") (simp_all add: list_all2_Cons1 Cons [symmetric] eq_commute)
  qed
qed

lemma try_from_rows_ids:
  "try_from_rows rs = Inr ms \<Longrightarrow> map cm_id ms = map mr_id rs"
  unfolding try_from_rows_ok by (induction rule: list_all2_induct) (auto simp: try_from_row_ok)

lemma into_from_message:
  assumes "json_print C (cm_metadata m) = Some s" and "json_parse C s = Some (cm_metadata m)"
  shows "into_message C (from_message C m owner) = m"
  using assms by (simp add: into_message_def from_message_def)

lemma from_message_simps [simp]:
  "sm_id (from_message C m o') = cm_id m"
  "sm_created_at (from_message C m o') = cm_created_at m"
  "cm_id (into_message C s) = sm_id s"
  "cm_created_at (into_message C s) = sm_created_at s"
  by (simp_all add: into_message_def from_message_def)

end
