(* ===== verification/Keyspace.thy ===== *)
theory Keyspace
  imports Models "HOL-Library.AList"
begin

text \<open>
  The interface of the Valkey server.  The server and its client library are not part of the
  repository, so the backend's definitions take its commands as a parameter, \<open>valkey_ops\<close>.  What
  the backend relies on is the locale \<open>valkey\<close>: every command simulates the documented command on
  an abstract \<open>keyspace\<close>.  The documented commands themselves (\<open>ks_hset\<close>, \<open>ks_zadd\<close>, ...) are
  executable, and the locale is interpreted on them, so the laws are consistent and concrete runs
  can be evaluated.
\<close>

section \<open>The commands the backend sends\<close>

record 's valkey_ops =
  hset :: "string \<Rightarrow> (string \<times> string) list \<Rightarrow> 's \<Rightarrow> 's"
  hmget :: "string \<Rightarrow> string list \<Rightarrow> 's \<Rightarrow> string option list"
  hdel :: "string \<Rightarrow> string list \<Rightarrow> 's \<Rightarrow> 's"
  zadd :: "string \<Rightarrow> u64 \<Rightarrow> string \<Rightarrow> 's \<Rightarrow> 's"
  zrange :: "string \<Rightarrow> int \<Rightarrow> int \<Rightarrow> 's \<Rightarrow> string list"
  zrevrangebyscore :: "string \<Rightarrow> int \<Rightarrow> nat \<Rightarrow> 's \<Rightarrow> string list"
  zrem :: "string \<Rightarrow> string list \<Rightarrow> 's \<Rightarrow> 's"
  sadd :: "string \<Rightarrow> string \<Rightarrow> 's \<Rightarrow> 's"
  srem :: "string \<Rightarrow> string list \<Rightarrow> 's \<Rightarrow> 's"
  smembers :: "string \<Rightarrow> 's \<Rightarrow> string list"
  del :: "string list \<Rightarrow> 's \<Rightarrow> 's"
  exists_key :: "string \<Rightarrow> 's \<Rightarrow> bool"
  incr :: "string \<Rightarrow> 's \<Rightarrow> int \<times> 's"
  expire :: "string \<Rightarrow> int \<Rightarrow> 's \<Rightarrow> 's"
  ttl :: "string \<Rightarrow> 's \<Rightarrow> int"
  setex :: "string \<Rightarrow> int \<Rightarrow> string \<Rightarrow> 's \<Rightarrow> 's"
  mget :: "string list \<Rightarrow> 's \<Rightarrow> string option list"
  publish :: "string \<Rightarrow> string \<Rightarrow> 's \<Rightarrow> 's"

section \<open>The documented commands on an abstract keyspace\<close>

text \<open>
  A sorted set is the list of its (score, member) pairs in increasing order, which is the order the
  server keeps: by score, and by the bytes of the member among equal scores.  \<open>ks_ttl\<close> is the time
  to live that was last set on a key, \<open>ks_pub\<close> the messages published so far.
\<close>

record keyspace =
  ks_hash :: "string \<Rightarrow> (string \<times> string) list"
  ks_zset :: "string \<Rightarrow> (int \<times> string) list"
  ks_set :: "string \<Rightarrow> string list"
  ks_str :: "string \<Rightarrow> string option"
  ks_counter :: "string \<Rightarrow> int option"
  ks_ttl :: "string \<Rightarrow> int option"
  ks_pub :: "(string \<times> string) list"

definition ks_empty :: keyspace where
  "ks_empty = \<lparr>ks_hash = (\<lambda>_. []), ks_zset = (\<lambda>_. []), ks_set = (\<lambda>_. []), ks_str = (\<lambda>_. None),
     ks_counter = (\<lambda>_. None), ks_ttl = (\<lambda>_. None), ks_pub = []\<rparr>"

definition ks_exists :: "string \<Rightarrow> keyspace \<Rightarrow> bool" where
  "ks_exists k s = (ks_hash s k \<noteq> [] \<or> ks_zset s k \<noteq> [] \<or> ks_set s k \<noteq> [] \<or> ks_str s k \<noteq> None \<or>
     ks_counter s k \<noteq> None)"

text \<open>A key that loses its last element is gone, and its time to live with it.\<close>

definition ks_gone :: "string \<Rightarrow> keyspace \<Rightarrow> keyspace" where
  "ks_gone k s = (if ks_exists k s then s else s\<lparr>ks_ttl := (ks_ttl s)(k := None)\<rparr>)"

definition ks_hset :: "string \<Rightarrow> (string \<times> string) list \<Rightarrow> keyspace \<Rightarrow> keyspace" where
  "ks_hset k fvs s =
     s\<lparr>ks_hash := (ks_hash s)(k := fold (\<lambda>(f, v). AList.update f v) fvs (ks_hash s k))\<rparr>"

definition ks_hmget :: "string \<Rightarrow> string list \<Rightarrow> keyspace \<Rightarrow> string option list" where
  "ks_hmget k fs s = map (map_of (ks_hash s k)) fs"

definition ks_hdel :: "string \<Rightarrow> string list \<Rightarrow> keyspace \<Rightarrow> keyspace" where
  "ks_hdel k fs s =
     ks_gone k (s\<lparr>ks_hash := (ks_hash s)(k := filter (\<lambda>(f, v). f \<notin> set fs) (ks_hash s k))\<rparr>)"

definition ks_zadd :: "string \<Rightarrow> int \<Rightarrow> string \<Rightarrow> keyspace \<Rightarrow> keyspace" where
  "ks_zadd k score m s =
     s\<lparr>ks_zset := (ks_zset s)(k := insort (score, m) (filter (\<lambda>(_, m'). m' \<noteq> m) (ks_zset s k)))\<rparr>"

text \<open>Index arguments of \<^verbatim>\<open>ZRANGE\<close>: a negative index counts from the end.\<close>

definition range_index :: "nat \<Rightarrow> int \<Rightarrow> int" where
  "range_index n i = (if i < 0 then int n + i else i)"

definition ks_zrange :: "string \<Rightarrow> int \<Rightarrow> int \<Rightarrow> keyspace \<Rightarrow> string list" where
  "ks_zrange k start stop s =
     (let ms = map snd (ks_zset s k);
          a = max 0 (range_index (length ms) start);
          b = range_index (length ms) stop
      in if b < a then [] else take (nat (b - a + 1)) (drop (nat a) ms))"

text \<open>\<^verbatim>\<open>ZREVRANGEBYSCORE key max -inf LIMIT 0 n\<close>\<close>

definition ks_zrevrangebyscore :: "string \<Rightarrow> int \<Rightarrow> nat \<Rightarrow> keyspace \<Rightarrow> string list" where
  "ks_zrevrangebyscore k mx n s =
     take n (map snd (rev (filter (\<lambda>(score, _). score \<le> mx) (ks_zset s k))))"

definition ks_zrem :: "string \<Rightarrow> string list \<Rightarrow> keyspace \<Rightarrow> keyspace" where
  "ks_zrem k ms s =
     ks_gone k (s\<lparr>ks_zset := (ks_zset s)(k := filter (\<lambda>(_, m). m \<notin> set ms) (ks_zset s k))\<rparr>)"

definition ks_sadd :: "string \<Rightarrow> string \<Rightarrow> keyspace \<Rightarrow> keyspace" where
  "ks_sadd k m s = s\<lparr>ks_set := (ks_set s)(k := List.insert m (ks_set s k))\<rparr>"

definition ks_srem :: "string \<Rightarrow> string list \<Rightarrow> keyspace \<Rightarrow> keyspace" where
  "ks_srem k ms s = ks_gone k (s\<lparr>ks_set := (ks_set s)(k := filter (\<lambda>m. m \<notin> set ms) (ks_set s k))\<rparr>)"

definition ks_del :: "string list \<Rightarrow> keyspace \<Rightarrow> keyspace" where
  "ks_del ks s = s\<lparr>ks_hash := (\<lambda>k. if k \<in> set ks then [] else ks_hash s k),
     ks_zset := (\<lambda>k. if k \<in> set ks then [] else ks_zset s k),
     ks_set := (\<lambda>k. if k \<in> set ks then [] else ks_set s k),
     ks_str := (\<lambda>k. if k \<in> set ks then None else ks_str s k),
     ks_counter := (\<lambda>k. if k \<in> set ks then None else ks_counter s k),
     ks_ttl := (\<lambda>k. if k \<in> set ks then None else ks_ttl s k)\<rparr>"

definition ks_incr :: "string \<Rightarrow> keyspace \<Rightarrow> int \<times> keyspace" where
  "ks_incr k s =
     (let n = (case ks_counter s k of None \<Rightarrow> 0 | Some n \<Rightarrow> n) + 1
      in (n, s\<lparr>ks_counter := (ks_counter s)(k := Some n)\<rparr>))"

definition ks_expire :: "string \<Rightarrow> int \<Rightarrow> keyspace \<Rightarrow> keyspace" where
  "ks_expire k t s = (if ks_exists k s then s\<lparr>ks_ttl := (ks_ttl s)(k := Some t)\<rparr> else s)"

definition ks_get_ttl :: "string \<Rightarrow> keyspace \<Rightarrow> int" where
  "ks_get_ttl k s =
     (if ks_exists k s then (case ks_ttl s k of None \<Rightarrow> - 1 | Some t \<Rightarrow> t) else - 2)"

definition ks_setex :: "string \<Rightarrow> int \<Rightarrow> string \<Rightarrow> keyspace \<Rightarrow> keyspace" where
  "ks_setex k t v s =
     s\<lparr>ks_str := (ks_str s)(k := Some v), ks_ttl := (ks_ttl s)(k := Some t)\<rparr>"

definition ks_mget :: "string list \<Rightarrow> keyspace \<Rightarrow> string option list" where
  "ks_mget ks s = map (ks_str s) ks"

definition ks_publish :: "string \<Rightarrow> string \<Rightarrow> keyspace \<Rightarrow> keyspace" where
  "ks_publish ch p s = s\<lparr>ks_pub := ks_pub s @ [(ch, p)]\<rparr>"

lemmas ks_defs =
  ks_empty_def ks_exists_def ks_gone_def ks_hset_def ks_hmget_def ks_hdel_def ks_zadd_def ks_zrange_def
  ks_zrevrangebyscore_def ks_zrem_def ks_sadd_def ks_srem_def ks_del_def ks_incr_def ks_expire_def
  ks_get_ttl_def ks_setex_def ks_mget_def ks_publish_def range_index_def

text \<open>The representation invariant of the abstract keyspace.\<close>

definition ks_ok :: "keyspace \<Rightarrow> bool" where
  "ks_ok s \<longleftrightarrow> (\<forall>k. sorted (ks_zset s k) \<and> distinct (map snd (ks_zset s k)) \<and> distinct (ks_set s k) \<and>
     distinct (map fst (ks_hash s k)))"

section \<open>The contract\<close>

text \<open>
  A sorted-set score is an IEEE double on the server, so \<^verbatim>\<open>ZADD\<close> is exact below \<open>2 ^ 53\<close>; message
  timestamps in milliseconds stay below that bound for 285,000 years.  \<^verbatim>\<open>SMEMBERS\<close> promises no
  order.
\<close>

locale valkey =
  fixes V :: "'s valkey_ops" and \<alpha> :: "'s \<Rightarrow> keyspace"
  assumes hset_abs: "\<alpha> (hset V k fvs s) = ks_hset k fvs (\<alpha> s)"
    and hmget_abs: "hmget V k fs s = ks_hmget k fs (\<alpha> s)"
    and hdel_abs: "\<alpha> (hdel V k fs s) = ks_hdel k fs (\<alpha> s)"
    and zadd_abs: "uint sc < 2 ^ 53 \<Longrightarrow> \<alpha> (zadd V k sc m s) = ks_zadd k (uint sc) m (\<alpha> s)"
    and zrange_abs: "zrange V k i j s = ks_zrange k i j (\<alpha> s)"
    and zrevrangebyscore_abs: "zrevrangebyscore V k mx n s = ks_zrevrangebyscore k mx n (\<alpha> s)"
    and zrem_abs: "\<alpha> (zrem V k ms s) = ks_zrem k ms (\<alpha> s)"
    and sadd_abs: "\<alpha> (sadd V k m s) = ks_sadd k m (\<alpha> s)"
    and srem_abs: "\<alpha> (srem V k ms s) = ks_srem k ms (\<alpha> s)"
    and smembers_abs: "set (smembers V k s) = set (ks_set (\<alpha> s) k)"
    and del_abs: "\<alpha> (del V ks s) = ks_del ks (\<alpha> s)"
    and exists_abs: "exists_key V k s = ks_exists k (\<alpha> s)"
    and incr_abs: "fst (incr V k s) = fst (ks_incr k (\<alpha> s))"
      "\<alpha> (snd (incr V k s)) = snd (ks_incr k (\<alpha> s))"
    and expire_abs: "\<alpha> (expire V k t s) = ks_expire k t (\<alpha> s)"
    and ttl_abs: "ttl V k s = ks_get_ttl k (\<alpha> s)"
    and setex_abs: "\<alpha> (setex V k t v s) = ks_setex k t v (\<alpha> s)"
    and mget_abs: "mget V ks s = ks_mget ks (\<alpha> s)"
    and publish_abs: "\<alpha> (publish V ch p s) = ks_publish ch p (\<alpha> s)"

definition ref_ops :: "keyspace valkey_ops" where
  "ref_ops = \<lparr>hset = ks_hset, hmget = ks_hmget, hdel = ks_hdel, zadd = (\<lambda>k sc. ks_zadd k (uint sc)),
     zrange = ks_zrange, zrevrangebyscore = ks_zrevrangebyscore, zrem = ks_zrem, sadd = ks_sadd,
     srem = ks_srem, smembers = (\<lambda>k s. ks_set s k), del = ks_del, exists_key = ks_exists,
     incr = ks_incr, expire = ks_expire, ttl = ks_get_ttl, setex = ks_setex, mget = ks_mget,
     publish = ks_publish\<rparr>"

interpretation ref: valkey ref_ops "\<lambda>s. s"
  by unfold_locales (simp_all add: ref_ops_def)

lemmas valkey_abs =
  valkey.hset_abs valkey.hmget_abs valkey.hdel_abs valkey.zadd_abs valkey.zrange_abs
  valkey.zrevrangebyscore_abs valkey.zrem_abs valkey.sadd_abs valkey.srem_abs valkey.smembers_abs
  valkey.del_abs valkey.exists_abs valkey.incr_abs valkey.expire_abs valkey.ttl_abs valkey.setex_abs
  valkey.mget_abs valkey.publish_abs

section \<open>Facts about the abstract keyspace\<close>

lemma ks_ok_gone [simp]: "ks_ok (ks_gone k s) \<longleftrightarrow> ks_ok s"
  by (simp add: ks_gone_def ks_ok_def)

lemma gone_simps [simp]:
  "ks_hash (ks_gone k s) = ks_hash s" "ks_zset (ks_gone k s) = ks_zset s"
  "ks_set (ks_gone k s) = ks_set s" "ks_str (ks_gone k s) = ks_str s"
  "ks_counter (ks_gone k s) = ks_counter s" "ks_pub (ks_gone k s) = ks_pub s"
  by (simp_all add: ks_gone_def)

lemma ks_ok_empty [simp]: "ks_ok ks_empty"
  by (simp add: ks_ok_def ks_empty_def)

lemma distinct_map_fst_filter: "distinct (map fst xs) \<Longrightarrow> distinct (map fst (filter P xs))"
  by (induction xs) auto

lemma distinct_map_snd_filter: "distinct (map snd xs) \<Longrightarrow> distinct (map snd (filter P xs))"
  by (induction xs) auto

lemma distinct_update_fold:
  "distinct (map fst xs) \<Longrightarrow> distinct (map fst (fold (\<lambda>(f, v). AList.update f v) fvs xs))"
  by (induction fvs arbitrary: xs) (auto simp: distinct_update)

lemma ks_ok_hset: "ks_ok s \<Longrightarrow> ks_ok (ks_hset k fvs s)"
  by (auto simp: ks_ok_def ks_hset_def distinct_update_fold)

lemma ks_ok_hdel: "ks_ok s \<Longrightarrow> ks_ok (ks_hdel k fs s)"
  by (auto simp: ks_ok_def ks_hdel_def distinct_map_fst_filter)

lemma distinct_map_snd_insort:
  "distinct (map snd xs) \<Longrightarrow> m \<notin> snd ` set xs \<Longrightarrow> distinct (map snd (insort (sc, m) xs))"
  by (induction xs) (auto simp: set_insort_key)

lemma ks_ok_zadd: "ks_ok s \<Longrightarrow> ks_ok (ks_zadd k sc m s)"
  unfolding ks_ok_def ks_zadd_def
  by (auto simp: sorted_insort sorted_filter [where f = id, simplified]
      intro!: distinct_map_snd_insort distinct_map_snd_filter)

lemma ks_ok_zrem: "ks_ok s \<Longrightarrow> ks_ok (ks_zrem k ms s)"
  by (auto simp: ks_ok_def ks_zrem_def distinct_map_snd_filter sorted_filter [where f = id, simplified])

lemma map_of_fold_update:
  "map_of (fold (\<lambda>(f, v). AList.update f v) fvs xs) f =
     (case map_of (rev fvs) f of None \<Rightarrow> map_of xs f | Some v \<Rightarrow> Some v)"
  by (induction fvs arbitrary: xs) (auto simp: update_conv' map_add_def split: option.splits)

end
