(* ===== verification/Database.thy ===== *)
theory Database
  imports Keyspace
begin

text \<open>
  The PostgreSQL schema of \<^verbatim>\<open>backend/migrations\<close> as a record of tables.  A table is the list of its
  rows in insertion order, which is also the order of a query without \<^verbatim>\<open>ORDER BY\<close>.  A row has the
  columns of the final schema (the generated \<^verbatim>\<open>search_vector\<close> aside); text columns closed by a
  \<^verbatim>\<open>CHECK\<close> are datatypes.  A statement either returns its result and the new tables or is refused
  by a constraint, and then changes nothing.

  \<open>db_ok\<close> states the keys and references that the constraints of the schema guarantee.
\<close>

section \<open>Rows\<close>

record user_row =
  u_id :: uuid
  u_email :: string
  u_username :: string
  u_password_hash :: string
  u_disabled_at :: "i64 option"
  u_role_version :: i64
  u_created_at :: i64
  u_updated_at :: i64
  u_deleted_at :: "i64 option"
  u_display_name :: string
  u_custom_status :: string
  u_status_expires_at :: "i64 option"

record role_row =
  ro_id :: uuid
  ro_name :: string
  ro_created_at :: i64

record permission_row =
  pe_id :: uuid
  pe_name :: string

record role_permission_row =
  rpm_role_id :: uuid
  rpm_permission_id :: uuid

record user_role_row =
  ur_user_id :: uuid
  ur_role_id :: uuid
  ur_assigned_at :: i64

record channel_row =
  ch_id :: uuid
  ch_name :: string
  ch_created_at :: i64
  ch_deleted_at :: "i64 option"
  ch_description :: string
  ch_archived_at :: "i64 option"
  ch_retention_days :: int
  ch_kind :: channel_kind
  ch_owner_user_id :: "uuid option"
  ch_direct_key :: "string option"
  ch_posting_restricted :: bool

record member_row =
  cmb_channel_id :: uuid
  cmb_user_id :: uuid
  cmb_role :: membership_role
  cmb_invited_by :: "uuid option"
  cmb_created_at :: i64

record msg_row =
  m_id :: uuid
  m_channel_id :: uuid
  m_username :: string
  m_text :: string
  m_created_at :: i64
  m_edited :: bool
  m_owner_session :: uuid
  m_deleted_at :: "i64 option"
  m_deleted_by :: "uuid option"
  m_deletion_reason :: "string option"
  m_client_id :: "string option"
  m_root_message_id :: "uuid option"
  m_owner_user_id :: "uuid option"
  m_metadata :: json
  m_mentions :: "string list"

record message_file_row =
  mf_message_id :: uuid
  mf_file_id :: uuid

record file_row =
  f_id :: uuid
  f_uploader_user_id :: uuid
  f_storage_key :: string
  f_original_name :: string
  f_content_type :: string
  f_size_bytes :: i64
  f_checksum :: string
  f_created_at :: i64
  f_deleted_at :: "i64 option"

record reaction_row =
  r_message_id :: uuid
  r_user_id :: uuid
  r_emoji :: string
  r_created_at :: i64

record read_row =
  cr_user_id :: uuid
  cr_channel_id :: uuid
  cr_last_read_created_at :: i64
  cr_last_read_message_id :: "uuid option"
  cr_updated_at :: i64

record audit_row =
  a_id :: uuid
  a_actor_user_id :: "uuid option"
  a_action :: string
  a_target_type :: string
  a_target_id :: uuid
  a_metadata :: json
  a_created_at :: i64

record outbox_row =
  o_id :: uuid
  o_topic :: string
  o_payload :: json
  o_created_at :: i64
  o_published_at :: "i64 option"
  o_attempts :: int
  o_claimed_at :: "i64 option"

record notification_row =
  n_id :: uuid
  n_user_id :: uuid
  n_actor_user_id :: "uuid option"
  n_kind :: string
  n_message_id :: "uuid option"
  n_channel_id :: "uuid option"
  n_body :: string
  n_created_at :: i64
  n_read_at :: "i64 option"

record preference_row =
  np_user_id :: uuid
  np_mentions :: bool
  np_direct_messages :: bool
  np_channel_messages :: bool
  np_email_enabled :: bool
  np_browser_push_enabled :: bool
  np_updated_at :: i64

datatype delivery_channel = Email | Browser

record delivery_row =
  d_id :: uuid
  d_notification_id :: uuid
  d_user_id :: uuid
  d_channel :: delivery_channel
  d_email :: string
  d_kind :: string
  d_body :: string
  d_attempts :: int
  d_next_attempt_at :: i64
  d_claimed_at :: "i64 option"
  d_sent_at :: "i64 option"
  d_last_error :: "string option"

record subscription_row =
  ns_id :: uuid
  ns_user_id :: uuid
  ns_endpoint :: string
  ns_p256dh :: string
  ns_auth :: string
  ns_created_at :: i64
  ns_updated_at :: i64

record ban_row =
  b_id :: uuid
  b_user_id :: uuid
  b_channel_id :: "uuid option"
  b_reason :: string
  b_created_by :: "uuid option"
  b_expires_at :: "i64 option"
  b_created_at :: i64
  b_revoked_at :: "i64 option"
  b_revoked_by :: "uuid option"

record invite_link_row =
  l_id :: uuid
  l_channel_id :: uuid
  l_token_hash :: string
  l_created_by :: uuid
  l_expires_at :: "i64 option"
  l_max_uses :: int
  l_uses :: int
  l_created_at :: i64

record favorite_row =
  fv_user_id :: uuid
  fv_channel_id :: uuid
  fv_created_at :: i64

record draft_row =
  dr_user_id :: uuid
  dr_channel_id :: uuid
  dr_body :: string
  dr_updated_at :: i64

record edit_history_row =
  e_id :: uuid
  e_message_id :: uuid
  e_editor_user_id :: "uuid option"
  e_previous_text :: string
  e_created_at :: i64

record saved_row =
  sv_user_id :: uuid
  sv_message_id :: uuid
  sv_created_at :: i64

record report_row =
  rp_id :: uuid
  rp_message_id :: uuid
  rp_reporter_user_id :: uuid
  rp_reason :: string
  rp_status :: string
  rp_created_at :: i64
  rp_resolved_at :: "i64 option"
  rp_resolved_by :: "uuid option"

record recovery_token_row =
  rt_id :: uuid
  rt_user_id :: uuid
  rt_token_hash :: string
  rt_expires_at :: i64
  rt_created_at :: i64
  rt_used_at :: "i64 option"

record database =
  users :: "user_row list"
  roles :: "role_row list"
  permissions :: "permission_row list"
  role_permissions :: "role_permission_row list"
  user_roles :: "user_role_row list"
  channels :: "channel_row list"
  channel_members :: "member_row list"
  messages :: "msg_row list"
  message_files :: "message_file_row list"
  files :: "file_row list"
  message_reactions :: "reaction_row list"
  channel_reads :: "read_row list"
  audit_events :: "audit_row list"
  outbox_events :: "outbox_row list"
  notifications :: "notification_row list"
  notification_preferences :: "preference_row list"
  notification_deliveries :: "delivery_row list"
  notification_subscriptions :: "subscription_row list"
  user_bans :: "ban_row list"
  channel_invite_links :: "invite_link_row list"
  channel_favorites :: "favorite_row list"
  channel_drafts :: "draft_row list"
  message_edit_history :: "edit_history_row list"
  saved_messages :: "saved_row list"
  message_reports :: "report_row list"
  account_recovery_tokens :: "recovery_token_row list"

definition empty_db :: database where
  "empty_db = \<lparr>users = [], roles = [], permissions = [], role_permissions = [], user_roles = [],
     channels = [], channel_members = [], messages = [], message_files = [], files = [],
     message_reactions = [], channel_reads = [], audit_events = [], outbox_events = [],
     notifications = [], notification_preferences = [], notification_deliveries = [],
     notification_subscriptions = [], user_bans = [], channel_invite_links = [],
     channel_favorites = [], channel_drafts = [], message_edit_history = [], saved_messages = [],
     message_reports = [], account_recovery_tokens = []\<rparr>"

section \<open>Statements\<close>

type_synonym 'a stmt = "database \<Rightarrow> sqlx_error + 'a \<times> database"

text \<open>A write succeeds when every constraint it is checked against holds.\<close>

fun constrained :: "(bool \<times> string) list \<Rightarrow> 'a \<times> database \<Rightarrow> sqlx_error + 'a \<times> database" where
  "constrained [] r = Inr r"
| "constrained ((b, c) # cs) r = (if b then constrained cs r else Inl (SqlxDatabase c))"

lemma constrained_Inr [simp]: "constrained cs r = Inr x \<longleftrightarrow> list_all fst cs \<and> x = r"
  by (induction cs r rule: constrained.induct) auto

declare constrained.simps [simp del]

definition has_user :: "database \<Rightarrow> uuid \<Rightarrow> bool" where
  "has_user d u = list_ex (\<lambda>r. u_id r = u) (users d)"

definition has_channel :: "database \<Rightarrow> uuid \<Rightarrow> bool" where
  "has_channel d c = list_ex (\<lambda>r. ch_id r = c) (channels d)"

definition has_message :: "database \<Rightarrow> uuid \<Rightarrow> bool" where
  "has_message d m = list_ex (\<lambda>r. m_id r = m) (messages d)"

definition has_file :: "database \<Rightarrow> uuid \<Rightarrow> bool" where
  "has_file d f = list_ex (\<lambda>r. f_id r = f) (files d)"

text \<open>A reference in a nullable column.\<close>

definition null_or :: "('a \<Rightarrow> bool) \<Rightarrow> 'a option \<Rightarrow> bool" where
  "null_or p v = (case v of None \<Rightarrow> True | Some x \<Rightarrow> p x)"

definition is_member :: "database \<Rightarrow> uuid \<Rightarrow> uuid \<Rightarrow> bool" where
  "is_member d c u = list_ex (\<lambda>r. cmb_channel_id r = c \<and> cmb_user_id r = u) (channel_members d)"

text \<open>\<^verbatim>\<open>INSERT INTO channel_members\<close>: primary key and the three references.\<close>

definition insert_member :: "member_row \<Rightarrow> unit stmt" where
  "insert_member r d =
     constrained
       [(\<not> is_member d (cmb_channel_id r) (cmb_user_id r), ''channel_members_pkey''),
        (has_channel d (cmb_channel_id r), ''channel_members_channel_id_fkey''),
        (has_user d (cmb_user_id r), ''channel_members_user_id_fkey''),
        (null_or (has_user d) (cmb_invited_by r), ''channel_members_invited_by_fkey'')]
       ((), d\<lparr>channel_members := channel_members d @ [r]\<rparr>)"

text \<open>The same with \<^verbatim>\<open>ON CONFLICT DO NOTHING\<close>; the result is the number of rows inserted.\<close>

definition insert_member_or_ignore :: "member_row \<Rightarrow> nat stmt" where
  "insert_member_or_ignore r d =
     (if is_member d (cmb_channel_id r) (cmb_user_id r) then Inr (0, d)
      else map_sum id (\<lambda>(_, d'). (1, d')) (insert_member r d))"

definition name_taken :: "database \<Rightarrow> string \<Rightarrow> bool" where
  "name_taken d n = list_ex (\<lambda>c. ch_name c = n) (channels d)"

definition direct_key_taken :: "database \<Rightarrow> string \<Rightarrow> bool" where
  "direct_key_taken d k =
     list_ex (\<lambda>c. ch_kind c = Direct \<and> ch_deleted_at c = None \<and> ch_direct_key c = Some k) (channels d)"

text \<open>\<^verbatim>\<open>INSERT INTO channels\<close>: primary key, unique name, one live direct channel per key.\<close>

definition insert_channel :: "channel_row \<Rightarrow> unit stmt" where
  "insert_channel c d =
     constrained
       [(\<not> has_channel d (ch_id c), ''channels_pkey''),
        (\<not> name_taken d (ch_name c), ''channels_name_key''),
        (null_or (has_user d) (ch_owner_user_id c), ''channels_owner_user_id_fkey''),
        (\<not> (ch_kind c = Direct \<and> ch_deleted_at c = None \<and>
             (case ch_direct_key c of None \<Rightarrow> False | Some k \<Rightarrow> direct_key_taken d k)),
         ''channels_direct_key_idx'')]
       ((), d\<lparr>channels := channels d @ [c]\<rparr>)"

text \<open>The columns a channel gets from the schema's defaults.\<close>

definition new_channel :: "uuid \<Rightarrow> string \<Rightarrow> i64 \<Rightarrow> channel_row" where
  "new_channel i n t = \<lparr>ch_id = i, ch_name = n, ch_created_at = t, ch_deleted_at = None,
     ch_description = '''', ch_archived_at = None, ch_retention_days = 90, ch_kind = Public,
     ch_owner_user_id = None, ch_direct_key = None, ch_posting_restricted = False\<rparr>"

definition client_id_taken :: "database \<Rightarrow> uuid \<Rightarrow> string option \<Rightarrow> bool" where
  "client_id_taken d s c =
     (c \<noteq> None \<and> list_ex (\<lambda>m. m_owner_session m = s \<and> m_client_id m = c) (messages d))"

text \<open>\<^verbatim>\<open>INSERT INTO messages\<close>: primary key, references, one message per session and client id.\<close>

definition insert_message :: "msg_row \<Rightarrow> unit stmt" where
  "insert_message m d =
     constrained
       [(\<not> has_message d (m_id m), ''messages_pkey''),
        (has_channel d (m_channel_id m), ''messages_channel_id_fkey''),
        (null_or (has_user d) (m_owner_user_id m), ''messages_owner_user_id_fkey''),
        (null_or (has_message d) (m_root_message_id m), ''messages_root_message_id_fkey''),
        (\<not> client_id_taken d (m_owner_session m) (m_client_id m), ''messages_owner_client_idx'')]
       ((), d\<lparr>messages := messages d @ [m]\<rparr>)"

definition insert_audit :: "audit_row \<Rightarrow> unit stmt" where
  "insert_audit a d =
     constrained
       [(\<not> list_ex (\<lambda>r. a_id r = a_id a) (audit_events d), ''audit_events_pkey''),
        (null_or (has_user d) (a_actor_user_id a), ''audit_events_actor_user_id_fkey'')]
       ((), d\<lparr>audit_events := audit_events d @ [a]\<rparr>)"

definition insert_outbox :: "outbox_row \<Rightarrow> unit stmt" where
  "insert_outbox e d =
     constrained
       [(\<not> list_ex (\<lambda>r. o_id r = o_id e) (outbox_events d), ''outbox_events_pkey'')]
       ((), d\<lparr>outbox_events := outbox_events d @ [e]\<rparr>)"

text \<open>\<^verbatim>\<open>UPDATE t SET ... WHERE p\<close> on the rows of a table.\<close>

definition update_where :: "('r \<Rightarrow> bool) \<Rightarrow> ('r \<Rightarrow> 'r) \<Rightarrow> 'r list \<Rightarrow> 'r list" where
  "update_where p f rs = map (\<lambda>r. if p r then f r else r) rs"

definition rows_matching :: "('r \<Rightarrow> bool) \<Rightarrow> 'r list \<Rightarrow> nat" where
  "rows_matching p rs = length (filter p rs)"

text \<open>\<^verbatim>\<open>INSERT INTO t ... SELECT ...\<close>: all selected rows or, if one is refused, none.\<close>

fun insert_all :: "('r \<Rightarrow> unit stmt) \<Rightarrow> 'r list \<Rightarrow> nat stmt" where
  "insert_all ins [] d = Inr (0, d)"
| "insert_all ins (r # rs) d =
     (case ins r d of
        Inl e \<Rightarrow> Inl e
      | Inr (_, d') \<Rightarrow> map_sum id (\<lambda>(n, d''). (Suc n, d'')) (insert_all ins rs d'))"

text \<open>\<^verbatim>\<open>LEFT JOIN\<close>: the matching rows, or one row of NULLs.\<close>

definition left_join :: "'r list \<Rightarrow> 'r option list" where
  "left_join rs = (if rs = [] then [None] else map Some rs)"

text \<open>\<^verbatim>\<open>ORDER BY k DESC\<close>, stable among equal keys.\<close>

definition order_desc :: "('r \<Rightarrow> 'k :: linorder) \<Rightarrow> 'r list \<Rightarrow> 'r list" where
  "order_desc k rs = rev (sort_key k (rev rs))"

section \<open>Shared queries\<close>

definition reply_count :: "database \<Rightarrow> uuid \<Rightarrow> i64" where
  "reply_count d i = int (rows_matching (\<lambda>r. m_root_message_id r = Some i) (messages d))"

definition file_ids_of :: "database \<Rightarrow> uuid \<Rightarrow> uuid list" where
  "file_ids_of d i = map mf_file_id (filter (\<lambda>f. mf_message_id f = i) (message_files d))"

text \<open>The columns every message query selects: the text of a deleted message is hidden.\<close>

definition select_message :: "database \<Rightarrow> msg_row \<times> channel_row \<Rightarrow> message_row" where
  "select_message d = (\<lambda>(m, c).
     \<lparr>mr_id = m_id m, mr_channel = ch_name c, mr_username = m_username m,
      mr_text = (if m_deleted_at m = None then m_text m else ''''),
      mr_created_at = m_created_at m, mr_edited = m_edited m, mr_deleted = (m_deleted_at m \<noteq> None),
      mr_root_message_id = m_root_message_id m, mr_reply_count = reply_count d (m_id m),
      mr_metadata = m_metadata m, mr_mentions = m_mentions m, mr_client_id = m_client_id m,
      mr_file_ids = file_ids_of d (m_id m)\<rparr>)"

text \<open>\<^verbatim>\<open>FROM messages m JOIN channels c ON c.id = m.channel_id\<close>\<close>

definition messages_join_channels :: "database \<Rightarrow> (msg_row \<times> channel_row) list" where
  "messages_join_channels d = [(m, c). m \<leftarrow> messages d, c \<leftarrow> channels d, ch_id c = m_channel_id m]"

definition ban_active :: "i64 \<Rightarrow> ban_row \<Rightarrow> bool" where
  "ban_active now b = (b_revoked_at b = None \<and> (case b_expires_at b of None \<Rightarrow> True | Some e \<Rightarrow> e > now))"

text \<open>\<^verbatim>\<open>EXISTS (SELECT 1 FROM user_bans b WHERE ... (b.channel_id IS NULL OR b.channel_id = c))\<close>\<close>

definition banned_from :: "i64 \<Rightarrow> database \<Rightarrow> uuid \<Rightarrow> uuid \<Rightarrow> bool" where
  "banned_from now d u c =
     list_ex (\<lambda>b. b_user_id b = u \<and> ban_active now b \<and> (b_channel_id b = None \<or> b_channel_id b = Some c))
       (user_bans d)"

definition globally_banned :: "i64 \<Rightarrow> database \<Rightarrow> uuid \<Rightarrow> bool" where
  "globally_banned now d u =
     list_ex (\<lambda>b. b_user_id b = u \<and> b_channel_id b = None \<and> ban_active now b) (user_bans d)"

section \<open>Facts\<close>

lemma update_where_key:
  "(\<And>r. k (f r) = k r) \<Longrightarrow> map k (update_where p f rs) = map k rs"
  by (simp add: update_where_def)

lemma in_update_where:
  "x \<in> set (update_where p f rs) \<longleftrightarrow> (\<exists>r \<in> set rs. x = (if p r then f r else r))"
  by (auto simp: update_where_def)

lemma update_where_image:
  assumes "\<And>r. k (f r) = k r"
  shows "k ` set (update_where p f rs) = k ` set rs"
  by (metis assms set_map update_where_key)

lemma insert_all_ind:
  assumes "insert_all ins rs d = Inr (n, d')" and "P d"
    and "\<And>r d x d'. r \<in> set rs \<Longrightarrow> P d \<Longrightarrow> ins r d = Inr (x, d') \<Longrightarrow> P d'"
  shows "P d'"
  using assms
proof (induction rs arbitrary: d n)
  case (Cons r rs)
  then obtain x d1 n' where 1: "ins r d = Inr (x, d1)" "insert_all ins rs d1 = Inr (n', d')"
    by (auto split: sum.splits prod.splits simp: map_sum_def)
  from Cons.prems(3) [OF _ Cons.prems(2) 1(1)] have P: "P d1" by simp
  show ?case
    by (rule Cons.IH [OF 1(2) P]) (erule (1) Cons.prems(3) [OF list.set_intros(2)])
qed simp

end
