(* ===== verification/World.thy ===== *)
theory World
  imports Database
begin

text \<open>
  What a request of the backend runs against: the database, the Valkey server, the client's socket,
  and the sources of time, identifiers, randomness and faults.

  Third-party code is a parameter, the record \<open>env\<close>.  Every external call uses up one tick, and the
  oracles of \<open>env\<close> are indexed by it: \<open>faults E t\<close> says that the call at tick \<open>t\<close> fails (and then
  has no effect), \<open>clock E t\<close> is what the system clock reads, \<open>uuids E t\<close> what \<^verbatim>\<open>Uuid::now_v7()\<close>
  returns, \<open>randoms E t\<close> the hexadecimal form of 32 random bytes.  All oracles are arbitrary, so a
  theorem about a run covers every pattern of failures and every reading of the clock.
\<close>

section \<open>Environment and world\<close>

text \<open>The parts of a parsed \<^verbatim>\<open>reqwest::Url\<close> that the backend looks at.\<close>

record url =
  url_scheme :: string
  url_host :: "string option"
  url_username :: string
  url_password :: "string option"

record 's env =
  vk :: "'s valkey_ops"
  uni :: unicode
  codec :: codecs
  uuid_str :: "uuid \<Rightarrow> string"             \<comment> \<open>\<^verbatim>\<open>Uuid::to_string\<close>\<close>
  uuid_parse :: "string \<Rightarrow> uuid option"     \<comment> \<open>\<^verbatim>\<open>Uuid::parse_str\<close>\<close>
  pg_lower :: "string \<Rightarrow> string"            \<comment> \<open>SQL \<^verbatim>\<open>lower()\<close>\<close>
  pg_collate :: "string \<Rightarrow> string"          \<comment> \<open>the sort key of a text value under the database's collation\<close>
  uuid_bytes :: "uuid \<Rightarrow> string"            \<comment> \<open>\<^verbatim>\<open>Uuid::as_bytes\<close>\<close>
  sha256 :: "string \<Rightarrow> string"
  hex_encode :: "string \<Rightarrow> string"
  encode_b64 :: "string \<Rightarrow> string option"    \<comment> \<open>\<^verbatim>\<open>SaltString::encode_b64\<close>\<close>
  argon2_hash :: "string \<Rightarrow> string \<Rightarrow> string option"  \<comment> \<open>password and salt\<close>
  argon2_parse :: "string \<Rightarrow> string option"  \<comment> \<open>\<^verbatim>\<open>PasswordHash::new\<close>\<close>
  argon2_verify :: "string \<Rightarrow> string \<Rightarrow> bool"   \<comment> \<open>password and parsed hash\<close>
  url_parse :: "string \<Rightarrow> url option"
  env_var :: "string \<Rightarrow> string option"       \<comment> \<open>\<^verbatim>\<open>std::env::var\<close>\<close>
  faults :: "nat \<Rightarrow> bool"
  clock :: "nat \<Rightarrow> u64"
  uuids :: "nat \<Rightarrow> uuid"
  randoms :: "nat \<Rightarrow> string"

text \<open>
  \<open>socket\<close> is what was sent to the client so far, \<open>room_log\<close> the calls this connection made to the room
  manager.
\<close>

datatype room_action = Subscribed string | SubscribeFailed string | Released string

record 's world =
  db :: database
  cache :: 's
  socket :: "string list"
  room_log :: "room_action list"
  tick :: nat

type_synonym ('s, 'e, 'a) io = "('s world, 'e, 'a) comp"
type_synonym ('s, 'a) app = "('s world, app_error, 'a) comp"

section \<open>External calls\<close>

definition next_tick :: "'s world \<Rightarrow> 's world" where
  "next_tick w = w\<lparr>tick := Suc (tick w)\<rparr>"

definition external :: "'s env \<Rightarrow> 'e \<Rightarrow> ('s, 'e, 'a) io \<Rightarrow> ('s, 'e, 'a) io" where
  "external E e m = (\<lambda>w. if faults E (tick w) then (Inl e, next_tick w) else m (next_tick w))"

definition now_millis :: "'s env \<Rightarrow> ('s, 'e, u64) io" where
  "now_millis E = (\<lambda>w. (Inr (clock E (tick w)), next_tick w))"

text \<open>\<^verbatim>\<open>now_millis() as i64\<close>\<close>

definition now_i64 :: "'s env \<Rightarrow> ('s, 'e, i64) io" where
  "now_i64 E = (\<lambda>w. (Inr (sint (clock E (tick w))), next_tick w))"

definition uuid_now_v7 :: "'s env \<Rightarrow> ('s, 'e, uuid) io" where
  "uuid_now_v7 E = (\<lambda>w. (Inr (uuids E (tick w)), next_tick w))"

definition random_hex :: "'s env \<Rightarrow> ('s, 'e, string) io" where
  "random_hex E = (\<lambda>w. (Inr (randoms E (tick w)), next_tick w))"

text \<open>One SQL statement; \<open>conv\<close> is the \<^verbatim>\<open>From<sqlx::Error>\<close> conversion of the caller's \<^verbatim>\<open>?\<close>.\<close>

definition run_stmt :: "'a stmt \<Rightarrow> ('s, sqlx_error, 'a) io" where
  "run_stmt f = (\<lambda>w. case f (db w) of Inl e \<Rightarrow> (Inl e, w) | Inr (x, d) \<Rightarrow> (Inr x, w\<lparr>db := d\<rparr>))"

definition db_exec :: "'s env \<Rightarrow> (sqlx_error \<Rightarrow> 'e) \<Rightarrow> 'a stmt \<Rightarrow> ('s, 'e, 'a) io" where
  "db_exec E conv f = map_err conv (external E SqlxIo (run_stmt f))"

definition db_query :: "'s env \<Rightarrow> (sqlx_error \<Rightarrow> 'e) \<Rightarrow> (database \<Rightarrow> 'a) \<Rightarrow> ('s, 'e, 'a) io" where
  "db_query E conv f = map_err conv (external E SqlxIo (gets (\<lambda>w. f (db w))))"

text \<open>\<^verbatim>\<open>begin\<close> ... \<^verbatim>\<open>commit\<close>: an error in the body or in the commit rolls the database back.\<close>

definition transaction :: "'s env \<Rightarrow> (sqlx_error \<Rightarrow> 'e) \<Rightarrow> ('s, 'e, 'a) io \<Rightarrow> ('s, 'e, 'a) io" where
  "transaction E conv body =
     try_bind (external E (conv SqlxIo) (ok ())) (\<lambda>_ w.
       (case try_bind body (\<lambda>x. external E (conv SqlxIo) (ok x)) w of
          (Inl e, w') \<Rightarrow> (Inl e, w'\<lparr>db := db w\<rparr>)
        | (Inr x, w') \<Rightarrow> (Inr x, w')))"

definition connection :: "'s env \<Rightarrow> ('s, unit) app" where
  "connection E = external E (service_unavailable ''cache connection unavailable'') (ok ())"

text \<open>One command, or one atomic pipeline, sent to Valkey.\<close>

definition vk_write :: "'s env \<Rightarrow> ('s \<Rightarrow> 's) \<Rightarrow> ('s, unit) app" where
  "vk_write E f = external E app_of_redis (\<lambda>w. (Inr (), w\<lparr>cache := f (cache w)\<rparr>))"

definition vk_read :: "'s env \<Rightarrow> ('s \<Rightarrow> 'a) \<Rightarrow> ('s, 'a) app" where
  "vk_read E f = external E app_of_redis (gets (\<lambda>w. f (cache w)))"

definition vk_modify :: "'s env \<Rightarrow> ('s \<Rightarrow> 'a \<times> 's) \<Rightarrow> ('s, 'a) app" where
  "vk_modify E f =
     external E app_of_redis (\<lambda>w. case f (cache w) of (x, s) \<Rightarrow> (Inr x, w\<lparr>cache := s\<rparr>))"

definition socket_send :: "'s env \<Rightarrow> string \<Rightarrow> ('s, unit) app" where
  "socket_send E payload =
     external E (bad_request ''connection closed'') (\<lambda>w. (Inr (), w\<lparr>socket := socket w @ [payload]\<rparr>))"

lemmas io_defs =
  external_def now_millis_def now_i64_def uuid_now_v7_def random_hex_def run_stmt_def db_exec_def
  db_query_def connection_def vk_write_def vk_read_def vk_modify_def socket_send_def

section \<open>Successful calls\<close>

lemma next_tick_simps [simp]:
  "db (next_tick w) = db w" "cache (next_tick w) = cache w" "socket (next_tick w) = socket w"
  "tick (next_tick w) = Suc (tick w)" "room_log (next_tick w) = room_log w"
  by (simp_all add: next_tick_def)

lemma external_okD [ok_simps]:
  "(external E e m w = (Inr x, w')) \<longleftrightarrow> \<not> faults E (tick w) \<and> m (next_tick w) = (Inr x, w')"
  by (simp add: external_def)

lemma clock_okD [ok_simps]:
  "(now_millis E w = (Inr t, w')) \<longleftrightarrow> t = clock E (tick w) \<and> w' = next_tick w"
  "(now_i64 E w = (Inr i, w')) \<longleftrightarrow> i = sint (clock E (tick w)) \<and> w' = next_tick w"
  "(uuid_now_v7 E w = (Inr u, w')) \<longleftrightarrow> u = uuids E (tick w) \<and> w' = next_tick w"
  "(random_hex E w = (Inr r, w')) \<longleftrightarrow> r = randoms E (tick w) \<and> w' = next_tick w"
  by (auto simp: io_defs)

lemma never_fails [simp]:
  "now_millis E w \<noteq> (Inl e, w')" "now_i64 E w \<noteq> (Inl e, w')" "uuid_now_v7 E w \<noteq> (Inl e, w')"
  "random_hex E w \<noteq> (Inl e, w')"
  by (simp_all add: io_defs)

lemma run_stmt_okD [ok_simps]:
  "(run_stmt f w = (Inr x, w')) \<longleftrightarrow> (\<exists>d. f (db w) = Inr (x, d) \<and> w' = w\<lparr>db := d\<rparr>)"
  by (auto simp: run_stmt_def split: sum.splits)

lemma db_exec_okD [ok_simps]:
  "(db_exec E conv f w = (Inr x, w')) \<longleftrightarrow>
     \<not> faults E (tick w) \<and> (\<exists>d. f (db w) = Inr (x, d) \<and> w' = (next_tick w)\<lparr>db := d\<rparr>)"
  by (simp add: db_exec_def ok_simps)

lemma db_query_okD [ok_simps]:
  "(db_query E conv f w = (Inr x, w')) \<longleftrightarrow> \<not> faults E (tick w) \<and> x = f (db w) \<and> w' = next_tick w"
  by (auto simp: db_query_def ok_simps)

lemma transaction_okD [ok_simps]:
  "(transaction E conv body w = (Inr x, w')) \<longleftrightarrow>
     \<not> faults E (tick w) \<and>
     (\<exists>w2. body (next_tick w) = (Inr x, w2) \<and> \<not> faults E (tick w2) \<and> w' = next_tick w2)"
  by (auto simp: transaction_def try_bind_def external_def split: prod.splits sum.splits)

lemma transaction_err_db:
  "transaction E conv body w = (Inl e, w') \<Longrightarrow> db w' = db w"
  by (auto simp: transaction_def try_bind_def external_def split: prod.splits sum.splits if_splits)

lemma vk_okD [ok_simps]:
  "(connection E w = (Inr y, w')) \<longleftrightarrow> \<not> faults E (tick w) \<and> w' = next_tick w"
  "(vk_write E f w = (Inr y, w')) \<longleftrightarrow> \<not> faults E (tick w) \<and> w' = (next_tick w)\<lparr>cache := f (cache w)\<rparr>"
  "(vk_read E g w = (Inr x, w')) \<longleftrightarrow> \<not> faults E (tick w) \<and> x = g (cache w) \<and> w' = next_tick w"
  "(vk_modify E h w = (Inr z, w')) \<longleftrightarrow>
     \<not> faults E (tick w) \<and> z = fst (h (cache w)) \<and> w' = (next_tick w)\<lparr>cache := snd (h (cache w))\<rparr>"
  by (auto simp: connection_def vk_write_def vk_read_def vk_modify_def ok_simps split: prod.splits)

lemma socket_send_okD [ok_simps]:
  "(socket_send E p w = (Inr y, w')) \<longleftrightarrow>
     \<not> faults E (tick w) \<and> w' = (next_tick w)\<lparr>socket := socket w @ [p]\<rparr>"
  by (auto simp: socket_send_def ok_simps)

section \<open>Predicates on a part of the world that a computation keeps\<close>

text \<open>
  \<open>keeps_on \<pi> Q m\<close>: whatever \<open>m\<close> returns, the predicate \<open>Q\<close> on the part \<open>\<pi>\<close> of the world is kept.
  With \<open>\<pi>\<close> the database this carries table invariants through a request; with \<open>Q = (\<lambda>x. x = x0)\<close> it
  says that the part is left alone.
\<close>

definition keeps_on :: "('s world \<Rightarrow> 'p) \<Rightarrow> ('p \<Rightarrow> bool) \<Rightarrow> ('s, 'e, 'a) io \<Rightarrow> bool" where
  "keeps_on \<pi> Q m \<longleftrightarrow> keeps (\<lambda>w. Q (\<pi> w)) m"

lemma keeps_onD: "keeps_on \<pi> Q m \<Longrightarrow> Q (\<pi> w) \<Longrightarrow> m w = (r, w') \<Longrightarrow> Q (\<pi> w')"
  unfolding keeps_on_def by (rule keeps_runD)

lemma keeps_on_leaves: "(\<And>x. keeps_on \<pi> (\<lambda>y. y = x) m) \<Longrightarrow> m w = (r, w') \<Longrightarrow> \<pi> w' = \<pi> w"
  using keeps_onD [of \<pi> "\<lambda>y. y = \<pi> w" m w r w'] by simp

lemma leaves_snd: "(\<And>x. keeps_on \<pi> (\<lambda>y. y = x) m) \<Longrightarrow> \<pi> (snd (m w)) = \<pi> w"
  by (rule keeps_on_leaves [of \<pi> m w "fst (m w)"]) simp_all

lemma keeps_on_rules [keeps_intro]:
  fixes m n :: "('s, 'e, 'a) io" and f :: "'b \<Rightarrow> ('s, 'e, 'a) io" and g :: "'c \<Rightarrow> ('s, 'e, 'a) io"
    and h :: "'b \<Rightarrow> 'c \<Rightarrow> ('s, 'e, 'a) io" and k :: "'b \<Rightarrow> 'b list \<Rightarrow> ('s, 'e, 'a) io"
    and p :: "('s, 'e, 'b) io"
  shows "keeps_on \<pi> Q (ok x :: ('s, 'e, 'a) io)"
    and "keeps_on \<pi> Q (fail e :: ('s, 'e, 'a) io)"
    and "keeps_on \<pi> Q (lift r :: ('s, 'e, 'a) io)"
    and "keeps_on \<pi> Q (gets v :: ('s, 'e, 'a) io)"
    and "keeps_on \<pi> Q (ok_or e o1 :: ('s, 'e, 'a) io)"
    and "keeps_on \<pi> Q p \<Longrightarrow> (\<And>x. keeps_on \<pi> Q (f x)) \<Longrightarrow> keeps_on \<pi> Q (try_bind p f)"
    and "keeps_on \<pi> Q m \<Longrightarrow> keeps_on \<pi> Q (map_err c m)"
    and "keeps_on \<pi> Q m \<Longrightarrow> keeps_on \<pi> Q n \<Longrightarrow> keeps_on \<pi> Q (if b then m else n)"
    and "keeps_on \<pi> Q m \<Longrightarrow> (\<And>x. keeps_on \<pi> Q (f x)) \<Longrightarrow>
           keeps_on \<pi> Q (case o2 of None \<Rightarrow> m | Some x \<Rightarrow> f x)"
    and "(\<And>x. keeps_on \<pi> Q (f x)) \<Longrightarrow> (\<And>x. keeps_on \<pi> Q (g x)) \<Longrightarrow>
           keeps_on \<pi> Q (case s of Inl x \<Rightarrow> f x | Inr y \<Rightarrow> g y)"
    and "(\<And>x y. keeps_on \<pi> Q (h x y)) \<Longrightarrow> keeps_on \<pi> Q (case q of (x, y) \<Rightarrow> h x y)"
    and "keeps_on \<pi> Q m \<Longrightarrow> (\<And>x xs. keeps_on \<pi> Q (k x xs)) \<Longrightarrow>
           keeps_on \<pi> Q (case l of [] \<Rightarrow> m | x # xs \<Rightarrow> k x xs)"
    and "(\<And>x. keeps_on \<pi> Q (f x)) \<Longrightarrow> keeps_on \<pi> Q (let x = u in f x)"
    and "(\<And>x. keeps_on \<pi> Q (f x)) \<Longrightarrow> keeps_on \<pi> Q (for_each xs f)"
  unfolding keeps_on_def by - (intro keeps_intro; assumption)+

lemma keeps_on_effects [keeps_intro]:
  "keeps_on \<pi> Q m \<Longrightarrow> keeps_on \<pi> Q (attempt m)"
  "keeps_on \<pi> Q m \<Longrightarrow> keeps_on \<pi> Q (ignore m)"
  "keeps_on \<pi> Q u \<Longrightarrow> keeps_on \<pi> Q (when_do b u)"
  unfolding keeps_on_def by - (intro keeps_intro; assumption)+

lemma keeps_on_clock [keeps_intro]:
  "keeps_on db Q (now_millis E)" "keeps_on db Q (now_i64 E)" "keeps_on db Q (uuid_now_v7 E)"
  "keeps_on db Q (random_hex E)"
  "keeps_on cache R (now_millis E)" "keeps_on cache R (now_i64 E)" "keeps_on cache R (uuid_now_v7 E)"
  "keeps_on cache R (random_hex E)"
  "keeps_on socket S (now_millis E)" "keeps_on socket S (now_i64 E)" "keeps_on socket S (uuid_now_v7 E)"
  "keeps_on socket S (random_hex E)"
  by (simp_all add: keeps_on_def keeps_def io_defs)

lemma keeps_on_db_query [keeps_intro]:
  "keeps_on db Q (db_query E conv f)" "keeps_on cache R (db_query E conv f)"
  "keeps_on socket S (db_query E conv f)"
  by (simp_all add: keeps_on_def keeps_def io_defs map_err_run)

lemma keeps_on_db_exec [keeps_intro]:
  "(\<And>d x d'. Q d \<Longrightarrow> f d = Inr (x, d') \<Longrightarrow> Q d') \<Longrightarrow> keeps_on db Q (db_exec E conv f)"
  by (auto simp: keeps_on_def keeps_def io_defs map_err_run split: sum.splits)

lemma keeps_on_db_exec_frame [keeps_intro]:
  "keeps_on cache R (db_exec E conv f)" "keeps_on socket S (db_exec E conv f)"
  by (auto simp: keeps_on_def keeps_def io_defs map_err_run split: sum.splits)

lemma keeps_on_vk [keeps_intro]:
  "keeps_on db Q (connection E)" "keeps_on db Q (vk_write E f)" "keeps_on db Q (vk_read E g)"
  "keeps_on db Q (vk_modify E h)" "keeps_on db Q (socket_send E p)"
  "keeps_on socket S (connection E)" "keeps_on socket S (vk_write E f)" "keeps_on socket S (vk_read E g)"
  "keeps_on socket S (vk_modify E h)"
  "keeps_on cache R (connection E)" "keeps_on cache R (vk_read E g)" "keeps_on cache R (socket_send E p)"
  by (auto simp: keeps_on_def keeps_def io_defs split: prod.splits)

lemma keeps_on_vk_write [keeps_intro]:
  "(\<And>s. R s \<Longrightarrow> R (f s)) \<Longrightarrow> keeps_on cache R (vk_write E f)"
  "(\<And>s. R s \<Longrightarrow> R (snd (h s))) \<Longrightarrow> keeps_on cache R (vk_modify E h)"
  by (auto simp: keeps_on_def keeps_def io_defs case_prod_beta)

lemma keeps_on_room_log [keeps_intro]:
  "keeps_on room_log L (now_millis E)" "keeps_on room_log L (now_i64 E)" "keeps_on room_log L (uuid_now_v7 E)"
  "keeps_on room_log L (random_hex E)" "keeps_on room_log L (db_query E conv f)"
  "keeps_on room_log L (db_exec E conv g)" "keeps_on room_log L (connection E)" "keeps_on room_log L (vk_write E v)"
  "keeps_on room_log L (vk_read E r)" "keeps_on room_log L (vk_modify E h)" "keeps_on room_log L (socket_send E p)"
  by (auto simp: keeps_on_def keeps_def io_defs map_err_run split: sum.splits prod.splits)

lemma keeps_on_transaction_db:
  "keeps_on db Q m \<Longrightarrow> keeps_on db Q (transaction E conv m)"
  unfolding keeps_on_def keeps_def transaction_def try_bind_def external_def
  by (auto split: prod.splits sum.splits dest: spec [of _ "next_tick _"])

text \<open>A transaction whose statements break the predicate in between is judged by its committed result.\<close>

lemma keeps_on_transaction_commit:
  "(\<And>w x w'. Q (db w) \<Longrightarrow> m w = (Inr x, w') \<Longrightarrow> Q (db w')) \<Longrightarrow> keeps_on db Q (transaction E conv m)"
  unfolding keeps_on_def keeps_def transaction_def try_bind_def external_def
  by (auto split: prod.splits sum.splits) (metis next_tick_simps(1))

lemma keeps_on_transaction_frame [keeps_intro]:
  "keeps_on cache R m \<Longrightarrow> keeps_on cache R (transaction E conv m)"
  "keeps_on socket S m \<Longrightarrow> keeps_on socket S (transaction E conv m)"
  "keeps_on room_log L m \<Longrightarrow> keeps_on room_log L (transaction E conv m)"
  unfolding keeps_on_def keeps_def transaction_def try_bind_def external_def
  by (auto split: prod.splits sum.splits) (metis next_tick_simps(2,3,5) snd_conv)+

section \<open>Guards read from the database\<close>

text \<open>
  \<open>leads_to P m Q\<close>: from a database with \<open>P\<close>, whatever \<open>m\<close> returns, the database has \<open>Q\<close>.  It is
  used where a statement keeps an invariant only because of what an earlier query of the same
  request has established.
\<close>

definition leads_to :: "(database \<Rightarrow> bool) \<Rightarrow> ('s, 'e, 'a) io \<Rightarrow> (database \<Rightarrow> bool) \<Rightarrow> bool" where
  "leads_to P m Q \<longleftrightarrow> (\<forall>w. P (db w) \<longrightarrow> Q (db (snd (m w))))"

lemma keeps_on_leads_to: "keeps_on db Q m \<longleftrightarrow> leads_to Q m Q"
  by (simp add: keeps_on_def keeps_def leads_to_def)

lemma leads_to_keeps: "(\<And>d. P d \<Longrightarrow> Q d) \<Longrightarrow> keeps_on db Q m \<Longrightarrow> leads_to P m Q"
  by (simp add: keeps_on_def keeps_def leads_to_def)

lemma leads_to_pure:
  "(\<And>d. P d \<Longrightarrow> Q d) \<Longrightarrow> leads_to P (ok x) Q" "(\<And>d. P d \<Longrightarrow> Q d) \<Longrightarrow> leads_to P (fail e) Q"
  by (simp_all add: leads_to_def)

lemma leads_to_bind_keeps:
  "keeps_on db P m \<Longrightarrow> (\<And>d. P d \<Longrightarrow> Q d) \<Longrightarrow> (\<And>x. leads_to P (g x) Q) \<Longrightarrow> leads_to P (try_bind m g) Q"
  unfolding keeps_on_def keeps_def leads_to_def try_bind_def
  by (metis (mono_tags, lifting) case_prod_conv old.sum.exhaust old.sum.simps(5,6) snd_conv surj_pair)

lemma leads_to_query:
  "(\<And>d. P d \<Longrightarrow> Q d) \<Longrightarrow> (\<And>d. P d \<Longrightarrow> leads_to (\<lambda>d'. d' = d) (g (f d)) Q) \<Longrightarrow>
     leads_to P (try_bind (db_query E conv f) g) Q"
  by (auto simp: leads_to_def try_bind_def io_defs map_err_run)

lemma leads_to_exec:
  "(\<And>d. P d \<Longrightarrow> Q d) \<Longrightarrow> (\<And>d x d'. P d \<Longrightarrow> f d = Inr (x, d') \<Longrightarrow> Q d') \<Longrightarrow> (\<And>x. keeps_on db Q (g x)) \<Longrightarrow>
     leads_to P (try_bind (db_exec E conv f) g) Q"
  by (auto simp: leads_to_def keeps_on_def keeps_def try_bind_def io_defs map_err_run split: sum.splits)

lemma leads_to_transaction:
  fixes m :: "('s, 'e, 'a) io"
  shows "(\<And>d. P d \<Longrightarrow> Q d) \<Longrightarrow> (\<And>w x w'. P (db w) \<Longrightarrow> m w = (Inr x, w') \<Longrightarrow> Q (db w')) \<Longrightarrow>
     (\<And>x. keeps_on db Q (g x)) \<Longrightarrow> leads_to P (try_bind (transaction E conv m) g) Q"
proof -
  assume PQ: "\<And>d. P d \<Longrightarrow> Q d" and m: "\<And>w x w'. P (db w) \<Longrightarrow> m w = (Inr x, w') \<Longrightarrow> Q (db w')"
    and g: "\<And>x. keeps_on db Q (g x)"
  show ?thesis
    unfolding leads_to_def
  proof (intro allI impI)
    fix w :: "'s world" assume P: "P (db w)"
    obtain r w1 where r: "transaction E conv m w = (r, w1)" by (cases "transaction E conv m w")
    show "Q (db (snd (try_bind (transaction E conv m) g w)))"
    proof (cases r)
      case (Inl e)
      with r P PQ transaction_err_db [of E conv m w e w1] show ?thesis by (simp add: try_bind_def)
    next
      case (Inr x)
      with r obtain w2 where "m (next_tick w) = (Inr x, w2)" "w1 = next_tick w2"
        by (auto simp: transaction_okD)
      with m [of "next_tick w" x w2] P have "Q (db w1)" by simp
      with r Inr g [of x] show ?thesis by (simp add: try_bind_def keeps_on_def keeps_def)
    qed
  qed
qed

end
