(* ===== verification/Demo.thy ===== *)
theory Demo
  imports World
begin

text \<open>
  A concrete environment and a concrete starting world, used to show that the hypotheses of the
  development's theorems can be met and to evaluate the definitions on small inputs.  The cache is
  the reference keyspace, no call fails, identifiers and the clock count up with the ticks.
\<close>

definition demo_user :: auth_user where
  "demo_user = \<lparr>au_id = 1, au_email = ''ada@example.com'', au_username = ''ada'',
     au_roles = [''user''], au_permissions = [''chat:write'']\<rparr>"

definition demo_unicode :: unicode where
  "demo_unicode = \<lparr>uni_alnum = (\<lambda>_. False), uni_lower = (\<lambda>s. s)\<rparr>"

definition demo_stored :: stored_message where
  "demo_stored = \<lparr>sm_id = 7, sm_channel = ''main'', sm_username = ''ada'', sm_text = ''hello'',
     sm_created_at = 1000, sm_edited = False, sm_deleted = False, sm_root_message_id = None,
     sm_reply_count = 0, sm_metadata_json = ''{}'', sm_mentions = [], sm_client_id = None,
     sm_file_ids = [], sm_owner_session = 0\<rparr>"

definition demo_codecs :: codecs where
  "demo_codecs = \<lparr>json_print = (\<lambda>_. Some ''{}''), json_display = (\<lambda>_. ''{}''), json_parse = (\<lambda>_. Some (JObj [])),
     bitcode_encode = (\<lambda>_. ''m''), bitcode_decode = (\<lambda>_. Some demo_stored),
     user_print = (\<lambda>_. Some ''u''), user_parse = (\<lambda>_. Some demo_user),
     participant_print = (\<lambda>p. Some (pa_username p)), participant_parse = (\<lambda>s. Some \<lparr>pa_user_id = 1, pa_username = s, pa_display_name = s, pa_custom_status = '''',
       pa_roles = [], pa_online = True\<rparr>),
     event_print = (\<lambda>_. Some ''e''), event_parse = (\<lambda>_. None), client_event_parse = (\<lambda>_. None)\<rparr>"

definition demo_env :: "keyspace env" where
  "demo_env = \<lparr>vk = ref_ops, uni = demo_unicode, codec = demo_codecs,
     uuid_str = (\<lambda>u. show_nat (unat u)), uuid_parse = (\<lambda>s. map_option of_nat (parse_digits 0 s)),
     pg_lower = map ascii_lower, pg_collate = (\<lambda>s. s), uuid_bytes = (\<lambda>u. show_nat (unat u)),
     sha256 = (\<lambda>s. s), hex_encode = (\<lambda>s. s), encode_b64 = Some,
     argon2_hash = (\<lambda>p s. Some (s @ p)), argon2_parse = Some, argon2_verify = (\<lambda>p h. p = h),
     url_parse = (\<lambda>s. Some \<lparr>url_scheme = ''https'', url_host = Some s, url_username = '''', url_password = None\<rparr>),
     env_var = (\<lambda>_. None), faults = (\<lambda>_. False), clock = (\<lambda>t. of_nat (1000 + t)), uuids = (\<lambda>t. of_nat (100 + t)),
     randoms = (\<lambda>_. ''c0ffee'')\<rparr>"

definition demo_world :: "keyspace world" where
  "demo_world = \<lparr>db = empty_db, cache = ks_empty, socket = [], room_log = [], tick = 0\<rparr>"

lemmas demo_defs = demo_env_def demo_world_def demo_codecs_def demo_user_def demo_unicode_def

lemma demo_env_simps [simp]:
  "vk demo_env = ref_ops" "uni demo_env = demo_unicode" "codec demo_env = demo_codecs"
  "uuid_str demo_env = (\<lambda>u. show_nat (unat u))"
  "uuid_parse demo_env = (\<lambda>s. map_option of_nat (parse_digits 0 s))"
  "pg_lower demo_env = map ascii_lower" "pg_collate demo_env = (\<lambda>s. s)"
  "faults demo_env = (\<lambda>_. False)" "clock demo_env = (\<lambda>t. of_nat (1000 + t))"
  "uuids demo_env = (\<lambda>t. of_nat (100 + t))" "randoms demo_env = (\<lambda>_. ''c0ffee'')"
  by (simp_all add: demo_env_def)

lemma demo_valkey: "valkey (vk demo_env) (\<lambda>s. s)"
  using ref.valkey_axioms by simp

section \<open>A small database\<close>

definition demo_account :: "uuid \<Rightarrow> string \<Rightarrow> user_row" where
  "demo_account i name =
     \<lparr>u_id = i, u_email = name @ ''@example.com'', u_username = name, u_password_hash = ''h'',
      u_disabled_at = None, u_role_version = 1, u_created_at = 0, u_updated_at = 0, u_deleted_at = None,
      u_display_name = name, u_custom_status = '''', u_status_expires_at = None\<rparr>"

definition demo_main :: channel_row where
  "demo_main = new_channel 10 ''main'' 0"

definition demo_team :: channel_row where
  "demo_team = (new_channel 11 ''team'' 0)\<lparr>ch_kind := Private, ch_owner_user_id := Some 1\<rparr>"

definition demo_member :: "uuid \<Rightarrow> membership_role \<Rightarrow> member_row" where
  "demo_member u r = \<lparr>cmb_channel_id = 11, cmb_user_id = u, cmb_role = r, cmb_invited_by = Some 1, cmb_created_at = 0\<rparr>"

definition demo_message :: msg_row where
  "demo_message =
     \<lparr>m_id = 50, m_channel_id = 10, m_username = ''ada'', m_text = ''hello'', m_created_at = 900,
      m_edited = False, m_owner_session = 100, m_deleted_at = None, m_deleted_by = None,
      m_deletion_reason = None, m_client_id = Some ''c1'', m_root_message_id = None,
      m_owner_user_id = Some 1, m_metadata = JObj [], m_mentions = []\<rparr>"

text \<open>Ada (1), Bob (2) and Eve (3); the public channel main with one message; Ada's private channel team.\<close>

definition demo_db :: database where
  "demo_db = empty_db\<lparr>users := [demo_account 1 ''ada'', demo_account 2 ''bob'', demo_account 3 ''eve''],
     channels := [demo_main, demo_team],
     channel_members := [demo_member 1 RoleOwner, demo_member 2 RoleMember],
     messages := [demo_message]\<rparr>"

definition demo_chat :: "keyspace world" where
  "demo_chat = \<lparr>db = demo_db, cache = ks_empty, socket = [], room_log = [], tick = 0\<rparr>"

lemma run_fst: "fst p = r \<Longrightarrow> p = (r, snd p)"
  by (simp add: prod_eq_iff)

end
