(* ===== verification/Auth.thy ===== *)
theory Auth
  imports Demo
begin

text \<open>
  \<^verbatim>\<open>backend/src/auth.rs\<close>: passwords, cookies, sessions, CSRF tokens, permissions and the rate limiter.
  Sessions and counters live in Valkey.
\<close>

unbundle bit_operations_syntax

section \<open>Headers\<close>

type_synonym header_map = "(string \<times> string) list"

text \<open>\<^verbatim>\<open>HeaderValue::to_str\<close>: only visible ASCII and tab.\<close>

definition to_str :: "string \<Rightarrow> string option" where
  "to_str v = (if list_all (\<lambda>c. in_range c 32 126 \<or> of_char c = (9 :: nat)) v then Some v else None)"

definition header_str :: "header_map \<Rightarrow> string \<Rightarrow> string option" where
  "header_str hs n = Option.bind (map_of hs n) to_str"

definition cookie_value :: "header_map \<Rightarrow> string \<Rightarrow> string option" where
  "cookie_value hs name =
     (case header_str hs ''cookie'' of
        None \<Rightarrow> None
      | Some v \<Rightarrow>
          find_map
            (\<lambda>part. case split_once CHR ''='' (trim part) of
                      None \<Rightarrow> None
                    | Some (key, value) \<Rightarrow> if key = name then Some value else None)
            (split_on (\<lambda>c. c = CHR '';'') v))"

section \<open>Passwords\<close>

definition hash_password_unchecked :: "'s env \<Rightarrow> string \<Rightarrow> ('s, string) app" where
  "hash_password_unchecked E password =
     try_bind (uuid_now_v7 E) (\<lambda>id.
     try_bind (ok_or (bad_request ''could not create password salt'') (encode_b64 E (uuid_bytes E id))) (\<lambda>salt.
     ok_or (bad_request ''could not hash password'') (argon2_hash E password salt)))"

definition password_hash :: "'s env \<Rightarrow> string \<Rightarrow> ('s, string) app" where
  "password_hash E password =
     (if length password < 12 \<or> length password > 200
      then fail (bad_request (''password must be 12'' @ en_dash @ ''200 characters''))
      else hash_password_unchecked E password)"

definition verify_password :: "'s env \<Rightarrow> string \<Rightarrow> string \<Rightarrow> bool" where
  "verify_password E password encoded =
     (case argon2_parse E encoded of None \<Rightarrow> False | Some hash \<Rightarrow> argon2_verify E password hash)"

definition verification_key :: "'s env \<Rightarrow> uuid \<Rightarrow> string \<Rightarrow> string \<Rightarrow> string" where
  "verification_key E user_id password encoded = sha256 E (uuid_bytes E user_id @ encoded @ password)"

text \<open>The environment variable, when set, and the parallelism the operating system reports.\<close>

definition password_verifier_limit :: "string option \<Rightarrow> nat option \<Rightarrow> nat" where
  "password_verifier_limit var parallelism =
     (case Option.bind var parse_usize of
        Some n \<Rightarrow> if n > 0 then n
                  else max 2 (min 16 (min (2 ^ 64 - 1) (2 * (case parallelism of None \<Rightarrow> 4 | Some p \<Rightarrow> p))))
      | None \<Rightarrow> max 2 (min 16 (min (2 ^ 64 - 1) (2 * (case parallelism of None \<Rightarrow> 4 | Some p \<Rightarrow> p)))))"

section \<open>Keys in Valkey\<close>

definition session_key :: "'s env \<Rightarrow> uuid \<Rightarrow> string" where
  "session_key E i = ''vussa:session:'' @ uuid_str E i"

definition user_sessions_key :: "'s env \<Rightarrow> uuid \<Rightarrow> string" where
  "user_sessions_key E u = ''vussa:user_sessions:'' @ uuid_str E u"

definition message_rate_key :: "'s env \<Rightarrow> uuid \<Rightarrow> string" where
  "message_rate_key E u = ''chat:rate:message:'' @ uuid_str E u"

section \<open>Rate limiter\<close>

definition enforce_rate_limit :: "'s env \<Rightarrow> string \<Rightarrow> i64 \<Rightarrow> u64 \<Rightarrow> ('s, unit) app" where
  "enforce_rate_limit E key limit window_seconds =
     try_bind (connection E) (\<lambda>_.
     try_bind (vk_modify E (incr (vk E) key)) (\<lambda>count.
     try_bind
       (if count = 1 then vk_write E (expire (vk E) key (sint window_seconds))
        else try_bind (vk_read E (ttl (vk E) key)) (\<lambda>t.
               when_do (t = - 1) (vk_write E (expire (vk E) key (sint window_seconds))))) (\<lambda>_.
     if count > limit then fail (too_many_requests ''rate limit exceeded'') else ok ())))"

section \<open>Sessions\<close>

definition create_session :: "'s env \<Rightarrow> auth_user \<Rightarrow> ('s, uuid \<times> string) app" where
  "create_session E user =
     try_bind (uuid_now_v7 E) (\<lambda>id.
     try_bind (random_hex E) (\<lambda>csrf.
     try_bind (ok_or (bad_request ''could not create session'') (user_print (codec E) user)) (\<lambda>user_json.
     try_bind (connection E) (\<lambda>_.
     try_bind
       (vk_write E (\<lambda>s.
          sadd (vk E) (user_sessions_key E (au_id user)) (uuid_str E id)
            (expire (vk E) (session_key E id) SESSION_TTL_SECONDS
              (hset (vk E) (session_key E id) [(''csrf'', csrf), (''user'', user_json)] s)))) (\<lambda>_.
     ok (id, csrf))))))"

definition load_session :: "'s env \<Rightarrow> header_map \<Rightarrow> ('s, session) app" where
  "load_session E headers =
     try_bind (ok_or (unauthorized ''authentication required'') (cookie_value headers ''vussa_session'')) (\<lambda>raw.
     try_bind (ok_or (unauthorized ''authentication required'') (uuid_parse E raw)) (\<lambda>id.
     try_bind (connection E) (\<lambda>_.
     try_bind (vk_read E (hmget (vk E) (session_key E id) [''csrf'', ''user''])) (\<lambda>values.
     try_bind (ok_or (unauthorized ''session expired'')
                 (case values of [] \<Rightarrow> None | v # _ \<Rightarrow> v)) (\<lambda>csrf.
     try_bind (ok_or (unauthorized ''session expired'')
                 (case values of _ # v # _ \<Rightarrow> v | _ \<Rightarrow> None)) (\<lambda>user_json.
     try_bind (ok_or (unauthorized ''session expired'') (user_parse (codec E) user_json)) (\<lambda>user.
     try_bind (vk_write E (expire (vk E) (session_key E id) SESSION_TTL_SECONDS)) (\<lambda>_.
     ok \<lparr>s_id = id, s_csrf = csrf, s_user = user\<rparr>))))))))"

section \<open>Guards\<close>

definition constant_time_compare :: "string \<Rightarrow> string \<Rightarrow> bool" where
  "constant_time_compare a b =
     (if length a \<noteq> length b then False
      else fold (\<lambda>(x, y) result. result OR ((of_char x :: u8) XOR of_char y)) (zip a b) 0 = 0)"

definition require_csrf :: "header_map \<Rightarrow> session \<Rightarrow> app_error + unit" where
  "require_csrf headers session =
     (case header_str headers CSRF_HEADER of
        None \<Rightarrow> Inl (bad_request ''invalid csrf token'')
      | Some header \<Rightarrow>
          if \<not> constant_time_compare header (s_csrf session)
          then Inl (bad_request ''invalid csrf token'') else Inr ())"

definition require_permission :: "auth_user \<Rightarrow> string \<Rightarrow> app_error + unit" where
  "require_permission user permission =
     (if list_ex (\<lambda>v. v = permission) (au_permissions user) then Inr ()
      else Inl (forbidden ''permission denied''))"

text \<open>The value of the \<^verbatim>\<open>COOKIE_SECURE\<close> variable is the second argument.\<close>

definition auth_cookie :: "'s env \<Rightarrow> string option \<Rightarrow> uuid \<Rightarrow> string" where
  "auth_cookie E cookie_secure i =
     (let secure = (if (case cookie_secure of None \<Rightarrow> ''false'' | Some v \<Rightarrow> v) = ''true''
                    then ''; Secure'' else '''')
      in ''vussa_session='' @ uuid_str E i @ ''; Path=/; HttpOnly'' @ secure @
         ''; SameSite=Lax; Max-Age='' @ show_nat (nat SESSION_TTL_SECONDS))"

section \<open>Facts\<close>

lemma of_char_u8_eq: "(of_char x :: u8) = of_char y \<longleftrightarrow> x = y"
proof -
  have "unat (of_char c :: u8) = of_char c" for c
  proof -
    have "unat (of_nat (of_char c) :: u8) = of_char c mod 2 ^ 8"
      by (simp add: unat_of_nat take_bit_eq_mod)
    then show ?thesis by (simp add: of_nat_of_char)
  qed
  then have "of_char x = (of_char y :: nat)" if "(of_char x :: u8) = of_char y"
    using that by metis
  then show ?thesis
    by auto
qed

lemma fold_or_eq_0:
  "fold (\<lambda>(x, y) result. result OR ((of_char x :: u8) XOR of_char y)) xys acc = 0 \<longleftrightarrow>
     acc = 0 \<and> (\<forall>(x, y) \<in> set xys. x = y)"
proof (induction xys arbitrary: acc)
  case (Cons xy xys)
  have "a = b" if "a XOR b = 0" for a b :: u8
  proof -
    have "a = (a XOR b) XOR b" by (simp add: xor.assoc)
    with that show ?thesis by simp
  qed
  then have "(a XOR b = 0) = (a = b)" for a b :: u8
    by auto
  then show ?case
    by (cases xy) (auto simp: Cons or_eq_0_iff of_char_u8_eq)
qed simp

lemma zip_all_eq: "length a = length b \<Longrightarrow> (\<forall>(x, y) \<in> set (zip a b). x = y) \<longleftrightarrow> a = b"
  by (induction a b rule: list_induct2) auto

lemma constant_time_compare_eq: "constant_time_compare a b \<longleftrightarrow> a = b"
  by (auto simp: constant_time_compare_def fold_or_eq_0 zip_all_eq)

text \<open>
  C12: the CSRF guard accepts exactly the requests whose \<^verbatim>\<open>x-csrf-token\<close> header is present, readable and
  equal to the session's token; every other request gets the same 400 answer.  The comparison loop,
  which ORs together the XOR of every byte pair, is therefore equality of the two strings.
\<close>

theorem require_csrf_spec:
  "require_csrf headers session =
     (if header_str headers CSRF_HEADER = Some (s_csrf session) then Inr ()
      else Inl (bad_request ''invalid csrf token''))"
  by (auto simp: require_csrf_def constant_time_compare_eq split: option.splits)

subsection \<open>The rate limiter\<close>

text \<open>The counter of a rate-limit key; a missing key counts as zero.\<close>

definition counter :: "string \<Rightarrow> keyspace \<Rightarrow> int" where
  "counter k s = (case ks_counter s k of None \<Rightarrow> 0 | Some n \<Rightarrow> n)"

lemma counter_expire [simp]: "counter k (ks_expire k' t s) = counter k s"
  by (simp add: counter_def ks_expire_def)

lemma enforce_rate_limit_step:
  assumes V: "valkey (vk E) \<alpha>"
    and run: "enforce_rate_limit E key limit window w = (r, w')"
  shows "counter key (\<alpha> (cache w)) \<le> counter key (\<alpha> (cache w'))"
    and "is_ok r \<Longrightarrow> counter key (\<alpha> (cache w')) = counter key (\<alpha> (cache w)) + 1 \<and>
           counter key (\<alpha> (cache w')) \<le> limit"
proof -
  note incr = valkey.incr_abs [OF V, unfolded ks_incr_def Let_def]
  show "counter key (\<alpha> (cache w)) \<le> counter key (\<alpha> (cache w'))"
    and "is_ok r \<Longrightarrow> counter key (\<alpha> (cache w')) = counter key (\<alpha> (cache w)) + 1 \<and>
           counter key (\<alpha> (cache w')) \<le> limit"
    using run incr [of key "cache w"] valkey.expire_abs [OF V]
    by (auto simp: enforce_rate_limit_def try_bind_def io_defs when_do_def counter_def
        ks_expire_def case_prod_beta split: if_splits option.splits prod.splits)
qed

text \<open>The answers to a sequence of calls on one key.\<close>

fun rate_limited_calls :: "'s env \<Rightarrow> string \<Rightarrow> i64 \<Rightarrow> u64 \<Rightarrow> nat \<Rightarrow> ('s, unit, (app_error + unit) list) io" where
  "rate_limited_calls E key limit window 0 = ok []"
| "rate_limited_calls E key limit window (Suc n) =
     try_bind (attempt (enforce_rate_limit E key limit window)) (\<lambda>r.
     try_bind (rate_limited_calls E key limit window n) (\<lambda>rs. ok (r # rs)))"

lemma enforce_rate_limit_count:
  assumes V: "valkey (vk E) \<alpha>"
  shows "rate_limited_calls E key limit window n w = (Inr rs, w') \<Longrightarrow>
     int (length (filter is_ok rs)) \<le> max 0 (limit - counter key (\<alpha> (cache w)))"
proof (induction n arbitrary: w rs w')
  case (Suc n)
  from Suc.prems obtain r w1 rs' where r: "enforce_rate_limit E key limit window w = (r, w1)"
    and rs': "rate_limited_calls E key limit window n w1 = (Inr rs', w')" and rs: "rs = r # rs'"
    by (auto simp: ok_simps)
  from Suc.IH [OF rs'] enforce_rate_limit_step [OF V r] show ?case
    by (auto simp: rs)
qed simp

text \<open>
  C11: the rate limiter lets at most \<open>limit\<close> calls through per window.  However many calls are made on
  a fresh key, in whatever pattern cache commands fail, and as long as the window's key is not
  expired in between, no more than \<open>limit\<close> of them return Ok.
\<close>

theorem rate_limit_bound:
  assumes "valkey (vk E) \<alpha>"
    and "ks_counter (\<alpha> (cache w)) key = None"
    and "rate_limited_calls E key limit window n w = (Inr rs, w')"
  shows "int (length (filter is_ok rs)) \<le> max 0 limit"
  using enforce_rate_limit_count [OF assms(1,3)] assms(2) by (simp add: counter_def)

theorem rate_limit_bound_witness:
  "int (length (filter is_ok
     (projr (fst (rate_limited_calls demo_env ''k'' 2 60 3 demo_world))))) \<le> max 0 2"
proof (rule rate_limit_bound [OF demo_valkey])
  show "ks_counter (cache demo_world) ''k'' = None"
    by (simp add: demo_world_def ks_empty_def)
  show "rate_limited_calls demo_env ''k'' 2 60 3 demo_world =
    (Inr (projr (fst (rate_limited_calls demo_env ''k'' 2 60 3 demo_world))),
     snd (rate_limited_calls demo_env ''k'' 2 60 3 demo_world))"
    by (simp add: prod_eq_iff) code_simp
qed

text \<open>
  A rate-limit counter never outlives its window: every call that gets an answer from the limiter
  (Ok or 429) leaves a time to live on the key, also when an earlier call incremented the counter
  and then failed to set it.
\<close>

theorem rate_limit_key_expires:
  assumes V: "valkey (vk E) \<alpha>"
    and run: "enforce_rate_limit E key limit window w = (r, w')"
    and answered: "r = Inr () \<or> r = Inl (too_many_requests ''rate limit exceeded'')"
  shows "ks_ttl (\<alpha> (cache w')) key \<noteq> None"
proof -
  note incr = valkey.incr_abs [OF V, unfolded ks_incr_def Let_def]
  show ?thesis
    using run answered incr [of key "cache w"] valkey.expire_abs [OF V] valkey.ttl_abs [OF V]
    by (auto simp: enforce_rate_limit_def try_bind_def io_defs when_do_def ks_get_ttl_def
        app_error_defs app_of_redis_def ks_expire_def ks_exists_def case_prod_beta
        split: if_splits option.splits prod.splits)
qed

theorem rate_limit_key_expires_witness:
  "ks_ttl (cache (snd (enforce_rate_limit demo_env ''k'' 2 60 demo_world))) ''k'' \<noteq> None"
proof (rule rate_limit_key_expires [OF demo_valkey prod.collapse [symmetric]])
  show "fst (enforce_rate_limit demo_env ''k'' 2 60 demo_world) = Inr () \<or>
    fst (enforce_rate_limit demo_env ''k'' 2 60 demo_world) =
      Inl (too_many_requests ''rate limit exceeded'')"
    by (rule disjI1) code_simp
qed

subsection \<open>Sessions\<close>

text \<open>The characters of a printed UUID.\<close>

definition uuid_char :: "char \<Rightarrow> bool" where
  "uuid_char c = (ascii_hexdigit c \<or> c = CHR ''-'')"

lemma uuid_char_props:
  "uuid_char c \<Longrightarrow> in_range c 32 126 \<and> is_ascii_char c \<and> \<not> is_whitespace [c] \<and> c \<noteq> CHR '';'' \<and> c \<noteq> CHR ''=''"
  by (auto simp: uuid_char_def ascii_hexdigit_def in_range_def is_ascii_char_def is_whitespace_def)

lemma split_on_none: "list_all (\<lambda>x. \<not> p x) xs \<Longrightarrow> split_on p xs = [xs]"
  by (induction xs) auto

lemma trim_no_whitespace:
  assumes "list_all (\<lambda>c. is_ascii_char c \<and> \<not> is_whitespace [c]) s"
  shows "trim s = s"
proof -
  have "is_ascii s" using assms by (auto simp: is_ascii_def list_all_iff)
  moreover have "trim_list (\<lambda>c. is_whitespace [c]) s = s"
    by (rule trim_list_id) (use assms in \<open>cases s; auto simp: list_all_iff\<close>)
  ultimately show ?thesis by (simp add: trim_ascii)
qed

lemma list_all_uuid_char:
  "list_all uuid_char s \<Longrightarrow> (\<And>c. uuid_char c \<Longrightarrow> P c) \<Longrightarrow> list_all P s"
  by (simp add: list_all_iff)

lemma cookie_value_session:
  assumes "list_all uuid_char v"
  shows "cookie_value [(''cookie'', ''vussa_session='' @ v)] ''vussa_session'' = Some v"
proof -
  let ?s = "''vussa_session='' @ v"
  have "to_str ?s = Some ?s"
    using list_all_uuid_char [OF assms, of "\<lambda>c. in_range c 32 126 \<or> of_char c = (9 :: nat)"] uuid_char_props
    by (auto simp: to_str_def in_range_def)
  moreover have "split_on (\<lambda>c. c = CHR '';'') ?s = [?s]"
    by (rule split_on_none) (use list_all_uuid_char [OF assms] uuid_char_props in auto)
  moreover have "trim ?s = ?s"
    by (rule trim_no_whitespace)
      (use list_all_uuid_char [OF assms] uuid_char_props in \<open>auto simp: is_ascii_char_def is_whitespace_def in_range_def\<close>)
  moreover have "split_once CHR ''='' ?s = Some (''vussa_session'', v)"
    by (subst split_once_Some) auto
  ultimately show ?thesis
    by (simp add: cookie_value_def header_str_def)
qed

lemma create_session_cache:
  assumes V: "valkey (vk E) \<alpha>"
    and "create_session E user w = (Inr (i, csrf), w')"
  shows "\<exists>j. user_print (codec E) user = Some j \<and>
     map_of (ks_hash (\<alpha> (cache w')) (session_key E i)) ''csrf'' = Some csrf \<and>
     map_of (ks_hash (\<alpha> (cache w')) (session_key E i)) ''user'' = Some j \<and>
     ks_ttl (\<alpha> (cache w')) (session_key E i) = Some SESSION_TTL_SECONDS \<and>
     uuid_str E i \<in> set (ks_set (\<alpha> (cache w')) (user_sessions_key E (au_id user)))"
proof -
  have ne: "AList.update f v xs \<noteq> []" for f v :: string and xs
    by (cases xs) auto
  show ?thesis
  using assms(2)
  by (auto simp: create_session_def ok_simps valkey.sadd_abs [OF V] valkey.expire_abs [OF V]
      valkey.hset_abs [OF V] ks_sadd_def ks_expire_def ks_hset_def ks_exists_def update_conv' ne
      split: if_splits)
qed

text \<open>
  A session is recovered from its cookie.  After \<^verbatim>\<open>create_session\<close> has answered, a request whose
  cookie header carries the session id gets exactly the session that was created (id, CSRF token,
  user), as long as Valkey still holds what was written and answers the three calls.  The user's JSON
  and the printed id are assumed to parse back, which is what \<^verbatim>\<open>serde_json\<close> and \<^verbatim>\<open>uuid\<close> document.
\<close>

theorem session_roundtrip:
  assumes V: "valkey (vk E) \<alpha>"
    and create: "create_session E user w = (Inr (i, csrf), w1)"
    and json: "\<And>j. user_print (codec E) user = Some j \<Longrightarrow> user_parse (codec E) j = Some user"
    and uuid: "uuid_parse E (uuid_str E i) = Some i" "list_all uuid_char (uuid_str E i)"
    and still: "cache w2 = cache w1"
    and up: "\<not> faults E (tick w2)" "\<not> faults E (Suc (tick w2))" "\<not> faults E (Suc (Suc (tick w2)))"
  shows "fst (load_session E [(''cookie'', ''vussa_session='' @ uuid_str E i)] w2) =
           Inr \<lparr>s_id = i, s_csrf = csrf, s_user = user\<rparr>"
proof -
  from create_session_cache [OF V create] obtain j where
    j: "user_print (codec E) user = Some j"
      "map_of (ks_hash (\<alpha> (cache w2)) (session_key E i)) ''csrf'' = Some csrf"
      "map_of (ks_hash (\<alpha> (cache w2)) (session_key E i)) ''user'' = Some j"
    using still by auto
  show ?thesis
    using up j json [OF j(1)]
    by (simp add: load_session_def cookie_value_session [OF uuid(2), simplified] uuid(1) try_bind_def io_defs
        valkey.hmget_abs [OF V] ks_hmget_def)
qed

theorem session_roundtrip_witness:
  "fst (load_session demo_env [(''cookie'', ''vussa_session='' @ uuid_str demo_env 100)]
      (snd (create_session demo_env demo_user demo_world))) =
     Inr \<lparr>s_id = 100, s_csrf = ''c0ffee'', s_user = demo_user\<rparr>"
proof (rule session_roundtrip [OF demo_valkey])
  show "create_session demo_env demo_user demo_world =
    (Inr (100, ''c0ffee''), snd (create_session demo_env demo_user demo_world))"
    by (simp add: create_session_def demo_world_def demo_codecs_def try_bind_def io_defs)
  show "uuid_parse demo_env (uuid_str demo_env 100) = Some 100"
    by code_simp
  show "list_all uuid_char (uuid_str demo_env 100)"
    by code_simp
qed (simp_all add: demo_codecs_def)

text \<open>
  Without a stored session nobody is let in.  If the session hash of the id in the cookie holds no
  CSRF token (the session expired, or was revoked), or the cookie is missing or is no UUID, then
  \<^verbatim>\<open>load_session\<close> answers an error and never a session.
\<close>

theorem load_session_needs_stored_session:
  assumes V: "valkey (vk E) \<alpha>"
    and run: "load_session E headers w = (Inr session, w')"
  shows "\<exists>raw j. cookie_value headers ''vussa_session'' = Some raw \<and> uuid_parse E raw = Some (s_id session) \<and>
     map_of (ks_hash (\<alpha> (cache w)) (session_key E (s_id session))) ''csrf'' = Some (s_csrf session) \<and>
     map_of (ks_hash (\<alpha> (cache w)) (session_key E (s_id session))) ''user'' = Some j \<and>
     user_parse (codec E) j = Some (s_user session)"
  using run
  by (auto simp: load_session_def ok_simps valkey.hmget_abs [OF V] ks_hmget_def)

theorem load_session_needs_stored_session_witness:
  "\<exists>raw j. cookie_value [(''cookie'', ''vussa_session=100'')] ''vussa_session'' = Some raw \<and>
     uuid_parse demo_env raw = Some 100 \<and>
     map_of (ks_hash (cache (snd (create_session demo_env demo_user demo_world))) (session_key demo_env 100))
       ''csrf'' = Some ''c0ffee'' \<and>
     map_of (ks_hash (cache (snd (create_session demo_env demo_user demo_world))) (session_key demo_env 100))
       ''user'' = Some j \<and>
     user_parse (codec demo_env) j = Some demo_user"
proof -
  have "fst (load_session demo_env [(''cookie'', ''vussa_session=100'')]
      (snd (create_session demo_env demo_user demo_world))) =
     Inr \<lparr>s_id = 100, s_csrf = ''c0ffee'', s_user = demo_user\<rparr>"
    by code_simp
  then show ?thesis
    using load_session_needs_stored_session [OF demo_valkey,
      of "[(''cookie'', ''vussa_session=100'')]" "snd (create_session demo_env demo_user demo_world)"
        "\<lparr>s_id = 100, s_csrf = ''c0ffee'', s_user = demo_user\<rparr>"
        "snd (load_session demo_env [(''cookie'', ''vussa_session=100'')]
           (snd (create_session demo_env demo_user demo_world)))"]
    by (simp add: prod_eq_iff)
qed

lemma load_session_run:
  assumes V: "valkey (vk E) \<alpha>" and run: "load_session E headers w = (Inr s, w')"
  shows "\<exists>raw j. cookie_value headers ''vussa_session'' = Some raw \<and> uuid_parse E raw = Some (s_id s) \<and>
     map_of (ks_hash (\<alpha> (cache w)) (session_key E (s_id s))) ''csrf'' = Some (s_csrf s) \<and>
     map_of (ks_hash (\<alpha> (cache w)) (session_key E (s_id s))) ''user'' = Some j \<and>
     user_parse (codec E) j = Some (s_user s) \<and> ks_hash (\<alpha> (cache w')) = ks_hash (\<alpha> (cache w)) \<and> db w' = db w"
  using run
  by (auto simp: load_session_def ok_simps valkey.hmget_abs [OF V] ks_hmget_def valkey.expire_abs [OF V] ks_expire_def)

text \<open>As long as the session hashes stay, the same cookie leads to the same session.\<close>

lemma load_session_again:
  assumes V: "valkey (vk E) \<alpha>" and "load_session E headers w = (Inr s, w')" "load_session E headers v = (Inr s', v')"
    and same: "ks_hash (\<alpha> (cache v)) = ks_hash (\<alpha> (cache w))"
  shows "s' = s"
  using load_session_run [OF V assms(2)] load_session_run [OF V assms(3)] by (auto simp: same intro: session.equality)

text \<open>A request whose cookie names a session that is not stored is refused.\<close>

lemma load_session_gone:
  assumes V: "valkey (vk E) \<alpha>" and cookie: "cookie_value headers ''vussa_session'' = Some raw" "uuid_parse E raw = Some i"
    and gone: "ks_hash (\<alpha> (cache w)) (session_key E i) = []" and load: "load_session E headers w = (r, w')"
  shows "\<exists>e. r = Inl e \<and> (status e = UNAUTHORIZED \<or> status e = SERVICE_UNAVAILABLE)"
proof -
  have "hmget (vk E) (session_key E i) fs (cache w) = map (\<lambda>_. None) fs" for fs
    by (simp add: valkey.hmget_abs [OF V] ks_hmget_def gone)
  then show ?thesis
    using load cookie
    by (auto simp: load_session_def try_bind_def io_defs unauthorized_def service_unavailable_def app_of_redis_def
        split: if_splits)
qed

lemma keeps_on_auth [keeps_intro]:
  "keeps_on db Q (enforce_rate_limit E key limit window)"
  "keeps_on db Q (create_session E user)"
  "keeps_on db Q (load_session E headers)"
  "keeps_on db Q (hash_password_unchecked E pw)"
  "keeps_on db Q (password_hash E pw)"
  "keeps_on socket S (load_session E headers)"
  "keeps_on socket S (enforce_rate_limit E key limit window)"
  unfolding enforce_rate_limit_def create_session_def load_session_def hash_password_unchecked_def
    password_hash_def
  by - (intro keeps_intro)+

text \<open>The headers of a request in Ada's session, and a token of 64 hexadecimal digits.\<close>

definition demo_headers :: header_map where
  "demo_headers = [(''cookie'', ''vussa_session=100''), (''x-csrf-token'', ''c0ffee'')]"

definition demo_token :: string where
  "demo_token = replicate 64 (CHR ''a'')"

definition demo_signed_in :: "keyspace world" where
  "demo_signed_in = demo_chat\<lparr>cache := ks_sadd (user_sessions_key demo_env 1) ''100''
     (ks_hset (session_key demo_env 100) [(''csrf'', ''c0ffee''), (''user'', ''u'')] ks_empty)\<rparr>"

end
