(* ===== verification/Broadcast.thy ===== *)
theory Broadcast
  imports Auth
begin

text \<open>
  \<^verbatim>\<open>backend/src/websocket/broadcast.rs\<close> (publishing an event to a room and sending one to the client's
  socket) and \<^verbatim>\<open>backend/src/persistence.rs\<close> (audit rows and queued session invalidations).
\<close>

section \<open>Publishing\<close>

definition room_key :: "string \<Rightarrow> string" where
  "room_key channel = ''chat:room:'' @ channel"

definition broadcast :: "'s env \<Rightarrow> string \<Rightarrow> server_event \<Rightarrow> ('s, unit) app" where
  "broadcast E channel event =
     try_bind (ok_or (bad_request ''could not encode event'') (event_print (codec E) event)) (\<lambda>payload.
     try_bind (connection E) (\<lambda>_.
     vk_write E (publish (vk E)
       (if channel = ''_control'' then channel else ''chat:room:'' @ channel) payload)))"

definition broadcast_control :: "'s env \<Rightarrow> server_event \<Rightarrow> ('s, unit) app" where
  "broadcast_control E event = broadcast E ''_control'' event"

definition send_event :: "'s env \<Rightarrow> server_event \<Rightarrow> ('s, unit) app" where
  "send_event E event =
     try_bind (ok_or (bad_request ''could not encode event'') (event_print (codec E) event)) (\<lambda>payload.
     socket_send E payload)"

section \<open>Audit trail and outbox\<close>

record audit_event =
  ae_actor :: "uuid option"
  ae_action :: string
  ae_target_type :: string
  ae_target_id :: uuid
  ae_metadata :: json
  ae_created_at :: i64

definition record_audit :: "'s env \<Rightarrow> (sqlx_error \<Rightarrow> 'e) \<Rightarrow> audit_event \<Rightarrow> ('s, 'e, unit) io" where
  "record_audit E conv event =
     try_bind (uuid_now_v7 E) (\<lambda>id.
     db_exec E conv (insert_audit
       \<lparr>a_id = id, a_actor_user_id = ae_actor event, a_action = ae_action event,
        a_target_type = ae_target_type event, a_target_id = ae_target_id event,
        a_metadata = ae_metadata event, a_created_at = ae_created_at event\<rparr>))"

definition record_audit_pool :: "'s env \<Rightarrow> (sqlx_error \<Rightarrow> 'e) \<Rightarrow> audit_event \<Rightarrow> ('s, 'e, unit) io" where
  "record_audit_pool E conv event =
     try_bind (external E (conv SqlxIo) (ok ())) (\<lambda>_. record_audit E conv event)"

definition queue_auth_invalidation :: "'s env \<Rightarrow> (sqlx_error \<Rightarrow> 'e) \<Rightarrow> uuid \<Rightarrow> i64 \<Rightarrow> ('s, 'e, unit) io" where
  "queue_auth_invalidation E conv user_id created_at =
     try_bind (uuid_now_v7 E) (\<lambda>id.
     db_exec E conv (insert_outbox
       \<lparr>o_id = id, o_topic = ''auth.invalidate'',
        o_payload = JObj [(''user_id'', JStr (uuid_str E user_id))], o_created_at = created_at,
        o_published_at = None, o_attempts = 0, o_claimed_at = None\<rparr>))"

section \<open>Facts\<close>

lemma insert_audit_ok:
  "insert_audit a d = Inr (x, d') \<Longrightarrow> d' = d\<lparr>audit_events := audit_events d @ [a]\<rparr>"
  by (simp add: insert_audit_def)

lemma insert_outbox_ok:
  "insert_outbox e d = Inr (x, d') \<Longrightarrow> d' = d\<lparr>outbox_events := outbox_events d @ [e]\<rparr>"
  by (simp add: insert_outbox_def)

lemma keeps_on_broadcast [keeps_intro]:
  "keeps_on db Q (broadcast E ch ev)"
  "keeps_on db Q (broadcast_control E ev)"
  "keeps_on db Q (send_event E ev)"
  "keeps_on socket S (broadcast E ch ev)"
  "keeps_on socket S (broadcast_control E ev)"
  "keeps_on cache R (send_event E ev)"
  unfolding broadcast_control_def broadcast_def send_event_def
  by - (intro keeps_intro)+

lemma keeps_on_external_ok [keeps_intro]:
  "keeps_on db Q (external E e (ok x))" "keeps_on cache R (external E e (ok x))"
  "keeps_on socket S (external E e (ok x))" "keeps_on room_log L (external E e (ok x))"
  by (simp_all add: keeps_on_def keeps_def external_def)

lemma keeps_on_audit [keeps_intro]:
  "(\<And>d a. Q d \<Longrightarrow> Q (d\<lparr>audit_events := a\<rparr>)) \<Longrightarrow> keeps_on db Q (record_audit E conv ev)"
  "(\<And>d a. Q d \<Longrightarrow> Q (d\<lparr>audit_events := a\<rparr>)) \<Longrightarrow> keeps_on db Q (record_audit_pool E conv ev)"
  "(\<And>d a. Q d \<Longrightarrow> Q (d\<lparr>outbox_events := a\<rparr>)) \<Longrightarrow> keeps_on db Q (queue_auth_invalidation E conv u t)"
  unfolding record_audit_pool_def record_audit_def queue_auth_invalidation_def
  by - (intro keeps_intro; auto dest!: insert_audit_ok insert_outbox_ok)+

lemma keeps_on_audit_frame [keeps_intro]:
  "keeps_on cache R (record_audit E conv ev)" "keeps_on cache R (record_audit_pool E conv ev)"
  "keeps_on cache R (queue_auth_invalidation E conv u t)"
  "keeps_on socket S (record_audit E conv ev)" "keeps_on socket S (record_audit_pool E conv ev)"
  "keeps_on socket S (queue_auth_invalidation E conv u t)"
  unfolding record_audit_pool_def record_audit_def queue_auth_invalidation_def
  by - (intro keeps_intro)+

text \<open>What a successful audit call did: one row, with the fields of the event.\<close>

lemma record_audit_ok:
  "record_audit E conv ev w = (Inr x, w') \<longleftrightarrow>
     \<not> faults E (Suc (tick w)) \<and>
     (\<exists>d. insert_audit
        \<lparr>a_id = uuids E (tick w), a_actor_user_id = ae_actor ev, a_action = ae_action ev,
         a_target_type = ae_target_type ev, a_target_id = ae_target_id ev,
         a_metadata = ae_metadata ev, a_created_at = ae_created_at ev\<rparr> (db w) = Inr ((), d) \<and>
        w' = (next_tick (next_tick w))\<lparr>db := d\<rparr>)"
  by (auto simp: record_audit_def ok_simps)

end
