(* ===== verification/Channels.thy ===== *)
theory Channels
  imports Broadcast
begin

text \<open>
  The access layer of \<^verbatim>\<open>backend/src/api/channels.rs\<close>: who may read, post in and manage a
  conversation, which conversations a user sees, how channel names are normalized, and the system
  messages that services post.
\<close>

section \<open>Names\<close>

definition quoted :: "string \<Rightarrow> string" where
  "quoted s = CHR 0x27 # s @ [CHR 0x27]"

definition normalize_channel_name :: "unicode \<Rightarrow> string \<Rightarrow> app_error + string" where
  "normalize_channel_name U raw =
     (let name = trim raw in
      if name = [] \<or> length name > 40
      then Inl (bad_request (''channel name must be 1'' @ en_dash @ ''40 characters''))
      else if name = MAIN_CHANNEL \<or>
              \<not> list_all (\<lambda>c. is_alphanumeric U c \<or> c = ''-'' \<or> c = ''_'') (chars name)
      then Inl (bad_request (''channel name may contain only letters, numbers, '' @ quoted ''-'' @
             '' and '' @ quoted ''_''))
      else Inr (to_lowercase U name))"

definition normalize_draft_body :: "string \<Rightarrow> app_error + string" where
  "normalize_draft_body raw =
     (let body = trim raw in
      if length body > 2000 then Inl (bad_request ''draft must be at most 2000 characters'')
      else Inr body)"

definition invite_token_hash :: "'s env \<Rightarrow> string \<Rightarrow> string" where
  "invite_token_hash E token = hex_encode E (sha256 E token)"

section \<open>What a user sees\<close>

fun kind_text :: "channel_kind \<Rightarrow> string" where
  "kind_text Public = ''public''"
| "kind_text Private = ''private''"
| "kind_text Direct = ''direct''"

fun role_text :: "membership_role \<Rightarrow> string" where
  "role_text RoleOwner = ''owner''"
| "role_text RoleModerator = ''moderator''"
| "role_text RoleMember = ''member''"

definition last_message_at :: "database \<Rightarrow> uuid \<Rightarrow> i64 option" where
  "last_message_at d c =
     (case [m_created_at m. m \<leftarrow> messages d, m_deleted_at m = None \<and> m_channel_id m = c] of
        [] \<Rightarrow> None
      | t # ts \<Rightarrow> Some (fold max ts t))"

definition conversation_rows :: "database \<Rightarrow> uuid \<Rightarrow> i64 \<Rightarrow> (channel_row \<times> user_row option) list" where
  "conversation_rows d user_id now =
     [(c, peer).
        c \<leftarrow> channels d,
        mine \<leftarrow> left_join (filter (\<lambda>m. cmb_channel_id m = ch_id c \<and> cmb_user_id m = user_id)
                              (channel_members d)),
        other \<leftarrow> left_join (filter (\<lambda>m. cmb_channel_id m = ch_id c \<and> cmb_user_id m \<noteq> user_id \<and>
                                         ch_kind c = Direct) (channel_members d)),
        peer \<leftarrow> (case other of None \<Rightarrow> [None]
                 | Some o' \<Rightarrow> left_join (filter (\<lambda>u. u_id u = cmb_user_id o') (users d))),
        ch_deleted_at c = None \<and> ch_archived_at c = None \<and> (ch_kind c = Public \<or> mine \<noteq> None) \<and>
        \<not> banned_from now d user_id (ch_id c)]"

definition conversation_order ::
  "'s env \<Rightarrow> database \<Rightarrow> channel_row \<times> user_row option \<Rightarrow> (bool \<times> int) \<times> bool \<times> string \<times> string \<times> string" where
  "conversation_order E d = (\<lambda>(c, _).
     ((case last_message_at d (ch_id c) of None \<Rightarrow> (True, 0) | Some t \<Rightarrow> (False, - t)),
      \<not> (ch_kind c = Public \<and> ch_name c = ''main''),
      pg_collate E (kind_text (ch_kind c)), pg_collate E (ch_name c), ch_name c))"

definition list_visible_conversations :: "'s env \<Rightarrow> uuid \<Rightarrow> ('s, conversation_summary list) app" where
  "list_visible_conversations E user_id =
     try_bind (now_i64 E) (\<lambda>now.
     db_query E app_of_sqlx (\<lambda>d.
       map (\<lambda>(c, peer).
              \<lparr>cs_id = ch_id c, cs_name = ch_name c, cs_kind = ch_kind c,
               cs_owner_user_id = ch_owner_user_id c,
               cs_display_name =
                 (if ch_kind c = Direct
                  then (case peer of None \<Rightarrow> ch_name c | Some u \<Rightarrow> u_username u) else ch_name c),
               cs_peer_user_id = map_option u_id peer, cs_peer_username = map_option u_username peer,
               cs_last_message_at = last_message_at d (ch_id c)\<rparr>)
         (sort_key (conversation_order E d) (conversation_rows d user_id now))))"

definition member_rows :: "'s env \<Rightarrow> database \<Rightarrow> string \<Rightarrow> channel_member list" where
  "member_rows E d name =
     map (\<lambda>(m, u). \<lparr>cme_user_id = u_id u, cme_username = u_username u, cme_membership_role = cmb_role m\<rparr>)
       (order_desc (\<lambda>(m, _). (pg_collate E (role_text (cmb_role m)), role_text (cmb_role m)))
         (sort_key (\<lambda>(_, u). (pg_collate E (u_username u), u_username u))
           [(m, u). m \<leftarrow> channel_members d, c \<leftarrow> channels d, u \<leftarrow> users d,
              ch_id c = cmb_channel_id m \<and> u_id u = cmb_user_id m \<and> ch_name c = name \<and>
              ch_deleted_at c = None]))"

text \<open>\<^verbatim>\<open>channel_members\<close>; the table has that name here.\<close>

definition channel_members_of :: "'s env \<Rightarrow> string \<Rightarrow> ('s, channel_member list) app" where
  "channel_members_of E name = db_query E app_of_sqlx (\<lambda>d. member_rows E d name)"

section \<open>System messages\<close>

definition live_channels :: "database \<Rightarrow> string \<Rightarrow> channel_row list" where
  "live_channels d name = filter (\<lambda>c. ch_name c = name \<and> ch_deleted_at c = None) (channels d)"

definition system_row :: "uuid \<Rightarrow> string \<Rightarrow> i64 \<Rightarrow> channel_row \<Rightarrow> msg_row" where
  "system_row i text created_at c =
     \<lparr>m_id = i, m_channel_id = ch_id c, m_username = ''system'', m_text = text,
      m_created_at = created_at, m_edited = False, m_owner_session = 0, m_deleted_at = None,
      m_deleted_by = None, m_deletion_reason = None, m_client_id = None, m_root_message_id = None,
      m_owner_user_id = None, m_metadata = JObj [(''kind'', JStr ''system'')], m_mentions = []\<rparr>"

definition create_system_message :: "'s env \<Rightarrow> string \<Rightarrow> string \<Rightarrow> ('s, chat_message option) app" where
  "create_system_message E channel text =
     try_bind (uuid_now_v7 E) (\<lambda>id.
     try_bind (now_millis E) (\<lambda>created_at.
     try_bind
       (db_exec E app_of_sqlx (\<lambda>d.
          insert_all insert_message (map (system_row id text (sint created_at)) (live_channels d channel)) d)) (\<lambda>n.
     if n = 0 then ok None
     else ok (Some
       \<lparr>cm_id = id, cm_channel = channel, cm_username = ''system'', cm_text = text,
        cm_created_at = created_at, cm_edited = False, cm_deleted = False,
        cm_root_message_id = None, cm_reply_count = 0,
        cm_metadata = JObj [(''kind'', JStr ''system'')], cm_mentions = [], cm_client_id = None,
        cm_file_ids = []\<rparr>))))"

definition publish_system_message :: "'s env \<Rightarrow> string \<Rightarrow> string \<Rightarrow> ('s, unit) app" where
  "publish_system_message E channel text =
     try_bind (create_system_message E channel text) (\<lambda>r.
     case r of
       None \<Rightarrow> ok ()
     | Some msg \<Rightarrow> ignore (broadcast E channel (MessageEvent msg)))"

section \<open>Guards\<close>

definition access_allowed :: "i64 \<Rightarrow> database \<Rightarrow> string \<Rightarrow> uuid \<Rightarrow> bool" where
  "access_allowed now d name user_id =
     list_ex (\<lambda>c. ch_name c = name \<and> ch_deleted_at c = None \<and>
                  (ch_kind c = Public \<or> is_member d (ch_id c) user_id) \<and>
                  \<not> banned_from now d user_id (ch_id c)) (channels d)"

definition ensure_channel_access :: "'s env \<Rightarrow> string \<Rightarrow> uuid \<Rightarrow> ('s, unit) app" where
  "ensure_channel_access E name user_id =
     try_bind (now_i64 E) (\<lambda>now.
     try_bind (db_query E app_of_sqlx (\<lambda>d. access_allowed now d name user_id)) (\<lambda>allowed.
     if allowed then ok () else fail (forbidden ''conversation access denied'')))"

definition ensure_not_globally_banned :: "'s env \<Rightarrow> uuid \<Rightarrow> ('s, unit) app" where
  "ensure_not_globally_banned E user_id =
     try_bind (now_i64 E) (\<lambda>now.
     try_bind (db_query E app_of_sqlx (\<lambda>d. globally_banned now d user_id)) (\<lambda>banned.
     if banned then fail (forbidden ''conversation access denied'') else ok ()))"

definition is_moderator :: "string list \<Rightarrow> bool" where
  "is_moderator perms = list_ex (\<lambda>p. p = ''chat:moderate'') perms"

definition can_post_restricted :: "database \<Rightarrow> string \<Rightarrow> uuid \<Rightarrow> bool" where
  "can_post_restricted d name user_id =
     list_ex (\<lambda>m. list_ex (\<lambda>c. ch_id c = cmb_channel_id m \<and> ch_name c = name) (channels d) \<and>
                  cmb_user_id m = user_id \<and> (cmb_role m = RoleOwner \<or> cmb_role m = RoleModerator))
       (channel_members d)"

definition ensure_channel_posting_access ::
  "'s env \<Rightarrow> string \<Rightarrow> uuid \<Rightarrow> string list \<Rightarrow> ('s, unit) app" where
  "ensure_channel_posting_access E name user_id perms =
     try_bind (db_query E app_of_sqlx (\<lambda>d. live_channels d name)) (\<lambda>rows.
     case rows of
       [] \<Rightarrow> fail (app_of_repository NotFound)
     | row # _ \<Rightarrow>
         if ch_archived_at row \<noteq> None \<and> \<not> is_moderator perms
         then fail (forbidden ''archived channels are read-only'')
         else if \<not> ch_posting_restricted row \<or> is_moderator perms then ok ()
         else try_bind (db_query E app_of_sqlx (\<lambda>d. can_post_restricted d name user_id)) (\<lambda>can_post.
              if can_post then ok () else fail (forbidden ''posting is restricted in this channel'')))"

definition owned_private_channel :: "'s env \<Rightarrow> string \<Rightarrow> uuid \<Rightarrow> ('s, uuid) app" where
  "owned_private_channel E name user_id =
     try_bind
       (db_query E app_of_sqlx (\<lambda>d.
          find (\<lambda>c. ch_name c = name \<and> ch_kind c = Private \<and> ch_owner_user_id c = Some user_id \<and>
                    ch_deleted_at c = None) (channels d))) (\<lambda>row.
     ok_or (forbidden ''only the private channel owner can manage members'') (map_option ch_id row))"

definition channel_moderator_manager :: "'s env \<Rightarrow> string \<Rightarrow> auth_user \<Rightarrow> ('s, uuid) app" where
  "channel_moderator_manager E name user =
     (if is_moderator (au_permissions user)
      then try_bind (db_query E app_of_sqlx (\<lambda>d. live_channels d name)) (\<lambda>rows.
           case rows of [] \<Rightarrow> fail (app_of_repository NotFound) | c # _ \<Rightarrow> ok (ch_id c))
      else owned_private_channel E name (au_id user))"

section \<open>Facts\<close>

subsection \<open>Normalized names\<close>

definition name_char :: "char \<Rightarrow> bool" where
  "name_char c = ((ascii_alphanumeric c \<and> \<not> ascii_upper_case c) \<or> c = CHR ''-'' \<or> c = CHR ''_'')"

lemma name_char_plain: "name_char c \<Longrightarrow> is_ascii_char c \<and> \<not> is_whitespace [c] \<and> ascii_lower c = c"
  by (auto simp: name_char_def ascii_alphanumeric_def ascii_upper_case_def in_range_def
      is_ascii_char_def is_whitespace_def ascii_lower_def)

lemma name_char_lower:
  assumes "is_ascii_char c" "is_alphanumeric U [c] \<or> [c] = ''-'' \<or> [c] = ''_''"
  shows "name_char (ascii_lower c)"
proof -
  have "ascii_lower CHR ''-'' = CHR ''-''" "ascii_lower CHR ''_'' = CHR ''_''"
    by (simp_all add: ascii_lower_def ascii_upper_case_def in_range_def)
  with assms show ?thesis
    by (auto simp: name_char_def is_alphanumeric_def)
qed

lemma name_char_normalized:
  assumes "list_all name_char n" "n \<noteq> []" "length n \<le> 40" "n \<noteq> MAIN_CHANNEL"
  shows "normalize_channel_name U n = Inr n"
proof -
  have plain: "list_all (\<lambda>c. is_ascii_char c \<and> \<not> is_whitespace [c]) n"
    using assms(1) name_char_plain by (auto simp: list_all_iff)
  then have asc: "is_ascii n" by (auto simp: is_ascii_def list_all_iff)
  have "list_all (\<lambda>c. is_alphanumeric U c \<or> c = ''-'' \<or> c = ''_'') (chars n)"
    using assms(1) asc name_char_plain
    by (auto simp: chars_ascii list_all_iff is_alphanumeric_def name_char_def)
  moreover have "map ascii_lower n = n"
    using assms(1) name_char_plain by (auto simp: list_all_iff intro!: map_idI)
  ultimately show ?thesis
    using assms asc trim_no_whitespace [OF plain]
    by (simp add: normalize_channel_name_def to_lowercase_ascii)
qed

lemma normalize_channel_name_chars:
  assumes asc: "is_ascii raw" and ok: "normalize_channel_name U raw = Inr n"
  shows "n \<noteq> [] \<and> length n \<le> 40 \<and> list_all name_char n"
proof -
  let ?t = "trim raw"
  have t: "is_ascii ?t" using asc by (simp add: trim_ascii is_ascii_trim_list)
  from ok t have n: "n = map ascii_lower ?t" "?t \<noteq> []" "length ?t \<le> 40"
    and all: "list_all (\<lambda>c. is_alphanumeric U c \<or> c = ''-'' \<or> c = ''_'') (map (\<lambda>c. [c]) ?t)"
    by (auto simp: normalize_channel_name_def Let_def to_lowercase_ascii chars_ascii split: if_splits)
  have "name_char (ascii_lower c)" if "c \<in> set ?t" for c
    by (rule name_char_lower [of _ U]) (use that t all in \<open>auto simp: is_ascii_def list_all_iff\<close>)
  with n show ?thesis by (auto simp: list_all_iff)
qed

text \<open>
  Normalizing an ASCII channel name either refuses it or yields a name of 1 to 40 lower-case
  letters, digits, hyphens and underscores, and such a name is a fixed point: normalizing it again
  changes nothing, unless it is the reserved name of the main channel, which is refused.
\<close>

theorem normalize_channel_name_canonical:
  assumes "is_ascii raw" and "normalize_channel_name U raw = Inr n"
  shows "n \<noteq> [] \<and> length n \<le> 40 \<and> list_all name_char n \<and>
     (if n = MAIN_CHANNEL then \<exists>e. normalize_channel_name U n = Inl e
      else normalize_channel_name U n = Inr n)"
proof -
  have "\<exists>e. normalize_channel_name U MAIN_CHANNEL = Inl e"
  proof -
    have "trim MAIN_CHANNEL = MAIN_CHANNEL" by code_simp
    then show ?thesis by (simp add: normalize_channel_name_def MAIN_CHANNEL_def)
  qed
  then show ?thesis
    using normalize_channel_name_chars [OF assms] name_char_normalized [of n U] by auto
qed

theorem normalize_channel_name_canonical_witness:
  "''team-room'' \<noteq> [] \<and> length ''team-room'' \<le> 40 \<and> list_all name_char ''team-room'' \<and>
     (if ''team-room'' = MAIN_CHANNEL then \<exists>e. normalize_channel_name demo_unicode ''team-room'' = Inl e
      else normalize_channel_name demo_unicode ''team-room'' = Inr ''team-room'')"
  by (rule normalize_channel_name_canonical [of "''  Team-Room ''"]) (code_simp, code_simp)

subsection \<open>Frames\<close>

lemma keeps_on_channel_reads [keeps_intro]:
  "keeps_on db Q (list_visible_conversations E u)" "keeps_on db Q (channel_members_of E n)"
  "keeps_on db Q (ensure_channel_access E n u)" "keeps_on db Q (ensure_not_globally_banned E u)"
  "keeps_on db Q (ensure_channel_posting_access E n u ps)" "keeps_on db Q (owned_private_channel E n u)"
  "keeps_on db Q (channel_moderator_manager E n a)"
  "keeps_on cache R (list_visible_conversations E u)" "keeps_on cache R (channel_members_of E n)"
  "keeps_on cache R (ensure_channel_access E n u)" "keeps_on cache R (ensure_not_globally_banned E u)"
  "keeps_on cache R (ensure_channel_posting_access E n u ps)" "keeps_on cache R (owned_private_channel E n u)"
  "keeps_on cache R (channel_moderator_manager E n a)"
  "keeps_on socket S (list_visible_conversations E u)" "keeps_on socket S (channel_members_of E n)"
  "keeps_on socket S (ensure_channel_access E n u)" "keeps_on socket S (ensure_not_globally_banned E u)"
  "keeps_on socket S (ensure_channel_posting_access E n u ps)" "keeps_on socket S (owned_private_channel E n u)"
  "keeps_on socket S (channel_moderator_manager E n a)"
  unfolding list_visible_conversations_def channel_members_of_def ensure_channel_access_def
    ensure_not_globally_banned_def ensure_channel_posting_access_def channel_moderator_manager_def
    owned_private_channel_def
  by - (intro keeps_intro)+

lemma insert_message_ok:
  "insert_message m d = Inr (x, d') \<Longrightarrow> d' = d\<lparr>messages := messages d @ [m]\<rparr>"
  by (simp add: insert_message_def)

lemma insert_all_messages_ok:
  "insert_all insert_message ms d = Inr (n, d') \<Longrightarrow>
     n = length ms \<and> d' = d\<lparr>messages := messages d @ ms\<rparr>"
proof (induction ms arbitrary: d n)
  case (Cons m ms)
  then obtain d1 n' where "insert_message m d = Inr ((), d1)"
    and "insert_all insert_message ms d1 = Inr (n', d')" and "n = Suc n'"
    by (auto split: sum.splits prod.splits simp: map_sum_def)
  with Cons.IH [of d1 n'] insert_message_ok [of m d "()" d1] show ?case by simp
qed simp

text \<open>Posting a system message touches the message table only.\<close>

lemma keeps_on_system_message [keeps_intro]:
  "(\<And>d ms. Q d \<Longrightarrow> Q (d\<lparr>messages := ms\<rparr>)) \<Longrightarrow> keeps_on db Q (create_system_message E ch t)"
  "(\<And>d ms. Q d \<Longrightarrow> Q (d\<lparr>messages := ms\<rparr>)) \<Longrightarrow> keeps_on db Q (publish_system_message E ch t)"
  unfolding publish_system_message_def create_system_message_def
  by - (intro keeps_intro; auto dest!: insert_all_messages_ok)+

lemma keeps_on_system_message_socket [keeps_intro]:
  "keeps_on socket S (create_system_message E ch t)" "keeps_on socket S (publish_system_message E ch t)"
  unfolding publish_system_message_def create_system_message_def
  by - (intro keeps_intro)+

subsection \<open>The access rules\<close>

text \<open>
  The abstract rule: a conversation is open to a user when it exists, is not deleted, is public or
  has the user as a member, and no ban in force covers it.
\<close>

definition may_access :: "i64 \<Rightarrow> database \<Rightarrow> string \<Rightarrow> uuid \<Rightarrow> bool" where
  "may_access now d name u \<longleftrightarrow>
     (\<exists>c \<in> set (channels d). ch_name c = name \<and> ch_deleted_at c = None \<and>
        (ch_kind c = Public \<or> (\<exists>m \<in> set (channel_members d). cmb_channel_id m = ch_id c \<and> cmb_user_id m = u)) \<and>
        (\<forall>b \<in> set (user_bans d). b_user_id b = u \<longrightarrow>
           b_channel_id b = None \<or> b_channel_id b = Some (ch_id c) \<longrightarrow>
           b_revoked_at b \<noteq> None \<or> (\<exists>t. b_expires_at b = Some t \<and> t \<le> now)))"

lemma not_banned_iff:
  "\<not> banned_from now d u c \<longleftrightarrow>
     (\<forall>b \<in> set (user_bans d). b_user_id b = u \<longrightarrow> b_channel_id b = None \<or> b_channel_id b = Some c \<longrightarrow>
        b_revoked_at b \<noteq> None \<or> (\<exists>t. b_expires_at b = Some t \<and> t \<le> now))"
  by (auto simp: banned_from_def ban_active_def list_ex_iff not_less split: option.splits)

lemma access_allowed_iff: "access_allowed now d name u \<longleftrightarrow> may_access now d name u"
  by (simp add: access_allowed_def may_access_def not_banned_iff is_member_def list_ex_iff)

lemma ensure_channel_access_ok:
  "ensure_channel_access E name u w = (Inr x, w') \<longleftrightarrow>
     \<not> faults E (Suc (tick w)) \<and> may_access (sint (clock E (tick w))) (db w) name u \<and>
     w' = next_tick (next_tick w)"
  by (auto simp: ensure_channel_access_def ok_simps access_allowed_iff split: if_splits)

end
