(* ===== verification/Services.thy ===== *)
theory Services
  imports Channels
begin

text \<open>
  \<^verbatim>\<open>backend/src/services.rs\<close>: creating public, private and direct conversations, inviting and removing
  members, deleting a channel.  Each service checks its guards, changes the database in one
  transaction together with an audit row, and then announces the change.
\<close>

section \<open>Statements\<close>

text \<open>
  \<^verbatim>\<open>INSERT INTO channels (id, name, created_at) ... ON CONFLICT (name) DO UPDATE SET deleted_at = NULL
  WHERE channels.deleted_at IS NOT NULL RETURNING id\<close>: creates a public channel, or revives the
  deleted channel that has the name; a live channel is left alone and no row is returned.
\<close>

definition upsert_channel :: "uuid \<Rightarrow> string \<Rightarrow> i64 \<Rightarrow> uuid option stmt" where
  "upsert_channel i name now d =
     (case find (\<lambda>c. ch_name c = name) (channels d) of
        None \<Rightarrow> map_sum (\<lambda>e. e) (\<lambda>(_, d'). (Some i, d')) (insert_channel (new_channel i name now) d)
      | Some c \<Rightarrow>
          if ch_deleted_at c = None then Inr (None, d)
          else constrained
            [(\<not> (ch_kind c = Direct \<and>
                 (case ch_direct_key c of None \<Rightarrow> False | Some k \<Rightarrow> direct_key_taken d k)),
              ''channels_direct_key_idx'')]
            (Some (ch_id c),
             d\<lparr>channels := update_where (\<lambda>r. ch_name r = name) (\<lambda>r. r\<lparr>ch_deleted_at := None\<rparr>) (channels d)\<rparr>))"

text \<open>\<^verbatim>\<open>INSERT INTO channels (..., kind = 'private', owner_user_id, ...) ON CONFLICT (name) DO NOTHING\<close>\<close>

definition insert_private_channel :: "uuid \<Rightarrow> string \<Rightarrow> uuid \<Rightarrow> i64 \<Rightarrow> nat stmt" where
  "insert_private_channel i name owner now d =
     (if name_taken d name then Inr (0, d)
      else map_sum (\<lambda>e. e) (\<lambda>(_, d'). (1, d'))
        (insert_channel
           ((new_channel i name now)\<lparr>ch_kind := Private, ch_owner_user_id := Some owner\<rparr>) d))"

text \<open>
  \<^verbatim>\<open>INSERT INTO channels (..., kind = 'direct', direct_key, ...) ON CONFLICT (direct_key) WHERE
  kind='direct' AND deleted_at IS NULL DO NOTHING RETURNING id, name\<close>
\<close>

definition insert_direct_channel :: "uuid \<Rightarrow> string \<Rightarrow> string \<Rightarrow> i64 \<Rightarrow> (uuid \<times> string) option stmt" where
  "insert_direct_channel i name key now d =
     (if direct_key_taken d key then Inr (None, d)
      else map_sum (\<lambda>e. e) (\<lambda>(_, d'). (Some (i, name), d'))
        (insert_channel ((new_channel i name now)\<lparr>ch_kind := Direct, ch_direct_key := Some key\<rparr>) d))"

definition active_username :: "database \<Rightarrow> uuid \<Rightarrow> string option" where
  "active_username d u =
     map_option u_username
       (find (\<lambda>r. u_id r = u \<and> u_disabled_at r = None \<and> u_deleted_at r = None) (users d))"

definition delete_plain_member :: "uuid \<Rightarrow> uuid \<Rightarrow> nat stmt" where
  "delete_plain_member c u d =
     (let p = (\<lambda>m. cmb_channel_id m = c \<and> cmb_user_id m = u \<and> cmb_role m \<noteq> RoleOwner)
      in Inr (rows_matching p (channel_members d),
              d\<lparr>channel_members := filter (\<lambda>m. \<not> p m) (channel_members d)\<rparr>))"

text \<open>\<^verbatim>\<open>UPDATE channels SET deleted_at=$1 WHERE name=$2 AND deleted_at IS NULL RETURNING id\<close>\<close>

definition soft_delete_channel :: "i64 \<Rightarrow> string \<Rightarrow> uuid option stmt" where
  "soft_delete_channel now name d =
     (let p = (\<lambda>c. ch_name c = name \<and> ch_deleted_at c = None)
      in Inr (map_option ch_id (find p (channels d)),
              d\<lparr>channels := update_where p (\<lambda>c. c\<lparr>ch_deleted_at := Some now\<rparr>) (channels d)\<rparr>))"

section \<open>Services\<close>

definition audit :: "uuid \<Rightarrow> string \<Rightarrow> string \<Rightarrow> uuid \<Rightarrow> json \<Rightarrow> i64 \<Rightarrow> audit_event" where
  "audit actor action target_type target meta now =
     \<lparr>ae_actor = Some actor, ae_action = action, ae_target_type = target_type, ae_target_id = target,
      ae_metadata = meta, ae_created_at = now\<rparr>"

definition create_public_channel :: "'s env \<Rightarrow> auth_user \<Rightarrow> string \<Rightarrow> ('s, string) app" where
  "create_public_channel E actor raw_name =
     try_bind (lift (require_permission actor ''chat:write'')) (\<lambda>_.
     try_bind (ensure_not_globally_banned E (au_id actor)) (\<lambda>_.
     try_bind (lift (normalize_channel_name (uni E) raw_name)) (\<lambda>name.
     try_bind (now_i64 E) (\<lambda>now.
     try_bind
       (transaction E app_of_sqlx
          (try_bind (uuid_now_v7 E) (\<lambda>id.
           try_bind (db_exec E app_of_sqlx (upsert_channel id name now)) (\<lambda>row.
           try_bind (ok_or (bad_request ''channel already exists'') row) (\<lambda>channel_id.
           record_audit E app_of_sqlx
             (audit (au_id actor) ''channel.created'' ''channel'' channel_id (JObj []) now)))))) (\<lambda>_.
     try_bind (publish_system_message E name (au_username actor @ '' created this channel'')) (\<lambda>_.
     try_bind (broadcast_control E (ChannelCreated name)) (\<lambda>_.
     ok name)))))))"

text \<open>The body of the transaction of \<^verbatim>\<open>create_private_conversation\<close>.\<close>

definition create_private_tx :: "'s env \<Rightarrow> auth_user \<Rightarrow> uuid \<Rightarrow> string \<Rightarrow> i64 \<Rightarrow> ('s, unit) app" where
  "create_private_tx E actor i name now =
     try_bind (db_exec E app_of_sqlx (insert_private_channel i name (au_id actor) now)) (\<lambda>n.
     try_bind (if n = 0 then fail (bad_request ''channel already exists'') else ok ()) (\<lambda>_.
     try_bind
       (db_exec E app_of_sqlx (insert_member
          \<lparr>cmb_channel_id = i, cmb_user_id = au_id actor, cmb_role = RoleOwner,
           cmb_invited_by = Some (au_id actor), cmb_created_at = now\<rparr>)) (\<lambda>_.
     record_audit E app_of_sqlx
       (audit (au_id actor) ''channel.private_created'' ''channel'' i (JObj []) now))))"

definition create_private_conversation :: "'s env \<Rightarrow> auth_user \<Rightarrow> string \<Rightarrow> ('s, uuid \<times> string) app" where
  "create_private_conversation E actor raw_name =
     try_bind (lift (require_permission actor ''chat:write'')) (\<lambda>_.
     try_bind (ensure_not_globally_banned E (au_id actor)) (\<lambda>_.
     try_bind (lift (normalize_channel_name (uni E) raw_name)) (\<lambda>name.
     try_bind (uuid_now_v7 E) (\<lambda>id.
     try_bind (now_i64 E) (\<lambda>now.
     try_bind (transaction E app_of_sqlx (create_private_tx E actor id name now)) (\<lambda>_.
     try_bind (publish_system_message E name (au_username actor @ '' created this private channel'')) (\<lambda>_.
     ok (id, name))))))))"

definition find_direct :: "string \<Rightarrow> database \<Rightarrow> (uuid \<times> string) option" where
  "find_direct key d =
     map_option (\<lambda>c. (ch_id c, ch_name c))
       (find (\<lambda>c. ch_direct_key c = Some key \<and> ch_kind c = Direct \<and> ch_deleted_at c = None) (channels d))"

definition direct_member :: "uuid \<Rightarrow> uuid \<Rightarrow> uuid \<Rightarrow> i64 \<Rightarrow> member_row" where
  "direct_member channel_id user inviter now =
     \<lparr>cmb_channel_id = channel_id, cmb_user_id = user, cmb_role = RoleMember,
      cmb_invited_by = Some inviter, cmb_created_at = now\<rparr>"

text \<open>The body of the transaction of \<^verbatim>\<open>open_direct\<close>.\<close>

definition open_direct_tx ::
  "'s env \<Rightarrow> auth_user \<Rightarrow> uuid \<Rightarrow> uuid \<Rightarrow> uuid \<Rightarrow> uuid \<Rightarrow> i64 \<Rightarrow> ('s, uuid \<times> string) app" where
  "open_direct_tx E actor target_user_id first second proposed_id now =
     (let direct_key = uuid_str E first @ '':'' @ uuid_str E second;
          proposed_name = ''dm_'' @ uuid_str E proposed_id
      in
      try_bind (db_exec E app_of_sqlx (insert_direct_channel proposed_id proposed_name direct_key now)) (\<lambda>inserted.
      try_bind
        (case inserted of
           Some (i, n) \<Rightarrow> ok (i, n, True)
         | None \<Rightarrow>
             try_bind (db_query E app_of_sqlx (find_direct direct_key)) (\<lambda>row.
             try_bind (ok_or (app_of_sqlx SqlxRowNotFound) row) (\<lambda>(i, n).
             ok (i, n, False)))) (\<lambda>(channel_id, name, created).
      try_bind
        (for_each [first, second] (\<lambda>member.
           db_exec E app_of_sqlx (insert_member_or_ignore
             (direct_member channel_id member (au_id actor) now)))) (\<lambda>_.
      try_bind
        (when_do created
           (record_audit E app_of_sqlx
              (audit (au_id actor) ''channel.direct_created'' ''channel'' channel_id
                 (JObj [(''user_id'', JStr (uuid_str E target_user_id))]) now))) (\<lambda>_.
      ok (channel_id, name))))))"

definition open_direct :: "'s env \<Rightarrow> auth_user \<Rightarrow> uuid \<Rightarrow> ('s, uuid \<times> string) app" where
  "open_direct E actor target_user_id =
     try_bind (lift (require_permission actor ''chat:write'')) (\<lambda>_.
     try_bind (ensure_not_globally_banned E (au_id actor)) (\<lambda>_.
     if target_user_id = au_id actor then fail (bad_request ''you cannot message yourself'')
     else
     try_bind (db_query E app_of_sqlx (\<lambda>d. active_username d target_user_id \<noteq> None)) (\<lambda>target_exists.
     if \<not> target_exists then fail (app_of_repository NotFound)
     else
     (let first = (if au_id actor < target_user_id then au_id actor else target_user_id);
          second = (if au_id actor < target_user_id then target_user_id else au_id actor)
      in
      try_bind (now_i64 E) (\<lambda>now.
      try_bind (uuid_now_v7 E) (\<lambda>proposed_id.
      transaction E app_of_sqlx (open_direct_tx E actor target_user_id first second proposed_id now)))))))"

definition broadcast_members :: "'s env \<Rightarrow> string \<Rightarrow> ('s, unit) app" where
  "broadcast_members E channel =
     try_bind (attempt (channel_members_of E channel)) (\<lambda>r.
     case r of
       Inr members \<Rightarrow> ignore (broadcast E channel (Members channel members))
     | Inl _ \<Rightarrow> ok ())"

definition invite_member :: "'s env \<Rightarrow> auth_user \<Rightarrow> string \<Rightarrow> uuid \<Rightarrow> ('s, bool) app" where
  "invite_member E actor channel user_id =
     try_bind (lift (require_permission actor ''chat:write'')) (\<lambda>_.
     try_bind (owned_private_channel E channel (au_id actor)) (\<lambda>channel_id.
     try_bind (now_i64 E) (\<lambda>now.
     try_bind
       (transaction E app_of_sqlx
          (try_bind (db_query E app_of_sqlx (\<lambda>d. active_username d user_id)) (\<lambda>row.
           try_bind (ok_or (app_of_repository NotFound) row) (\<lambda>target.
           try_bind (db_exec E app_of_sqlx (insert_member_or_ignore
                       (direct_member channel_id user_id (au_id actor) now))) (\<lambda>n.
           if n = 0 then ok None
           else
           try_bind (record_audit E app_of_sqlx
             (audit (au_id actor) ''channel.member_added'' ''channel'' channel_id
                (JObj [(''user_id'', JStr (uuid_str E user_id))]) now)) (\<lambda>_.
           ok (Some target))))))) (\<lambda>result.
     case result of
       None \<Rightarrow> ok False
     | Some target \<Rightarrow>
         try_bind (publish_system_message E channel (au_username actor @ '' invited '' @ target)) (\<lambda>_.
         try_bind (broadcast_members E channel) (\<lambda>_.
         ok True))))))"

definition remove_member :: "'s env \<Rightarrow> auth_user \<Rightarrow> string \<Rightarrow> uuid \<Rightarrow> ('s, unit) app" where
  "remove_member E actor channel user_id =
     try_bind (lift (require_permission actor ''chat:write'')) (\<lambda>_.
     try_bind (owned_private_channel E channel (au_id actor)) (\<lambda>channel_id.
     try_bind (now_i64 E) (\<lambda>now.
     try_bind
       (transaction E app_of_sqlx
          (try_bind (db_exec E app_of_sqlx (delete_plain_member channel_id user_id)) (\<lambda>n.
           if n = 0 then fail (app_of_repository NotFound)
           else
           try_bind (db_query E app_of_sqlx (\<lambda>d.
               map_option u_username (find (\<lambda>u. u_id u = user_id) (users d)))) (\<lambda>row.
           try_bind (record_audit E app_of_sqlx
             (audit (au_id actor) ''channel.member_removed'' ''channel'' channel_id
                (JObj [(''user_id'', JStr (uuid_str E user_id))]) now)) (\<lambda>_.
           ok (case row of None \<Rightarrow> ''a member'' | Some n \<Rightarrow> n)))))) (\<lambda>target.
     try_bind (publish_system_message E channel (au_username actor @ '' removed '' @ target)) (\<lambda>_.
     broadcast_members E channel)))))"

definition delete_channel_service :: "'s env \<Rightarrow> auth_user \<Rightarrow> string \<Rightarrow> ('s, string) app" where
  "delete_channel_service E actor raw_name =
     try_bind (lift (require_permission actor ''chat:moderate'')) (\<lambda>_.
     try_bind (lift (normalize_channel_name (uni E) raw_name)) (\<lambda>name.
     if name = MAIN_CHANNEL then fail (bad_request ''the main channel cannot be removed'')
     else
     try_bind (now_i64 E) (\<lambda>now.
     try_bind
       (transaction E app_of_sqlx
          (try_bind (db_exec E app_of_sqlx (soft_delete_channel now name)) (\<lambda>row.
           try_bind (ok_or (app_of_repository NotFound) row) (\<lambda>id.
           record_audit E app_of_sqlx
             (audit (au_id actor) ''channel.deleted'' ''channel'' id (JObj []) now))))) (\<lambda>_.
     try_bind (broadcast_control E (ChannelDeleted name)) (\<lambda>_.
     ok name)))))"

end
