(* ===== verification/Membership.thy ===== *)
theory Membership
  imports Services
begin

text \<open>
  The invariant behind the conversation services: channel ids and names and membership rows are
  unique, every membership row belongs to a channel, a channel's \<^verbatim>\<open>owner_user_id\<close> column names exactly
  the members whose role is \<^verbatim>\<open>owner\<close>, and no two live direct conversations have the same key.
  Every statement and every service keeps it, whatever fails.
\<close>

section \<open>The invariant\<close>

definition member_key :: "member_row \<Rightarrow> uuid \<times> uuid" where
  "member_key m = (cmb_channel_id m, cmb_user_id m)"

definition channel_keys_ok :: "database \<Rightarrow> bool" where
  "channel_keys_ok d \<longleftrightarrow> distinct (map ch_id (channels d)) \<and> distinct (map ch_name (channels d))"

definition member_keys_ok :: "database \<Rightarrow> bool" where
  "member_keys_ok d \<longleftrightarrow> distinct (map member_key (channel_members d)) \<and>
     cmb_channel_id ` set (channel_members d) \<subseteq> ch_id ` set (channels d)"

definition owners_ok :: "database \<Rightarrow> bool" where
  "owners_ok d \<longleftrightarrow> (\<forall>c \<in> set (channels d). \<forall>u. ch_owner_user_id c = Some u \<longleftrightarrow>
     (\<exists>m \<in> set (channel_members d). cmb_channel_id m = ch_id c \<and> cmb_user_id m = u \<and> cmb_role m = RoleOwner))"

definition live_direct :: "channel_row \<Rightarrow> bool" where
  "live_direct c \<longleftrightarrow> ch_kind c = Direct \<and> ch_deleted_at c = None \<and> ch_direct_key c \<noteq> None"

definition direct_keys_ok :: "database \<Rightarrow> bool" where
  "direct_keys_ok d \<longleftrightarrow> distinct (map ch_direct_key (filter live_direct (channels d)))"

definition membership_ok :: "database \<Rightarrow> bool" where
  "membership_ok d \<longleftrightarrow> channel_keys_ok d \<and> member_keys_ok d \<and> owners_ok d \<and> direct_keys_ok d"

lemmas membership_defs =
  membership_ok_def channel_keys_ok_def member_keys_ok_def owners_ok_def direct_keys_ok_def

text \<open>It is a property of two tables.\<close>

lemma membership_ok_cong:
  "channels d' = channels d \<Longrightarrow> channel_members d' = channel_members d \<Longrightarrow>
     membership_ok d' \<longleftrightarrow> membership_ok d"
  by (simp add: membership_defs)

lemma membership_ok_frame [simp]:
  "membership_ok (d\<lparr>audit_events := a\<rparr>) = membership_ok d"
  "membership_ok (d\<lparr>messages := b\<rparr>) = membership_ok d"
  "membership_ok (d\<lparr>outbox_events := e\<rparr>) = membership_ok d"
  by (rule membership_ok_cong; simp)+

section \<open>Statements keep it\<close>

lemma is_member_iff:
  "is_member d c u \<longleftrightarrow> (c, u) \<in> member_key ` set (channel_members d)"
  by (auto simp: is_member_def list_ex_iff member_key_def)

lemma has_channel_iff: "has_channel d c \<longleftrightarrow> c \<in> ch_id ` set (channels d)"
  by (auto simp: has_channel_def list_ex_iff)

lemma insert_member_ok:
  "insert_member m d = Inr (x, d') \<longleftrightarrow>
     \<not> is_member d (cmb_channel_id m) (cmb_user_id m) \<and> has_channel d (cmb_channel_id m) \<and>
     has_user d (cmb_user_id m) \<and> null_or (has_user d) (cmb_invited_by m) \<and>
     d' = d\<lparr>channel_members := channel_members d @ [m]\<rparr>"
  by (auto simp: insert_member_def)

lemma insert_member_membership:
  assumes "membership_ok d" "insert_member m d = Inr (x, d')" "cmb_role m \<noteq> RoleOwner"
  shows "membership_ok d'"
  using assms
  by (auto simp: membership_defs insert_member_ok is_member_iff has_channel_iff member_key_def)

lemma insert_member_or_ignore_ok:
  "insert_member_or_ignore m d = Inr (n, d') \<longleftrightarrow>
     (if is_member d (cmb_channel_id m) (cmb_user_id m) then n = 0 \<and> d' = d
      else n = 1 \<and> insert_member m d = Inr ((), d'))"
  by (auto simp: insert_member_or_ignore_def map_sum_def split: sum.splits)

lemma insert_member_or_ignore_membership:
  "membership_ok d \<Longrightarrow> insert_member_or_ignore m d = Inr (n, d') \<Longrightarrow> cmb_role m \<noteq> RoleOwner \<Longrightarrow>
     membership_ok d'"
  by (auto simp: insert_member_or_ignore_ok insert_member_membership split: if_splits)

lemma name_taken_iff: "name_taken d n \<longleftrightarrow> n \<in> ch_name ` set (channels d)"
  by (auto simp: name_taken_def list_ex_iff)

lemma direct_key_taken_iff:
  "direct_key_taken d k \<longleftrightarrow> Some k \<in> ch_direct_key ` set (filter live_direct (channels d))"
  by (fastforce simp: direct_key_taken_def list_ex_iff live_direct_def image_iff)

lemma insert_channel_ok:
  "insert_channel c d = Inr (x, d') \<longleftrightarrow>
     \<not> has_channel d (ch_id c) \<and> \<not> name_taken d (ch_name c) \<and>
     null_or (has_user d) (ch_owner_user_id c) \<and>
     \<not> (live_direct c \<and> direct_key_taken d (the (ch_direct_key c))) \<and>
     d' = d\<lparr>channels := channels d @ [c]\<rparr>"
  by (auto simp: insert_channel_def live_direct_def split: option.splits)

lemma member_channel:
  "membership_ok d \<Longrightarrow> m \<in> set (channel_members d) \<Longrightarrow> cmb_channel_id m \<in> ch_id ` set (channels d)"
  unfolding membership_defs by blast

lemma insert_channel_keys:
  assumes "membership_ok d" "insert_channel c d = Inr (x, d')"
  shows "channel_keys_ok d'" "member_keys_ok d'" "direct_keys_ok d'"
proof -
  show "channel_keys_ok d'" "member_keys_ok d'"
    using assms by (auto simp: membership_defs insert_channel_ok has_channel_iff name_taken_iff)
  show "direct_keys_ok d'"
  proof (cases "live_direct c")
    case True
    then have "ch_direct_key c = Some (the (ch_direct_key c))" by (auto simp: live_direct_def)
    with True assms show ?thesis
      by (simp add: membership_defs insert_channel_ok direct_key_taken_iff)
  qed (use assms in \<open>simp add: membership_defs insert_channel_ok\<close>)
qed

lemma insert_channel_membership:
  assumes "membership_ok d" "insert_channel c d = Inr (x, d')" "ch_owner_user_id c = None"
  shows "membership_ok d'"
proof -
  have "cmb_channel_id m \<noteq> ch_id c" if "m \<in> set (channel_members d)" for m
    using assms(2) member_channel [OF assms(1) that] by (auto simp: insert_channel_ok has_channel_iff)
  then have "owners_ok d'"
    using assms by (auto simp: membership_defs insert_channel_ok)
  then show ?thesis
    using insert_channel_keys [OF assms(1,2)] by (simp add: membership_ok_def)
qed

text \<open>Changing columns other than id and owner keeps all but the names and the direct keys.\<close>

lemma renamed_channels_membership:
  assumes ok: "membership_ok d"
    and f: "\<And>c. ch_id (f c) = ch_id c \<and> ch_owner_user_id (f c) = ch_owner_user_id c"
    and d': "d' = d\<lparr>channels := update_where p f (channels d)\<rparr>"
    and names: "distinct (map ch_name (channels d'))"
    and direct: "direct_keys_ok d'"
  shows "membership_ok d'"
proof -
  have m: "map ch_id (channels d') = map ch_id (channels d)"
    using f by (auto simp: d' update_where_def)
  then have "set (map ch_id (channels d')) = set (map ch_id (channels d))" by simp
  then have i: "ch_id ` set (channels d') = ch_id ` set (channels d)" by simp
  have o1: "owners_ok d'"
    using ok f by (auto simp: membership_defs d' update_where_def)
  show ?thesis
    using ok m names i o1 direct by (simp add: membership_ok_def channel_keys_ok_def member_keys_ok_def d')
qed

lemma update_channels_membership:
  assumes ok: "membership_ok d"
    and f: "\<And>c. ch_id (f c) = ch_id c \<and> ch_name (f c) = ch_name c \<and> ch_owner_user_id (f c) = ch_owner_user_id c"
    and d': "d' = d\<lparr>channels := update_where p f (channels d)\<rparr>"
    and direct: "direct_keys_ok d'"
  shows "membership_ok d'"
proof (rule renamed_channels_membership [OF ok _ d' _ direct])
  show "distinct (map ch_name (channels d'))"
    using ok f by (simp add: d' update_where_key membership_defs)
qed (use f in simp)

lemma filter_map_live:
  "(\<And>c. live_direct (f c) \<Longrightarrow> live_direct c \<and> ch_direct_key (f c) = ch_direct_key c) \<Longrightarrow>
     distinct (map ch_direct_key (filter live_direct cs)) \<Longrightarrow>
     distinct (map ch_direct_key (filter live_direct (map f cs)))"
proof (induction cs)
  case (Cons c cs)
  have "ch_direct_key (f x) \<in> ch_direct_key ` set (filter live_direct cs)"
    if "x \<in> set cs" "live_direct (f x)" for x
    using that Cons.prems(1) [of x] by auto
  then have "ch_direct_key (f c) \<notin> ch_direct_key ` set (filter live_direct (map f cs))"
    if "live_direct (f c)"
    using that Cons.prems by (force simp: image_iff)
  moreover have "distinct (map ch_direct_key (filter live_direct (map f cs)))"
    using Cons by (auto split: if_splits)
  ultimately show ?case by simp
qed simp

lemma revive_direct_keys:
  assumes "distinct (map ch_direct_key (filter live_direct cs))"
    and "c \<in> set cs" "ch_name c = name" "ch_deleted_at c \<noteq> None" "distinct (map ch_name cs)"
    and "\<And>k. ch_kind c = Direct \<Longrightarrow> ch_direct_key c = Some k \<Longrightarrow> Some k \<notin> ch_direct_key ` set (filter live_direct cs)"
  shows "distinct (map ch_direct_key (filter live_direct
           (map (\<lambda>r. if ch_name r = name then r\<lparr>ch_deleted_at := None\<rparr> else r) cs)))"
proof -
  let ?f = "\<lambda>r. if ch_name r = name then r\<lparr>ch_deleted_at := None\<rparr> else r"
  obtain xs ys where cs: "cs = xs @ c # ys"
    using assms(2) by (meson split_list)
  have "name \<notin> ch_name ` (set xs \<union> set ys)"
    using assms(3,5) by (auto simp: cs image_Un)
  then have "ch_name r \<noteq> name" if "r \<in> set xs \<union> set ys" for r
    using that by blast
  then have "map ?f xs = xs" "map ?f ys = ys"
    by (simp_all add: map_idI)
  then have "filter live_direct (map ?f cs) =
      filter live_direct xs @ (if live_direct (?f c) then [?f c] else []) @ filter live_direct ys"
    by (simp add: cs)
  moreover have "ch_direct_key c \<notin> ch_direct_key ` set (filter live_direct cs)" if live: "live_direct (?f c)"
  proof -
    obtain k where k: "ch_kind c = Direct" "ch_direct_key c = Some k"
      using live assms(3) by (auto simp: live_direct_def)
    from assms(6) [OF k] k(2) show ?thesis by simp
  qed
  moreover have "\<not> live_direct c" "ch_direct_key (?f c) = ch_direct_key c"
    using assms(4) by (simp_all add: live_direct_def)
  ultimately show ?thesis
    using assms(1) by (auto simp: cs)
qed

lemma soft_delete_channel_membership:
  assumes "membership_ok d" "soft_delete_channel now name d = Inr (x, d')"
  shows "membership_ok d'"
proof (rule update_channels_membership [OF assms(1)])
  let ?p = "\<lambda>c. ch_name c = name \<and> ch_deleted_at c = None"
  show d': "d' = d\<lparr>channels := update_where ?p (\<lambda>c. c\<lparr>ch_deleted_at := Some now\<rparr>) (channels d)\<rparr>"
    using assms(2) by (simp add: soft_delete_channel_def Let_def)
  show "direct_keys_ok d'"
    unfolding d' direct_keys_ok_def update_where_def
    by (simp, rule filter_map_live)
      (use assms(1) in \<open>auto simp: membership_defs live_direct_def split: if_splits\<close>)
qed simp

lemma upsert_channel_membership:
  assumes "membership_ok d" "upsert_channel i name now d = Inr (x, d')"
  shows "membership_ok d'"
proof (cases "find (\<lambda>c. ch_name c = name) (channels d)")
  case None
  with assms(2) have "insert_channel (new_channel i name now) d = Inr ((), d')"
    by (auto simp: upsert_channel_def map_sum_def split: sum.splits)
  with assms(1) show ?thesis
    by (rule insert_channel_membership) (simp add: new_channel_def)
next
  case (Some c)
  then have c: "c \<in> set (channels d)" "ch_name c = name"
    by (auto simp: find_Some_iff)
  show ?thesis
  proof (cases "ch_deleted_at c = None")
    case True
    with Some assms show ?thesis by (simp add: upsert_channel_def)
  next
    case False
    let ?f = "\<lambda>r. if ch_name r = name then r\<lparr>ch_deleted_at := None\<rparr> else r"
    from False Some assms(2) have d': "d' = d\<lparr>channels := map ?f (channels d)\<rparr>"
      and free: "ch_kind c = Direct \<Longrightarrow> ch_direct_key c = Some k \<Longrightarrow> \<not> direct_key_taken d k" for k
      by (auto simp: upsert_channel_def update_where_def split: option.splits)
    have "direct_keys_ok d'"
      unfolding d' direct_keys_ok_def
      by (simp, rule revive_direct_keys [of _ c])
        (use assms(1) c False free direct_key_taken_iff in \<open>simp_all add: membership_defs\<close>)
    then show ?thesis
      by (rule update_channels_membership [OF assms(1), where p = "\<lambda>r. ch_name r = name"
            and f = "\<lambda>r. r\<lparr>ch_deleted_at := None\<rparr>", rotated 2]) (simp_all add: d' update_where_def)
  qed
qed

lemma insert_direct_channel_membership:
  "membership_ok d \<Longrightarrow> insert_direct_channel i name key now d = Inr (x, d') \<Longrightarrow> membership_ok d'"
  by (auto simp: insert_direct_channel_def map_sum_def new_channel_def
      intro: insert_channel_membership split: if_splits sum.splits)

lemma delete_plain_member_membership:
  assumes "membership_ok d" "delete_plain_member c u d = Inr (n, d')"
  shows "membership_ok d'"
proof -
  have d': "d' = d\<lparr>channel_members := filter (\<lambda>m. \<not> (cmb_channel_id m = c \<and> cmb_user_id m = u \<and>
      cmb_role m \<noteq> RoleOwner)) (channel_members d)\<rparr>"
    using assms(2) by (simp add: delete_plain_member_def Let_def)
  have "set (channel_members d') \<subseteq> set (channel_members d)" "channels d' = channels d"
    by (auto simp: d')
  then have "member_keys_ok d'"
    using assms(1) unfolding membership_defs by (auto simp: d' distinct_map_filter)
  moreover have "owners_ok d'"
    using assms(1) by (auto simp: membership_defs d')
  ultimately show ?thesis
    using assms(1) by (simp add: membership_defs d')
qed

section \<open>Services keep it\<close>

lemma insert_private_channel_ok:
  "insert_private_channel i name owner now d = Inr (n, d') \<Longrightarrow> n \<noteq> 0 \<Longrightarrow>
     insert_channel ((new_channel i name now)\<lparr>ch_kind := Private, ch_owner_user_id := Some owner\<rparr>) d =
       Inr ((), d')"
  by (auto simp: insert_private_channel_def map_sum_def split: if_splits sum.splits)

lemma new_owned_channel_membership:
  assumes ok: "membership_ok d"
    and c: "insert_channel c d = Inr (x, d1)" "ch_owner_user_id c = Some u"
    and m: "insert_member m d1 = Inr (y, d2)" "cmb_channel_id m = ch_id c" "cmb_user_id m = u"
      "cmb_role m = RoleOwner"
  shows "membership_ok d2"
proof -
  note keys = insert_channel_keys [OF ok c(1)]
  have d2: "d2 = d1\<lparr>channel_members := channel_members d1 @ [m]\<rparr>"
    and d1: "d1 = d\<lparr>channels := channels d @ [c]\<rparr>"
    using c m by (auto simp: insert_member_ok insert_channel_ok)
  have fresh: "cmb_channel_id m' \<noteq> ch_id c" if "m' \<in> set (channel_members d)" for m'
    using c(1) member_channel [OF ok that] by (auto simp: insert_channel_ok has_channel_iff)
  have "ch_id c \<notin> ch_id ` set (channels d)"
    using c(1) by (simp add: insert_channel_ok has_channel_iff)
  then have other: "ch_id c \<noteq> ch_id c'" if "c' \<in> set (channels d)" for c'
    using that by (metis image_eqI)
  have "owners_ok d2"
    unfolding owners_ok_def
  proof (intro ballI allI)
    fix c' v assume "c' \<in> set (channels d2)"
    then consider "c' = c" | "c' \<in> set (channels d)" by (auto simp: d2 d1)
    then show "(ch_owner_user_id c' = Some v) =
        (\<exists>m \<in> set (channel_members d2). cmb_channel_id m = ch_id c' \<and> cmb_user_id m = v \<and> cmb_role m = RoleOwner)"
      by cases (use ok c(2) m(2,3,4) fresh other in \<open>auto simp: membership_defs d2 d1\<close>)
  qed
  moreover have "member_keys_ok d2"
    using keys(2) m by (auto simp: member_keys_ok_def insert_member_ok is_member_iff has_channel_iff member_key_def)
  ultimately show ?thesis
    using keys by (simp add: membership_defs d2)
qed

lemma create_private_tx_membership:
  fixes E :: "'s env"
  shows "keeps_on db membership_ok (transaction E app_of_sqlx (create_private_tx E actor i name now))"
proof (rule keeps_on_transaction_commit)
  fix w :: "'s world" and x w'
  assume ok: "membership_ok (db w)" and run: "create_private_tx E actor i name now w = (Inr x, w')"
  from run obtain n d1 d2 d3 a where
    c: "insert_private_channel i name (au_id actor) now (db w) = Inr (n, d1)" "n \<noteq> 0"
    and m: "insert_member \<lparr>cmb_channel_id = i, cmb_user_id = au_id actor, cmb_role = RoleOwner,
           cmb_invited_by = Some (au_id actor), cmb_created_at = now\<rparr> d1 = Inr ((), d2)"
    and a: "insert_audit a d2 = Inr ((), d3)" and w': "db w' = d3"
    by (auto simp: create_private_tx_def record_audit_ok ok_simps split: if_splits)
  have "membership_ok d2"
    by (rule new_owned_channel_membership [OF ok insert_private_channel_ok [OF c] _ m])
      (simp_all add: new_channel_def)
  with insert_audit_ok [OF a] w' show "membership_ok (db w')"
    by simp
qed

lemma keeps_on_broadcast_members [keeps_intro]:
  "keeps_on db Q (broadcast_members E ch)" "keeps_on socket S (broadcast_members E ch)"
  unfolding broadcast_members_def by - (intro keeps_intro)+

lemma services_keep_membership [keeps_intro]:
  "keeps_on db membership_ok (create_public_channel E a n)"
  "keeps_on db membership_ok (create_private_conversation E a n)"
  "keeps_on db membership_ok (open_direct E a u)"
  "keeps_on db membership_ok (invite_member E a n u)"
  "keeps_on db membership_ok (remove_member E a n u)"
  "keeps_on db membership_ok (delete_channel_service E a n)"
proof -
  show "keeps_on db membership_ok (create_public_channel E a n)"
    unfolding create_public_channel_def
    by (intro keeps_intro keeps_on_transaction_db) ((erule (1) upsert_channel_membership | simp)+)
  show "keeps_on db membership_ok (create_private_conversation E a n)"
    unfolding create_private_conversation_def
    by (intro keeps_intro create_private_tx_membership) simp
  show "keeps_on db membership_ok (open_direct E a u)"
    unfolding open_direct_def open_direct_tx_def Let_def
    by (intro keeps_intro keeps_on_transaction_db)
      ((erule (1) insert_direct_channel_membership insert_member_or_ignore_membership
         | simp add: direct_member_def)+)
  show "keeps_on db membership_ok (invite_member E a n u)"
    unfolding invite_member_def
    by (intro keeps_intro keeps_on_transaction_db)
      ((erule (1) insert_member_or_ignore_membership | simp add: direct_member_def)+)
  show "keeps_on db membership_ok (remove_member E a n u)"
    unfolding remove_member_def
    by (intro keeps_intro keeps_on_transaction_db) ((erule (1) delete_plain_member_membership | simp)+)
  show "keeps_on db membership_ok (delete_channel_service E a n)"
    unfolding delete_channel_service_def
    by (intro keeps_intro keeps_on_transaction_db) ((erule (1) soft_delete_channel_membership | simp)+)
qed

end
