(* ===== verification/Repository.thy ===== *)
theory Repository
  imports Membership
begin

text \<open>
  \<^verbatim>\<open>backend/src/repository/postgres.rs\<close>: the \<^verbatim>\<open>ChatRepository\<close> over PostgreSQL.  Each method is one
  definition; each SQL statement is a function on the tables.
\<close>

section \<open>Seeding\<close>

definition insert_permission_or_ignore :: "uuid \<Rightarrow> string \<Rightarrow> unit stmt" where
  "insert_permission_or_ignore i name d =
     (if list_ex (\<lambda>p. pe_name p = name) (permissions d) then Inr ((), d)
      else constrained [(\<not> list_ex (\<lambda>p. pe_id p = i) (permissions d), ''permissions_pkey'')]
        ((), d\<lparr>permissions := permissions d @ [\<lparr>pe_id = i, pe_name = name\<rparr>]\<rparr>))"

definition insert_role_or_ignore :: "uuid \<Rightarrow> string \<Rightarrow> i64 \<Rightarrow> unit stmt" where
  "insert_role_or_ignore i name now d =
     (if list_ex (\<lambda>r. ro_name r = name) (roles d) then Inr ((), d)
      else constrained [(\<not> list_ex (\<lambda>r. ro_id r = i) (roles d), ''roles_pkey'')]
        ((), d\<lparr>roles := roles d @ [\<lparr>ro_id = i, ro_name = name, ro_created_at = now\<rparr>]\<rparr>))"

text \<open>
  \<^verbatim>\<open>INSERT INTO role_permissions SELECT r.id, p.id FROM roles r CROSS JOIN permissions p WHERE r.name = ...
  AND p.name ... ON CONFLICT DO NOTHING\<close>
\<close>

definition grant :: "string \<Rightarrow> (string \<Rightarrow> bool) \<Rightarrow> unit stmt" where
  "grant role wanted d =
     (let new = [\<lparr>rpm_role_id = ro_id r, rpm_permission_id = pe_id p\<rparr>.
                   r \<leftarrow> roles d, p \<leftarrow> permissions d, ro_name r = role \<and> wanted (pe_name p)]
      in Inr ((), d\<lparr>role_permissions := fold (\<lambda>rp rps. if rp \<in> set rps then rps else rps @ [rp]) new
                      (role_permissions d)\<rparr>))"

definition seed_authorization :: "'s env \<Rightarrow> ('s, repository_error, unit) io" where
  "seed_authorization E =
     try_bind
       (for_each [''chat:write'', ''chat:moderate'', ''users:read'', ''users:write'', ''roles:write'',
                  ''audit:read'', ''channels:read'', ''channels:write'', ''moderation:read'',
                  ''moderation:write'', ''operations:read'']
          (\<lambda>permission.
             try_bind (uuid_now_v7 E) (\<lambda>id.
             db_exec E Database (insert_permission_or_ignore id permission)))) (\<lambda>_.
     try_bind
       (for_each [''user'', ''moderator'', ''admin'']
          (\<lambda>role.
             try_bind (uuid_now_v7 E) (\<lambda>id.
             try_bind (now_i64 E) (\<lambda>now.
             db_exec E Database (insert_role_or_ignore id role now))))) (\<lambda>_.
     try_bind (db_exec E Database (grant ''user'' (\<lambda>p. p = ''chat:write''))) (\<lambda>_.
     try_bind (db_exec E Database (grant ''moderator'' (\<lambda>p. p \<in> set [''chat:write'', ''chat:moderate'']))) (\<lambda>_.
     try_bind (db_exec E Database (grant ''admin'' (\<lambda>_. True))) (\<lambda>_.
     db_exec E Database
       (grant ''moderator'' (\<lambda>p. p \<in> set [''moderation:read'', ''moderation:write'', ''channels:read''])))))))"

section \<open>Users\<close>

definition email_taken :: "'s env \<Rightarrow> database \<Rightarrow> string \<Rightarrow> bool" where
  "email_taken E d e = list_ex (\<lambda>u. pg_lower E (u_email u) = pg_lower E e) (users d)"

definition username_taken :: "'s env \<Rightarrow> database \<Rightarrow> string \<Rightarrow> bool" where
  "username_taken E d n = list_ex (\<lambda>u. pg_lower E (u_username u) = pg_lower E n) (users d)"

definition insert_user :: "'s env \<Rightarrow> user_row \<Rightarrow> unit stmt" where
  "insert_user E u d =
     constrained
       [(\<not> has_user d (u_id u), ''users_pkey''),
        (\<not> email_taken E d (u_email u), ''users_email_lower_idx''),
        (\<not> username_taken E d (u_username u), ''users_username_lower_idx'')]
       ((), d\<lparr>users := users d @ [u]\<rparr>)"

definition new_user :: "uuid \<Rightarrow> string \<Rightarrow> string \<Rightarrow> string \<Rightarrow> i64 \<Rightarrow> user_row" where
  "new_user i email username hash now =
     \<lparr>u_id = i, u_email = email, u_username = username, u_password_hash = hash, u_disabled_at = None,
      u_role_version = 1, u_created_at = now, u_updated_at = now, u_deleted_at = None,
      u_display_name = '''', u_custom_status = '''', u_status_expires_at = None\<rparr>"

definition has_user_role :: "database \<Rightarrow> uuid \<Rightarrow> uuid \<Rightarrow> bool" where
  "has_user_role d u r = list_ex (\<lambda>x. ur_user_id x = u \<and> ur_role_id x = r) (user_roles d)"

definition insert_user_role :: "user_role_row \<Rightarrow> unit stmt" where
  "insert_user_role x d =
     constrained
       [(\<not> has_user_role d (ur_user_id x) (ur_role_id x), ''user_roles_pkey''),
        (has_user d (ur_user_id x), ''user_roles_user_id_fkey'')]
       ((), d\<lparr>user_roles := user_roles d @ [x]\<rparr>)"

definition role_assignments :: "database \<Rightarrow> uuid \<Rightarrow> string \<Rightarrow> i64 \<Rightarrow> user_role_row list" where
  "role_assignments d u role now =
     [\<lparr>ur_user_id = u, ur_role_id = ro_id r, ur_assigned_at = now\<rparr>. r \<leftarrow> roles d, ro_name r = role]"

text \<open>The same with \<^verbatim>\<open>ON CONFLICT DO NOTHING\<close>.\<close>

definition insert_user_roles_or_ignore :: "uuid \<Rightarrow> string \<Rightarrow> i64 \<Rightarrow> nat stmt" where
  "insert_user_roles_or_ignore u role now d =
     insert_all insert_user_role
       (filter (\<lambda>x. \<not> has_user_role d (ur_user_id x) (ur_role_id x)) (role_assignments d u role now)) d"

definition roles_of :: "database \<Rightarrow> uuid \<Rightarrow> string list" where
  "roles_of d u = [ro_name r. r \<leftarrow> roles d, x \<leftarrow> user_roles d, ur_role_id x = ro_id r \<and> ur_user_id x = u]"

definition permissions_of :: "database \<Rightarrow> uuid \<Rightarrow> string list" where
  "permissions_of d u =
     remdups [pe_name p. p \<leftarrow> permissions d, rp \<leftarrow> role_permissions d, x \<leftarrow> user_roles d,
                rpm_permission_id rp = pe_id p \<and> ur_role_id x = rpm_role_id rp \<and> ur_user_id x = u]"

definition user_from_row :: "database \<Rightarrow> user_row \<Rightarrow> auth_user" where
  "user_from_row d u =
     \<lparr>au_id = u_id u, au_email = u_email u, au_username = u_username u, au_roles = roles_of d (u_id u),
      au_permissions = permissions_of d (u_id u)\<rparr>"

definition system_audit :: "uuid option \<Rightarrow> string \<Rightarrow> uuid \<Rightarrow> json \<Rightarrow> i64 \<Rightarrow> audit_event" where
  "system_audit actor action target meta now =
     \<lparr>ae_actor = actor, ae_action = action, ae_target_type = ''user'', ae_target_id = target,
      ae_metadata = meta, ae_created_at = now\<rparr>"

definition register_user :: "'s env \<Rightarrow> string \<Rightarrow> string \<Rightarrow> string \<Rightarrow> ('s, repository_error, auth_user) io" where
  "register_user E email username hash =
     transaction E Database
       (try_bind (uuid_now_v7 E) (\<lambda>id.
        try_bind (now_i64 E) (\<lambda>now.
        try_bind (db_exec E Database (insert_user E (new_user id (pg_lower E email) username hash now))) (\<lambda>_.
        try_bind (db_exec E Database (\<lambda>d. insert_all insert_user_role (role_assignments d id ''user'' now) d)) (\<lambda>_.
        try_bind (record_audit E Database (system_audit None ''user.registered'' id (JObj []) now)) (\<lambda>_.
        try_bind (db_query E Database (\<lambda>d. map_option (user_from_row d) (find (\<lambda>u. u_id u = id) (users d)))) (\<lambda>row.
        ok_or (Database SqlxRowNotFound) row)))))))"

definition find_user_for_login ::
  "'s env \<Rightarrow> string \<Rightarrow> ('s, repository_error, (auth_user \<times> string \<times> bool) option) io" where
  "find_user_for_login E email =
     db_query E Database (\<lambda>d.
       map_option (\<lambda>u. (user_from_row d u, u_password_hash u, u_disabled_at u \<noteq> None))
         (find (\<lambda>u. pg_lower E (u_email u) = pg_lower E email \<or> pg_lower E (u_username u) = pg_lower E email)
            (users d)))"

definition coalesce :: "'a option \<Rightarrow> 'a \<Rightarrow> 'a option" where
  "coalesce a b = (case a of None \<Rightarrow> Some b | Some _ \<Rightarrow> a)"

definition update_user_disabled :: "bool \<Rightarrow> i64 \<Rightarrow> uuid \<Rightarrow> nat stmt" where
  "update_user_disabled disabled now user d =
     Inr (rows_matching (\<lambda>u. u_id u = user) (users d),
          d\<lparr>users := update_where (\<lambda>u. u_id u = user)
              (\<lambda>u. u\<lparr>u_disabled_at := (if disabled then coalesce (u_disabled_at u) now else None),
                      u_role_version := u_role_version u + 1, u_updated_at := now\<rparr>) (users d)\<rparr>)"

definition set_user_disabled :: "'s env \<Rightarrow> uuid \<Rightarrow> uuid \<Rightarrow> bool \<Rightarrow> ('s, repository_error, unit) io" where
  "set_user_disabled E actor user disabled =
     try_bind (now_i64 E) (\<lambda>now.
     transaction E Database
       (try_bind (db_exec E Database (update_user_disabled disabled now user)) (\<lambda>n.
        if n = 0 then fail NotFound
        else
        try_bind (record_audit E Database
          (system_audit (Some actor) (if disabled then ''user.disabled'' else ''user.enabled'') user (JObj []) now)) (\<lambda>_.
        queue_auth_invalidation E Database user now))))"

definition update_user_name :: "'s env \<Rightarrow> string \<Rightarrow> i64 \<Rightarrow> uuid \<Rightarrow> nat stmt" where
  "update_user_name E username now user d =
     (let p = (\<lambda>u. u_id u = user \<and> u_deleted_at u = None) in
      constrained
        [(\<not> list_ex p (users d) \<or>
          \<not> list_ex (\<lambda>u. u_id u \<noteq> user \<and> pg_lower E (u_username u) = pg_lower E username) (users d),
          ''users_username_lower_idx'')]
        (rows_matching p (users d),
         d\<lparr>users := update_where p
             (\<lambda>u. u\<lparr>u_username := username, u_updated_at := now, u_role_version := u_role_version u + 1\<rparr>)
             (users d)\<rparr>))"

definition update_username :: "'s env \<Rightarrow> uuid \<Rightarrow> string \<Rightarrow> ('s, repository_error, unit) io" where
  "update_username E user username =
     transaction E Database
       (try_bind (now_i64 E) (\<lambda>now.
        try_bind (db_exec E Database (update_user_name E username now user)) (\<lambda>n.
        if n = 0 then fail NotFound
        else record_audit E Database
          (system_audit (Some user) ''user.username_changed'' user (JObj [(''username'', JStr username)]) now))))"

definition bump_role_version :: "i64 \<Rightarrow> uuid \<Rightarrow> unit stmt" where
  "bump_role_version now user d =
     Inr ((), d\<lparr>users := update_where (\<lambda>u. u_id u = user)
       (\<lambda>u. u\<lparr>u_role_version := u_role_version u + 1, u_updated_at := now\<rparr>) (users d)\<rparr>)"

definition assign_role :: "'s env \<Rightarrow> uuid \<Rightarrow> uuid \<Rightarrow> string \<Rightarrow> ('s, repository_error, unit) io" where
  "assign_role E actor user role =
     try_bind (now_i64 E) (\<lambda>now.
     transaction E Database
       (try_bind (db_exec E Database (insert_user_roles_or_ignore user role now)) (\<lambda>n.
        if n = 0 then fail NotFound
        else
        try_bind (db_exec E Database (bump_role_version now user)) (\<lambda>_.
        try_bind (record_audit E Database
          (system_audit (Some actor) ''user.role_assigned'' user (JObj [(''role'', JStr role)]) now)) (\<lambda>_.
        queue_auth_invalidation E Database user now)))))"

end
