(* ===== verification/Messages.thy ===== *)
theory Messages
  imports Repository "HOL-Library.Multiset"
begin

text \<open>
  The channel, message and file half of \<^verbatim>\<open>backend/src/repository/postgres.rs\<close>: listing and creating
  channels, saving, finding, paging, editing and deleting messages, retention, and orphaned files.
\<close>

section \<open>Channels\<close>

definition list_channels :: "'s env \<Rightarrow> uuid \<Rightarrow> ('s, repository_error, string list) io" where
  "list_channels E user_id =
     try_bind (now_i64 E) (\<lambda>now.
     db_query E Database (\<lambda>d.
       map ch_name
         (sort_key (\<lambda>c. (ch_name c \<noteq> ''main'', pg_collate E (ch_name c), ch_name c))
           (filter (\<lambda>c. ch_deleted_at c = None \<and> ch_archived_at c = None \<and> ch_kind c = Public \<and>
                        \<not> banned_from now d user_id (ch_id c)) (channels d)))))"

text \<open>The statement of \<^verbatim>\<open>create_public_channel\<close> again; here only the number of rows counts.\<close>

definition create_channel :: "'s env \<Rightarrow> string \<Rightarrow> ('s, repository_error, bool) io" where
  "create_channel E name =
     try_bind (uuid_now_v7 E) (\<lambda>id.
     try_bind (now_i64 E) (\<lambda>now.
     try_bind (db_exec E Database (upsert_channel id name now)) (\<lambda>row.
     ok (row \<noteq> None))))"

definition ensure_main_channel :: "'s env \<Rightarrow> ('s, repository_error, unit) io" where
  "ensure_main_channel E = try_bind (create_channel E MAIN_CHANNEL) (\<lambda>_. ok ())"

section \<open>Saving\<close>

definition message_to_row :: "chat_message \<Rightarrow> uuid \<Rightarrow> uuid \<Rightarrow> channel_row \<Rightarrow> msg_row" where
  "message_to_row m owner_session owner_user c =
     \<lparr>m_id = cm_id m, m_channel_id = ch_id c, m_username = cm_username m, m_text = cm_text m,
      m_created_at = sint (cm_created_at m), m_edited = cm_edited m, m_owner_session = owner_session,
      m_deleted_at = None, m_deleted_by = None, m_deletion_reason = None,
      m_client_id = cm_client_id m, m_root_message_id = cm_root_message_id m,
      m_owner_user_id = Some owner_user, m_metadata = cm_metadata m, m_mentions = cm_mentions m\<rparr>"

definition message_targets :: "database \<Rightarrow> chat_message \<Rightarrow> channel_row list" where
  "message_targets d m =
     filter (\<lambda>c. case cm_root_message_id m of
                    None \<Rightarrow> True
                  | Some r \<Rightarrow> list_ex (\<lambda>p. m_id p = r \<and> m_channel_id p = ch_id c) (messages d))
       (live_channels d (cm_channel m))"

definition insert_message_row :: "chat_message \<Rightarrow> uuid \<Rightarrow> uuid \<Rightarrow> nat stmt" where
  "insert_message_row m owner_session owner_user d =
     insert_all insert_message (map (message_to_row m owner_session owner_user) (message_targets d m)) d"

definition insert_message_file_or_ignore :: "uuid \<Rightarrow> uuid \<Rightarrow> unit stmt" where
  "insert_message_file_or_ignore mid fid d =
     (if list_ex (\<lambda>f. mf_message_id f = mid \<and> mf_file_id f = fid) (message_files d) then Inr ((), d)
      else constrained
        [(has_message d mid, ''message_files_message_id_fkey''),
         (has_file d fid, ''message_files_file_id_fkey'')]
        ((), d\<lparr>message_files := message_files d @ [\<lparr>mf_message_id = mid, mf_file_id = fid\<rparr>]\<rparr>))"

definition save_message :: "'s env \<Rightarrow> chat_message \<Rightarrow> uuid \<Rightarrow> uuid \<Rightarrow> ('s, repository_error, unit) io" where
  "save_message E m owner_session owner_user =
     transaction E Database
       (try_bind (db_exec E Database (insert_message_row m owner_session owner_user)) (\<lambda>n.
        if n = 0 then fail NotFound
        else
        try_bind
          (for_each (cm_file_ids m) (\<lambda>file_id.
             db_exec E Database (insert_message_file_or_ignore (cm_id m) file_id))) (\<lambda>_.
        ok ())))"

section \<open>Reading\<close>

definition find_message_by_client_id ::
  "'s env \<Rightarrow> uuid \<Rightarrow> string \<Rightarrow> ('s, repository_error, chat_message option) io" where
  "find_message_by_client_id E owner_session client_id =
     try_bind
       (db_query E Database (\<lambda>d.
          map_option (select_message d)
            (find (\<lambda>(m, c). ch_deleted_at c = None \<and> m_owner_session m = owner_session \<and>
                            m_client_id m = Some client_id) (messages_join_channels d)))) (\<lambda>row.
     case row of
       None \<Rightarrow> ok None
     | Some r \<Rightarrow> map_err Database (lift (map_sum id Some (try_from_row r))))"

definition before_cursor :: "(i64 \<times> uuid) option \<Rightarrow> msg_row \<Rightarrow> bool" where
  "before_cursor before m = (case before of None \<Rightarrow> True | Some b \<Rightarrow> (m_created_at m, m_id m) < b)"

definition message_order :: "msg_row \<times> channel_row \<Rightarrow> i64 \<times> uuid" where
  "message_order = (\<lambda>(m, _). (m_created_at m, m_id m))"

definition page_scope ::
  "database \<Rightarrow> string \<Rightarrow> i64 \<Rightarrow> (i64 \<times> uuid) option \<Rightarrow> (msg_row \<times> channel_row) list" where
  "page_scope d channel oldest before =
     filter (\<lambda>(m, c). ch_name c = channel \<and> ch_deleted_at c = None \<and> m_created_at m \<ge> oldest \<and>
                       m_root_message_id m = None \<and> before_cursor before m)
       (messages_join_channels d)"

definition page_rows :: "database \<Rightarrow> string \<Rightarrow> i64 \<Rightarrow> (i64 \<times> uuid) option \<Rightarrow> nat \<Rightarrow> message_row list" where
  "page_rows d channel oldest before limit =
     map (select_message d) (take limit (order_desc message_order (page_scope d channel oldest before)))"

definition load_messages ::
  "'s env \<Rightarrow> string \<Rightarrow> (i64 \<times> uuid) option \<Rightarrow> nat \<Rightarrow> ('s, repository_error, chat_message list) io" where
  "load_messages E channel before limit =
     try_bind (now_i64 E) (\<lambda>now.
     try_bind (db_query E Database (\<lambda>d. page_rows d channel (now - 90 * 24 * 60 * 60 * 1000) before limit)) (\<lambda>rows.
     try_bind (map_err Database (lift (try_from_rows rows))) (\<lambda>ms.
     ok (rev ms))))"

section \<open>Editing and deleting\<close>

definition find_message :: "database \<Rightarrow> uuid \<Rightarrow> string \<Rightarrow> (msg_row \<times> channel_row) option" where
  "find_message d i channel =
     find (\<lambda>(m, c). m_id m = i \<and> ch_name c = channel \<and> ch_deleted_at c = None) (messages_join_channels d)"

definition set_message_text :: "string \<Rightarrow> uuid \<Rightarrow> unit stmt" where
  "set_message_text text i d =
     Inr ((), d\<lparr>messages := update_where (\<lambda>m. m_id m = i) (\<lambda>m. m\<lparr>m_text := text, m_edited := True\<rparr>) (messages d)\<rparr>)"

definition set_message_deleted :: "i64 \<Rightarrow> uuid \<Rightarrow> unit stmt" where
  "set_message_deleted now i d =
     Inr ((), d\<lparr>messages := update_where (\<lambda>m. m_id m = i)
       (\<lambda>m. m\<lparr>m_deleted_at := coalesce (m_deleted_at m) now, m_edited := False\<rparr>) (messages d)\<rparr>)"

text \<open>The message built from the row that was read before the update.\<close>

definition rebuilt_message ::
  "database \<Rightarrow> msg_row \<times> channel_row \<Rightarrow> uuid \<Rightarrow> string \<Rightarrow> bool \<Rightarrow> bool \<Rightarrow> chat_message" where
  "rebuilt_message d = (\<lambda>(m, c) i text edited deleted.
     \<lparr>cm_id = i, cm_channel = ch_name c, cm_username = m_username m, cm_text = text,
      cm_created_at = word_of_int (m_created_at m), cm_edited = edited, cm_deleted = deleted,
      cm_root_message_id = m_root_message_id m, cm_reply_count = word_of_int (reply_count d i),
      cm_metadata = m_metadata m, cm_mentions = m_mentions m, cm_client_id = m_client_id m,
      cm_file_ids = file_ids_of d i\<rparr>)"

definition edit_message ::
  "'s env \<Rightarrow> string \<Rightarrow> uuid \<Rightarrow> uuid \<Rightarrow> string \<Rightarrow> ('s, repository_error, chat_message) io" where
  "edit_message E channel i owner_session text =
     transaction E Database
       (try_bind (db_query E Database (\<lambda>d. (d, find_message d i channel))) (\<lambda>(d, row).
        try_bind (ok_or NotFound row) (\<lambda>(m, c).
        if m_owner_session m \<noteq> owner_session then fail Forbidden
        else
        try_bind (db_exec E Database (set_message_text text i)) (\<lambda>_.
        ok (rebuilt_message d (m, c) i text True False)))))"

definition delete_message ::
  "'s env \<Rightarrow> string \<Rightarrow> uuid \<Rightarrow> uuid \<Rightarrow> bool \<Rightarrow> ('s, repository_error, chat_message) io" where
  "delete_message E channel i owner_session can_moderate =
     transaction E Database
       (try_bind (db_query E Database (\<lambda>d. (d, find_message d i channel))) (\<lambda>(d, row).
        try_bind (ok_or NotFound row) (\<lambda>(m, c).
        if \<not> can_moderate \<and> m_owner_session m \<noteq> owner_session then fail Forbidden
        else
        try_bind (now_i64 E) (\<lambda>now.
        try_bind (db_exec E Database (set_message_deleted now i)) (\<lambda>_.
        ok (rebuilt_message d (m, c) i '''' False True))))))"

section \<open>Retention and orphaned files\<close>

text \<open>
  \<^verbatim>\<open>ON DELETE CASCADE\<close> on \<^verbatim>\<open>root_message_id\<close>: the replies of a deleted message, and theirs.  Every round
  that does not stop adds a message, so as many rounds as there are messages are enough
  (\<open>reply_closure_closed\<close>).
\<close>

definition replies_to :: "msg_row list \<Rightarrow> uuid list \<Rightarrow> uuid list" where
  "replies_to ms ids =
     [m_id m. m \<leftarrow> ms, m_id m \<notin> set ids \<and>
                (case m_root_message_id m of None \<Rightarrow> False | Some r \<Rightarrow> r \<in> set ids)]"

fun reply_closure :: "nat \<Rightarrow> msg_row list \<Rightarrow> uuid list \<Rightarrow> uuid list" where
  "reply_closure 0 ms ids = ids"
| "reply_closure (Suc n) ms ids =
     (let new = replies_to ms ids in if new = [] then ids else reply_closure n ms (ids @ new))"

definition delete_messages :: "uuid list \<Rightarrow> database \<Rightarrow> database" where
  "delete_messages ids d =
     (let gone = reply_closure (length (messages d)) (messages d) ids;
          dead = (\<lambda>i. i \<in> set gone);
          notes = map n_id (filter (\<lambda>n. case n_message_id n of None \<Rightarrow> False | Some i \<Rightarrow> dead i) (notifications d))
      in d\<lparr>messages := filter (\<lambda>m. \<not> dead (m_id m)) (messages d),
           message_files := filter (\<lambda>f. \<not> dead (mf_message_id f)) (message_files d),
           message_reactions := filter (\<lambda>r. \<not> dead (r_message_id r)) (message_reactions d),
           message_edit_history := filter (\<lambda>e. \<not> dead (e_message_id e)) (message_edit_history d),
           saved_messages := filter (\<lambda>s. \<not> dead (sv_message_id s)) (saved_messages d),
           message_reports := filter (\<lambda>r. \<not> dead (rp_message_id r)) (message_reports d),
           notifications := filter (\<lambda>n. n_id n \<notin> set notes) (notifications d),
           notification_deliveries := filter (\<lambda>x. d_notification_id x \<notin> set notes) (notification_deliveries d)\<rparr>)"

definition expired :: "i64 \<Rightarrow> database \<Rightarrow> msg_row \<Rightarrow> bool" where
  "expired now d m =
     list_ex (\<lambda>c. ch_id c = m_channel_id m \<and>
                  m_created_at m < now - max (ch_retention_days c) 1 * 86400000) (channels d)"

definition prune_expired :: "'s env \<Rightarrow> ('s, repository_error, nat) io" where
  "prune_expired E =
     try_bind (now_i64 E) (\<lambda>now.
     db_exec E Database (\<lambda>d.
       let old = filter (expired now d) (messages d)
       in Inr (length old, delete_messages (map m_id old) d)))"

definition orphaned :: "database \<Rightarrow> i64 \<Rightarrow> file_row \<Rightarrow> bool" where
  "orphaned d older_than f =
     ((f_deleted_at f \<noteq> None \<or> f_created_at f < older_than) \<and>
      \<not> list_ex (\<lambda>x. mf_file_id x = f_id f) (message_files d))"

definition claim_orphan_files :: "'s env \<Rightarrow> i64 \<Rightarrow> ('s, repository_error, (uuid \<times> string) list) io" where
  "claim_orphan_files E older_than =
     try_bind (now_i64 E) (\<lambda>now.
     db_exec E Database (\<lambda>d.
       Inr (map (\<lambda>f. (f_id f, f_storage_key f)) (filter (orphaned d older_than) (files d)),
            d\<lparr>files := update_where (orphaned d older_than)
                (\<lambda>f. f\<lparr>f_deleted_at := coalesce (f_deleted_at f) now\<rparr>) (files d)\<rparr>)))"

definition delete_file_metadata :: "'s env \<Rightarrow> uuid \<Rightarrow> ('s, repository_error, unit) io" where
  "delete_file_metadata E i =
     db_exec E Database (\<lambda>d.
       let p = (\<lambda>f. f_id f = i \<and> f_deleted_at f \<noteq> None)
       in Inr ((), d\<lparr>files := filter (\<lambda>f. \<not> p f) (files d),
                     message_files := (if list_ex p (files d)
                                       then filter (\<lambda>x. mf_file_id x \<noteq> i) (message_files d)
                                       else message_files d)\<rparr>))"

section \<open>The message invariant\<close>

text \<open>
  Message ids are unique, replies and attachments refer to existing messages, messages belong to
  existing channels, and a session uses a client id for at most one message.
\<close>

definition client_key :: "msg_row \<Rightarrow> uuid \<times> string option" where
  "client_key m = (m_owner_session m, m_client_id m)"

definition messages_ok :: "database \<Rightarrow> bool" where
  "messages_ok d \<longleftrightarrow>
     distinct (map m_id (messages d)) \<and>
     distinct (map client_key (filter (\<lambda>m. m_client_id m \<noteq> None) (messages d))) \<and>
     (\<forall>m \<in> set (messages d). \<forall>r. m_root_message_id m = Some r \<longrightarrow> r \<in> m_id ` set (messages d)) \<and>
     (\<forall>m \<in> set (messages d). m_channel_id m \<in> ch_id ` set (channels d)) \<and>
     (\<forall>f \<in> set (message_files d). mf_message_id f \<in> m_id ` set (messages d))"

lemma messages_ok_frame [simp]:
  "messages_ok (d\<lparr>audit_events := a\<rparr>) = messages_ok d"
  "messages_ok (d\<lparr>outbox_events := b\<rparr>) = messages_ok d"
  "messages_ok (d\<lparr>channel_members := c\<rparr>) = messages_ok d"
  by (simp_all add: messages_ok_def)

lemma has_message_iff: "has_message d i \<longleftrightarrow> i \<in> m_id ` set (messages d)"
  by (auto simp: has_message_def list_ex_iff)

lemma client_id_taken_iff:
  "client_id_taken d s c \<longleftrightarrow>
     c \<noteq> None \<and> (s, c) \<in> client_key ` set (filter (\<lambda>m. m_client_id m \<noteq> None) (messages d))"
  by (auto simp: client_id_taken_def list_ex_iff client_key_def image_iff)

lemma insert_message_iff:
  "insert_message m d = Inr (x, d') \<longleftrightarrow>
     \<not> has_message d (m_id m) \<and> has_channel d (m_channel_id m) \<and>
     null_or (has_user d) (m_owner_user_id m) \<and> null_or (has_message d) (m_root_message_id m) \<and>
     \<not> client_id_taken d (m_owner_session m) (m_client_id m) \<and>
     d' = d\<lparr>messages := messages d @ [m]\<rparr>"
  by (auto simp: insert_message_def)

lemma insert_message_messages_ok:
  assumes ok: "messages_ok d" and run: "insert_message m d = Inr (x, d')"
  shows "messages_ok d'"
proof -
  have d': "d' = d\<lparr>messages := messages d @ [m]\<rparr>" and new: "m_id m \<notin> m_id ` set (messages d)"
    and ch: "m_channel_id m \<in> ch_id ` set (channels d)"
    and root: "\<And>r. m_root_message_id m = Some r \<Longrightarrow> r \<in> m_id ` set (messages d)"
    and key: "m_client_id m \<noteq> None \<Longrightarrow> client_key m \<notin> client_key ` set (filter (\<lambda>m. m_client_id m \<noteq> None) (messages d))"
    using run unfolding insert_message_iff has_message_iff has_channel_iff client_id_taken_iff
    by (auto simp: null_or_def client_key_def [of m] has_message_iff)
  have "distinct (map m_id (messages d'))"
    using ok new by (simp add: messages_ok_def d')
  moreover have "distinct (map client_key (filter (\<lambda>m. m_client_id m \<noteq> None) (messages d')))"
    using ok key by (simp add: messages_ok_def d')
  moreover have "\<forall>x \<in> set (messages d'). \<forall>r. m_root_message_id x = Some r \<longrightarrow> r \<in> m_id ` set (messages d')"
    using ok root by (fastforce simp: messages_ok_def d')
  ultimately show ?thesis
    using ok ch by (auto simp: messages_ok_def d')
qed

lemma insert_all_messages_messages_ok:
  "messages_ok d \<Longrightarrow> insert_all insert_message ms d = Inr (n, d') \<Longrightarrow> messages_ok d'"
proof (induction ms arbitrary: d n)
  case (Cons m ms)
  then show ?case
    by (auto split: sum.splits prod.splits simp: map_sum_def dest: insert_message_messages_ok)
qed simp

lemma update_messages_ok:
  assumes "messages_ok d"
    and "\<And>m. m_id (f m) = m_id m \<and> client_key (f m) = client_key m \<and> m_client_id (f m) = m_client_id m \<and>
           m_root_message_id (f m) = m_root_message_id m \<and> m_channel_id (f m) = m_channel_id m"
  shows "messages_ok (d\<lparr>messages := update_where p f (messages d)\<rparr>)"
proof -
  let ?ms = "update_where p f (messages d)"
  have ids: "map m_id ?ms = map m_id (messages d)"
    using assms(2) by (auto simp: update_where_def)
  then have set: "m_id ` set ?ms = m_id ` set (messages d)"
    by (metis set_map)
  have keys: "map client_key (filter (\<lambda>m. m_client_id m \<noteq> None) ?ms) =
      map client_key (filter (\<lambda>m. m_client_id m \<noteq> None) (messages d))"
    using assms(2) by (induction "messages d") (auto simp: update_where_def filter_map comp_def)
  have orig: "\<exists>m0 \<in> set (messages d). m_root_message_id m = m_root_message_id m0 \<and> m_channel_id m = m_channel_id m0"
    if "m \<in> set ?ms" for m
    using that assms(2) by (auto simp: update_where_def)
  have "\<forall>m \<in> set ?ms. \<forall>r. m_root_message_id m = Some r \<longrightarrow> r \<in> m_id ` set (messages d)"
    "\<forall>m \<in> set ?ms. m_channel_id m \<in> ch_id ` set (channels d)"
    using orig assms(1) unfolding messages_ok_def by metis+
  with assms(1) show ?thesis
    by (simp add: messages_ok_def ids set keys del: not_None_eq)
qed

lemma insert_message_file_messages_ok:
  "messages_ok d \<Longrightarrow> insert_message_file_or_ignore i f d = Inr (x, d') \<Longrightarrow> messages_ok d'"
  by (auto simp: insert_message_file_or_ignore_def messages_ok_def has_message_iff split: if_splits)

subsection \<open>Retention\<close>

lemma replies_toD:
  "i \<in> set (replies_to ms ids) \<longleftrightarrow> (\<exists>m \<in> set ms. m_id m = i \<and> i \<notin> set ids \<and>
     (\<exists>r. m_root_message_id m = Some r \<and> r \<in> set ids))"
  by (auto simp: replies_to_def split: option.splits)

lemma length_filter_less_general:
  "x \<in> set xs \<Longrightarrow> P x \<Longrightarrow> \<not> Q x \<Longrightarrow> (\<And>y. Q y \<Longrightarrow> P y) \<Longrightarrow> length (filter Q xs) < length (filter P xs)"
proof (induction xs)
  case (Cons y ys)
  have "length (filter Q ys) \<le> length (filter P ys)"
    using Cons.prems(4) by (induction ys) auto
  with Cons show ?case by auto
qed simp

lemma reply_closure_closed:
  assumes "length (filter (\<lambda>m. m_id m \<notin> set ids) ms) \<le> n"
  shows "replies_to ms (reply_closure n ms ids) = []"
  using assms
proof (induction n arbitrary: ids)
  case 0
  then have "\<forall>m \<in> set ms. m_id m \<in> set ids" by (simp add: filter_empty_conv)
  then show ?case by (auto simp: replies_to_def)
next
  case (Suc n)
  show ?case
  proof (cases "replies_to ms ids = []")
    case False
    then obtain i where "i \<in> set (replies_to ms ids)" by (cases "replies_to ms ids") auto
    then obtain m where m: "m \<in> set ms" "m_id m \<notin> set ids" "m_id m \<in> set (replies_to ms ids)"
      by (auto simp: replies_toD)
    have "length (filter (\<lambda>m. m_id m \<notin> set (ids @ replies_to ms ids)) ms) <
        length (filter (\<lambda>m. m_id m \<notin> set ids) ms)"
      using m by (intro length_filter_less_general) auto
    with Suc False show ?thesis by simp
  qed simp
qed

lemma distinct_map_filter_filter:
  "distinct (map k (filter P xs)) \<Longrightarrow> distinct (map k (filter P (filter Q xs)))"
  by (induction xs) auto

lemma delete_messages_messages_ok:
  assumes ok: "messages_ok d"
  shows "messages_ok (delete_messages ids d)"
proof -
  let ?gone = "reply_closure (length (messages d)) (messages d) ids"
  let ?ms = "filter (\<lambda>m. m_id m \<notin> set ?gone) (messages d)"
  have closed: "replies_to (messages d) ?gone = []"
    by (rule reply_closure_closed) simp
  have root: "r \<in> m_id ` set ?ms" if m: "m \<in> set ?ms" "m_root_message_id m = Some r" for m r
  proof -
    have "r \<in> m_id ` set (messages d)" using ok m by (auto simp: messages_ok_def)
    moreover have "r \<notin> set ?gone"
      using m closed replies_toD [of "m_id m" "messages d" ?gone] by auto
    ultimately show ?thesis by auto
  qed
  have "distinct (map m_id ?ms)" "distinct (map client_key (filter (\<lambda>m. m_client_id m \<noteq> None) ?ms))"
    using ok by (auto simp: messages_ok_def distinct_map_filter simp del: not_None_eq filter_filter
        intro: distinct_map_filter_filter)
  with ok root show ?thesis
    by (auto simp: messages_ok_def delete_messages_def Let_def)
qed

subsection \<open>The repository keeps it\<close>

lemma upsert_channel_messages_ok:
  assumes "messages_ok d" "upsert_channel i name now d = Inr (x, d')"
  shows "messages_ok d'"
proof -
  have "messages d' = messages d \<and> message_files d' = message_files d \<and>
      ch_id ` set (channels d) \<subseteq> ch_id ` set (channels d')"
    using assms(2)
    by (auto simp: upsert_channel_def insert_channel_ok map_sum_def update_where_image
        split: option.splits if_splits sum.splits)
  with assms(1) show ?thesis
    by (auto simp: messages_ok_def)
qed

lemma repository_keeps_messages_ok [keeps_intro]:
  "keeps_on db messages_ok (save_message E m s u)"
  "keeps_on db messages_ok (edit_message E ch i s t)"
  "keeps_on db messages_ok (delete_message E ch i s b)"
  "keeps_on db messages_ok (prune_expired E)"
  "keeps_on db messages_ok (create_channel E n)"
proof -
  show "keeps_on db messages_ok (save_message E m s u)"
    unfolding save_message_def insert_message_row_def
    by (intro keeps_intro keeps_on_transaction_db)
      ((erule (1) insert_all_messages_messages_ok insert_message_file_messages_ok | simp)+)
  show "keeps_on db messages_ok (edit_message E ch i s t)"
    unfolding edit_message_def set_message_text_def
    by (intro keeps_intro keeps_on_transaction_db) (auto intro!: update_messages_ok simp: client_key_def)
  show "keeps_on db messages_ok (delete_message E ch i s b)"
    unfolding delete_message_def set_message_deleted_def
    by (intro keeps_intro keeps_on_transaction_db) (auto intro!: update_messages_ok simp: client_key_def)
  show "keeps_on db messages_ok (prune_expired E)"
    unfolding prune_expired_def
    by (intro keeps_intro) (auto simp: Let_def delete_messages_messages_ok)
  show "keeps_on db messages_ok (create_channel E n)"
    unfolding create_channel_def
    by (intro keeps_intro) (erule (1) upsert_channel_messages_ok)
qed

lemma keeps_on_repository_reads [keeps_intro]:
  "keeps_on db Q (list_channels E u)" "keeps_on db Q (find_message_by_client_id E s c)"
  "keeps_on db Q (load_messages E ch b n)" "keeps_on db Q (find_user_for_login E e)"
  "keeps_on socket S (list_channels E u)" "keeps_on socket S (find_message_by_client_id E s c)"
  "keeps_on socket S (load_messages E ch b n)"
  "keeps_on cache R (list_channels E u)" "keeps_on cache R (find_message_by_client_id E s c)"
  "keeps_on cache R (load_messages E ch b n)"
  unfolding list_channels_def find_message_by_client_id_def load_messages_def find_user_for_login_def
  by - (intro keeps_intro)+

section \<open>What the repository promises\<close>

lemma find_unique:
  "x \<in> set xs \<Longrightarrow> P x \<Longrightarrow> (\<And>y. y \<in> set xs \<Longrightarrow> P y \<Longrightarrow> y = x) \<Longrightarrow> find P xs = Some x"
proof (induction xs)
  case (Cons a xs)
  show ?case
  proof (cases "P a")
    case True
    with Cons.prems(3) [of a] show ?thesis by simp
  next
    case False
    with Cons.prems(1,2) have "x \<in> set xs" by auto
    then have "find P xs = Some x"
      by (rule Cons.IH [OF _ Cons.prems(2)]) (rule Cons.prems(3), simp_all)
    with False show ?thesis by simp
  qed
qed simp

lemma in_join:
  "(m, c) \<in> set (messages_join_channels d) \<longleftrightarrow> m \<in> set (messages d) \<and> c \<in> set (channels d) \<and> ch_id c = m_channel_id m"
  by (auto simp: messages_join_channels_def)

lemma distinct_ids_eq:
  "distinct (map k xs) \<Longrightarrow> x \<in> set xs \<Longrightarrow> y \<in> set xs \<Longrightarrow> k x = k y \<Longrightarrow> x = y"
  by (auto simp: distinct_map inj_on_def)

subsection \<open>Saving and finding again\<close>

lemma save_files_db:
  assumes "for_each fs (\<lambda>f. db_exec E Database (insert_message_file_or_ignore i f)) w = (Inr r, w')"
    and "distinct fs" and "\<And>x. x \<in> set (message_files (db w)) \<Longrightarrow> mf_message_id x = i \<Longrightarrow> mf_file_id x \<notin> set fs"
  shows "db w' = (db w)\<lparr>message_files := message_files (db w) @
           map (\<lambda>f. \<lparr>mf_message_id = i, mf_file_id = f\<rparr>) fs\<rparr>"
  using assms
proof (induction fs arbitrary: w r)
  case (Cons f fs)
  from Cons.prems(1) obtain rs d1 where
    f: "insert_message_file_or_ignore i f (db w) = Inr ((), d1)"
    and rest: "for_each fs (\<lambda>f. db_exec E Database (insert_message_file_or_ignore i f)) ((next_tick w)\<lparr>db := d1\<rparr>) =
        (Inr rs, w')"
    by (auto simp: ok_simps)
  have "\<not> list_ex (\<lambda>x. mf_message_id x = i \<and> mf_file_id x = f) (message_files (db w))"
    using Cons.prems(3) by (auto simp: list_ex_iff)
  with f have d1: "d1 = (db w)\<lparr>message_files := message_files (db w) @ [\<lparr>mf_message_id = i, mf_file_id = f\<rparr>]\<rparr>"
    by (simp add: insert_message_file_or_ignore_def)
  have "db w' = d1\<lparr>message_files := message_files d1 @ map (\<lambda>f. \<lparr>mf_message_id = i, mf_file_id = f\<rparr>) fs\<rparr>"
  proof -
    have "mf_file_id x \<notin> set fs" if "x \<in> set (message_files d1)" "mf_message_id x = i" for x
    proof -
      have "x \<in> set (message_files (db w)) \<or> mf_file_id x = f"
        using that(1) by (auto simp: d1)
      with Cons.prems(2,3) that(2) show ?thesis by auto
    qed
    with Cons.IH [OF rest] Cons.prems(2) show ?thesis by simp
  qed
  then show ?case by (simp add: d1)
qed simp

lemma live_channels_unique:
  assumes "channel_keys_ok d"
  shows "live_channels d n = [] \<or> (\<exists>c. live_channels d n = [c])"
proof -
  have "distinct (map ch_name (live_channels d n))"
    using assms by (simp add: live_channels_def channel_keys_ok_def distinct_map_filter)
  moreover have "\<forall>c \<in> set (live_channels d n). ch_name c = n"
    by (simp add: live_channels_def)
  ultimately show ?thesis
    by (cases "live_channels d n" rule: remdups_adj.cases) auto
qed

lemma save_message_db:
  assumes ok: "messages_ok (db w)" "channel_keys_ok (db w)"
    and save: "save_message E m s u w = (Inr (), w')" and files: "distinct (cm_file_ids m)"
  shows "\<exists>c. live_channels (db w) (cm_channel m) = [c] \<and> \<not> has_message (db w) (cm_id m) \<and>
     \<not> client_id_taken (db w) s (cm_client_id m) \<and>
     db w' = (db w)\<lparr>messages := messages (db w) @ [message_to_row m s u c],
       message_files := message_files (db w) @ map (\<lambda>f. \<lparr>mf_message_id = cm_id m, mf_file_id = f\<rparr>) (cm_file_ids m)\<rparr>"
proof -
  from save obtain n d1 w2 r where
    n: "insert_message_row m s u (db w) = Inr (n, d1)" "n \<noteq> 0"
    and fs: "for_each (cm_file_ids m) (\<lambda>f. db_exec E Database (insert_message_file_or_ignore (cm_id m) f))
        ((next_tick (next_tick w))\<lparr>db := d1\<rparr>) = (Inr r, w2)" and w': "db w' = db w2"
    by (auto simp: save_message_def ok_simps split: if_splits)
  from n have len: "message_targets (db w) m \<noteq> []"
    by (auto simp: insert_message_row_def dest: insert_all_messages_ok)
  then obtain c where c: "live_channels (db w) (cm_channel m) = [c]" "message_targets (db w) m = [c]"
    using live_channels_unique [OF ok(2), of "cm_channel m"]
    by (auto simp: message_targets_def split: if_splits option.splits)
  with n(1) have row: "insert_message (message_to_row m s u c) (db w) = Inr ((), d1)"
    by (auto simp: insert_message_row_def split: sum.splits)
  then have fresh: "\<not> has_message (db w) (cm_id m)" "\<not> client_id_taken (db w) s (cm_client_id m)"
    and d1: "d1 = (db w)\<lparr>messages := messages (db w) @ [message_to_row m s u c]\<rparr>"
    by (auto simp: insert_message_iff message_to_row_def)
  have "mf_message_id x \<noteq> cm_id m" if "x \<in> set (message_files (db w))" for x
    using ok(1) fresh(1) that unfolding messages_ok_def has_message_iff by metis
  then have "db w2 = d1\<lparr>message_files := message_files d1 @
      map (\<lambda>f. \<lparr>mf_message_id = cm_id m, mf_file_id = f\<rparr>) (cm_file_ids m)\<rparr>"
    using save_files_db [OF fs files] by (simp add: d1)
  with c(1) fresh w' d1 show ?thesis by auto
qed

lemma save_root_known:
  assumes ok: "messages_ok (db w)" "channel_keys_ok (db w)"
    and save: "save_message E m s u w = (Inr (), w')" and files: "distinct (cm_file_ids m)"
    and root: "cm_root_message_id m = Some r"
  shows "has_message (db w) r"
proof -
  from save obtain n d1 where "insert_message_row m s u (db w) = Inr (n, d1)" "n \<noteq> 0"
    by (auto simp: save_message_def ok_simps split: if_splits)
  then have "message_targets (db w) m \<noteq> []"
    by (auto simp: insert_message_row_def dest: insert_all_messages_ok)
  with root show ?thesis
    by (auto simp: message_targets_def filter_empty_conv has_message_def list_ex_iff)
qed

text \<open>What a saved message looks like to the query: its own row is the only one with the client id.\<close>

lemma saved_row:
  assumes ok: "messages_ok (db w)" "channel_keys_ok (db w)"
    and save: "save_message E m s u w = (Inr (), w1)" and key: "cm_client_id m = Some k"
    and files: "distinct (cm_file_ids m)"
  obtains c where "ch_name c = cm_channel m" "ch_deleted_at c = None" "\<not> has_message (db w) (cm_id m)"
    "db w1 = (db w)\<lparr>messages := messages (db w) @ [message_to_row m s u c],
       message_files := message_files (db w) @ map (\<lambda>f. \<lparr>mf_message_id = cm_id m, mf_file_id = f\<rparr>) (cm_file_ids m)\<rparr>"
    "find (\<lambda>(m, c). ch_deleted_at c = None \<and> m_owner_session m = s \<and> m_client_id m = Some k)
       (messages_join_channels (db w1)) = Some (message_to_row m s u c, c)"
proof -
  from save_message_db [OF ok save files] obtain c where c: "live_channels (db w) (cm_channel m) = [c]"
    and fresh: "\<not> has_message (db w) (cm_id m)" "\<not> client_id_taken (db w) s (cm_client_id m)"
    and d1: "db w1 = (db w)\<lparr>messages := messages (db w) @ [message_to_row m s u c],
       message_files := message_files (db w) @ map (\<lambda>f. \<lparr>mf_message_id = cm_id m, mf_file_id = f\<rparr>) (cm_file_ids m)\<rparr>"
    by blast
  let ?row = "message_to_row m s u c"
  have c_in: "c \<in> set (channels (db w))" "ch_name c = cm_channel m" "ch_deleted_at c = None"
    using c by (auto simp: live_channels_def filter_eq_Cons_iff)
  have "find (\<lambda>(m, c). ch_deleted_at c = None \<and> m_owner_session m = s \<and> m_client_id m = Some k)
      (messages_join_channels (db w1)) = Some (?row, c)"
  proof (rule find_unique)
    show "(?row, c) \<in> set (messages_join_channels (db w1))"
      using c_in by (simp add: in_join d1 message_to_row_def)
    fix y assume y: "y \<in> set (messages_join_channels (db w1))"
      "case y of (m, c) \<Rightarrow> ch_deleted_at c = None \<and> m_owner_session m = s \<and> m_client_id m = Some k"
    obtain m' c' where y': "y = (m', c')" by (cases y)
    have "m' = ?row"
      using y fresh(2) key by (auto simp: y' in_join d1 client_id_taken_def list_ex_iff)
    then show "y = (?row, c)"
      using y c_in ok(2) distinct_ids_eq [of ch_id "channels (db w)" c' c]
      by (auto simp: y' in_join d1 message_to_row_def channel_keys_ok_def)
  qed (simp add: c_in key message_to_row_def)
  with c_in fresh(1) d1 show ?thesis by (intro that)
qed

lemma saved_row_counts:
  assumes ok: "messages_ok d" and fresh: "\<not> has_message d (m_id r)" and root: "m_root_message_id r \<noteq> Some (m_id r)"
    and d1: "d1 = d\<lparr>messages := messages d @ [r],
      message_files := message_files d @ map (\<lambda>f. \<lparr>mf_message_id = m_id r, mf_file_id = f\<rparr>) fs\<rparr>"
  shows "reply_count d1 (m_id r) = 0 \<and> file_ids_of d1 (m_id r) = fs"
proof -
  have "m_root_message_id x \<noteq> Some (m_id r)" if "x \<in> set (messages d)" for x
    using ok fresh that unfolding messages_ok_def has_message_iff by metis
  then have no_replies: "filter (\<lambda>x. m_root_message_id x = Some (m_id r)) (messages d1) = []"
    using root by (auto simp: d1 filter_empty_conv)
  have "mf_message_id x \<noteq> m_id r" if "x \<in> set (message_files d)" for x
    using ok fresh that unfolding messages_ok_def has_message_iff by metis
  then have "filter (\<lambda>f. mf_message_id f = m_id r) (message_files d) = []"
    by (auto simp: filter_empty_conv)
  with no_replies show ?thesis
    by (simp add: reply_count_def rows_matching_def file_ids_of_def d1 filter_map comp_def)
qed

text \<open>
  Sending is idempotent through the client id.  Once a message with a client id is saved, looking
  the client id up for the same session finds that very message, with all its fields, its attachments
  in order, not deleted and without replies; the handler compares a repeated request with this row
  and does not store it twice.
\<close>

theorem save_then_find_by_client_id:
  assumes ok: "messages_ok (db w)" "channel_keys_ok (db w)"
    and save: "save_message E m s u w = (Inr (), w1)"
    and key: "cm_client_id m = Some k"
    and time: "uint (cm_created_at m) < 2 ^ 63"
    and files: "distinct (cm_file_ids m)"
    and later: "db w2 = db w1" "\<not> faults E (tick w2)"
  shows "fst (find_message_by_client_id E s k w2) = Inr (Some (m\<lparr>cm_deleted := False, cm_reply_count := 0\<rparr>))"
proof -
  obtain c where c: "ch_name c = cm_channel m" "ch_deleted_at c = None" "\<not> has_message (db w) (cm_id m)"
    and d1: "db w1 = (db w)\<lparr>messages := messages (db w) @ [message_to_row m s u c],
       message_files := message_files (db w) @ map (\<lambda>f. \<lparr>mf_message_id = cm_id m, mf_file_id = f\<rparr>) (cm_file_ids m)\<rparr>"
    and found: "find (\<lambda>(m, c). ch_deleted_at c = None \<and> m_owner_session m = s \<and> m_client_id m = Some k)
       (messages_join_channels (db w1)) = Some (message_to_row m s u c, c)"
    by (rule saved_row [OF ok save key files])
  have "cm_root_message_id m \<noteq> Some (cm_id m)"
    using save_root_known [OF ok save files] c(3) by metis
  then have "reply_count (db w1) (cm_id m) = 0 \<and> file_ids_of (db w1) (cm_id m) = cm_file_ids m"
    using saved_row_counts [OF ok(1), of "message_to_row m s u c"] c(3) by (simp add: message_to_row_def d1)
  then have "select_message (db w1) (message_to_row m s u c, c) =
      \<lparr>mr_id = cm_id m, mr_channel = cm_channel m, mr_username = cm_username m, mr_text = cm_text m,
       mr_created_at = sint (cm_created_at m), mr_edited = cm_edited m, mr_deleted = False,
       mr_root_message_id = cm_root_message_id m, mr_reply_count = 0, mr_metadata = cm_metadata m,
       mr_mentions = cm_mentions m, mr_client_id = cm_client_id m, mr_file_ids = cm_file_ids m\<rparr>"
    by (simp add: select_message_def message_to_row_def c)
  moreover have "sint (cm_created_at m) = uint (cm_created_at m)"
    using time by (rule sint_small)
  ultimately have "try_from_row (select_message (db w1) (message_to_row m s u c, c)) =
      Inr (m\<lparr>cm_deleted := False, cm_reply_count := 0\<rparr>)"
    using time by (simp add: try_from_row_ok)
  with found later show ?thesis
    by (simp add: find_message_by_client_id_def db_query_def map_err_run try_bind_def external_def)
qed

definition demo_chat_message :: chat_message where
  "demo_chat_message =
     \<lparr>cm_id = 60, cm_channel = ''main'', cm_username = ''ada'', cm_text = ''hi'', cm_created_at = 950,
      cm_edited = False, cm_deleted = False, cm_root_message_id = None, cm_reply_count = 0,
      cm_metadata = JObj [], cm_mentions = [], cm_client_id = Some ''c2'', cm_file_ids = []\<rparr>"

lemma demo_db_ok: "messages_ok demo_db" "channel_keys_ok demo_db"
  by (simp_all add: messages_ok_def channel_keys_ok_def demo_db_def demo_main_def demo_team_def
      demo_message_def new_channel_def empty_db_def client_key_def)

theorem save_then_find_by_client_id_witness:
  "fst (find_message_by_client_id demo_env 100 ''c2''
      (snd (save_message demo_env demo_chat_message 100 1 demo_chat))) =
     Inr (Some (demo_chat_message\<lparr>cm_deleted := False, cm_reply_count := 0\<rparr>))"
proof (rule save_then_find_by_client_id)
  show "save_message demo_env demo_chat_message 100 1 demo_chat =
      (Inr (), snd (save_message demo_env demo_chat_message 100 1 demo_chat))"
    by (rule run_fst) code_simp
qed (simp_all add: demo_chat_def demo_chat_message_def demo_db_ok)

subsection \<open>Paging\<close>

lemma take_order_desc:
  assumes "inj_on k (set xs)"
  shows "rev (take n (order_desc k xs)) = drop (length xs - n) (sort_key k xs)"
proof -
  have "sort_key k (rev xs) = sort_key k xs"
    by (rule sort_key_inj_key_eq) (use assms in auto)
  then show ?thesis
    by (simp add: order_desc_def take_rev)
qed

lemma message_order_inj:
  assumes "messages_ok d" "channel_keys_ok d"
  shows "inj_on message_order (set (messages_join_channels d))"
proof (rule inj_onI, clarify)
  fix m c m' c'
  assume "(m, c) \<in> set (messages_join_channels d)" "(m', c') \<in> set (messages_join_channels d)"
    and "message_order (m, c) = message_order (m', c')"
  then show "m = m' \<and> c = c'"
    using assms distinct_ids_eq [of m_id "messages d" m m'] distinct_ids_eq [of ch_id "channels d" c c']
    by (auto simp: in_join message_order_def messages_ok_def channel_keys_ok_def)
qed

lemma try_from_rows_keys:
  "try_from_rows rs = Inr ms \<Longrightarrow>
     map (\<lambda>m. (uint (cm_created_at m), cm_id m)) ms = map (\<lambda>r. (mr_created_at r, mr_id r)) rs"
  unfolding try_from_rows_ok
  by (induction rule: list_all2_induct)
    (auto simp: try_from_row_ok uint_word_of_int_eq take_bit_int_eq_self)

lemma load_messages_scope:
  assumes ok: "messages_ok (db w)" "channel_keys_ok (db w)"
    and run: "load_messages E channel before limit w = (Inr ms, w')"
    and scope: "scope = page_scope (db w) channel (sint (clock E (tick w)) - 90 * 24 * 60 * 60 * 1000) before"
  shows "map (\<lambda>m. (uint (cm_created_at m), cm_id m)) ms =
      map message_order (drop (length scope - limit) (sort_key message_order scope))"
proof -
  from run obtain ns where ns: "try_from_rows (map (select_message (db w))
      (take limit (order_desc message_order scope))) = Inr ns" "ms = rev ns"
    by (auto simp: load_messages_def page_rows_def ok_simps scope)
  have sel: "(mr_created_at (select_message d x), mr_id (select_message d x)) = message_order x" for d x
    by (cases x) (simp add: select_message_def message_order_def)
  have "set scope \<subseteq> set (messages_join_channels (db w))"
    by (auto simp: page_scope_def scope)
  then have inj: "inj_on message_order (set scope)"
    by (rule inj_on_subset [OF message_order_inj [OF ok]])
  have "map (\<lambda>m. (uint (cm_created_at m), cm_id m)) ms =
      rev (map message_order (take limit (order_desc message_order scope)))"
    using try_from_rows_keys [OF ns(1)] by (simp add: ns(2) rev_map [symmetric] comp_def sel)
  also have "\<dots> = map message_order (drop (length scope - limit) (sort_key message_order scope))"
    using take_order_desc [OF inj, of limit] by (simp add: rev_map)
  finally show ?thesis .
qed

lemma sorted_drop_scope: "sorted (map message_order (drop n (sort_key message_order scope)))"
  unfolding drop_map [symmetric] by (simp add: sorted_wrt_drop)

text \<open>
  A page of history is the newest part of what the cursor leaves.  The messages of a page are, in
  increasing order of time and id, the last \<open>limit\<close> root messages of the channel that are at most 90
  days old and lie strictly before the cursor: none is skipped, none is repeated, and there are
  never more than \<open>limit\<close>.
\<close>

theorem load_messages_newest:
  assumes ok: "messages_ok (db w)" "channel_keys_ok (db w)"
    and run: "load_messages E channel before limit w = (Inr ms, w')"
  shows "let scope = page_scope (db w) channel (sint (clock E (tick w)) - 90 * 24 * 60 * 60 * 1000) before;
           key = (\<lambda>m. (uint (cm_created_at m), cm_id m))
         in map key ms = map message_order (drop (length scope - limit) (sort_key message_order scope)) \<and>
            sorted (map key ms) \<and> length ms = min limit (length scope)"
proof -
  note eq = load_messages_scope [OF ok run refl]
  have "length ms = min limit (length (page_scope (db w) channel
      (sint (clock E (tick w)) - 90 * 24 * 60 * 60 * 1000) before))"
    using arg_cong [OF eq, of length] by simp
  then show ?thesis
    using eq by (simp add: Let_def sorted_drop_scope)
qed

theorem load_messages_newest_witness:
  "let scope = page_scope (db demo_chat) ''main'' (sint (clock demo_env (tick demo_chat)) - 90 * 24 * 60 * 60 * 1000) None;
       key = (\<lambda>m. (uint (cm_created_at m), cm_id m));
       ms = projr (fst (load_messages demo_env ''main'' None 51 demo_chat))
   in map key ms = map message_order (drop (length scope - 51) (sort_key message_order scope)) \<and>
      sorted (map key ms) \<and> length ms = min 51 (length scope)"
proof -
  have run: "load_messages demo_env ''main'' None 51 demo_chat =
      (Inr (projr (fst (load_messages demo_env ''main'' None 51 demo_chat))),
       snd (load_messages demo_env ''main'' None 51 demo_chat))"
    by (rule run_fst) code_simp
  have ok: "messages_ok (db demo_chat)" "channel_keys_ok (db demo_chat)"
    by (simp_all add: demo_chat_def demo_db_ok)
  show ?thesis
    unfolding Let_def by (rule load_messages_newest [OF ok run, unfolded Let_def])
qed

subsection \<open>Editing and deleting\<close>

lemma find_message_Some:
  "find_message d i channel = Some (m, c) \<Longrightarrow>
     m \<in> set (messages d) \<and> c \<in> set (channels d) \<and> ch_id c = m_channel_id m \<and> m_id m = i \<and>
     ch_name c = channel \<and> ch_deleted_at c = None"
  by (auto simp: find_message_def find_Some_iff in_join dest: nth_mem)

lemma delete_message_ok:
  assumes "delete_message E channel i owner_session can_moderate w = (Inr msg, w')"
  shows "\<exists>m c now. find_message (db w) i channel = Some (m, c) \<and>
    (can_moderate \<or> m_owner_session m = owner_session) \<and>
    msg = rebuilt_message (db w) (m, c) i '''' False True \<and>
    messages (db w') = update_where (\<lambda>m. m_id m = i)
      (\<lambda>m. m\<lparr>m_deleted_at := coalesce (m_deleted_at m) now, m_edited := False\<rparr>) (messages (db w))"
  using assms
  by (auto simp: delete_message_def set_message_deleted_def ok_simps split: if_splits)

lemma edit_message_ok:
  assumes "edit_message E channel i owner_session text w = (Inr msg, w')"
  shows "\<exists>m c. find_message (db w) i channel = Some (m, c) \<and> m_owner_session m = owner_session \<and>
    msg = rebuilt_message (db w) (m, c) i text True False \<and>
    db w' = (db w)\<lparr>messages := update_where (\<lambda>m. m_id m = i)
      (\<lambda>m. m\<lparr>m_text := text, m_edited := True\<rparr>) (messages (db w))\<rparr>"
  using assms
  by (auto simp: edit_message_def set_message_text_def ok_simps split: if_splits)

text \<open>
  Only the session that wrote a message edits it.  An edit that succeeds found the message in the
  named live channel under the caller's own session, and changed in the whole database only its text
  and its edited flag; an edit that fails, for whatever reason, changed nothing.
\<close>

theorem edit_message_only_by_author:
  assumes "edit_message E channel i owner_session text w = (r, w')"
  shows "case r of
     Inl e \<Rightarrow> db w' = db w
   | Inr msg \<Rightarrow> (\<exists>m c. find_message (db w) i channel = Some (m, c) \<and> m_owner_session m = owner_session \<and>
        cm_id msg = i \<and> cm_text msg = text \<and>
        db w' = (db w)\<lparr>messages := update_where (\<lambda>m. m_id m = i)
          (\<lambda>m. m\<lparr>m_text := text, m_edited := True\<rparr>) (messages (db w))\<rparr>)"
proof (cases r)
  case (Inl e)
  with assms show ?thesis
    by (simp add: edit_message_def transaction_err_db)
next
  case (Inr msg)
  with assms edit_message_ok [of E channel i owner_session "text" w msg w'] show ?thesis
    by (auto simp: rebuilt_message_def)
qed

theorem edit_message_only_by_author_witness:
  "\<exists>m c. find_message (db demo_chat) 50 ''main'' = Some (m, c) \<and> m_owner_session m = 100 \<and>
     db (snd (edit_message demo_env ''main'' 50 100 ''new'' demo_chat)) =
       (db demo_chat)\<lparr>messages := update_where (\<lambda>m. m_id m = 50)
          (\<lambda>m. m\<lparr>m_text := ''new'', m_edited := True\<rparr>) (messages (db demo_chat))\<rparr>"
proof -
  have "fst (edit_message demo_env ''main'' 50 100 ''new'' demo_chat) =
      Inr (projr (fst (edit_message demo_env ''main'' 50 100 ''new'' demo_chat)))"
    by code_simp
  from edit_message_only_by_author [OF run_fst [OF this]] show ?thesis by auto
qed

text \<open>
  A deleted message does not come back.  After a successful delete the row is marked deleted and
  every later query of it answers an empty text with the deleted flag; only the author's session or a
  moderator can do it, and a refused delete changes nothing.
\<close>

theorem delete_message_hides_text:
  assumes "delete_message E channel i owner_session can_moderate w = (r, w')"
  shows "case r of
     Inl e \<Rightarrow> db w' = db w
   | Inr msg \<Rightarrow> (\<exists>m c. find_message (db w) i channel = Some (m, c) \<and>
        (can_moderate \<or> m_owner_session m = owner_session) \<and> cm_deleted msg \<and> cm_text msg = '''' \<and>
        (\<forall>x \<in> set (messages (db w')). m_id x = i \<longrightarrow>
           (\<forall>d y. mr_deleted (select_message d (x, y)) \<and> mr_text (select_message d (x, y)) = '''')))"
proof (cases r)
  case (Inl e)
  with assms show ?thesis
    by (simp add: delete_message_def transaction_err_db)
next
  case (Inr msg)
  with assms delete_message_ok [of E channel i owner_session can_moderate w msg w'] obtain m c now where
    m: "find_message (db w) i channel = Some (m, c)" "can_moderate \<or> m_owner_session m = owner_session"
      "msg = rebuilt_message (db w) (m, c) i '''' False True"
      "messages (db w') = update_where (\<lambda>m. m_id m = i)
         (\<lambda>m. m\<lparr>m_deleted_at := coalesce (m_deleted_at m) now, m_edited := False\<rparr>) (messages (db w))"
    by auto
  have "m_deleted_at x \<noteq> None" if "x \<in> set (messages (db w'))" "m_id x = i" for x
  proof -
    from that(1) obtain x0 where "x = (if m_id x0 = i then
        x0\<lparr>m_deleted_at := coalesce (m_deleted_at x0) now, m_edited := False\<rparr> else x0)"
      unfolding m(4) in_update_where by blast
    with that(2) show ?thesis by (simp add: coalesce_def split: if_splits option.splits)
  qed
  with m(1-3) Inr show ?thesis
    by (fastforce simp: rebuilt_message_def select_message_def)
qed

theorem delete_message_hides_text_witness:
  "\<exists>m c. find_message (db demo_chat) 50 ''main'' = Some (m, c) \<and> m_owner_session m = 100"
proof -
  have "fst (delete_message demo_env ''main'' 50 100 False demo_chat) =
      Inr (projr (fst (delete_message demo_env ''main'' 50 100 False demo_chat)))"
    by code_simp
  from delete_message_hides_text [OF run_fst [OF this]] show ?thesis by auto
qed

text \<open>
  C40 (a defect): \<^verbatim>\<open>edit_message\<close> does not look at \<^verbatim>\<open>deleted_at\<close>.  When the author edits a message that was
  deleted before, the call succeeds and answers the new text with the deleted flag off, and this is
  what the handler caches and broadcasts, while the database row stays deleted and every query
  answers an empty text.
\<close>

theorem edit_revives_deleted_message:
  assumes "edit_message E channel i owner_session text w = (Inr msg, w')"
    and "find_message (db w) i channel = Some (m, c)" and "m_deleted_at m \<noteq> None"
    and "messages_ok (db w)"
  shows "\<not> cm_deleted msg \<and> cm_text msg = text \<and>
     (\<forall>x \<in> set (messages (db w')). m_id x = i \<longrightarrow>
        (\<forall>y. mr_deleted (select_message (db w') (x, y)) \<and> mr_text (select_message (db w') (x, y)) = ''''))"
proof -
  have m: "m \<in> set (messages (db w))" "m_id m = i"
    using find_message_Some [OF assms(2)] by auto
  have only: "x = m" if "x \<in> set (messages (db w))" "m_id x = i" for x
    using assms(4) m that distinct_ids_eq [of m_id "messages (db w)" x m] by (simp add: messages_ok_def)
  from edit_message_ok [OF assms(1)] assms(2) have
    msg: "msg = rebuilt_message (db w) (m, c) i text True False"
    and db: "messages (db w') = update_where (\<lambda>m. m_id m = i)
      (\<lambda>m. m\<lparr>m_text := text, m_edited := True\<rparr>) (messages (db w))"
    by auto
  have "m_deleted_at x \<noteq> None" if "x \<in> set (messages (db w'))" "m_id x = i" for x
  proof -
    from that(1) obtain x0 where "x0 \<in> set (messages (db w))"
      "x = (if m_id x0 = i then x0\<lparr>m_text := text, m_edited := True\<rparr> else x0)"
      unfolding db in_update_where by blast
    with that(2) only [of x0] assms(3) show ?thesis by (simp split: if_splits)
  qed
  with msg show ?thesis
    by (fastforce simp: rebuilt_message_def select_message_def)
qed

theorem edit_revives_deleted_message_witness:
  "let w = snd (delete_message demo_env ''main'' 50 100 False demo_chat);
       r = edit_message demo_env ''main'' 50 100 ''back'' w
   in \<not> cm_deleted (projr (fst r)) \<and> cm_text (projr (fst r)) = ''back''"
proof -
  let ?w = "snd (delete_message demo_env ''main'' 50 100 False demo_chat)"
  have e: "fst (edit_message demo_env ''main'' 50 100 ''back'' ?w) =
      Inr (projr (fst (edit_message demo_env ''main'' 50 100 ''back'' ?w)))"
    by code_simp
  have f: "find_message (db ?w) 50 ''main'' =
      Some (demo_message\<lparr>m_deleted_at := Some 1002, m_edited := False\<rparr>, demo_main)"
    by code_simp
  have "messages_ok (db ?w)"
    using keeps_onD [OF repository_keeps_messages_ok(3), of demo_chat, OF _ prod.collapse [symmetric]] demo_db_ok
    by (simp add: demo_chat_def)
  from edit_revives_deleted_message [OF run_fst [OF e] f _ this] show ?thesis
    by (simp add: Let_def)
qed

end
