(* ===== verification/History.thy ===== *)
theory History
  imports Messages
begin

text \<open>
  \<^verbatim>\<open>backend/src/websocket/history.rs\<close>: the hot history in Valkey (a hash of encoded messages and a
  sorted set of their ids by time), the pages sent to a client, threads and reactions.
\<close>

section \<open>Threads and reactions\<close>

definition thread_rows ::
  "database \<Rightarrow> string \<Rightarrow> uuid \<Rightarrow> (i64 \<times> uuid) option \<Rightarrow> nat \<Rightarrow> message_row list" where
  "thread_rows d channel root before limit =
     map (select_message d)
       (take limit
         (order_desc message_order
           (filter (\<lambda>(m, c). ch_name c = channel \<and> ch_deleted_at c = None \<and>
                             m_root_message_id m = Some root \<and> before_cursor before m)
             (messages_join_channels d))))"

definition load_thread ::
  "'s env \<Rightarrow> string \<Rightarrow> uuid \<Rightarrow> (u64 \<times> uuid) option \<Rightarrow> nat \<Rightarrow> ('s, chat_message list) app" where
  "load_thread E channel root_message_id before limit =
     try_bind (db_query E app_of_sqlx (\<lambda>d.
       thread_rows d channel root_message_id (map_option (\<lambda>(t, i). (sint t, i)) before) limit)) (\<lambda>rows.
     try_bind (map_err app_of_sqlx (lift (try_from_rows rows))) (\<lambda>ms.
     ok (rev ms)))"

definition normalize_emoji :: "string \<Rightarrow> app_error + string" where
  "normalize_emoji raw =
     (let emoji = trim raw in
      if emoji = [] \<or> length emoji > 64 \<or> list_ex is_control (chars emoji)
      then Inl (bad_request (''emoji must be 1'' @ en_dash @ ''64 printable characters''))
      else Inr emoji)"

definition broadcast_reaction :: "'s env \<Rightarrow> string \<Rightarrow> uuid \<Rightarrow> string \<Rightarrow> ('s, unit) app" where
  "broadcast_reaction E channel message_id emoji =
     try_bind (db_query E app_of_sqlx (\<lambda>d.
       sort (map r_user_id
         (filter (\<lambda>r. r_message_id r = message_id \<and> r_emoji r = emoji) (message_reactions d))))) (\<lambda>user_ids.
     broadcast E channel (ReactionUpdated channel
       \<lparr>rs_message_id = message_id, rs_emoji = emoji, rs_user_ids = user_ids\<rparr>))"

section \<open>The hot history\<close>

definition history_key :: "string \<Rightarrow> string" where
  "history_key channel = ''chat:history:'' @ channel @ '':messages''"

definition history_order_key :: "string \<Rightarrow> string" where
  "history_order_key channel = ''chat:history:'' @ channel @ '':order''"

text \<open>\<^verbatim>\<open>payloads.into_iter().flatten().filter_map(decode).map(into_message)\<close>\<close>

definition decode_payloads :: "'s env \<Rightarrow> string option list \<Rightarrow> chat_message list" where
  "decode_payloads E payloads =
     map (into_message (codec E))
       (List.map_filter (\<lambda>p. Option.bind p (bitcode_decode (codec E))) payloads)"

definition load_hot_history :: "'s env \<Rightarrow> string \<Rightarrow> ('s, chat_message list) app" where
  "load_hot_history E channel =
     try_bind (connection E) (\<lambda>_.
     try_bind (vk_read E (zrange (vk E) (history_order_key channel) (- int HOT_HISTORY_LIMIT) (- 1))) (\<lambda>ids.
     if ids = [] then ok []
     else
     try_bind (vk_read E (hmget (vk E) (history_key channel) ids)) (\<lambda>payloads.
     ok (decode_payloads E payloads))))"

text \<open>\<^verbatim>\<open>(message.created_at as isize, message.id) < (created_at, id)\<close>\<close>

definition before_history_cursor :: "chat_message \<Rightarrow> int \<Rightarrow> uuid \<Rightarrow> bool" where
  "before_history_cursor m created_at i = ((sint (cm_created_at m), cm_id m) < (created_at, i))"

definition time_order :: "chat_message \<Rightarrow> u64 \<times> uuid" where
  "time_order m = (cm_created_at m, cm_id m)"

definition keep_last :: "nat \<Rightarrow> 'a list \<Rightarrow> 'a list" where
  "keep_last n xs = (if length xs > n then drop (length xs - n) xs else xs)"

definition load_hot_history_before :: "'s env \<Rightarrow> string \<Rightarrow> (int \<times> uuid) option \<Rightarrow> ('s, chat_message list) app" where
  "load_hot_history_before E channel before =
     (case before of
        None \<Rightarrow> load_hot_history E channel
      | Some (created_at, i) \<Rightarrow>
          try_bind (connection E) (\<lambda>_.
          try_bind (vk_read E (zrevrangebyscore (vk E) (history_order_key channel) created_at HOT_HISTORY_LIMIT)) (\<lambda>ids.
          if ids = [] then ok []
          else
          try_bind (vk_read E (hmget (vk E) (history_key channel) ids)) (\<lambda>payloads.
          ok (keep_last HISTORY_PAGE_SIZE
                (sort_key time_order
                  (filter (\<lambda>m. before_history_cursor m created_at i) (decode_payloads E payloads))))))))"

text \<open>The commands that put one message into the hash and the sorted set.\<close>

definition put_hot :: "'s env \<Rightarrow> string \<Rightarrow> chat_message \<Rightarrow> uuid \<Rightarrow> 's \<Rightarrow> 's" where
  "put_hot E channel m owner s =
     zadd (vk E) (history_order_key channel) (cm_created_at m) (uuid_str E (cm_id m))
       (hset (vk E) (history_key channel)
          [(uuid_str E (cm_id m), bitcode_encode (codec E) (from_message (codec E) m owner))] s)"

definition hydrate_hot_history :: "'s env \<Rightarrow> string \<Rightarrow> chat_message list \<Rightarrow> ('s, unit) app" where
  "hydrate_hot_history E channel ms =
     (if ms = [] then ok ()
      else
      try_bind (connection E) (\<lambda>_.
      vk_write E (fold (\<lambda>m. put_hot E channel m 0) ms)))"

definition store_message :: "'s env \<Rightarrow> chat_message \<Rightarrow> uuid \<Rightarrow> ('s, unit) app" where
  "store_message E m owner_session =
     try_bind (connection E) (\<lambda>_.
     try_bind (vk_write E (put_hot E (cm_channel m) m owner_session)) (\<lambda>_.
     try_bind (vk_read E (zrange (vk E) (history_order_key (cm_channel m)) 0 (- int (HOT_HISTORY_LIMIT + 1)))) (\<lambda>old_ids.
     if old_ids = [] then ok ()
     else
     try_bind (vk_write E (zrem (vk E) (history_order_key (cm_channel m)) old_ids)) (\<lambda>_.
     vk_write E (hdel (vk E) (history_key (cm_channel m)) old_ids)))))"

definition update_hot_message :: "'s env \<Rightarrow> chat_message \<Rightarrow> ('s, unit) app" where
  "update_hot_message E m = store_message E m 0"

section \<open>Pages\<close>

text \<open>Sorting and cutting, after the messages were loaded.\<close>

definition cut_page :: "bool \<Rightarrow> chat_message list \<Rightarrow> chat_message list" where
  "cut_page has_cursor ms =
     (let sorted_ms = sort_key time_order ms in
      if \<not> has_cursor \<and> length sorted_ms > HISTORY_PAGE_SIZE
      then drop (length sorted_ms - HISTORY_PAGE_SIZE) sorted_ms
      else if has_cursor \<and> length sorted_ms > HISTORY_PAGE_SIZE
      then take HISTORY_PAGE_SIZE sorted_ms
      else sorted_ms)"

definition send_history_page :: "'s env \<Rightarrow> string \<Rightarrow> (u64 \<times> uuid) option \<Rightarrow> ('s, unit) app" where
  "send_history_page E channel before =
     (let cursor = map_option (\<lambda>(t, i). (sint t, i)) before;
          cache_limit = (if before = None then HOT_HISTORY_LIMIT else HISTORY_PAGE_SIZE) in
      try_bind (load_hot_history_before E channel cursor) (\<lambda>hot.
      try_bind
        (if length hot < cache_limit
         then
         try_bind (map_err app_of_repository (load_messages E channel cursor (cache_limit + 1))) (\<lambda>database_messages.
         try_bind
           (when_do (before = None)
              (hydrate_hot_history E channel
                 (drop (length database_messages - HOT_HISTORY_LIMIT) database_messages))) (\<lambda>_.
         ok (database_messages, FromDatabase, length database_messages > cache_limit)))
         else ok (hot, Cache, length hot \<ge> cache_limit)) (\<lambda>(ms, source, has_more).
      send_event E
        (if before \<noteq> None then HistoryPage channel (cut_page True ms) source has_more
         else History channel (cut_page False ms) source has_more))))"

definition send_joined_with_history :: "'s env \<Rightarrow> string \<Rightarrow> ('s, unit) app" where
  "send_joined_with_history E channel =
     try_bind (send_event E (Joined channel)) (\<lambda>_. send_history_page E channel None)"

section \<open>Frames\<close>

lemma history_keeps [keeps_intro]:
  "keeps_on db Q (load_thread E ch root b n)"
  "keeps_on db Q (broadcast_reaction E ch i emoji)"
  "keeps_on db Q (load_hot_history E ch)"
  "keeps_on db Q (load_hot_history_before E ch before)"
  "keeps_on db Q (hydrate_hot_history E ch ms)"
  "keeps_on db Q (store_message E m o1)"
  "keeps_on db Q (update_hot_message E m)"
  unfolding load_thread_def broadcast_reaction_def load_hot_history_def load_hot_history_before_def
    hydrate_hot_history_def store_message_def update_hot_message_def
  by - (intro keeps_intro)+

lemma history_page_keeps [keeps_intro]:
  "keeps_on db Q (send_history_page E ch before)"
  "keeps_on db Q (send_joined_with_history E ch)"
  unfolding send_history_page_def send_joined_with_history_def
  by - (intro keeps_intro)+

lemma load_hot_history_frame [keeps_intro]:
  "keeps_on cache R (load_hot_history E ch)"
  "keeps_on socket S (load_hot_history E ch)"
  "keeps_on cache R (load_hot_history_before E ch before)"
  "keeps_on socket S (load_hot_history_before E ch before)"
  "keeps_on socket S (hydrate_hot_history E ch ms)"
  unfolding load_hot_history_def load_hot_history_before_def hydrate_hot_history_def
  by - (intro keeps_intro)+

section \<open>The hot history holds the newest messages\<close>

lemma zrange_evicted:
  "ks_zrange k 0 (- int (n + 1)) s = map snd (take (length (ks_zset s k) - n) (ks_zset s k))"
  by (auto simp: ks_zrange_def range_index_def Let_def take_map nat_diff_distrib' intro!: arg_cong2 [where f = take])

lemma zrange_newest:
  "0 < n \<Longrightarrow> ks_zrange k (- int n) (- 1) s = map snd (keep_last n (ks_zset s k))"
  by (auto simp: ks_zrange_def range_index_def Let_def keep_last_def drop_map nat_diff_distrib')

lemma filter_not_taken:
  "distinct (map snd z) \<Longrightarrow> filter (\<lambda>(_, x). x \<notin> snd ` set (take j z)) z = drop j z"
proof -
  let ?P = "\<lambda>(_, x). x \<notin> snd ` set (take j z)"
  assume "distinct (map snd z)"
  then have "distinct (map snd (take j z) @ map snd (drop j z))"
    by (simp flip: map_append)
  then have "filter ?P (drop j z) = drop j z" "filter ?P (take j z) = []"
    by (force simp: filter_id_conv filter_empty_conv)+
  then show ?thesis
    using filter_append [of ?P "take j z" "drop j z"] by simp
qed

lemma map_of_filter_kept: "P x \<Longrightarrow> map_of (filter (\<lambda>(f, v). P f) kvs) x = map_of kvs x"
  by (induction kvs) auto

lemma keep_last_alt: "keep_last n xs = drop (length xs - n) xs"
  by (simp add: keep_last_def)

lemma length_keep_last: "length (keep_last n xs) = min n (length xs)"
  by (simp add: keep_last_alt)

text \<open>The order of a channel's hot history after one more message, before the old ones are evicted.\<close>

definition order_with :: "(int \<times> string) list \<Rightarrow> int \<Rightarrow> string \<Rightarrow> (int \<times> string) list" where
  "order_with z sc i = insort (sc, i) (filter (\<lambda>(_, x). x \<noteq> i) z)"

lemma put_hot_abs:
  assumes V: "valkey (vk E) \<alpha>" and small: "uint (cm_created_at m) < 2 ^ 53"
  shows "\<alpha> (put_hot E ch m o1 s) =
     ks_zadd (history_order_key ch) (uint (cm_created_at m)) (uuid_str E (cm_id m))
       (ks_hset (history_key ch)
         [(uuid_str E (cm_id m), bitcode_encode (codec E) (from_message (codec E) m o1))] (\<alpha> s))"
  by (simp add: put_hot_def valkey.zadd_abs [OF V small] valkey.hset_abs [OF V])

lemma put_hot_parts:
  assumes V: "valkey (vk E) \<alpha>" and small: "uint (cm_created_at m) < 2 ^ 53"
  shows "ks_zset (\<alpha> (put_hot E ch m o1 s)) (history_order_key ch) =
      order_with (ks_zset (\<alpha> s) (history_order_key ch)) (uint (cm_created_at m)) (uuid_str E (cm_id m))"
    and "map_of (ks_hash (\<alpha> (put_hot E ch m o1 s)) (history_key ch)) =
      (map_of (ks_hash (\<alpha> s) (history_key ch)))
        (uuid_str E (cm_id m) \<mapsto> bitcode_encode (codec E) (from_message (codec E) m o1))"
  by (simp_all add: put_hot_abs [OF assms] ks_zadd_def ks_hset_def order_with_def update_conv')

lemma put_hot_ok:
  "valkey (vk E) \<alpha> \<Longrightarrow> uint (cm_created_at m) < 2 ^ 53 \<Longrightarrow> ks_ok (\<alpha> s) \<Longrightarrow> ks_ok (\<alpha> (put_hot E ch m o1 s))"
  by (simp add: put_hot_abs ks_ok_zadd ks_ok_hset)

lemma ks_okD: "ks_ok s \<Longrightarrow> sorted (ks_zset s k) \<and> distinct (map snd (ks_zset s k))"
  by (simp add: ks_ok_def)

text \<open>What a successful \<^verbatim>\<open>store_message\<close> leaves in the cache.\<close>

lemma store_message_abs:
  assumes V: "valkey (vk E) \<alpha>" and small: "uint (cm_created_at m) < 2 ^ 53" and ok: "ks_ok (\<alpha> (cache w))"
    and run: "store_message E m o1 w = (Inr (), w')"
    and z: "z = order_with (ks_zset (\<alpha> (cache w)) (history_order_key (cm_channel m)))
                  (uint (cm_created_at m)) (uuid_str E (cm_id m))"
  shows "ks_zset (\<alpha> (cache w')) (history_order_key (cm_channel m)) = keep_last HOT_HISTORY_LIMIT z"
    and "x \<in> snd ` set (keep_last HOT_HISTORY_LIMIT z) \<Longrightarrow>
      map_of (ks_hash (\<alpha> (cache w')) (history_key (cm_channel m))) x =
      ((map_of (ks_hash (\<alpha> (cache w)) (history_key (cm_channel m))))
        (uuid_str E (cm_id m) \<mapsto> bitcode_encode (codec E) (from_message (codec E) m o1))) x"
    and "ks_ok (\<alpha> (cache w'))"
proof -
  let ?s = "put_hot E (cm_channel m) m o1 (cache w)"
  let ?old = "map snd (take (length z - HOT_HISTORY_LIMIT) z)"
  note parts = put_hot_parts [OF V small, of "cm_channel m" o1 "cache w", folded z]
  have ok': "ks_ok (\<alpha> ?s)"
    using V small ok by (rule put_hot_ok)
  then have dist: "distinct (map snd z)"
    using ks_okD parts(1) by metis
  have old: "zrange (vk E) (history_order_key (cm_channel m)) 0 (- int (HOT_HISTORY_LIMIT + 1)) ?s = ?old"
    by (simp only: valkey.zrange_abs [OF V] zrange_evicted parts)
  have w': "\<alpha> (cache w') = (if ?old = [] then \<alpha> ?s
      else ks_hdel (history_key (cm_channel m)) ?old (ks_zrem (history_order_key (cm_channel m)) ?old (\<alpha> ?s)))"
    using run old
    by (auto simp: store_message_def ok_simps valkey.hdel_abs [OF V] valkey.zrem_abs [OF V]
        simp del: take_eq_Nil split: if_splits)
  show "ks_zset (\<alpha> (cache w')) (history_order_key (cm_channel m)) = keep_last HOT_HISTORY_LIMIT z"
    by (auto simp: w' parts keep_last_alt ks_hdel_def ks_zrem_def filter_not_taken [OF dist])
  show "ks_ok (\<alpha> (cache w'))"
    by (simp add: w' ok' ks_ok_hdel ks_ok_zrem)
  assume x: "x \<in> snd ` set (keep_last HOT_HISTORY_LIMIT z)"
  have "distinct (?old @ map snd (keep_last HOT_HISTORY_LIMIT z))"
    using dist by (simp add: keep_last_alt flip: map_append)
  with x have "x \<notin> set ?old"
    by auto
  then show "map_of (ks_hash (\<alpha> (cache w')) (history_key (cm_channel m))) x =
      ((map_of (ks_hash (\<alpha> (cache w)) (history_key (cm_channel m))))
        (uuid_str E (cm_id m) \<mapsto> bitcode_encode (codec E) (from_message (codec E) m o1))) x"
    by (auto simp: w' parts(2) [symmetric] ks_hdel_def ks_zrem_def simp del: set_map
        intro: map_of_filter_kept [where P = "\<lambda>f. f \<notin> set ?old"])
qed

text \<open>
  The hot history of a channel is the newest \<open>HOT_HISTORY_LIMIT\<close> messages.  After a message was
  stored, the sorted set is the last 300 entries of the old set with the message added at its place
  (moved there, if it was already cached), so never more than 300; an id that stays in the set keeps its
  payload in the hash, and the stored message has its own encoding there.
\<close>

theorem store_message_newest:
  assumes V: "valkey (vk E) \<alpha>" and small: "uint (cm_created_at m) < 2 ^ 53" and ok: "ks_ok (\<alpha> (cache w))"
    and run: "store_message E m o1 w = (Inr (), w')"
  shows "let old = ks_zset (\<alpha> (cache w)) (history_order_key (cm_channel m));
             new = ks_zset (\<alpha> (cache w')) (history_order_key (cm_channel m));
             payload = (\<lambda>w. map_of (ks_hash (\<alpha> (cache w)) (history_key (cm_channel m))));
             i = uuid_str E (cm_id m)
         in new = keep_last HOT_HISTORY_LIMIT (order_with old (uint (cm_created_at m)) i) \<and>
            length new \<le> HOT_HISTORY_LIMIT \<and>
            (\<forall>x \<in> snd ` set new. payload w' x =
               (if x = i then Some (bitcode_encode (codec E) (from_message (codec E) m o1)) else payload w x))"
  using store_message_abs(1,2) [OF V small ok run refl] by (simp add: Let_def length_keep_last)

lemma last_keep_last: "xs \<noteq> [] \<Longrightarrow> 0 < n \<Longrightarrow> keep_last n xs \<noteq> [] \<and> last (keep_last n xs) = last xs"
  by (cases "length xs") (auto simp: keep_last_alt)

lemma insort_newest: "(\<And>y. y \<in> set xs \<Longrightarrow> y < x) \<Longrightarrow> insort x xs = xs @ [x]"
  by (induction xs) fastforce+

lemma order_with_newest:
  assumes "\<And>sc' x. (sc', x) \<in> set z \<Longrightarrow> (sc', x) \<le> (sc, i)"
  shows "order_with z sc i = filter (\<lambda>(_, x). x \<noteq> i) z @ [(sc, i)]"
  unfolding order_with_def
proof (rule insort_newest)
  fix y assume y: "y \<in> set (filter (\<lambda>(_, x). x \<noteq> i) z)"
  obtain sc' x where yx: "y = (sc', x)" by (cases y)
  with y have "(sc', x) \<le> (sc, i)" "(sc', x) \<noteq> (sc, i)"
    using assms [of sc' x] by simp_all
  then show "y < (sc, i)" unfolding yx by (rule order_le_neq_trans)
qed

lemma decode_payloads_snoc:
  assumes "bitcode_decode (codec E) p = Some s"
  shows "decode_payloads E (ps @ [Some p]) = decode_payloads E ps @ [into_message (codec E) s]"
  using assms by (simp add: decode_payloads_def map_filter_def)

lemma length_decode_payloads: "length (decode_payloads E ps) \<le> length ps"
  by (simp add: decode_payloads_def map_filter_def)

lemma HOT_HISTORY_LIMIT_pos [simp]: "0 < HOT_HISTORY_LIMIT"
  by (simp add: HOT_HISTORY_LIMIT_def)

lemma load_hot_history_abs:
  assumes V: "valkey (vk E) \<alpha>" and run: "load_hot_history E ch w = (Inr ms, w')"
  shows "ms = decode_payloads E (map (map_of (ks_hash (\<alpha> (cache w)) (history_key ch)))
     (map snd (keep_last HOT_HISTORY_LIMIT (ks_zset (\<alpha> (cache w)) (history_order_key ch)))))"
  using run
  by (auto simp: load_hot_history_def ok_simps valkey.zrange_abs [OF V] valkey.hmget_abs [OF V] zrange_newest
      ks_hmget_def decode_payloads_def map_filter_def split: if_splits)

text \<open>
  C34: a message that was just stored is the last one of the hot history that the next reader loads.  The
  message is no older than what is cached; encoding and decoding by the serializers is faithful on it.
\<close>

theorem store_then_load_hot:
  assumes V: "valkey (vk E) \<alpha>" and small: "uint (cm_created_at m) < 2 ^ 53" and ok: "ks_ok (\<alpha> (cache w))"
    and newest: "\<And>sc x. (sc, x) \<in> set (ks_zset (\<alpha> (cache w)) (history_order_key (cm_channel m))) \<Longrightarrow>
        (sc, x) \<le> (uint (cm_created_at m), uuid_str E (cm_id m))"
    and codec: "bitcode_decode (codec E) (bitcode_encode (codec E) (from_message (codec E) m o1)) =
        Some (from_message (codec E) m o1)"
    and print: "json_print (codec E) (cm_metadata m) = Some j"
    and parse: "json_parse (codec E) j = Some (cm_metadata m)"
    and store: "store_message E m o1 w = (Inr (), w1)"
    and load: "load_hot_history E (cm_channel m) w1 = (Inr ms, w2)"
  shows "ms \<noteq> [] \<and> last ms = m \<and> length ms \<le> HOT_HISTORY_LIMIT"
proof -
  let ?i = "uuid_str E (cm_id m)"
  let ?z = "filter (\<lambda>(_, x). x \<noteq> ?i) (ks_zset (\<alpha> (cache w)) (history_order_key (cm_channel m)))"
  let ?new = "keep_last HOT_HISTORY_LIMIT (?z @ [(uint (cm_created_at m), ?i)])"
  have z: "?z @ [(uint (cm_created_at m), ?i)] =
      order_with (ks_zset (\<alpha> (cache w)) (history_order_key (cm_channel m))) (uint (cm_created_at m)) ?i"
    using newest by (intro order_with_newest [symmetric])
  note stored = store_message_abs [OF V small ok store z]
  obtain xs where xs: "?new = xs @ [(uint (cm_created_at m), ?i)]"
    using last_keep_last [of "?z @ [(uint (cm_created_at m), ?i)]" HOT_HISTORY_LIMIT]
    by (metis HOT_HISTORY_LIMIT_pos append_butlast_last_id last_snoc snoc_eq_iff_butlast)
  have len: "length ?new \<le> HOT_HISTORY_LIMIT"
    by (simp add: length_keep_last)
  then have keep: "keep_last HOT_HISTORY_LIMIT ?new = ?new"
    by (simp add: keep_last_alt)
  note ms = load_hot_history_abs [OF V load, unfolded stored(1) keep]
  have "map_of (ks_hash (\<alpha> (cache w1)) (history_key (cm_channel m))) ?i =
      Some (bitcode_encode (codec E) (from_message (codec E) m o1))"
    using stored(2) [of ?i] by (simp add: xs)
  then have "ms = decode_payloads E (map (map_of (ks_hash (\<alpha> (cache w1)) (history_key (cm_channel m))))
      (map snd xs)) @ [m]"
    using decode_payloads_snoc [OF codec, unfolded into_from_message [OF print parse]] by (simp add: ms xs)
  moreover have "length ms \<le> HOT_HISTORY_LIMIT"
    unfolding ms by (rule order_trans [OF length_decode_payloads]) (simp only: length_map len)
  ultimately show ?thesis by simp
qed

section \<open>Pages\<close>

lemma cut_page_keeps_last: "cut_page False ms = keep_last HISTORY_PAGE_SIZE (sort_key time_order ms)"
  by (simp add: cut_page_def keep_last_def Let_def)

lemma cut_page_keeps_first: "cut_page True ms = take HISTORY_PAGE_SIZE (sort_key time_order ms)"
  by (simp add: cut_page_def Let_def)

lemma time_order_le:
  "time_order a \<le> time_order b \<longleftrightarrow> (uint (cm_created_at a), cm_id a) \<le> (uint (cm_created_at b), cm_id b)"
  by (auto simp: time_order_def word_le_def word_less_def)

lemma sorted_by_time:
  assumes "sorted (map (\<lambda>m. (uint (cm_created_at m), cm_id m)) ms)"
  shows "sort_key time_order ms = ms"
proof (rule sort_key_id_if_sorted)
  show "sorted (map time_order ms)"
    using assms unfolding sorted_map by (simp only: time_order_le)
qed

lemma send_event_ok:
  "send_event E ev w = (Inr (), w') \<Longrightarrow>
     \<exists>payload. event_print (codec E) ev = Some payload \<and> socket w' = socket w @ [payload]"
  by (auto simp: send_event_def ok_simps)

lemma load_hot_leaves:
  assumes "load_hot_history_before E ch c w = (r, w')"
  shows "db w' = db w" "socket w' = socket w"
  using keeps_on_leaves [of db "load_hot_history_before E ch c", OF _ assms]
    keeps_on_leaves [of socket "load_hot_history_before E ch c", OF _ assms]
  by (simp_all add: history_keeps load_hot_history_frame)

lemma hydrate_leaves_socket:
  assumes "when_do b (hydrate_hot_history E ch ms) w = (r, w')"
  shows "socket w' = socket w"
  using keeps_on_leaves [of socket "when_do b (hydrate_hot_history E ch ms)", OF _ assms]
  by (simp add: load_hot_history_frame keeps_on_effects)

text \<open>The database branch of \<^verbatim>\<open>send_history_page\<close>, taken when the cache holds too few messages.\<close>

lemma history_page_from_database:
  assumes hot: "load_hot_history_before E ch (map_option (\<lambda>(t, i). (sint t, i)) before) w = (Inr hot, w1)"
    and limit: "limit = (if before = None then HOT_HISTORY_LIMIT else HISTORY_PAGE_SIZE)"
    and few: "length hot < limit"
    and run: "send_history_page E ch before w = (Inr (), w')"
  shows "\<exists>ms w2 payload.
     load_messages E ch (map_option (\<lambda>(t, i). (sint t, i)) before) (limit + 1) w1 = (Inr ms, w2) \<and>
     event_print (codec E)
       (if before \<noteq> None then HistoryPage ch (cut_page True ms) FromDatabase (limit < length ms)
        else History ch (cut_page False ms) FromDatabase (limit < length ms)) = Some payload \<and>
     socket w' = socket w @ [payload]"
proof -
  let ?cur = "map_option (\<lambda>(t, i). (sint t, i)) before"
  let ?hydrate = "\<lambda>ms. when_do (before = None) (hydrate_hot_history E ch (drop (length ms - HOT_HISTORY_LIMIT) ms))"
  let ?ev = "\<lambda>ms. if before \<noteq> None then HistoryPage ch (cut_page True ms) FromDatabase (limit < length ms)
      else History ch (cut_page False ms) FromDatabase (limit < length ms)"
  from run obtain ms w2 w3 where
    load: "load_messages E ch ?cur (limit + 1) w1 = (Inr ms, w2)"
    and hydrate: "?hydrate ms w2 = (Inr (), w3)" and send: "send_event E (?ev ms) w3 = (Inr (), w')"
    using few
    by (auto simp: send_history_page_def Let_def limit [symmetric] try_bind_okD hot map_err_okD)
  have "socket w1 = socket w"
    by (rule load_hot_leaves [OF hot])
  moreover have "socket w2 = socket w1"
    using load by (auto simp: load_messages_def ok_simps)
  moreover have "socket w3 = socket w2"
    by (rule hydrate_leaves_socket [OF hydrate])
  ultimately show ?thesis
    using send_event_ok [OF send] load by auto
qed


lemma distinct_pairs:
  "distinct ms \<Longrightarrow> distinct cs \<Longrightarrow> distinct [(m, c). m \<leftarrow> ms, c \<leftarrow> cs, P m c]"
proof (induction ms)
  case (Cons m ms)
  have row: "[(m, c). c \<leftarrow> cs, P m c] = map (Pair m) (filter (P m) cs)"
    by (induction cs) auto
  have "distinct (map (Pair m) (filter (P m) cs))"
    using Cons.prems by (simp add: distinct_map inj_on_def)
  with Cons show ?case
    unfolding list.map concat.simps row by auto
qed simp

lemma distinct_join:
  assumes "messages_ok d" "channel_keys_ok d"
  shows "distinct (map message_order (messages_join_channels d))"
proof -
  have "distinct (messages d)" "distinct (channels d)"
    using assms by (auto simp: messages_ok_def channel_keys_ok_def distinct_map)
  then have "distinct (messages_join_channels d)"
    unfolding messages_join_channels_def by (rule distinct_pairs)
  then show ?thesis
    using message_order_inj [OF assms] by (simp add: distinct_map)
qed

lemma distinct_scope:
  assumes "messages_ok d" "channel_keys_ok d"
  shows "distinct (map message_order (page_scope d ch oldest before))"
  unfolding page_scope_def by (rule distinct_map_filter [OF distinct_join [OF assms]])

lemma last_not_in_butlast: "distinct xs \<Longrightarrow> xs \<noteq> [] \<Longrightarrow> last xs \<notin> set (butlast xs)"
  by (metis append_butlast_last_id distinct_butlast not_distinct_conv_prefix)

text \<open>
  A page before a cursor that is read from the database skips a message.  When more than 50 messages
  lie before the cursor, 51 are loaded, and the 51st, which was only asked for to learn whether there
  are more, is not the one dropped: the page is cut at its newest end, so the message right before the
  cursor is missing from it, and the next page starts before the oldest message of this one.
\<close>

theorem cursor_page_skips_newest:
  assumes ok: "messages_ok (db w)" "channel_keys_ok (db w)"
    and hot: "load_hot_history_before E ch (Some (sint t, i)) w = (Inr hot, w1)"
    and few: "length hot < HISTORY_PAGE_SIZE"
    and run: "send_history_page E ch (Some (t, i)) w = (Inr (), w')"
    and scope: "scope = page_scope (db w) ch (sint (clock E (tick w1)) - 90 * 24 * 60 * 60 * 1000) (Some (sint t, i))"
    and many: "HISTORY_PAGE_SIZE < length scope"
  shows "\<exists>page payload.
     event_print (codec E) (HistoryPage ch page FromDatabase True) = Some payload \<and>
     socket w' = socket w @ [payload] \<and>
     map (\<lambda>m. (uint (cm_created_at m), cm_id m)) page =
       map message_order (butlast (keep_last (HISTORY_PAGE_SIZE + 1) (sort_key message_order scope))) \<and>
     message_order (last (sort_key message_order scope)) \<notin> set (map (\<lambda>m. (uint (cm_created_at m), cm_id m)) page)"
proof -
  let ?key = "\<lambda>m. (uint (cm_created_at m), cm_id m)"
  let ?old = "keep_last (HISTORY_PAGE_SIZE + 1) (sort_key message_order scope)"
  have hot': "load_hot_history_before E ch (map_option (\<lambda>(t, i). (sint t, i)) (Some (t, i))) w = (Inr hot, w1)"
    using hot by simp
  obtain ms w2 payload where
    load: "load_messages E ch (Some (sint t, i)) (HISTORY_PAGE_SIZE + 1) w1 = (Inr ms, w2)"
    and payload: "event_print (codec E) (HistoryPage ch (cut_page True ms) FromDatabase (HISTORY_PAGE_SIZE < length ms)) = Some payload"
      "socket w' = socket w @ [payload]"
    using history_page_from_database [OF hot' refl _ run] few by auto
  have keys: "map ?key ms = map message_order ?old"
    using load_messages_scope [OF _ _ load, unfolded load_hot_leaves [OF hot'], OF ok scope]
    by (simp add: keep_last_alt)
  have sorted: "sort_key time_order ms = ms"
    by (rule sorted_by_time) (simp only: keys keep_last_alt sorted_drop_scope)
  have len: "length ms = HISTORY_PAGE_SIZE + 1"
    using arg_cong [OF keys, of length] many by (simp add: length_keep_last)
  have page: "map ?key (cut_page True ms) = map message_order (butlast ?old)"
    using len many by (simp add: cut_page_keeps_first sorted keys butlast_conv_take length_keep_last min_def
        flip: take_map map_butlast)
  have ne: "scope \<noteq> []" and dist: "distinct (map message_order (sort_key message_order scope))"
    using many distinct_scope [OF ok] by (auto simp: scope distinct_map)
  have "?old \<noteq> []" "last ?old = last (sort_key message_order scope)"
    using last_keep_last [of "sort_key message_order scope" "HISTORY_PAGE_SIZE + 1"] ne
    by (metis add_gr_0 length_0_conv length_sort zero_less_one)+
  moreover have "distinct (map message_order ?old)"
    using dist by (simp add: keep_last_alt flip: drop_map)
  ultimately have "message_order (last (sort_key message_order scope)) \<notin> set (map ?key (cut_page True ms))"
    using last_not_in_butlast [of "map message_order ?old"] unfolding page
    by (simp add: last_map flip: map_butlast)
  with page payload len show ?thesis
    by (intro exI [of _ "cut_page True ms"] exI [of _ payload]) simp
qed

section \<open>Concrete runs\<close>

definition demo_hot :: chat_message where
  "demo_hot = into_message demo_codecs demo_stored"

theorem store_message_newest_witness:
  "let w' = snd (store_message demo_env demo_hot 0 demo_chat);
       new = ks_zset (cache w') (history_order_key (cm_channel demo_hot))
   in new = keep_last HOT_HISTORY_LIMIT (order_with (ks_zset (cache demo_chat)
              (history_order_key (cm_channel demo_hot))) (uint (cm_created_at demo_hot)) (uuid_str demo_env (cm_id demo_hot))) \<and>
      length new \<le> HOT_HISTORY_LIMIT"
proof -
  have run: "store_message demo_env demo_hot 0 demo_chat = (Inr (), snd (store_message demo_env demo_hot 0 demo_chat))"
    by (rule run_fst) code_simp
  have "uint (cm_created_at demo_hot) < 2 ^ 53" by code_simp
  moreover have "ks_ok (cache demo_chat)" by (simp add: demo_chat_def)
  ultimately show ?thesis
    using store_message_newest [OF demo_valkey _ _ run] unfolding Let_def by blast
qed

theorem store_then_load_hot_witness:
  "let w1 = snd (store_message demo_env demo_hot 0 demo_chat);
       ms = projr (fst (load_hot_history demo_env ''main'' w1))
   in ms \<noteq> [] \<and> last ms = demo_hot \<and> length ms \<le> HOT_HISTORY_LIMIT"
proof -
  let ?w1 = "snd (store_message demo_env demo_hot 0 demo_chat)"
  have ch: "cm_channel demo_hot = ''main''" by code_simp
  have store: "store_message demo_env demo_hot 0 demo_chat = (Inr (), ?w1)"
    by (rule run_fst) code_simp
  have load: "load_hot_history demo_env (cm_channel demo_hot) ?w1 =
      (Inr (projr (fst (load_hot_history demo_env (cm_channel demo_hot) ?w1))),
       snd (load_hot_history demo_env (cm_channel demo_hot) ?w1))"
    by (rule run_fst) code_simp
  have small: "uint (cm_created_at demo_hot) < 2 ^ 53" by code_simp
  have codec: "bitcode_decode (codec demo_env) (bitcode_encode (codec demo_env) (from_message (codec demo_env) demo_hot 0)) =
      Some (from_message (codec demo_env) demo_hot 0)"
    by code_simp
  have json: "json_print (codec demo_env) (cm_metadata demo_hot) = Some ''{}''"
      "json_parse (codec demo_env) ''{}'' = Some (cm_metadata demo_hot)"
    by code_simp+
  have "ks_ok (cache demo_chat)" by (simp add: demo_chat_def)
  moreover have "ks_zset (cache demo_chat) k = []" for k
    by (simp add: demo_chat_def ks_empty_def)
  ultimately show ?thesis
    using store_then_load_hot [OF demo_valkey small _ _ codec json store load] by (simp add: ch Let_def)
qed


text \<open>A channel main with 51 messages.\<close>

definition demo_busy_message :: "nat \<Rightarrow> msg_row" where
  "demo_busy_message k = demo_message\<lparr>m_id := of_nat k, m_created_at := int k, m_client_id := None\<rparr>"

definition demo_busy :: "keyspace world" where
  "demo_busy = \<lparr>db = demo_db\<lparr>messages := map demo_busy_message [0..<51]\<rparr>, cache = ks_empty, socket = [], room_log = [], tick = 0\<rparr>"

lemma demo_busy_ok: "messages_ok (db demo_busy)" "channel_keys_ok (db demo_busy)"
proof -
  have "inj_on (of_nat :: nat \<Rightarrow> uuid) {0..<51}"
    by (rule inj_on_inverseI [where g = unat]) (simp add: of_nat_inverse)
  then have "distinct (map (\<lambda>k. of_nat k :: uuid) [0..<51])"
    by (simp add: distinct_map)
  then show "messages_ok (db demo_busy)"
    by (auto simp: messages_ok_def demo_busy_def demo_busy_message_def demo_db_def demo_message_def comp_def
        filter_map demo_main_def new_channel_def empty_db_def simp del: upt_rec_numeral)
  show "channel_keys_ok (db demo_busy)"
    using demo_db_ok by (simp add: channel_keys_ok_def demo_busy_def)
qed

theorem cursor_page_skips_newest_witness:
  "\<exists>page payload.
     event_print (codec demo_env) (HistoryPage ''main'' page FromDatabase True) = Some payload \<and>
     socket (snd (send_history_page demo_env ''main'' (Some (500, 0)) demo_busy)) = [payload] \<and>
     length page = 50 \<and> (50, 50) \<notin> set (map (\<lambda>m. (uint (cm_created_at m), cm_id m)) page)"
proof -
  let ?h = "load_hot_history_before demo_env ''main'' (Some (sint (500 :: u64), 0)) demo_busy"
  define scope where "scope = page_scope (db demo_busy) ''main''
    (sint (clock demo_env (tick (snd ?h))) - 90 * 24 * 60 * 60 * 1000) (Some (sint (500 :: u64), 0))"
  have hot: "?h = (Inr [], snd ?h)"
    by (rule run_fst) code_simp
  have run: "send_history_page demo_env ''main'' (Some (500, 0)) demo_busy =
      (Inr (), snd (send_history_page demo_env ''main'' (Some (500, 0)) demo_busy))"
    by (rule run_fst) code_simp
  have sc: "length scope = 51" "message_order (last (sort_key message_order scope)) = (50, 50)"
    unfolding scope_def by code_simp+
  have sock: "socket demo_busy = []" by (simp add: demo_busy_def)
  have few: "length ([] :: chat_message list) < HISTORY_PAGE_SIZE" and many: "HISTORY_PAGE_SIZE < length scope"
    by (simp_all add: sc HISTORY_PAGE_SIZE_def)
  obtain page payload where
    "event_print (codec demo_env) (HistoryPage ''main'' page FromDatabase True) = Some payload"
    "socket (snd (send_history_page demo_env ''main'' (Some (500, 0)) demo_busy)) = [payload]"
    "(50, 50) \<notin> set (map (\<lambda>m. (uint (cm_created_at m), cm_id m)) page)"
    and map: "map (\<lambda>m. (uint (cm_created_at m), cm_id m)) page =
       map message_order (butlast (keep_last (HISTORY_PAGE_SIZE + 1) (sort_key message_order scope)))"
    using cursor_page_skips_newest [OF demo_busy_ok hot few run scope_def many, unfolded sc sock append_Nil]
    by blast
  moreover have "length page = 50"
    using arg_cong [OF map, of length] sc by (simp add: length_keep_last HISTORY_PAGE_SIZE_def)
  ultimately show ?thesis by blast
qed

end
