(* ===== verification/Presence.thy ===== *)
theory Presence
  imports History
begin

text \<open>
  \<^verbatim>\<open>backend/src/websocket/presence.rs\<close>: who is in a room.  A room has a set of user ids and, per user, a
  value that expires; an id whose value is gone or unreadable is stale and is dropped from the set by
  the next reader.
\<close>

section \<open>Operations\<close>

definition presence_set_key :: "string \<Rightarrow> string" where
  "presence_set_key channel = ''chat:presence:'' @ channel @ '':users''"

definition presence_key :: "'s env \<Rightarrow> string \<Rightarrow> uuid \<Rightarrow> string" where
  "presence_key E channel user_id = ''chat:presence:'' @ channel @ '':'' @ uuid_str E user_id"

definition refresh_presence :: "'s env \<Rightarrow> string \<Rightarrow> participant \<Rightarrow> ('s, unit) app" where
  "refresh_presence E channel p =
     try_bind (connection E) (\<lambda>_.
     try_bind (ok_or (bad_request ''could not encode presence'') (participant_print (codec E) p)) (\<lambda>payload.
     vk_write E (\<lambda>s.
       setex (vk E) (presence_key E channel (pa_user_id p)) PRESENCE_TTL_SECONDS payload
         (sadd (vk E) (presence_set_key channel) (uuid_str E (pa_user_id p)) s))))"

definition remove_presence :: "'s env \<Rightarrow> string \<Rightarrow> uuid \<Rightarrow> ('s, unit) app" where
  "remove_presence E channel user_id =
     try_bind (connection E) (\<lambda>_.
     vk_write E (\<lambda>s.
       del (vk E) [presence_key E channel user_id]
         (srem (vk E) (presence_set_key channel) [uuid_str E user_id] s)))"

text \<open>The loop over the ids and their values: the readable participants and the stale ids.\<close>

fun split_presence :: "codecs \<Rightarrow> (string \<times> string option) list \<Rightarrow> participant list \<times> string list" where
  "split_presence C [] = ([], [])"
| "split_presence C ((i, v) # rest) =
     (let (ps, stale) = split_presence C rest in
      case Option.bind v (participant_parse C) of
        Some p \<Rightarrow> (p # ps, stale)
      | None \<Rightarrow> (ps, i # stale))"

definition list_presence :: "'s env \<Rightarrow> string \<Rightarrow> ('s, participant list) app" where
  "list_presence E channel =
     try_bind (connection E) (\<lambda>_.
     try_bind (vk_read E (smembers (vk E) (presence_set_key channel))) (\<lambda>ids.
     if ids = [] then ok []
     else
     try_bind (vk_read E (mget (vk E) (map (\<lambda>i. ''chat:presence:'' @ channel @ '':'' @ i) ids))) (\<lambda>values.
     case split_presence (codec E) (zip ids values) of (ps, stale) \<Rightarrow>
     try_bind (when_do (stale \<noteq> []) (vk_write E (srem (vk E) (presence_set_key channel) stale))) (\<lambda>_.
     ok (sort_key pa_username ps)))))"

definition sync_presence :: "'s env \<Rightarrow> string \<Rightarrow> ('s, unit) app" where
  "sync_presence E channel =
     try_bind (list_presence E channel) (\<lambda>ps. send_event E (PresenceSync channel ps))"

section \<open>Frames\<close>

lemma presence_keeps [keeps_intro]:
  "keeps_on db Q (refresh_presence E ch p)" "keeps_on db Q (remove_presence E ch u)"
  "keeps_on db Q (list_presence E ch)"
  "keeps_on socket S (refresh_presence E ch p)" "keeps_on socket S (remove_presence E ch u)"
  "keeps_on socket S (list_presence E ch)"
  unfolding refresh_presence_def remove_presence_def list_presence_def
  by - (intro keeps_intro)+

lemma sync_presence_keeps [keeps_intro]: "keeps_on db Q (sync_presence E ch)"
  unfolding sync_presence_def by (intro keeps_intro)

section \<open>Correctness\<close>

text \<open>The value a room member's id leads to, and the readable one.\<close>

definition presence_of :: "'s env \<Rightarrow> keyspace \<Rightarrow> string \<Rightarrow> string \<Rightarrow> participant option" where
  "presence_of E k ch i =
     Option.bind (ks_str k (''chat:presence:'' @ ch @ '':'' @ i)) (participant_parse (codec E))"

lemma split_presence_map:
  "split_presence C (zip ids (map f ids)) =
     (List.map_filter (\<lambda>i. Option.bind (f i) (participant_parse C)) ids,
      filter (\<lambda>i. Option.bind (f i) (participant_parse C) = None) ids)"
  by (induction ids) (auto simp: map_filter_simps split: option.splits)

lemma list_presence_ok:
  assumes V: "valkey (vk E) \<alpha>" and run: "list_presence E ch w = (Inr ps, w')"
  shows "\<exists>ids. set ids = set (ks_set (\<alpha> (cache w)) (presence_set_key ch)) \<and>
     ps = sort_key pa_username (List.map_filter (presence_of E (\<alpha> (cache w)) ch) ids) \<and>
     set (ks_set (\<alpha> (cache w')) (presence_set_key ch)) =
       {i \<in> set ids. presence_of E (\<alpha> (cache w)) ch i \<noteq> None} \<and>
     ks_str (\<alpha> (cache w')) = ks_str (\<alpha> (cache w))"
proof -
  define ids where "ids = smembers (vk E) (presence_set_key ch) (cache w)"
  define f where "f = (\<lambda>i. ks_str (\<alpha> (cache w)) (''chat:presence:'' @ ch @ '':'' @ i))"
  have set: "set ids = set (ks_set (\<alpha> (cache w)) (presence_set_key ch))"
    by (simp add: ids_def valkey.smembers_abs [OF V])
  have p: "presence_of E (\<alpha> (cache w)) ch = (\<lambda>i. Option.bind (f i) (participant_parse (codec E)))"
    by (simp add: fun_eq_iff presence_of_def f_def)
  have vals: "mget (vk E) (map (\<lambda>i. ''chat:presence:'' @ ch @ '':'' @ i) ids) (cache w) = map f ids"
    by (simp add: valkey.mget_abs [OF V] ks_mget_def f_def comp_def)
  have "ps = sort_key pa_username (List.map_filter (presence_of E (\<alpha> (cache w)) ch) ids) \<and>
     set (ks_set (\<alpha> (cache w')) (presence_set_key ch)) =
       {i \<in> set ids. presence_of E (\<alpha> (cache w)) ch i \<noteq> None} \<and>
     ks_str (\<alpha> (cache w')) = ks_str (\<alpha> (cache w))"
    using run vals set [symmetric]
    by (auto simp: list_presence_def ok_simps ids_def [symmetric] split_presence_map p
        valkey.srem_abs [OF V] ks_srem_def map_filter_simps filter_empty_conv
        split: if_splits prod.splits)
  with set show ?thesis by blast
qed

text \<open>
  Presence is self-healing.  Reading a room answers, sorted by username, exactly the participants
  whose value is present and readable, and leaves in the room's set exactly the ids of those: a
  client that vanished without leaving is dropped once its value has expired.
\<close>

theorem list_presence_exact:
  assumes V: "valkey (vk E) \<alpha>" and run: "list_presence E ch w = (Inr ps, w')"
  shows "let room = (\<lambda>w. set (ks_set (\<alpha> (cache w)) (presence_set_key ch)));
             live = presence_of E (\<alpha> (cache w)) ch
         in sorted (map pa_username ps) \<and>
            set ps = {p. \<exists>i \<in> room w. live i = Some p} \<and>
            room w' = {i \<in> room w. live i \<noteq> None}"
proof -
  obtain ids where ids: "set ids = set (ks_set (\<alpha> (cache w)) (presence_set_key ch))"
      "ps = sort_key pa_username (List.map_filter (presence_of E (\<alpha> (cache w)) ch) ids)"
      "set (ks_set (\<alpha> (cache w')) (presence_set_key ch)) =
        {i \<in> set ids. presence_of E (\<alpha> (cache w)) ch i \<noteq> None}"
    using list_presence_ok [OF V run] by blast
  have "set ps = {p. \<exists>i \<in> set ids. presence_of E (\<alpha> (cache w)) ch i = Some p}"
    by (force simp: ids(2) map_filter_def)
  with ids show ?thesis by (simp add: Let_def)
qed

text \<open>
  A participant that was refreshed is listed, and one that was removed is not.  Both hold for the
  next read of the room, whatever else is in it; the serializer is faithful on the participant.
\<close>

theorem presence_refresh_remove:
  assumes V: "valkey (vk E) \<alpha>"
    and parse: "\<And>v. participant_print (codec E) p = Some v \<Longrightarrow> participant_parse (codec E) v = Some p"
    and refresh: "refresh_presence E ch p w = (Inr (), w1)" and list1: "list_presence E ch w1 = (Inr ps1, w2)"
    and remove: "remove_presence E ch (pa_user_id p) w2 = (Inr (), w3)"
    and list2: "list_presence E ch w3 = (Inr ps2, w4)"
  shows "p \<in> set ps1 \<and>
     uuid_str E (pa_user_id p) \<notin> set (ks_set (\<alpha> (cache w4)) (presence_set_key ch)) \<and>
     ks_str (\<alpha> (cache w4)) (presence_key E ch (pa_user_id p)) = None"
proof -
  let ?i = "uuid_str E (pa_user_id p)"
  obtain v where v: "participant_print (codec E) p = Some v"
    and w1: "\<alpha> (cache w1) = ks_setex (presence_key E ch (pa_user_id p)) PRESENCE_TTL_SECONDS v
        (ks_sadd (presence_set_key ch) ?i (\<alpha> (cache w)))"
    using refresh by (auto simp: refresh_presence_def ok_simps valkey.setex_abs [OF V] valkey.sadd_abs [OF V])
  have live: "presence_of E (\<alpha> (cache w1)) ch ?i = Some p"
    using parse [OF v] by (simp add: presence_of_def w1 ks_setex_def presence_key_def)
  have room: "?i \<in> set (ks_set (\<alpha> (cache w1)) (presence_set_key ch))"
    by (simp add: w1 ks_setex_def ks_sadd_def)
  have "p \<in> set ps1"
    using list_presence_ok [OF V list1] live room by (force simp: map_filter_def)
  moreover have w3: "\<alpha> (cache w3) = ks_del [presence_key E ch (pa_user_id p)]
      (ks_srem (presence_set_key ch) [?i] (\<alpha> (cache w2)))"
    using remove by (auto simp: remove_presence_def ok_simps valkey.del_abs [OF V] valkey.srem_abs [OF V])
  have "?i \<notin> set (ks_set (\<alpha> (cache w3)) (presence_set_key ch))"
    "ks_str (\<alpha> (cache w3)) (presence_key E ch (pa_user_id p)) = None"
    by (auto simp: w3 ks_del_def ks_srem_def)
  ultimately show ?thesis
    using list_presence_ok [OF V list2] by auto
qed

section \<open>Concrete runs\<close>

definition demo_participant :: participant where
  "demo_participant = \<lparr>pa_user_id = 1, pa_username = ''ada'', pa_display_name = ''ada'', pa_custom_status = '''',
     pa_roles = [], pa_online = True\<rparr>"

definition demo_present :: "keyspace world" where
  "demo_present = snd (refresh_presence demo_env ''main'' demo_participant demo_chat)"

theorem list_presence_exact_witness:
  "let w' = snd (list_presence demo_env ''main'' demo_present);
       ps = projr (fst (list_presence demo_env ''main'' demo_present))
   in sorted (map pa_username ps) \<and> ps = [demo_participant] \<and>
      set (ks_set (cache w') (presence_set_key ''main'')) =
        {i \<in> set (ks_set (cache demo_present) (presence_set_key ''main'')).
           presence_of demo_env (cache demo_present) ''main'' i \<noteq> None}"
proof -
  have eq: "fst (list_presence demo_env ''main'' demo_present) = Inr [demo_participant]"
    by code_simp
  show ?thesis
    using list_presence_exact [OF demo_valkey run_fst [OF eq]] by (simp add: Let_def eq)
qed

lemma presence_total:
  assumes "\<And>t. \<not> faults E t"
  shows "\<exists>ps w'. list_presence E ch w = (Inr ps, w')"
    and "\<exists>w'. remove_presence E ch u w = (Inr (), w')"
    and "participant_print (codec E) p = Some v \<Longrightarrow> \<exists>w'. refresh_presence E ch p w = (Inr (), w')"
  using assms
  by (auto simp: list_presence_def remove_presence_def refresh_presence_def try_bind_def io_defs when_do_def
      split: prod.splits)

theorem presence_refresh_remove_witness:
  "\<exists>w1 w2 w3 w4 ps1 ps2.
     refresh_presence demo_env ''main'' demo_participant demo_chat = (Inr (), w1) \<and>
     list_presence demo_env ''main'' w1 = (Inr ps1, w2) \<and>
     remove_presence demo_env ''main'' (pa_user_id demo_participant) w2 = (Inr (), w3) \<and>
     list_presence demo_env ''main'' w3 = (Inr ps2, w4) \<and>
     demo_participant \<in> set ps1 \<and>
     ks_str (cache w4) (presence_key demo_env ''main'' (pa_user_id demo_participant)) = None"
proof -
  have print: "participant_print (codec demo_env) demo_participant = Some ''ada''"
    by (simp add: demo_codecs_def demo_participant_def)
  have parse: "participant_print (codec demo_env) demo_participant = Some v \<Longrightarrow>
      participant_parse (codec demo_env) v = Some demo_participant" for v
    by (auto simp: demo_codecs_def demo_participant_def)
  have nf: "\<not> faults demo_env t" for t by simp
  obtain w1 ps1 w2 w3 ps2 w4 where runs: "refresh_presence demo_env ''main'' demo_participant demo_chat = (Inr (), w1)"
      "list_presence demo_env ''main'' w1 = (Inr ps1, w2)"
      "remove_presence demo_env ''main'' (pa_user_id demo_participant) w2 = (Inr (), w3)"
      "list_presence demo_env ''main'' w3 = (Inr ps2, w4)"
    using presence_total [OF nf] print by metis
  then show ?thesis
    using presence_refresh_remove [OF demo_valkey parse runs] by blast
qed

end
