(* ===== verification/Notifications.thy ===== *)
theory Notifications
  imports Presence
begin

text \<open>
  \<^verbatim>\<open>backend/src/api/notifications.rs\<close>: who is notified of a message and how (one row per recipient,
  one delivery job per enabled channel, all in one transaction), the retry of that work, and the HTTP
  handlers for the inbox, the preferences, the push subscriptions and the profile.
\<close>

section \<open>Mentions\<close>

text \<open>\<^verbatim>\<open>!character.is_ascii_alphanumeric() && character != '_' && character != '-'\<close>\<close>

definition mention_trim :: "string \<Rightarrow> bool" where
  "mention_trim g = (case g of [c] \<Rightarrow> \<not> ascii_alphanumeric c \<and> c \<noteq> CHR ''_'' \<and> c \<noteq> CHR ''-'' | _ \<Rightarrow> True)"

definition mentioned_name :: "unicode \<Rightarrow> string \<Rightarrow> string \<Rightarrow> string option" where
  "mentioned_name U actor token =
     (case strip_prefix (CHR ''@'') token of
        None \<Rightarrow> None
      | Some rest \<Rightarrow>
          (let username = trim_matches mention_trim rest in
           if username \<noteq> [] \<and> length username \<le> 64 \<and> username \<noteq> ''channel'' \<and> username \<noteq> ''here'' \<and>
              to_lowercase U username \<noteq> actor
           then Some (to_lowercase U username) else None))"

text \<open>The \<^verbatim>\<open>BTreeSet\<close> of lower-cased names, in increasing order.\<close>

definition extract_mentioned_usernames :: "unicode \<Rightarrow> string \<Rightarrow> string \<Rightarrow> string list" where
  "extract_mentioned_usernames U txt actor_username =
     sort (remdups (List.map_filter (mentioned_name U (to_lowercase U actor_username)) (split_whitespace txt)))"

datatype mention_kind = ChannelScope | HereScope

definition token_scope :: "unicode \<Rightarrow> string \<Rightarrow> mention_kind option" where
  "token_scope U token =
     (case strip_prefix (CHR ''@'') token of
        None \<Rightarrow> None
      | Some rest \<Rightarrow>
          (let username = to_lowercase U (trim_matches mention_trim rest) in
           if username = ''channel'' then Some ChannelScope
           else if username = ''here'' then Some HereScope else None))"

definition mention_scope :: "unicode \<Rightarrow> string \<Rightarrow> mention_kind option" where
  "mention_scope U txt = find_map (token_scope U) (split_whitespace txt)"

section \<open>Recipients\<close>

record recipient_row =
  rr_channel_id :: uuid
  rr_kind :: channel_kind
  rr_id :: uuid
  rr_username :: string
  rr_email :: string
  rr_mentions :: bool
  rr_direct_messages :: bool
  rr_channel_messages :: bool
  rr_email_enabled :: bool
  rr_browser_enabled :: bool

text \<open>\<^verbatim>\<open>COALESCE(np.column, default)\<close> on the left join with the preferences.\<close>

definition pref :: "preference_row option \<Rightarrow> (preference_row \<Rightarrow> bool) \<Rightarrow> bool \<Rightarrow> bool" where
  "pref np column dflt = (case np of None \<Rightarrow> dflt | Some p \<Rightarrow> column p)"

text \<open>The \<^verbatim>\<open>WHERE\<close> clause on one joined row: channel, user, membership and preferences.\<close>

definition recipient_wanted ::
  "'s env \<Rightarrow> database \<Rightarrow> i64 \<Rightarrow> string list \<Rightarrow> bool \<Rightarrow> uuid list \<Rightarrow>
   channel_row \<Rightarrow> user_row \<Rightarrow> member_row option \<Rightarrow> preference_row option \<Rightarrow> bool" where
  "recipient_wanted E d now names channel_mention here_ids c u cm np =
     (ch_deleted_at c = None \<and> u_disabled_at u = None \<and> u_deleted_at u = None \<and>
      \<not> banned_from now d (u_id u) (ch_id c) \<and>
      ((pg_lower E (u_username u) \<in> set names \<or> channel_mention \<or> u_id u \<in> set here_ids) \<and>
         pref np np_mentions True \<and> (ch_kind c = Public \<or> cm \<noteq> None) \<or>
       ch_kind c = Direct \<and> cm \<noteq> None \<and> pref np np_direct_messages True \<or>
       ch_kind c = Private \<and> cm \<noteq> None \<and> pref np np_channel_messages False \<or>
       ch_kind c = Public \<and> pref np np_channel_messages False))"

definition recipient_rows ::
  "'s env \<Rightarrow> string \<Rightarrow> uuid \<Rightarrow> i64 \<Rightarrow> string list \<Rightarrow> bool \<Rightarrow> uuid list \<Rightarrow> database \<Rightarrow> recipient_row list" where
  "recipient_rows E channel actor now names channel_mention here_ids d =
     [\<lparr>rr_channel_id = ch_id c, rr_kind = ch_kind c, rr_id = u_id u, rr_username = u_username u,
       rr_email = u_email u, rr_mentions = pref np np_mentions True,
       rr_direct_messages = pref np np_direct_messages True,
       rr_channel_messages = pref np np_channel_messages False,
       rr_email_enabled = pref np np_email_enabled False,
       rr_browser_enabled = pref np np_browser_push_enabled False\<rparr>.
      c \<leftarrow> channels d, ch_name c = channel,
      u \<leftarrow> users d, u_id u \<noteq> actor,
      cm \<leftarrow> left_join (filter (\<lambda>r. cmb_channel_id r = ch_id c \<and> cmb_user_id r = u_id u) (channel_members d)),
      np \<leftarrow> left_join (filter (\<lambda>r. np_user_id r = u_id u) (notification_preferences d)),
      recipient_wanted E d now names channel_mention here_ids c u cm np]"

record recipient =
  rc_id :: uuid
  rc_user_id :: uuid
  rc_channel_id :: uuid
  rc_email :: string
  rc_kind :: string
  rc_body :: string
  rc_email_enabled :: bool
  rc_browser_enabled :: bool

definition notification_kind ::
  "'s env \<Rightarrow> mention_kind option \<Rightarrow> uuid list \<Rightarrow> string list \<Rightarrow> recipient_row \<Rightarrow> string" where
  "notification_kind E scope here_ids names row =
     (if rr_mentions row \<and>
         (scope = Some ChannelScope \<or> scope = Some HereScope \<and> rr_id row \<in> set here_ids \<or>
          to_lowercase (uni E) (rr_username row) \<in> set names)
      then ''mention''
      else if rr_kind row = Direct then ''direct_message''
      else ''channel_message'')"

definition notification_body :: "string \<Rightarrow> string \<Rightarrow> string \<Rightarrow> string" where
  "notification_body kind actor channel =
     (if kind = ''mention'' then actor @ '' mentioned you in #'' @ channel
      else if kind = ''direct_message'' then actor @ '' sent you a direct message''
      else actor @ '' posted in #'' @ channel)"

definition recipient_of ::
  "'s env \<Rightarrow> auth_user \<Rightarrow> chat_message \<Rightarrow> mention_kind option \<Rightarrow> uuid list \<Rightarrow> string list \<Rightarrow>
   recipient_row \<Rightarrow> ('s, recipient) app" where
  "recipient_of E actor m scope here_ids names row =
     (let kind = notification_kind E scope here_ids names row;
          body = notification_body kind (au_username actor) (cm_channel m) in
      try_bind (uuid_now_v7 E) (\<lambda>i.
      ok \<lparr>rc_id = i, rc_user_id = rr_id row, rc_channel_id = rr_channel_id row, rc_email = rr_email row,
          rc_kind = kind, rc_body = body, rc_email_enabled = rr_email_enabled row,
          rc_browser_enabled = rr_browser_enabled row\<rparr>))"

text \<open>\<^verbatim>\<open>metadata.get("online_user_ids")\<close> and what of it parses.\<close>

definition online_user_ids :: "'s env \<Rightarrow> json \<Rightarrow> uuid list" where
  "online_user_ids E metadata =
     (case Option.bind (json_get ''online_user_ids'' metadata) json_array of
        None \<Rightarrow> []
      | Some js \<Rightarrow> List.map_filter (\<lambda>j. Option.bind (json_str j) (uuid_parse E)) js)"

section \<open>The rows of one message\<close>

definition notification_key :: "notification_row \<Rightarrow> uuid \<times> uuid option \<times> string" where
  "notification_key n = (n_user_id n, n_message_id n, n_kind n)"

text \<open>
  \<^verbatim>\<open>INSERT INTO notifications ... ON CONFLICT (user_id, message_id, kind) DO UPDATE SET body ... RETURNING\<close>
  for one input row; the server refuses a statement that hits the same row twice.
\<close>

definition upsert_notification ::
  "uuid \<Rightarrow> uuid \<Rightarrow> i64 \<Rightarrow> recipient \<Rightarrow> (uuid \<times> uuid \<times> string) stmt" where
  "upsert_notification actor msg created_at r d =
     (case find (\<lambda>n. notification_key n = (rc_user_id r, Some msg, rc_kind r)) (notifications d) of
        Some n \<Rightarrow>
          Inr ((n_id n, n_user_id n, n_kind n),
               d\<lparr>notifications := update_where (\<lambda>x. notification_key x = (rc_user_id r, Some msg, rc_kind r))
                                    (\<lambda>x. x\<lparr>n_body := rc_body r\<rparr>) (notifications d)\<rparr>)
      | None \<Rightarrow>
          constrained
            [(\<not> list_ex (\<lambda>n. n_id n = rc_id r) (notifications d), ''notifications_pkey''),
             (has_user d (rc_user_id r), ''notifications_user_id_fkey''),
             (has_user d actor, ''notifications_actor_user_id_fkey''),
             (has_message d msg, ''notifications_message_id_fkey''),
             (has_channel d (rc_channel_id r), ''notifications_channel_id_fkey'')]
            ((rc_id r, rc_user_id r, rc_kind r),
             d\<lparr>notifications := notifications d @
                  [\<lparr>n_id = rc_id r, n_user_id = rc_user_id r, n_actor_user_id = Some actor, n_kind = rc_kind r,
                    n_message_id = Some msg, n_channel_id = Some (rc_channel_id r), n_body = rc_body r,
                    n_created_at = created_at, n_read_at = None\<rparr>]\<rparr>))"

fun upsert_each :: "uuid \<Rightarrow> uuid \<Rightarrow> i64 \<Rightarrow> recipient list \<Rightarrow> (uuid \<times> uuid \<times> string) list stmt" where
  "upsert_each actor msg t [] d = Inr ([], d)"
| "upsert_each actor msg t (r # rs) d =
     (case upsert_notification actor msg t r d of
        Inl e \<Rightarrow> Inl e
      | Inr (x, d') \<Rightarrow> map_sum id (\<lambda>(xs, d''). (x # xs, d'')) (upsert_each actor msg t rs d'))"

definition upsert_notifications ::
  "uuid \<Rightarrow> uuid \<Rightarrow> i64 \<Rightarrow> recipient list \<Rightarrow> (uuid \<times> uuid \<times> string) list stmt" where
  "upsert_notifications actor msg t rs d =
     (if distinct (map (\<lambda>r. (rc_user_id r, rc_kind r)) rs) then upsert_each actor msg t rs d
      else Inl (SqlxDatabase ''ON CONFLICT DO UPDATE command cannot affect row a second time''))"

definition enabled_channels :: "recipient \<Rightarrow> delivery_channel list" where
  "enabled_channels r = (if rc_email_enabled r then [Email] else []) @ (if rc_browser_enabled r then [Browser] else [])"

text \<open>The delivery jobs of one recipient whose notification row is known.\<close>

definition recipient_jobs :: "'s env \<Rightarrow> i64 \<Rightarrow> uuid \<Rightarrow> recipient \<Rightarrow> ('s, delivery_row list) app" where
  "recipient_jobs E now notification_id r =
     for_each (enabled_channels r) (\<lambda>ch.
       try_bind (uuid_now_v7 E) (\<lambda>i.
       ok \<lparr>d_id = i, d_notification_id = notification_id, d_user_id = rc_user_id r, d_channel = ch,
           d_email = rc_email r, d_kind = rc_kind r, d_body = rc_body r, d_attempts = 0,
           d_next_attempt_at = now, d_claimed_at = None, d_sent_at = None, d_last_error = None\<rparr>))"

definition delivery_jobs ::
  "'s env \<Rightarrow> i64 \<Rightarrow> (uuid \<times> uuid \<times> string) list \<Rightarrow> recipient list \<Rightarrow> ('s, delivery_row list) app" where
  "delivery_jobs E now returned rs =
     (let notification_ids = map_of (rev (map (\<lambda>(i, u, k). ((u, k), i)) returned)) in
      try_bind
        (for_each rs (\<lambda>r.
           case notification_ids (rc_user_id r, rc_kind r) of
             None \<Rightarrow> ok []
           | Some i \<Rightarrow> recipient_jobs E now i r)) (\<lambda>jobs.
      ok (concat jobs)))"

text \<open>\<^verbatim>\<open>INSERT INTO notification_deliveries ... ON CONFLICT (notification_id, channel) DO NOTHING\<close>\<close>

definition delivery_key :: "delivery_row \<Rightarrow> uuid \<times> delivery_channel" where
  "delivery_key j = (d_notification_id j, d_channel j)"

definition insert_delivery_or_ignore :: "delivery_row \<Rightarrow> unit stmt" where
  "insert_delivery_or_ignore j d =
     (if list_ex (\<lambda>x. delivery_key x = delivery_key j) (notification_deliveries d) then Inr ((), d)
      else constrained
        [(\<not> list_ex (\<lambda>x. d_id x = d_id j) (notification_deliveries d), ''notification_deliveries_pkey''),
         (list_ex (\<lambda>n. n_id n = d_notification_id j) (notifications d), ''notification_deliveries_notification_id_fkey''),
         (has_user d (d_user_id j), ''notification_deliveries_user_id_fkey'')]
        ((), d\<lparr>notification_deliveries := notification_deliveries d @ [j]\<rparr>))"

definition notify_tx ::
  "'s env \<Rightarrow> uuid \<Rightarrow> uuid \<Rightarrow> i64 \<Rightarrow> i64 \<Rightarrow> recipient list \<Rightarrow> ('s, unit) app" where
  "notify_tx E actor msg created_at now rs =
     transaction E app_of_sqlx
       (try_bind (db_exec E app_of_sqlx (upsert_notifications actor msg created_at rs)) (\<lambda>returned.
        try_bind (delivery_jobs E now returned rs) (\<lambda>jobs.
        when_do (jobs \<noteq> [])
          (try_bind (db_exec E app_of_sqlx (insert_all insert_delivery_or_ignore jobs)) (\<lambda>_. ok ())))))"

definition create_message_notifications_with_clock ::
  "'s env \<Rightarrow> auth_user \<Rightarrow> chat_message \<Rightarrow> ('s, unit) app" where
  "create_message_notifications_with_clock E actor m =
     (let names = extract_mentioned_usernames (uni E) (cm_text m) (au_username actor);
          scope = mention_scope (uni E) (cm_text m);
          here_ids = online_user_ids E (cm_metadata m) in
      try_bind (now_i64 E) (\<lambda>t.
      try_bind (db_query E app_of_sqlx
        (recipient_rows E (cm_channel m) (au_id actor) t names (scope = Some ChannelScope) here_ids)) (\<lambda>rows.
      try_bind (now_i64 E) (\<lambda>now.
      try_bind (for_each rows (recipient_of E actor m scope here_ids names)) (\<lambda>rs.
      if rs = [] then ok ()
      else notify_tx E (au_id actor) (cm_id m) (sint (cm_created_at m)) now rs)))))"

definition create_message_notifications :: "'s env \<Rightarrow> auth_user \<Rightarrow> chat_message \<Rightarrow> ('s, unit) app" where
  "create_message_notifications E actor m = create_message_notifications_with_clock E actor m"

section \<open>Retrying\<close>

definition retry_message :: "database \<Rightarrow> msg_row \<Rightarrow> channel_row \<Rightarrow> chat_message" where
  "retry_message d m c =
     \<lparr>cm_id = m_id m, cm_channel = ch_name c, cm_username = m_username m, cm_text = m_text m,
      cm_created_at = word_of_int (m_created_at m), cm_edited = m_edited m,
      cm_deleted = (m_deleted_at m \<noteq> None), cm_root_message_id = m_root_message_id m, cm_reply_count = 0,
      cm_metadata = m_metadata m, cm_mentions = m_mentions m, cm_client_id = m_client_id m,
      cm_file_ids = file_ids_of d (m_id m)\<rparr>"

definition retry_rows :: "uuid \<Rightarrow> uuid \<Rightarrow> database \<Rightarrow> (auth_user \<times> chat_message) list" where
  "retry_rows actor_id message_id d =
     [(\<lparr>au_id = u_id u, au_email = u_email u, au_username = u_username u, au_roles = [], au_permissions = []\<rparr>,
       retry_message d m c).
      (m, c) \<leftarrow> messages_join_channels d, m_id m = message_id, u \<leftarrow> users d, u_id u = actor_id]"

definition retry_message_notifications :: "'s env \<Rightarrow> uuid \<Rightarrow> uuid \<Rightarrow> ('s, unit) app" where
  "retry_message_notifications E actor_id message_id =
     try_bind (db_query E app_of_sqlx (retry_rows actor_id message_id)) (\<lambda>rows.
     case rows of
       [] \<Rightarrow> ok ()
     | (actor, m) # _ \<Rightarrow> create_message_notifications_with_clock E actor m)"

section \<open>Handlers\<close>

record notification_view =
  nv_id :: uuid
  nv_kind :: string
  nv_message_id :: "uuid option"
  nv_channel_id :: "uuid option"
  nv_body :: string
  nv_created_at :: i64
  nv_read_at :: "i64 option"

definition notification_view_of :: "notification_row \<Rightarrow> notification_view" where
  "notification_view_of n =
     \<lparr>nv_id = n_id n, nv_kind = n_kind n, nv_message_id = n_message_id n, nv_channel_id = n_channel_id n,
      nv_body = n_body n, nv_created_at = n_created_at n, nv_read_at = n_read_at n\<rparr>"

definition list_notifications :: "'s env \<Rightarrow> header_map \<Rightarrow> i64 option \<Rightarrow> ('s, notification_view list) app" where
  "list_notifications E headers limit =
     try_bind (load_session E headers) (\<lambda>session.
     let n = min 100 (max 1 (case limit of None \<Rightarrow> 50 | Some l \<Rightarrow> l)) in
     try_bind (db_query E app_of_sqlx (\<lambda>d.
       take (nat n) (order_desc (\<lambda>r. (n_created_at r, n_id r))
         (filter (\<lambda>r. n_user_id r = au_id (s_user session)) (notifications d))))) (\<lambda>rows.
     ok (map notification_view_of rows)))"

definition set_notification_read :: "i64 \<Rightarrow> uuid \<Rightarrow> uuid \<Rightarrow> unit stmt" where
  "set_notification_read now i u d =
     Inr ((), d\<lparr>notifications := update_where (\<lambda>n. n_id n = i \<and> n_user_id n = u)
                  (\<lambda>n. n\<lparr>n_read_at := coalesce (n_read_at n) now\<rparr>) (notifications d)\<rparr>)"

definition mark_notification_read :: "'s env \<Rightarrow> header_map \<Rightarrow> uuid \<Rightarrow> ('s, status_code) app" where
  "mark_notification_read E headers i =
     try_bind (load_session E headers) (\<lambda>session.
     try_bind (lift (require_csrf headers session)) (\<lambda>_.
     try_bind (now_i64 E) (\<lambda>now.
     try_bind (db_exec E app_of_sqlx (set_notification_read now i (au_id (s_user session)))) (\<lambda>_.
     ok NO_CONTENT))))"

definition default_preferences :: "uuid \<Rightarrow> i64 \<Rightarrow> preference_row" where
  "default_preferences u now =
     \<lparr>np_user_id = u, np_mentions = True, np_direct_messages = True, np_channel_messages = False,
      np_email_enabled = False, np_browser_push_enabled = False, np_updated_at = now\<rparr>"

definition preferences_of :: "database \<Rightarrow> uuid \<Rightarrow> preference_row option" where
  "preferences_of d u = find (\<lambda>p. np_user_id p = u) (notification_preferences d)"

definition insert_preferences :: "preference_row \<Rightarrow> unit stmt" where
  "insert_preferences p d =
     constrained
       [(preferences_of d (np_user_id p) = None, ''notification_preferences_pkey''),
        (has_user d (np_user_id p), ''notification_preferences_user_id_fkey'')]
       ((), d\<lparr>notification_preferences := notification_preferences d @ [p]\<rparr>)"

text \<open>\<^verbatim>\<open>INSERT ... ON CONFLICT (user_id) DO NOTHING RETURNING ...\<close>\<close>

definition insert_preferences_or_ignore :: "preference_row \<Rightarrow> preference_row option stmt" where
  "insert_preferences_or_ignore p d =
     (if preferences_of d (np_user_id p) \<noteq> None then Inr (None, d)
      else map_sum id (\<lambda>(_, d'). (Some p, d')) (insert_preferences p d))"

definition notification_preferences_handler :: "'s env \<Rightarrow> header_map \<Rightarrow> ('s, preference_row) app" where
  "notification_preferences_handler E headers =
     try_bind (load_session E headers) (\<lambda>session.
     try_bind (now_i64 E) (\<lambda>now.
     try_bind (db_exec E app_of_sqlx
       (insert_preferences_or_ignore (default_preferences (au_id (s_user session)) now))) (\<lambda>row.
     case row of
       Some p \<Rightarrow> ok p
     | None \<Rightarrow>
         try_bind (db_query E app_of_sqlx (\<lambda>d. preferences_of d (au_id (s_user session)))) (\<lambda>p.
         ok_or (app_of_sqlx SqlxRowNotFound) p))))"

definition notification_config :: "'s env \<Rightarrow> header_map \<Rightarrow> ('s, string option) app" where
  "notification_config E headers =
     try_bind (load_session E headers) (\<lambda>_. ok (env_var E ''VAPID_PUBLIC_KEY''))"

record preferences_update =
  pu_mentions :: "bool option"
  pu_direct_messages :: "bool option"
  pu_channel_messages :: "bool option"
  pu_email_enabled :: "bool option"
  pu_browser_push_enabled :: "bool option"

text \<open>\<^verbatim>\<open>COALESCE($n, old)\<close> per column.\<close>

definition apply_preferences :: "preferences_update \<Rightarrow> i64 \<Rightarrow> preference_row \<Rightarrow> preference_row" where
  "apply_preferences r now p =
     \<lparr>np_user_id = np_user_id p,
      np_mentions = (case pu_mentions r of None \<Rightarrow> np_mentions p | Some b \<Rightarrow> b),
      np_direct_messages = (case pu_direct_messages r of None \<Rightarrow> np_direct_messages p | Some b \<Rightarrow> b),
      np_channel_messages = (case pu_channel_messages r of None \<Rightarrow> np_channel_messages p | Some b \<Rightarrow> b),
      np_email_enabled = (case pu_email_enabled r of None \<Rightarrow> np_email_enabled p | Some b \<Rightarrow> b),
      np_browser_push_enabled = (case pu_browser_push_enabled r of None \<Rightarrow> np_browser_push_enabled p | Some b \<Rightarrow> b),
      np_updated_at = now\<rparr>"

definition upsert_preferences :: "uuid \<Rightarrow> preferences_update \<Rightarrow> i64 \<Rightarrow> preference_row stmt" where
  "upsert_preferences u r now d =
     (case preferences_of d u of
        Some p \<Rightarrow>
          Inr (apply_preferences r now p,
               d\<lparr>notification_preferences := update_where (\<lambda>p. np_user_id p = u) (apply_preferences r now)
                    (notification_preferences d)\<rparr>)
      | None \<Rightarrow>
          (let p = apply_preferences r now (default_preferences u now) in
           map_sum id (\<lambda>(_, d'). (p, d')) (insert_preferences p d)))"

definition update_notification_preferences ::
  "'s env \<Rightarrow> header_map \<Rightarrow> preferences_update \<Rightarrow> ('s, preference_row) app" where
  "update_notification_preferences E headers request =
     try_bind (load_session E headers) (\<lambda>session.
     try_bind (lift (require_csrf headers session)) (\<lambda>_.
     try_bind (now_i64 E) (\<lambda>now.
     db_exec E app_of_sqlx (upsert_preferences (au_id (s_user session)) request now))))"

definition notification_subscriptions_handler :: "'s env \<Rightarrow> header_map \<Rightarrow> ('s, subscription_row list) app" where
  "notification_subscriptions_handler E headers =
     try_bind (load_session E headers) (\<lambda>session.
     db_query E app_of_sqlx (\<lambda>d.
       order_desc (\<lambda>r. (ns_updated_at r, ns_id r))
         (filter (\<lambda>r. ns_user_id r = au_id (s_user session)) (notification_subscriptions d))))"

definition upsert_subscription :: "subscription_row \<Rightarrow> subscription_row stmt" where
  "upsert_subscription r d =
     (let same = (\<lambda>x. ns_user_id x = ns_user_id r \<and> ns_endpoint x = ns_endpoint r);
          set_keys = (\<lambda>x. x\<lparr>ns_p256dh := ns_p256dh r, ns_auth := ns_auth r, ns_updated_at := ns_updated_at r\<rparr>) in
      case find same (notification_subscriptions d) of
        Some x \<Rightarrow>
          Inr (set_keys x, d\<lparr>notification_subscriptions := update_where same set_keys (notification_subscriptions d)\<rparr>)
      | None \<Rightarrow>
          constrained
            [(\<not> list_ex (\<lambda>x. ns_id x = ns_id r) (notification_subscriptions d), ''notification_subscriptions_pkey''),
             (has_user d (ns_user_id r), ''notification_subscriptions_user_id_fkey'')]
            (r, d\<lparr>notification_subscriptions := notification_subscriptions d @ [r]\<rparr>))"

definition push_endpoint_allowed :: "url \<Rightarrow> string \<Rightarrow> bool" where
  "push_endpoint_allowed u endpoint =
     (url_scheme u = ''https'' \<and> url_host u \<noteq> None \<and> url_username u = [] \<and> url_password u = None \<and>
      length endpoint \<le> 2048)"

definition save_notification_subscription ::
  "'s env \<Rightarrow> header_map \<Rightarrow> string \<Rightarrow> string \<Rightarrow> string \<Rightarrow> ('s, subscription_row) app" where
  "save_notification_subscription E headers req_endpoint req_p256dh req_auth =
     try_bind (load_session E headers) (\<lambda>session.
     try_bind (lift (require_csrf headers session)) (\<lambda>_.
     let endpoint = trim req_endpoint in
     try_bind (ok_or (bad_request ''invalid push endpoint'') (url_parse E endpoint)) (\<lambda>parsed.
     if \<not> push_endpoint_allowed parsed endpoint then fail (bad_request ''push endpoint must be HTTPS'')
     else
     let p256dh = trim req_p256dh; auth = trim req_auth in
     if \<not> (16 \<le> length p256dh \<and> length p256dh \<le> 512) \<or> \<not> (8 \<le> length auth \<and> length auth \<le> 256)
     then fail (bad_request ''invalid push subscription keys'')
     else
     try_bind (now_i64 E) (\<lambda>now.
     try_bind (uuid_now_v7 E) (\<lambda>i.
     db_exec E app_of_sqlx (upsert_subscription
       \<lparr>ns_id = i, ns_user_id = au_id (s_user session), ns_endpoint = endpoint, ns_p256dh = p256dh,
        ns_auth = auth, ns_created_at = now, ns_updated_at = now\<rparr>))))))"

definition delete_subscription :: "uuid \<Rightarrow> uuid \<Rightarrow> unit stmt" where
  "delete_subscription i u d =
     Inr ((), d\<lparr>notification_subscriptions :=
       filter (\<lambda>x. \<not> (ns_id x = i \<and> ns_user_id x = u)) (notification_subscriptions d)\<rparr>)"

definition delete_notification_subscription :: "'s env \<Rightarrow> header_map \<Rightarrow> uuid \<Rightarrow> ('s, status_code) app" where
  "delete_notification_subscription E headers i =
     try_bind (load_session E headers) (\<lambda>session.
     try_bind (lift (require_csrf headers session)) (\<lambda>_.
     try_bind (db_exec E app_of_sqlx (delete_subscription i (au_id (s_user session)))) (\<lambda>_.
     ok NO_CONTENT)))"

record profile_view =
  pv_id :: uuid
  pv_username :: string
  pv_display_name :: string
  pv_custom_status :: string
  pv_status_expires_at :: "i64 option"

text \<open>\<^verbatim>\<open>status_expires_at IS NULL OR status_expires_at > now\<close>\<close>

definition status_live :: "i64 \<Rightarrow> user_row \<Rightarrow> bool" where
  "status_live now u = (case u_status_expires_at u of None \<Rightarrow> True | Some t \<Rightarrow> t > now)"

definition profile :: "'s env \<Rightarrow> header_map \<Rightarrow> ('s, profile_view) app" where
  "profile E headers =
     try_bind (load_session E headers) (\<lambda>session.
     try_bind (now_i64 E) (\<lambda>now.
     try_bind (db_query E app_of_sqlx (\<lambda>d.
       find (\<lambda>u. u_id u = au_id (s_user session) \<and> u_deleted_at u = None) (users d))) (\<lambda>row.
     try_bind (ok_or (app_of_sqlx SqlxRowNotFound) row) (\<lambda>u.
     ok \<lparr>pv_id = u_id u, pv_username = u_username u, pv_display_name = u_display_name u,
         pv_custom_status = (if status_live now u then u_custom_status u else ''''),
         pv_status_expires_at = (if status_live now u then u_status_expires_at u else None)\<rparr>))))"

text \<open>\<^verbatim>\<open>value.unwrap_or_default().trim().chars().take(n).collect()\<close>\<close>

definition trimmed_prefix :: "nat \<Rightarrow> string option \<Rightarrow> string" where
  "trimmed_prefix n v = concat (take n (chars (trim (case v of None \<Rightarrow> '''' | Some s \<Rightarrow> s))))"

definition update_user_profile :: "string \<Rightarrow> string \<Rightarrow> i64 option \<Rightarrow> i64 \<Rightarrow> uuid \<Rightarrow> unit stmt" where
  "update_user_profile display custom expires now i d =
     Inr ((), d\<lparr>users := update_where (\<lambda>u. u_id u = i \<and> u_deleted_at u = None)
       (\<lambda>u. u\<lparr>u_display_name := display, u_custom_status := custom, u_status_expires_at := expires,
              u_updated_at := now\<rparr>) (users d)\<rparr>)"

definition update_profile ::
  "'s env \<Rightarrow> header_map \<Rightarrow> string option \<Rightarrow> string option \<Rightarrow> i64 option \<Rightarrow> ('s, profile_view) app" where
  "update_profile E headers display custom expires =
     try_bind (load_session E headers) (\<lambda>session.
     try_bind (lift (require_csrf headers session)) (\<lambda>_.
     let display_name = trimmed_prefix 80 display; custom_status = trimmed_prefix 160 custom in
     try_bind
       (case expires of
          None \<Rightarrow> ok False
        | Some t \<Rightarrow> try_bind (now_i64 E) (\<lambda>now. ok (t \<le> now))) (\<lambda>past.
     if past then fail (bad_request ''status expiry must be in the future'')
     else
     try_bind (now_i64 E) (\<lambda>now.
     try_bind (db_exec E app_of_sqlx
       (update_user_profile display_name custom_status expires now (au_id (s_user session)))) (\<lambda>_.
     ok \<lparr>pv_id = au_id (s_user session), pv_username = au_username (s_user session),
         pv_display_name = display_name, pv_custom_status = custom_status, pv_status_expires_at = expires\<rparr>)))))"

section \<open>Frames\<close>

lemma upsert_notification_ok:
  "upsert_notification a m t r d = Inr (x, d') \<Longrightarrow> \<exists>ns. d' = d\<lparr>notifications := ns\<rparr>"
  by (auto simp: upsert_notification_def split: option.splits)

lemma upsert_each_ok:
  "upsert_each a m t rs d = Inr (xs, d') \<Longrightarrow> \<exists>ns. d' = d\<lparr>notifications := ns\<rparr>"
proof (induction rs arbitrary: d xs)
  case Nil
  then show ?case by (auto intro: exI [of _ "notifications d"])
next
  case (Cons r rs)
  then obtain x d1 xs' where 1: "upsert_notification a m t r d = Inr (x, d1)"
      "upsert_each a m t rs d1 = Inr (xs', d')"
    by (auto split: sum.splits prod.splits simp: map_sum_def)
  from upsert_notification_ok [OF 1(1)] Cons.IH [OF 1(2)] show ?case by auto
qed

lemma insert_delivery_ok:
  "insert_delivery_or_ignore j d = Inr (x, d') \<Longrightarrow> \<exists>ds. d' = d\<lparr>notification_deliveries := ds\<rparr>"
  by (auto simp: insert_delivery_or_ignore_def split: if_splits intro: exI [of _ "notification_deliveries d"])

lemma keeps_jobs [keeps_intro]:
  "keeps_on db Q (recipient_of E a m sc h ns row)" "keeps_on db Q (delivery_jobs E now ret rs)"
  "keeps_on cache R (recipient_of E a m sc h ns row)" "keeps_on cache R (delivery_jobs E now ret rs)"
  "keeps_on socket S (recipient_of E a m sc h ns row)" "keeps_on socket S (delivery_jobs E now ret rs)"
  unfolding recipient_of_def delivery_jobs_def recipient_jobs_def
  by - (intro keeps_intro)+

lemma keeps_notify_frame [keeps_intro]:
  "keeps_on cache R (create_message_notifications_with_clock E a m)"
  "keeps_on socket S (create_message_notifications_with_clock E a m)"
  "keeps_on cache R (create_message_notifications E a m)"
  "keeps_on socket S (create_message_notifications E a m)"
  unfolding create_message_notifications_def create_message_notifications_with_clock_def notify_tx_def
  by - (intro keeps_intro)+

lemma keeps_notify_tx:
  assumes "\<And>d ns. Q d \<Longrightarrow> Q (d\<lparr>notifications := ns\<rparr>)"
    and "\<And>d ds. Q d \<Longrightarrow> Q (d\<lparr>notification_deliveries := ds\<rparr>)"
  shows "keeps_on db Q (notify_tx E a i t now rs)"
proof -
  have up: "Q d \<Longrightarrow> upsert_notifications a i t rs d = Inr (x, d') \<Longrightarrow> Q d'" for d x d'
    using upsert_each_ok [of a i t rs d x d'] assms(1) by (auto simp: upsert_notifications_def split: if_splits)
  have ins: "Q d \<Longrightarrow> insert_all insert_delivery_or_ignore js d = Inr (n, d') \<Longrightarrow> Q d'" for js d n d'
    using insert_all_ind [of insert_delivery_or_ignore js d n d' Q] insert_delivery_ok assms(2) by blast
  show ?thesis
    unfolding notify_tx_def by (intro keeps_intro keeps_on_transaction_db) (erule (1) up ins)+
qed

lemma keeps_notify [keeps_intro]:
  assumes "\<And>d ns. Q d \<Longrightarrow> Q (d\<lparr>notifications := ns\<rparr>)"
    and "\<And>d ds. Q d \<Longrightarrow> Q (d\<lparr>notification_deliveries := ds\<rparr>)"
  shows "keeps_on db Q (create_message_notifications_with_clock E a m)"
    and "keeps_on db Q (create_message_notifications E a m)"
    and "keeps_on db Q (retry_message_notifications E u i)"
  unfolding create_message_notifications_def create_message_notifications_with_clock_def
    retry_message_notifications_def
  by (intro keeps_intro keeps_notify_tx assms; assumption)+

section \<open>Mentions\<close>

lemma extract_mentions_set:
  "set (extract_mentioned_usernames U txt actor) =
     {n. \<exists>token \<in> set (split_whitespace txt). mentioned_name U (to_lowercase U actor) token = Some n}"
  by (force simp: extract_mentioned_usernames_def map_filter_def)

text \<open>
  The mention list of a message is in increasing order without repetitions; a name is in it exactly
  when some word of the text is an at sign followed by that name up to surrounding punctuation and
  letter case; the author never mentions themselves.
\<close>

theorem extract_mentioned_usernames_spec:
  "sorted (extract_mentioned_usernames U txt actor) \<and> distinct (extract_mentioned_usernames U txt actor) \<and>
   to_lowercase U actor \<notin> set (extract_mentioned_usernames U txt actor) \<and>
   (\<forall>n. n \<in> set (extract_mentioned_usernames U txt actor) \<longleftrightarrow>
      n \<noteq> to_lowercase U actor \<and>
      (\<exists>rest. CHR ''@'' # rest \<in> set (split_whitespace txt) \<and>
         (let name = trim_matches mention_trim rest in
          n = to_lowercase U name \<and> name \<noteq> [] \<and> length name \<le> 64 \<and> name \<notin> {''channel'', ''here''})))"
proof -
  have spec: "mentioned_name U a token = Some n \<longleftrightarrow>
      n \<noteq> a \<and> (\<exists>rest. token = CHR ''@'' # rest \<and> (let name = trim_matches mention_trim rest in
        n = to_lowercase U name \<and> name \<noteq> [] \<and> length name \<le> 64 \<and> name \<notin> {''channel'', ''here''}))" for a token n
    by (cases token) (auto simp: mentioned_name_def strip_prefix_def Let_def)
  have "sorted (extract_mentioned_usernames U txt actor)" "distinct (extract_mentioned_usernames U txt actor)"
    by (simp_all add: extract_mentioned_usernames_def)
  moreover have "to_lowercase U actor \<notin> set (extract_mentioned_usernames U txt actor)"
    by (simp add: extract_mentions_set spec)
  ultimately show ?thesis
    unfolding extract_mentions_set mem_Collect_eq spec by blast
qed

text \<open>
  A capitalised scope word is also taken for a user.  The exclusion of the scope words is tested
  before the name is lower-cased, the scope after it: such a word of a message both addresses the
  whole scope and mentions an account that has the scope's name.
\<close>

theorem capital_scope_is_also_a_user:
  "mention_scope U ''@Here'' = Some HereScope \<and>
   extract_mentioned_usernames U ''@Here'' ''ada'' = [''here'']"
  by code_simp

section \<open>Who is notified\<close>

lemma notification_key_body [simp]: "notification_key (n\<lparr>n_body := b\<rparr>) = notification_key n"
  by (simp add: notification_key_def)

lemma upsert_keys:
  assumes "upsert_notification a m t r d = Inr (x, d')"
  shows "notification_key ` set (notifications d') =
    insert (rc_user_id r, Some m, rc_kind r) (notification_key ` set (notifications d))"
proof (cases "find (\<lambda>n. notification_key n = (rc_user_id r, Some m, rc_kind r)) (notifications d)")
  case None
  with assms show ?thesis
    by (auto simp: upsert_notification_def notification_key_def)
next
  case (Some n)
  then have "(rc_user_id r, Some m, rc_kind r) \<in> notification_key ` set (notifications d)"
    by (auto simp: find_Some_iff) (metis image_eqI nth_mem)
  moreover have "notifications d' = update_where (\<lambda>x. notification_key x = (rc_user_id r, Some m, rc_kind r))
      (\<lambda>x. x\<lparr>n_body := rc_body r\<rparr>) (notifications d)"
    using assms Some by (auto simp: upsert_notification_def)
  ultimately show ?thesis
    by (simp add: update_where_image insert_absorb)
qed

lemma upsert_each_keys:
  "upsert_each a m t rs d = Inr (xs, d') \<Longrightarrow>
     notification_key ` set (notifications d') =
     (\<lambda>r. (rc_user_id r, Some m, rc_kind r)) ` set rs \<union> notification_key ` set (notifications d)"
proof (induction rs arbitrary: d xs)
  case (Cons r rs)
  then obtain x d1 xs' where 1: "upsert_notification a m t r d = Inr (x, d1)"
      "upsert_each a m t rs d1 = Inr (xs', d')"
    by (auto split: sum.splits prod.splits simp: map_sum_def)
  from upsert_keys [OF 1(1)] Cons.IH [OF 1(2)] show ?case by auto
qed simp

lemma notify_tx_keys:
  assumes "notify_tx E a i t now rs w = (Inr u, w')"
  shows "notification_key ` set (notifications (db w')) =
     (\<lambda>r. (rc_user_id r, Some i, rc_kind r)) ` set rs \<union> notification_key ` set (notifications (db w))"
proof -
  from assms obtain xs d1 w1 w2 js where up: "upsert_each a i t rs (db w) = Inr (xs, d1)"
    and jobs: "delivery_jobs E now xs rs w1 = (Inr js, w2)" "db w1 = d1"
    and ins: "notifications (db w') = notifications (db w2)"
  proof -
    assume that: "\<And>xs d1 w1 js w2. upsert_each a i t rs (db w) = Inr (xs, d1) \<Longrightarrow>
      delivery_jobs E now xs rs w1 = (Inr js, w2) \<Longrightarrow> db w1 = d1 \<Longrightarrow>
      notifications (db w') = notifications (db w2) \<Longrightarrow> thesis"
    have ins: "insert_all insert_delivery_or_ignore js d = Inr (n, d') \<Longrightarrow> notifications d' = notifications d" for js d n d'
      by (rule insert_all_ind [where P = "\<lambda>d'. notifications d' = notifications d"])
        (auto dest!: insert_delivery_ok)
    from assms show ?thesis
      by (auto simp: notify_tx_def ok_simps upsert_notifications_def when_do_def split: if_splits
          dest!: ins intro: that)
  qed
  have "db w2 = db w1"
    using keeps_on_leaves [of db "delivery_jobs E now xs rs", OF _ jobs(1)] by (simp add: keeps_jobs)
  with upsert_each_keys [OF up] ins jobs(2) show ?thesis by simp
qed

lemma recipient_of_ok:
  "recipient_of E a m sc h names row w = (Inr r, w') \<Longrightarrow>
     rc_user_id r = rr_id row \<and> rc_kind r = notification_kind E sc h names row"
  by (auto simp: recipient_of_def Let_def ok_simps)

lemma recipients_keys:
  assumes "for_each rows (recipient_of E a m sc h names) w = (Inr rs, w')"
  shows "(\<lambda>r. (rc_user_id r, i, rc_kind r)) ` set rs = (\<lambda>row. (rr_id row, i, notification_kind E sc h names row)) ` set rows"
proof -
  have "list_all2 (\<lambda>row r. rc_user_id r = rr_id row \<and> rc_kind r = notification_kind E sc h names row) rows rs"
    by (rule for_each_rel [OF assms]) (rule recipient_of_ok)
  then show ?thesis
    by (induction rule: list_all2_induct) auto
qed

text \<open>
  C39: a message notifies exactly the recipients the query selects.  When the call succeeds, the keys
  (user, message, kind) of the notification table are the old ones and one per selected row, of the
  kind that row has: nobody selected is missed and nobody else is notified.  When it fails, at
  whatever step, no row of the table has changed.
\<close>

theorem create_message_notifications_exact:
  assumes run: "create_message_notifications E actor m w = (r, w')"
  shows "let names = extract_mentioned_usernames (uni E) (cm_text m) (au_username actor);
             scope = mention_scope (uni E) (cm_text m);
             here_ids = online_user_ids E (cm_metadata m);
             selected = recipient_rows E (cm_channel m) (au_id actor) (sint (clock E (tick w))) names
                          (scope = Some ChannelScope) here_ids (db w)
         in case r of
              Inl e \<Rightarrow> notifications (db w') = notifications (db w)
            | Inr _ \<Rightarrow> notification_key ` set (notifications (db w')) =
                notification_key ` set (notifications (db w)) \<union>
                (\<lambda>row. (rr_id row, Some (cm_id m), notification_kind E scope here_ids names row)) ` set selected"
proof -
  let ?names = "extract_mentioned_usernames (uni E) (cm_text m) (au_username actor)"
  let ?scope = "mention_scope (uni E) (cm_text m)"
  let ?here = "online_user_ids E (cm_metadata m)"
  let ?rows = "recipient_rows E (cm_channel m) (au_id actor) (sint (clock E (tick w))) ?names
    (?scope = Some ChannelScope) ?here (db w)"
  note def = create_message_notifications_def create_message_notifications_with_clock_def Let_def
  have leave: "for_each rows (recipient_of E actor m ?scope ?here ?names) v = (q, v') \<Longrightarrow> db v' = db v" for rows v q v'
    by (rule keeps_on_leaves [of db "for_each rows (recipient_of E actor m ?scope ?here ?names)"])
      (intro keeps_intro)
  show ?thesis
  proof (cases r)
    case (Inl e)
    have "db w' = db w"
      using run Inl
      by (auto simp: def try_bind_errD clock_okD db_query_okD notify_tx_def if_comp_run split: if_splits
          dest!: leave transaction_err_db) (auto simp: io_defs map_err_run split: if_splits)
    with Inl show ?thesis by (simp add: Let_def)
  next
    case (Inr u)
    let ?v = "next_tick (next_tick (next_tick w))"
    have "\<exists>rs v'. for_each ?rows (recipient_of E actor m ?scope ?here ?names) ?v = (Inr rs, v') \<and>
       (rs = [] \<and> w' = v' \<or> notify_tx E (au_id actor) (cm_id m) (sint (cm_created_at m))
          (sint (clock E (Suc (Suc (tick w))))) rs v' = (Inr (), w'))"
      using run Inr by (auto simp: def ok_simps split: if_splits)
    then obtain rs v' where rs: "for_each ?rows (recipient_of E actor m ?scope ?here ?names) ?v = (Inr rs, v')"
      and tx: "rs = [] \<and> w' = v' \<or> notify_tx E (au_id actor) (cm_id m) (sint (cm_created_at m))
          (sint (clock E (Suc (Suc (tick w))))) rs v' = (Inr (), w')"
      by blast
    have "notification_key ` set (notifications (db w')) =
        (\<lambda>r. (rc_user_id r, Some (cm_id m), rc_kind r)) ` set rs \<union> notification_key ` set (notifications (db w))"
      using tx leave [OF rs] by (elim disjE conjE) (simp_all add: notify_tx_keys)
    then show ?thesis
      using Inr unfolding recipients_keys [OF rs] by (simp add: Let_def Un_commute)
  qed
qed

lemma recipient_rows_set:
  "row \<in> set (recipient_rows E channel actor now names cmn here d) \<Longrightarrow>
     \<exists>c u cm np. c \<in> set (channels d) \<and> ch_name c = channel \<and> u \<in> set (users d) \<and> u_id u \<noteq> actor \<and>
       cm \<in> set (left_join (filter (\<lambda>r. cmb_channel_id r = ch_id c \<and> cmb_user_id r = u_id u) (channel_members d))) \<and>
       recipient_wanted E d now names cmn here c u cm np \<and>
       rr_id row = u_id u \<and> rr_channel_id row = ch_id c"
  unfolding recipient_rows_def by (clarsimp split: if_splits) blast

lemma left_join_member:
  "Some x \<in> set (left_join rs) \<Longrightarrow> x \<in> set rs"
  by (auto simp: left_join_def split: if_splits)

text \<open>
  A notification never tells of a message its receiver could not read.  Every user the recipient
  query selects exists, is neither disabled nor deleted nor banned from the channel, is not the author,
  and the channel is live and is public or has the user as a member.
\<close>

theorem notified_users_may_read:
  assumes "row \<in> set (recipient_rows E channel actor now names channel_mention here_ids d)"
  shows "\<exists>c u. c \<in> set (channels d) \<and> ch_name c = channel \<and> ch_deleted_at c = None \<and>
     u \<in> set (users d) \<and> u_id u = rr_id row \<and> u_id u \<noteq> actor \<and> u_disabled_at u = None \<and>
     u_deleted_at u = None \<and> \<not> banned_from now d (u_id u) (ch_id c) \<and>
     (ch_kind c = Public \<or> is_member d (ch_id c) (u_id u))"
proof -
  obtain c u cm np where row: "c \<in> set (channels d)" "ch_name c = channel" "u \<in> set (users d)" "u_id u \<noteq> actor"
      "cm \<in> set (left_join (filter (\<lambda>r. cmb_channel_id r = ch_id c \<and> cmb_user_id r = u_id u) (channel_members d)))"
      "recipient_wanted E d now names channel_mention here_ids c u cm np" "rr_id row = u_id u"
    using recipient_rows_set [OF assms] by blast
  have "cm \<noteq> None \<Longrightarrow> is_member d (ch_id c) (u_id u)"
    using row(5) by (auto simp: is_member_def list_ex_iff dest!: left_join_member)
  with row show ?thesis
    by (intro exI [of _ c] exI [of _ u]) (auto simp: recipient_wanted_def)
qed

subsection \<open>No one is notified twice\<close>

definition notifications_ok :: "database \<Rightarrow> bool" where
  "notifications_ok d \<longleftrightarrow>
     distinct (map notification_key (filter (\<lambda>n. n_message_id n \<noteq> None) (notifications d))) \<and>
     distinct (map delivery_key (notification_deliveries d)) \<and>
     (\<forall>j \<in> set (notification_deliveries d). d_notification_id j \<in> n_id ` set (notifications d))"

lemma update_where_filter_key:
  assumes "\<And>r. k (f r) = k r" "\<And>r. q (f r) = q r"
  shows "map k (filter q (update_where p f rs)) = map k (filter q rs)"
  using assms by (induction rs) (auto simp: update_where_def)

lemma upsert_keeps_ok:
  assumes "upsert_notification a m t r d = Inr (x, d')" and ok: "notifications_ok d"
  shows "notifications_ok d'"
proof (cases "find (\<lambda>n. notification_key n = (rc_user_id r, Some m, rc_kind r)) (notifications d)")
  case None
  then obtain n where d': "d' = d\<lparr>notifications := notifications d @ [n]\<rparr>"
    and n: "notification_key n = (rc_user_id r, Some m, rc_kind r)"
    using assms by (auto simp: upsert_notification_def notification_key_def)
  have "notification_key n \<notin> notification_key ` set (notifications d)"
    using None by (auto simp: n find_None_iff)
  then show ?thesis
    using ok by (auto simp: notifications_ok_def d')
next
  case (Some n)
  then have d': "d' = d\<lparr>notifications := update_where (\<lambda>x. notification_key x = (rc_user_id r, Some m, rc_kind r))
      (\<lambda>x. x\<lparr>n_body := rc_body r\<rparr>) (notifications d)\<rparr>"
    using assms by (auto simp: upsert_notification_def)
  show ?thesis
    using ok by (simp add: notifications_ok_def d' update_where_filter_key update_where_image)
qed

lemma upsert_each_keeps_ok:
  "upsert_each a m t rs d = Inr (xs, d') \<Longrightarrow> notifications_ok d \<Longrightarrow> notifications_ok d'"
proof (induction rs arbitrary: d xs)
  case (Cons r rs)
  then obtain x d1 xs' where 1: "upsert_notification a m t r d = Inr (x, d1)"
      "upsert_each a m t rs d1 = Inr (xs', d')"
    by (auto split: sum.splits prod.splits simp: map_sum_def)
  with Cons upsert_keeps_ok show ?case by blast
qed simp

lemma insert_delivery_keeps_ok:
  "insert_delivery_or_ignore j d = Inr (x, d') \<Longrightarrow> notifications_ok d \<Longrightarrow> notifications_ok d'"
  by (auto simp: insert_delivery_or_ignore_def notifications_ok_def list_ex_iff image_iff split: if_splits)
    metis

lemma notify_keeps_ok:
  "keeps_on db notifications_ok (create_message_notifications_with_clock E a m)"
  "keeps_on db notifications_ok (create_message_notifications E a m)"
  "keeps_on db notifications_ok (retry_message_notifications E u i)"
proof -
  have up: "notifications_ok d \<Longrightarrow> upsert_notifications a i t rs d = Inr (x, d') \<Longrightarrow> notifications_ok d'" for a i t rs d x d'
    by (auto simp: upsert_notifications_def split: if_splits dest: upsert_each_keeps_ok)
  have ins: "notifications_ok d \<Longrightarrow> insert_all insert_delivery_or_ignore js d = Inr (n, d') \<Longrightarrow> notifications_ok d'" for js d n d'
    using insert_all_ind [of insert_delivery_or_ignore js d n d' notifications_ok] insert_delivery_keeps_ok by blast
  show 1: "keeps_on db notifications_ok (create_message_notifications_with_clock E a m)" for a m
    unfolding create_message_notifications_with_clock_def notify_tx_def
    by (intro keeps_intro keeps_on_transaction_db) (erule (1) up ins)+
  show "keeps_on db notifications_ok (create_message_notifications E a m)"
    unfolding create_message_notifications_def by (rule 1)
  show "keeps_on db notifications_ok (retry_message_notifications E u i)"
    unfolding retry_message_notifications_def by (intro keeps_intro 1)
qed

section \<open>Concrete runs\<close>

text \<open>Ada mentions Bob in the channel main.\<close>

definition demo_mention :: chat_message where
  "demo_mention = demo_hot\<lparr>cm_id := 50, cm_text := ''hi @Bob''\<rparr>"

theorem create_message_notifications_exact_witness:
  "notification_key ` set (notifications (db (snd (create_message_notifications demo_env demo_user demo_mention demo_chat)))) =
     {(2, Some 50, ''mention'')}"
proof -
  let ?run = "create_message_notifications demo_env demo_user demo_mention demo_chat"
  let ?names = "extract_mentioned_usernames (uni demo_env) (cm_text demo_mention) (au_username demo_user)"
  let ?scope = "mention_scope (uni demo_env) (cm_text demo_mention)"
  let ?here = "online_user_ids demo_env (cm_metadata demo_mention)"
  let ?sel = "recipient_rows demo_env (cm_channel demo_mention) (au_id demo_user) (sint (clock demo_env (tick demo_chat)))
      ?names (?scope = Some ChannelScope) ?here (db demo_chat)"
  have run: "?run = (Inr (), snd ?run)"
    by (rule run_fst) code_simp
  have old: "notifications (db demo_chat) = []" and i: "cm_id demo_mention = 50"
    by (simp_all add: demo_chat_def demo_db_def empty_db_def demo_mention_def)
  have "map (\<lambda>row. (rr_id row, notification_kind demo_env ?scope ?here ?names row)) ?sel = [(2, ''mention'')]"
    by code_simp
  then have "(\<lambda>row. (rr_id row, Some (50 :: uuid), notification_kind demo_env ?scope ?here ?names row)) ` set ?sel =
      {(2, Some 50, ''mention'')}"
    by (auto simp: map_eq_Cons_conv)
  then show ?thesis
    using create_message_notifications_exact [OF run] old i by (simp add: Let_def)
qed

theorem notified_users_may_read_witness:
  "\<exists>c u. c \<in> set (channels demo_db) \<and> ch_name c = ''team'' \<and> u \<in> set (users demo_db) \<and>
     u_id u = rr_id (hd (recipient_rows demo_env ''team'' 1 1000 [''bob''] False [] demo_db)) \<and>
     (ch_kind c = Public \<or> is_member demo_db (ch_id c) (u_id u))"
proof -
  have "map rr_id (recipient_rows demo_env ''team'' 1 1000 [''bob''] False [] demo_db) = [2]"
    by code_simp
  then have "hd (recipient_rows demo_env ''team'' 1 1000 [''bob''] False [] demo_db) \<in>
      set (recipient_rows demo_env ''team'' 1 1000 [''bob''] False [] demo_db)"
    by (intro hd_in_set) auto
  from notified_users_may_read [OF this] show ?thesis by blast
qed

end
