(* ===== verification/Queue.thy ===== *)
theory Queue
  imports Database
begin

text \<open>
  The contract shared by the two work queues in the database, the outbox and the notification
  deliveries: a worker claims open rows (unsettled, and not held by a worker that claimed them within
  the last minute), works on them, and then settles or releases each.  The laws are stated once, the
  outbox and the delivery worker discharge them for their own rows.
\<close>

locale job_queue =
  fixes key :: "'r \<Rightarrow> uuid"
    and settled :: "'r \<Rightarrow> bool"
    and open_job :: "i64 \<Rightarrow> 'r \<Rightarrow> bool"
    and claim :: "i64 \<Rightarrow> 'r \<Rightarrow> 'r"
  assumes key_claim: "key (claim t r) = key r"
    and open_unsettled: "open_job t r \<Longrightarrow> \<not> settled r"
    and claim_held: "open_job t r \<Longrightarrow> t \<le> t' \<Longrightarrow> t' \<le> t + 60000 \<Longrightarrow> \<not> open_job t' (claim t r)"
begin

text \<open>The ids a claim query may pick: ids of open rows.\<close>

lemma picked_open:
  assumes "distinct (map key rs)" "set picked \<subseteq> key ` {r \<in> set rs. open_job t r}" "r \<in> set rs" "key r \<in> set picked"
  shows "open_job t r"
proof -
  from assms(2,4) obtain r' where "r' \<in> set rs" "open_job t r'" "key r' = key r" by auto
  with assms(1,3) show ?thesis by (auto simp: distinct_map inj_on_def)
qed

lemma claim_keeps_settled:
  assumes "distinct (map key rs)" "set picked \<subseteq> key ` {r \<in> set rs. open_job t r}" "r \<in> set rs" "settled r"
  shows "r \<in> set (update_where (\<lambda>r. key r \<in> set picked) (claim t) rs)"
proof -
  have "key r \<notin> set picked"
    using picked_open [OF assms(1-3)] open_unsettled assms(4) by blast
  with assms(3) show ?thesis unfolding in_update_where by (intro bexI [of _ r]) simp_all
qed

lemma claim_keeps_keys:
  "map key (update_where (\<lambda>r. key r \<in> set picked) (claim t) rs) = map key rs"
  by (simp add: update_where_key key_claim)

text \<open>A row that was claimed is not open to another worker for a minute.\<close>

lemma claim_exclusive:
  assumes "distinct (map key rs)" "set picked \<subseteq> key ` {r \<in> set rs. open_job t r}" "t \<le> t'" "t' \<le> t + 60000"
    and "r \<in> set (update_where (\<lambda>r. key r \<in> set picked) (claim t) rs)" "key r \<in> set picked"
  shows "\<not> open_job t' r"
proof -
  obtain r0 where "r0 \<in> set rs" and r: "r = (if key r0 \<in> set picked then claim t r0 else r0)"
    using assms(5) unfolding in_update_where by blast
  moreover have "key r0 \<in> set picked"
    using assms(6) r by (simp add: key_claim split: if_splits)
  ultimately show ?thesis
    using claim_held [OF picked_open [OF assms(1,2)] assms(3,4)] by simp
qed

lemma update_keeps_settled:
  assumes "r \<in> set rs" "settled r"
  shows "r \<in> set (update_where (\<lambda>r. key r = i \<and> \<not> settled r) f rs)"
  using assms unfolding in_update_where by (intro bexI [of _ r]) simp_all

end

text \<open>At most \<open>n\<close> rows have an id among \<open>n\<close> picked ones.\<close>

lemma rows_of_picked:
  assumes "distinct (map k rs)" "length picked \<le> n"
  shows "length (filter (\<lambda>r. k r \<in> set picked) rs) \<le> n"
proof -
  have "length (filter (\<lambda>r. k r \<in> set picked) rs) = card (k ` set (filter (\<lambda>r. k r \<in> set picked) rs))"
    using assms(1) by (metis distinct_card distinct_map_filter length_map list.set_map)
  also have "\<dots> \<le> card (set picked)" by (intro card_mono) auto
  also have "\<dots> \<le> n" using card_length [of picked] assms(2) by linarith
  finally show ?thesis .
qed

end
