(* ===== verification/Outbox.thy ===== *)
theory Outbox
  imports Notifications Queue
begin

text \<open>
  \<^verbatim>\<open>backend/src/outbox.rs\<close>: the worker that claims pending outbox events, dispatches them by topic
  (session invalidation, notification retry) and marks them done.  One pass of the worker's endless
  loop is \<open>outbox_pass\<close>; between passes it sleeps, which has no effect on the modelled state.
\<close>

section \<open>Claiming\<close>

definition CLAIM_TIMEOUT_MILLIS :: i64 where "CLAIM_TIMEOUT_MILLIS = 60000"

definition claimable :: "i64 \<Rightarrow> outbox_row \<Rightarrow> bool" where
  "claimable now e =
     (o_published_at e = None \<and> o_attempts e < 5 \<and>
      (case o_claimed_at e of None \<Rightarrow> True | Some t \<Rightarrow> t < now - CLAIM_TIMEOUT_MILLIS))"

text \<open>\<^verbatim>\<open>WITH next AS (SELECT id ... ORDER BY created_at, id LIMIT 32)\<close>\<close>

definition next_events :: "i64 \<Rightarrow> database \<Rightarrow> uuid list" where
  "next_events now d =
     map o_id (take 32 (sort_key (\<lambda>e. (o_created_at e, o_id e)) (filter (claimable now) (outbox_events d))))"

definition claim_event :: "i64 \<Rightarrow> outbox_row \<Rightarrow> outbox_row" where
  "claim_event now e = e\<lparr>o_claimed_at := Some now, o_attempts := o_attempts e + 1\<rparr>"

definition claim_stmt :: "i64 \<Rightarrow> outbox_row list stmt" where
  "claim_stmt now d =
     (let next = next_events now d in
      Inr (map (claim_event now) (filter (\<lambda>e. o_id e \<in> set next) (outbox_events d)),
           d\<lparr>outbox_events := update_where (\<lambda>e. o_id e \<in> set next) (claim_event now) (outbox_events d)\<rparr>))"

definition claim_events :: "'s env \<Rightarrow> i64 \<Rightarrow> ('s, sqlx_error, outbox_row list) io" where
  "claim_events E now = db_exec E id (claim_stmt now)"

section \<open>Dispatching\<close>

text \<open>\<^verbatim>\<open>payload.get(field).and_then(as_str).and_then(Uuid::parse_str)\<close>\<close>

definition payload_uuid :: "'s env \<Rightarrow> string \<Rightarrow> json \<Rightarrow> uuid option" where
  "payload_uuid E field payload =
     Option.bind (Option.bind (json_get field payload) json_str) (uuid_parse E)"

definition handle_auth_invalidate :: "'s env \<Rightarrow> json \<Rightarrow> ('s, unit) app" where
  "handle_auth_invalidate E payload =
     try_bind (ok_or (bad_request ''invalid auth invalidation payload'') (payload_uuid E ''user_id'' payload)) (\<lambda>user_id.
     try_bind (connection E) (\<lambda>_.
     try_bind (vk_read E (smembers (vk E) (user_sessions_key E user_id))) (\<lambda>session_ids.
     try_bind
       (let keys = map (session_key E) (List.map_filter (uuid_parse E) session_ids) in
        when_do (session_ids \<noteq> [] \<and> keys \<noteq> []) (vk_write E (del (vk E) keys))) (\<lambda>_.
     try_bind (vk_write E (del (vk E) [user_sessions_key E user_id])) (\<lambda>_.
     vk_write E (publish (vk E) ''auth.invalidate'' (json_display (codec E) payload)))))))"

definition notification_retry_ids :: "'s env \<Rightarrow> json \<Rightarrow> app_error + uuid \<times> uuid" where
  "notification_retry_ids E payload =
     (case (payload_uuid E ''actor_id'' payload, payload_uuid E ''message_id'' payload) of
        (Some a, Some m) \<Rightarrow> Inr (a, m)
      | _ \<Rightarrow> Inl (bad_request ''invalid notification retry payload''))"

definition handle_notification_retry :: "'s env \<Rightarrow> json \<Rightarrow> ('s, unit) app" where
  "handle_notification_retry E payload =
     try_bind (lift (notification_retry_ids E payload)) (\<lambda>(actor_id, message_id).
     retry_message_notifications E actor_id message_id)"

definition dispatch :: "'s env \<Rightarrow> string \<Rightarrow> json \<Rightarrow> ('s, unit) app" where
  "dispatch E topic payload =
     (if topic = ''auth.invalidate'' then handle_auth_invalidate E payload
      else if topic = ''message.notifications'' then handle_notification_retry E payload
      else ok ())"

section \<open>Completion\<close>

definition set_published :: "i64 \<Rightarrow> uuid \<Rightarrow> unit stmt" where
  "set_published now i d =
     Inr ((), d\<lparr>outbox_events := update_where (\<lambda>e. o_id e = i \<and> o_published_at e = None)
       (\<lambda>e. e\<lparr>o_published_at := Some now, o_claimed_at := None\<rparr>) (outbox_events d)\<rparr>)"

definition set_unclaimed :: "uuid \<Rightarrow> unit stmt" where
  "set_unclaimed i d =
     Inr ((), d\<lparr>outbox_events := update_where (\<lambda>e. o_id e = i \<and> o_published_at e = None)
       (\<lambda>e. e\<lparr>o_claimed_at := None\<rparr>) (outbox_events d)\<rparr>)"

definition finish_event :: "'s env \<Rightarrow> uuid \<Rightarrow> bool \<Rightarrow> ('s, sqlx_error, unit) io" where
  "finish_event E i delivered =
     (if delivered
      then try_bind (now_i64 E) (\<lambda>now. db_exec E id (set_published now i))
      else db_exec E id (set_unclaimed i))"

section \<open>The worker\<close>

text \<open>The body of the loop over the claimed rows; failures are only logged.\<close>

definition process_event :: "'s env \<Rightarrow> outbox_row \<Rightarrow> ('s, sqlx_error, unit) io" where
  "process_event E row =
     try_bind (attempt (dispatch E (o_topic row) (o_payload row))) (\<lambda>result.
     ignore (finish_event E (o_id row) (is_ok result)))"

definition outbox_pass :: "'s env \<Rightarrow> ('s, sqlx_error, unit) io" where
  "outbox_pass E =
     try_bind (now_i64 E) (\<lambda>now.
     try_bind (attempt (claim_events E now)) (\<lambda>claimed.
     case claimed of
       Inl e \<Rightarrow> ok ()
     | Inr rows \<Rightarrow> try_bind (for_each rows (process_event E)) (\<lambda>_. ok ())))"

text \<open>The first \<open>n\<close> rounds of \<^verbatim>\<open>run_outbox\<close>.\<close>

fun run_outbox :: "'s env \<Rightarrow> nat \<Rightarrow> ('s, sqlx_error, unit) io" where
  "run_outbox E 0 = ok ()"
| "run_outbox E (Suc n) = try_bind (outbox_pass E) (\<lambda>_. run_outbox E n)"

section \<open>Claims are bounded and exclusive\<close>

interpretation ob: job_queue o_id "\<lambda>e. o_published_at e \<noteq> None" claimable claim_event
  by unfold_locales (auto simp: claimable_def claim_event_def CLAIM_TIMEOUT_MILLIS_def)

lemma next_events_open: "set (next_events now d) \<subseteq> o_id ` {e \<in> set (outbox_events d). claimable now e}"
  by (auto simp: next_events_def dest!: in_set_takeD)

lemmas next_events_claimable = ob.picked_open [OF _ next_events_open]

definition outbox_ok :: "database \<Rightarrow> bool" where
  "outbox_ok d \<longleftrightarrow> distinct (map o_id (outbox_events d)) \<and> (\<forall>e \<in> set (outbox_events d). 0 \<le> o_attempts e \<and> o_attempts e \<le> 5)"

text \<open>
  A claim takes at most 32 events, each unpublished, tried fewer than five times and not held by a
  worker that claimed it within the last minute; the rows it hands out are marked as claimed now
  with one attempt more, so no other worker can claim them within the next minute, and every other
  event is left as it was.
\<close>

theorem claim_events_spec:
  assumes ok: "outbox_ok (db w)" and run: "claim_events E now w = (Inr rows, w')"
  shows "length rows \<le> 32 \<and>
     (\<forall>r \<in> set rows. \<exists>e \<in> set (outbox_events (db w)). claimable now e \<and> r = claim_event now e \<and> o_attempts r \<le> 5) \<and>
     set rows \<subseteq> set (outbox_events (db w')) \<and>
     (\<forall>e \<in> set (outbox_events (db w)). o_id e \<notin> o_id ` set rows \<longrightarrow> e \<in> set (outbox_events (db w'))) \<and>
     (\<forall>r \<in> set rows. \<forall>t. now \<le> t \<and> t \<le> now + 60000 \<longrightarrow> \<not> claimable t r)"
proof -
  let ?next = "next_events now (db w)"
  have dist: "distinct (map o_id (outbox_events (db w)))"
    using ok by (simp add: outbox_ok_def)
  have rows: "rows = map (claim_event now) (filter (\<lambda>e. o_id e \<in> set ?next) (outbox_events (db w)))"
    and w': "outbox_events (db w') = update_where (\<lambda>e. o_id e \<in> set ?next) (claim_event now) (outbox_events (db w))"
    using run by (auto simp: claim_events_def claim_stmt_def ok_simps Let_def)
  have "length rows \<le> 32"
    unfolding rows length_map by (rule rows_of_picked [OF dist]) (simp add: next_events_def)
  moreover have "\<forall>r \<in> set rows. \<exists>e \<in> set (outbox_events (db w)). claimable now e \<and> r = claim_event now e \<and> o_attempts r \<le> 5"
    using next_events_claimable [OF dist] by (fastforce simp: rows claimable_def claim_event_def)
  moreover have sub: "set rows \<subseteq> set (outbox_events (db w'))"
    by (auto simp: rows w' in_update_where)
  moreover have "\<forall>e \<in> set (outbox_events (db w)). o_id e \<notin> o_id ` set rows \<longrightarrow> e \<in> set (outbox_events (db w'))"
    by (auto simp: rows w' in_update_where image_iff ob.key_claim)
  moreover have "\<forall>r \<in> set rows. \<forall>t. now \<le> t \<and> t \<le> now + 60000 \<longrightarrow> \<not> claimable t r"
    using ob.claim_exclusive [OF dist next_events_open] sub by (auto simp: rows w' ob.key_claim subset_iff)
  ultimately show ?thesis by blast
qed

section \<open>Any number of passes\<close>

lemma dispatch_keeps [keeps_intro]:
  assumes "\<And>d ns. Q d \<Longrightarrow> Q (d\<lparr>notifications := ns\<rparr>)"
    and "\<And>d ds. Q d \<Longrightarrow> Q (d\<lparr>notification_deliveries := ds\<rparr>)"
  shows "keeps_on db Q (dispatch E topic payload)"
  unfolding dispatch_def handle_auth_invalidate_def handle_notification_retry_def
  by (intro keeps_intro assms; assumption)

lemma run_outbox_keeps:
  assumes "\<And>d ns. Q d \<Longrightarrow> Q (d\<lparr>notifications := ns\<rparr>)"
    and "\<And>d ds. Q d \<Longrightarrow> Q (d\<lparr>notification_deliveries := ds\<rparr>)"
    and claim: "\<And>now d x d'. Q d \<Longrightarrow> claim_stmt now d = Inr (x, d') \<Longrightarrow> Q d'"
    and pub: "\<And>now i d x d'. Q d \<Longrightarrow> set_published now i d = Inr (x, d') \<Longrightarrow> Q d'"
    and unc: "\<And>i d x d'. Q d \<Longrightarrow> set_unclaimed i d = Inr (x, d') \<Longrightarrow> Q d'"
  shows "keeps_on db Q (run_outbox E n)"
proof -
  have "keeps_on db Q (outbox_pass E)"
    unfolding outbox_pass_def claim_events_def process_event_def finish_event_def
    by (intro keeps_intro; (rule assms | erule claim pub unc); assumption)
  then show ?thesis
    by (induction n) (auto intro!: keeps_intro)
qed

text \<open>What the worker keeps: the invariant, and a published event as it is.\<close>

definition published_stays :: "outbox_row \<Rightarrow> database \<Rightarrow> bool" where
  "published_stays e d \<longleftrightarrow> outbox_ok d \<and> e \<in> set (outbox_events d)"

lemma published_stays_claim:
  assumes e: "o_published_at e \<noteq> None" and st: "published_stays e d" and run: "claim_stmt now d = Inr (x, d')"
  shows "published_stays e d'"
proof -
  have ok: "distinct (map o_id (outbox_events d))" "\<And>r. r \<in> set (outbox_events d) \<Longrightarrow> 0 \<le> o_attempts r \<and> o_attempts r \<le> 5"
    and mem: "e \<in> set (outbox_events d)"
    using st by (auto simp: published_stays_def outbox_ok_def)
  have d': "outbox_events d' = update_where (\<lambda>e. o_id e \<in> set (next_events now d)) (claim_event now) (outbox_events d)"
    using run by (auto simp: claim_stmt_def Let_def)
  have "r \<in> set (outbox_events d) \<Longrightarrow> o_id r \<in> set (next_events now d) \<Longrightarrow> o_attempts r < 5" for r
    using next_events_claimable [OF ok(1)] by (auto simp: claimable_def)
  then have "\<forall>r \<in> set (outbox_events d'). 0 \<le> o_attempts r \<and> o_attempts r \<le> 5"
    using ok(2) by (fastforce simp: d' in_update_where claim_event_def)
  moreover have "e \<in> set (outbox_events d')"
    unfolding d' by (rule ob.claim_keeps_settled [OF ok(1) next_events_open mem e])
  ultimately show ?thesis
    using ok(1) by (simp add: published_stays_def outbox_ok_def d' ob.claim_keeps_keys)
qed

lemma published_stays_update:
  assumes "published_stays e d" "o_published_at e \<noteq> None" "\<And>r. o_id (f r) = o_id r" "\<And>r. o_attempts (f r) = o_attempts r"
  shows "published_stays e (d\<lparr>outbox_events := update_where (\<lambda>r. o_id r = i \<and> o_published_at r = None) f (outbox_events d)\<rparr>)"
  using assms
  by (auto simp: published_stays_def outbox_ok_def update_where_key in_update_where intro!: bexI [of _ e])

text \<open>
  An event is delivered at most once after it was published and tried at most five times.  However
  many rounds the worker runs, and whatever fails in them, no attempt counter passes five and a
  published event stays exactly as it is; since only unpublished events are claimed, it is never
  dispatched again.
\<close>

theorem run_outbox_published_final:
  assumes "outbox_ok (db w)" and "e \<in> set (outbox_events (db w))" and "o_published_at e \<noteq> None"
    and "run_outbox E n w = (r, w')"
  shows "outbox_ok (db w') \<and> e \<in> set (outbox_events (db w'))"
proof -
  have "keeps_on db (published_stays e) (run_outbox E n)"
  proof (rule run_outbox_keeps)
    fix now i d x d' assume "published_stays e d"
    then show "claim_stmt now d = Inr (x, d') \<Longrightarrow> published_stays e d'"
      "set_published now i d = Inr (y, d') \<Longrightarrow> published_stays e d'"
      "set_unclaimed i d = Inr (y, d') \<Longrightarrow> published_stays e d'" for y
      using assms(3) published_stays_claim published_stays_update
      by (auto simp: set_published_def set_unclaimed_def)
  qed (simp_all add: published_stays_def outbox_ok_def)
  from keeps_onD [OF this _ assms(4)] assms(1,2) show ?thesis
    by (simp add: published_stays_def)
qed

section \<open>Session invalidation\<close>

lemma auth_invalidate_ok:
  assumes V: "valkey (vk E) \<alpha>" and run: "handle_auth_invalidate E payload w = (Inr (), w')"
  shows "\<exists>u ids. payload_uuid E ''user_id'' payload = Some u \<and>
     set ids = set (ks_set (\<alpha> (cache w)) (user_sessions_key E u)) \<and>
     ks_hash (\<alpha> (cache w')) = (\<lambda>k. if k \<in> session_key E ` set (List.map_filter (uuid_parse E) ids) \<or> k = user_sessions_key E u
        then [] else ks_hash (\<alpha> (cache w)) k)"
proof -
  from run obtain u where u: "payload_uuid E ''user_id'' payload = Some u"
    by (auto simp: handle_auth_invalidate_def ok_simps)
  define ids where "ids = smembers (vk E) (user_sessions_key E u) (cache w)"
  have "set ids = set (ks_set (\<alpha> (cache w)) (user_sessions_key E u))"
    by (simp add: ids_def valkey.smembers_abs [OF V])
  moreover have "ks_hash (\<alpha> (cache w')) = (\<lambda>k. if k \<in> session_key E ` set (List.map_filter (uuid_parse E) ids) \<or> k = user_sessions_key E u
        then [] else ks_hash (\<alpha> (cache w)) k)"
    using run u
    by (auto simp: handle_auth_invalidate_def ok_simps Let_def ids_def [symmetric] valkey.del_abs [OF V]
        valkey.publish_abs [OF V] ks_del_def ks_publish_def fun_eq_iff map_filter_simps split: if_splits)
  ultimately show ?thesis
    using u by blast
qed

text \<open>
  A dispatched invalidation logs the user out.  After it succeeded, a cookie with any session id
  that was in the user's session set is refused: the session cannot be loaded any more.
\<close>

theorem invalidated_session_rejected:
  assumes V: "valkey (vk E) \<alpha>"
    and run: "handle_auth_invalidate E payload w = (Inr (), w1)"
    and user: "payload_uuid E ''user_id'' payload = Some u"
    and sess: "uuid_str E i \<in> set (ks_set (\<alpha> (cache w)) (user_sessions_key E u))"
    and uuid: "uuid_parse E (uuid_str E i) = Some i"
    and cookie: "cookie_value headers ''vussa_session'' = Some raw" "uuid_parse E raw = Some i"
    and load: "load_session E headers w1 = (r, w2)"
  shows "\<exists>e. r = Inl e \<and> (status e = UNAUTHORIZED \<or> status e = SERVICE_UNAVAILABLE)"
proof -
  obtain ids where ids: "set ids = set (ks_set (\<alpha> (cache w)) (user_sessions_key E u))"
    and h: "ks_hash (\<alpha> (cache w1)) = (\<lambda>k. if k \<in> session_key E ` set (List.map_filter (uuid_parse E) ids) \<or> k = user_sessions_key E u
        then [] else ks_hash (\<alpha> (cache w)) k)"
    using auth_invalidate_ok [OF V run] user by auto
  have "i \<in> set (List.map_filter (uuid_parse E) ids)"
    using ids sess uuid by (force simp: map_filter_def)
  then have "ks_hash (\<alpha> (cache w1)) (session_key E i) = []"
    by (simp add: h)
  from load_session_gone [OF V cookie this load] show ?thesis .
qed

section \<open>Concrete runs\<close>

definition demo_event :: "uuid \<Rightarrow> i64 option \<Rightarrow> outbox_row" where
  "demo_event i published = \<lparr>o_id = i, o_topic = ''auth.invalidate'', o_payload = JObj [(''user_id'', JStr ''1'')],
     o_created_at = 0, o_published_at = published, o_attempts = 1, o_claimed_at = None\<rparr>"

definition demo_queue :: "keyspace world" where
  "demo_queue = demo_chat\<lparr>db := demo_db\<lparr>outbox_events := [demo_event 1 (Some 5), demo_event 2 None]\<rparr>,
     cache := ks_sadd (user_sessions_key demo_env 1) ''100'' ks_empty\<rparr>"

lemma demo_queue_ok: "outbox_ok (db demo_queue)"
  by (simp add: outbox_ok_def demo_queue_def demo_event_def)

theorem claim_events_spec_witness:
  "\<exists>e \<in> set (outbox_events (db demo_queue)). claimable 9 e \<and>
     claim_event 9 (demo_event 2 None) = claim_event 9 e \<and> o_attempts (claim_event 9 (demo_event 2 None)) \<le> 5"
proof -
  have "fst (claim_events demo_env 9 demo_queue) = Inr [claim_event 9 (demo_event 2 None)]"
    by (simp add: claim_events_def claim_stmt_def next_events_def claimable_def demo_queue_def demo_event_def io_defs
        map_err_run)
  from claim_events_spec [OF demo_queue_ok run_fst [OF this]] show ?thesis
    by (meson list.set_intros(1))
qed

theorem run_outbox_published_final_witness:
  "demo_event 1 (Some 5) \<in> set (outbox_events (db (snd (run_outbox demo_env 3 demo_queue))))"
proof -
  have "demo_event 1 (Some 5) \<in> set (outbox_events (db demo_queue))" "o_published_at (demo_event 1 (Some 5)) \<noteq> None"
    by (simp_all add: demo_queue_def demo_event_def)
  from run_outbox_published_final [OF demo_queue_ok this surjective_pairing] show ?thesis by blast
qed

theorem invalidated_session_rejected_witness:
  "\<exists>e. fst (load_session demo_env [(''cookie'', ''vussa_session=100'')]
      (snd (handle_auth_invalidate demo_env (JObj [(''user_id'', JStr ''1'')]) demo_queue))) = Inl e \<and>
     (status e = UNAUTHORIZED \<or> status e = SERVICE_UNAVAILABLE)"
proof -
  let ?p = "JObj [(''user_id'', JStr ''1'')]"
  let ?w1 = "snd (handle_auth_invalidate demo_env ?p demo_queue)"
  have run: "handle_auth_invalidate demo_env ?p demo_queue = (Inr (), ?w1)"
    by (rule run_fst) (simp add: handle_auth_invalidate_def payload_uuid_def try_bind_def io_defs when_do_def Let_def
        parse_digits.simps digit_value_def in_range_def)
  have "payload_uuid demo_env ''user_id'' ?p = Some 1"
    and "uuid_str demo_env 100 \<in> set (ks_set (cache demo_queue) (user_sessions_key demo_env 1))"
    and "uuid_parse demo_env (uuid_str demo_env 100) = Some 100"
    and "cookie_value [(''cookie'', ''vussa_session=100'')] ''vussa_session'' = Some ''100''"
    and "uuid_parse demo_env ''100'' = Some 100"
    by code_simp+
  from invalidated_session_rejected [OF demo_valkey run this surjective_pairing] show ?thesis .
qed

end
