(* ===== verification/Delivery.thy ===== *)
theory Delivery
  imports Outbox
begin

text \<open>
  \<^verbatim>\<open>backend/src/notifications/delivery.rs\<close>: the worker that delivers queued notification jobs by e-mail
  or browser push, with retries.  The two sinks are parameters of the worker, as they are trait objects
  in the source; the webhook sink is modelled up to the HTTP client.  The tasks the worker spawns work
  on rows of their own; \<open>delivery_step\<close> is one statement of any worker, task or producer, so its
  sequences are all the interleavings.
\<close>

section \<open>Sinks\<close>

datatype delivery_error = Configuration string | Network string

fun show_delivery_error :: "delivery_error \<Rightarrow> string" where
  "show_delivery_error (Configuration m) = ''notification configuration: '' @ m"
| "show_delivery_error (Network m) = ''notification delivery: '' @ m"

record notification_target =
  nt_user_id :: uuid
  nt_email :: string
  nt_endpoint :: "string option"
  nt_p256dh :: "string option"
  nt_auth :: "string option"

type_synonym 's sink = "notification_target \<Rightarrow> string \<Rightarrow> string \<Rightarrow> ('s, delivery_error, unit) io"

definition disabled_sink :: "'s sink" where
  "disabled_sink target kind body = ok ()"

record webhook =
  wh_endpoint :: string
  wh_channel :: string

text \<open>\<open>client_build\<close> stands for the HTTP client's builder: it fails with a message or succeeds.\<close>

definition webhook_new :: "'s env \<Rightarrow> string option \<Rightarrow> string \<Rightarrow> string \<Rightarrow> delivery_error + webhook" where
  "webhook_new E client_build endpoint channel =
     (case url_parse E endpoint of
        None \<Rightarrow> Inl (Configuration ''notification URL is invalid'')
      | Some u \<Rightarrow>
          if url_scheme u \<noteq> ''http'' \<and> url_scheme u \<noteq> ''https''
          then Inl (Configuration ''notification URL must use HTTP or HTTPS'')
          else
          (case client_build of
             Some e \<Rightarrow> Inl (Configuration e)
           | None \<Rightarrow> Inr \<lparr>wh_endpoint = endpoint, wh_channel = channel\<rparr>))"

definition webhook_from_env :: "'s env \<Rightarrow> string option \<Rightarrow> string \<Rightarrow> string \<Rightarrow> delivery_error + webhook" where
  "webhook_from_env E client_build variable channel =
     (case env_var E variable of
        None \<Rightarrow> Inl (Configuration (variable @ '' is not configured''))
      | Some endpoint \<Rightarrow> webhook_new E client_build endpoint channel)"

definition json_opt :: "string option \<Rightarrow> json" where
  "json_opt v = (case v of None \<Rightarrow> JNull | Some s \<Rightarrow> JStr s)"

text \<open>\<open>post\<close> is the HTTP client: an error text, or the status code and its text.\<close>

definition webhook_deliver ::
  "'s env \<Rightarrow> (string \<Rightarrow> json \<Rightarrow> ('s, string, nat \<times> string) io) \<Rightarrow> webhook \<Rightarrow> 's sink" where
  "webhook_deliver E post hook target kind body =
     try_bind (map_err Network (post (wh_endpoint hook)
       (JObj [(''channel'', JStr (wh_channel hook)), (''user_id'', JStr (uuid_str E (nt_user_id target))),
              (''email'', JStr (nt_email target)),
              (''subscription'', JObj [(''endpoint'', json_opt (nt_endpoint target)),
                 (''p256dh'', json_opt (nt_p256dh target)), (''auth'', json_opt (nt_auth target))]),
              (''kind'', JStr kind), (''body'', JStr body)]))) (\<lambda>(code, txt).
     if 200 \<le> code \<and> code < 300 then ok () else fail (Network txt))"

section \<open>Claiming\<close>

definition due :: "i64 \<Rightarrow> delivery_row \<Rightarrow> bool" where
  "due now j =
     (d_sent_at j = None \<and> d_next_attempt_at j \<le> now \<and>
      (case d_claimed_at j of None \<Rightarrow> True | Some t \<Rightarrow> t < now - 60000))"

definition next_deliveries :: "i64 \<Rightarrow> database \<Rightarrow> uuid list" where
  "next_deliveries now d =
     map d_id (take 32 (sort_key (\<lambda>j. (d_next_attempt_at j, d_id j)) (filter (due now) (notification_deliveries d))))"

definition claim_delivery :: "i64 \<Rightarrow> delivery_row \<Rightarrow> delivery_row" where
  "claim_delivery now j = j\<lparr>d_claimed_at := Some now, d_attempts := d_attempts j + 1\<rparr>"

text \<open>\<^verbatim>\<open>LEFT JOIN LATERAL (SELECT ... ORDER BY updated_at DESC, id DESC LIMIT 1) s ON d.channel='browser'\<close>\<close>

definition latest_subscription :: "database \<Rightarrow> delivery_row \<Rightarrow> subscription_row option" where
  "latest_subscription d j =
     (if d_channel j = Browser
      then (case order_desc (\<lambda>r. (ns_updated_at r, ns_id r))
                   (filter (\<lambda>r. ns_user_id r = d_user_id j) (notification_subscriptions d)) of
              [] \<Rightarrow> None | r # _ \<Rightarrow> Some r)
      else None)"

definition claim_deliveries :: "i64 \<Rightarrow> (delivery_row \<times> subscription_row option) list stmt" where
  "claim_deliveries now d =
     (let next = next_deliveries now d;
          claimed = map (claim_delivery now) (filter (\<lambda>j. d_id j \<in> set next) (notification_deliveries d)) in
      Inr (map (\<lambda>j. (j, latest_subscription d j)) claimed,
           d\<lparr>notification_deliveries :=
               update_where (\<lambda>j. d_id j \<in> set next) (claim_delivery now) (notification_deliveries d)\<rparr>))"

section \<open>Working on a job\<close>

text \<open>\<^verbatim>\<open>(1_i64 << attempts.clamp(0, 12)).saturating_mul(1000).min(60 * 60 * 1000)\<close>\<close>

definition retry_delay_ms :: "int \<Rightarrow> i64" where
  "retry_delay_ms attempts =
     min (min (2 ^ 63 - 1) (2 ^ nat (min 12 (max 0 attempts)) * 1000)) (60 * 60 * 1000)"

definition set_sent :: "i64 \<Rightarrow> uuid \<Rightarrow> unit stmt" where
  "set_sent now i d =
     Inr ((), d\<lparr>notification_deliveries := update_where (\<lambda>j. d_id j = i \<and> d_sent_at j = None)
       (\<lambda>j. j\<lparr>d_sent_at := Some now, d_claimed_at := None\<rparr>) (notification_deliveries d)\<rparr>)"

definition set_retry :: "i64 \<Rightarrow> string \<Rightarrow> uuid \<Rightarrow> unit stmt" where
  "set_retry at_time err i d =
     Inr ((), d\<lparr>notification_deliveries := update_where (\<lambda>j. d_id j = i \<and> d_sent_at j = None)
       (\<lambda>j. j\<lparr>d_claimed_at := None, d_next_attempt_at := at_time, d_last_error := Some err\<rparr>)
       (notification_deliveries d)\<rparr>)"

definition target_of :: "delivery_row \<Rightarrow> subscription_row option \<Rightarrow> notification_target" where
  "target_of j s =
     \<lparr>nt_user_id = d_user_id j, nt_email = d_email j, nt_endpoint = map_option ns_endpoint s,
      nt_p256dh = map_option ns_p256dh s, nt_auth = map_option ns_auth s\<rparr>"

text \<open>The spawned task of one row.\<close>

definition delivery_task ::
  "'s env \<Rightarrow> 's sink \<Rightarrow> 's sink \<Rightarrow> delivery_row \<times> subscription_row option \<Rightarrow> ('s, sqlx_error, unit) io" where
  "delivery_task E email_sink browser_sink row =
     (case row of (j, s) \<Rightarrow>
     try_bind (attempt
       (if d_channel j = Email then email_sink (target_of j s) (d_kind j) (d_body j)
        else browser_sink (target_of j s) (d_kind j) (d_body j))) (\<lambda>result.
     try_bind (now_i64 E) (\<lambda>now.
     case result of
       Inr _ \<Rightarrow> ignore (db_exec E id (set_sent now (d_id j)))
     | Inl e \<Rightarrow>
         ignore (db_exec E id (set_retry (now + retry_delay_ms (d_attempts j)) (show_delivery_error e) (d_id j))))))"

text \<open>One round of the endless loop, its tasks run to their end.\<close>

definition delivery_pass :: "'s env \<Rightarrow> 's sink \<Rightarrow> 's sink \<Rightarrow> ('s, sqlx_error, unit) io" where
  "delivery_pass E email_sink browser_sink =
     try_bind (now_i64 E) (\<lambda>now.
     try_bind (attempt (db_exec E id (claim_deliveries now))) (\<lambda>result.
     case result of
       Inl e \<Rightarrow> ok ()
     | Inr rows \<Rightarrow> try_bind (for_each rows (delivery_task E email_sink browser_sink)) (\<lambda>_. ok ())))"

fun run_notification_delivery :: "'s env \<Rightarrow> 's sink \<Rightarrow> 's sink \<Rightarrow> nat \<Rightarrow> ('s, sqlx_error, unit) io" where
  "run_notification_delivery E email_sink browser_sink 0 = ok ()"
| "run_notification_delivery E email_sink browser_sink (Suc n) =
     try_bind (delivery_pass E email_sink browser_sink) (\<lambda>_. run_notification_delivery E email_sink browser_sink n)"

section \<open>Back-off\<close>

text \<open>
  Retries back off exponentially and stay bounded.  The delay starts at one second, doubles with
  every attempt up to the eleventh, never shrinks, and is never longer than an hour, whatever the
  attempt counter holds, negative or huge.
\<close>

theorem retry_delay_bounds:
  "1000 \<le> retry_delay_ms a \<and> retry_delay_ms a \<le> 3600000 \<and>
   (a \<le> b \<longrightarrow> retry_delay_ms a \<le> retry_delay_ms b) \<and>
   (0 \<le> a \<and> a \<le> 10 \<longrightarrow> retry_delay_ms (a + 1) = 2 * retry_delay_ms a) \<and>
   (12 \<le> a \<longrightarrow> retry_delay_ms a = 3600000)"
proof -
  define f where "f n = min (min (2 ^ 63 - 1) (2 ^ n * 1000)) (60 * 60 * 1000 :: int)" for n :: nat
  have def: "retry_delay_ms x = f (nat (min 12 (max 0 x)))" for x
    by (simp add: retry_delay_ms_def f_def)
  have mono: "m \<le> n \<Longrightarrow> f m \<le> f n" for m n
  proof -
    assume "m \<le> n"
    then have "(2 :: int) ^ m \<le> 2 ^ n" by (intro power_increasing) auto
    then show "f m \<le> f n" by (simp add: f_def min_le_iff_disj)
  qed
  have ends: "f 0 = 1000" "f 12 = 3600000"
    by (simp_all add: f_def)
  have low: "1000 \<le> f n" and high: "f n \<le> 3600000" for n
    using mono [of 0 n] ends by (simp_all add: f_def)
  have double: "n \<le> 10 \<Longrightarrow> f (Suc n) = 2 * f n" for n
  proof -
    assume "n \<le> 10"
    then have "(2 :: int) ^ n \<le> 2 ^ 10" by (intro power_increasing) auto
    then show "f (Suc n) = 2 * f n" by (simp add: f_def min_def)
  qed
  have "0 \<le> a \<and> a \<le> 10 \<Longrightarrow> retry_delay_ms (a + 1) = 2 * retry_delay_ms a"
    using double [of "nat a"] nat_mono [of a 10] by (simp add: def nat_add_distrib)
  moreover have "12 \<le> a \<Longrightarrow> retry_delay_ms a = 3600000"
    using ends(2) by (simp add: def min_def)
  moreover have "a \<le> b \<Longrightarrow> retry_delay_ms a \<le> retry_delay_ms b"
    unfolding def by (intro mono nat_mono) (simp add: min_def max_def)
  ultimately show ?thesis
    using low high by (simp add: def)
qed

theorem retry_delay_bounds_witness:
  "retry_delay_ms 3 = 2 * retry_delay_ms 2 \<and> retry_delay_ms 2 \<le> retry_delay_ms 5 \<and> retry_delay_ms 99 = 3600000"
  using retry_delay_bounds [of 2 5] retry_delay_bounds [of 99 99] by simp

section \<open>Every interleaving of the workers\<close>

interpretation dq: job_queue d_id "\<lambda>j. d_sent_at j \<noteq> None" due claim_delivery
  by unfold_locales (auto simp: due_def claim_delivery_def)

lemma next_deliveries_open: "set (next_deliveries now d) \<subseteq> d_id ` {j \<in> set (notification_deliveries d). due now j}"
  by (auto simp: next_deliveries_def dest!: in_set_takeD)

inductive delivery_step :: "database \<Rightarrow> database \<Rightarrow> bool" where
  claim: "claim_deliveries now d = Inr (rows, d') \<Longrightarrow> delivery_step d d'"
| sent: "set_sent now i d = Inr (u, d') \<Longrightarrow> delivery_step d d'"
| retry: "set_retry t err i d = Inr (u, d') \<Longrightarrow> delivery_step d d'"
| queue: "insert_delivery_or_ignore j d = Inr (u, d') \<Longrightarrow> delivery_step d d'"

inductive_cases delivery_stepE: "delivery_step d d'"

definition deliveries_ok :: "database \<Rightarrow> bool" where
  "deliveries_ok d \<longleftrightarrow> distinct (map d_id (notification_deliveries d)) \<and>
     distinct (map delivery_key (notification_deliveries d))"

lemma claim_deliveries_eq:
  "claim_deliveries now d = Inr (rows, d') \<Longrightarrow>
     d' = d\<lparr>notification_deliveries :=
       update_where (\<lambda>j. d_id j \<in> set (next_deliveries now d)) (claim_delivery now) (notification_deliveries d)\<rparr>"
  by (auto simp: claim_deliveries_def Let_def)

lemma delivery_step_ok:
  assumes "delivery_step d d'" "deliveries_ok d"
  shows "deliveries_ok d'"
  using assms
proof (cases rule: delivery_step.cases)
  case (claim now rows)
  have "map d_id (notification_deliveries d') = map d_id (notification_deliveries d)"
    "map delivery_key (notification_deliveries d') = map delivery_key (notification_deliveries d)"
    unfolding claim_deliveries_eq [OF claim] by (simp_all add: update_where_key claim_delivery_def delivery_key_def)
  with assms(2) show ?thesis by (simp add: deliveries_ok_def)
qed (auto simp: deliveries_ok_def set_sent_def set_retry_def update_where_key delivery_key_def
    insert_delivery_or_ignore_def list_ex_iff split: if_splits)

lemma delivery_step_settled:
  assumes "delivery_step d d'" "deliveries_ok d" "j \<in> set (notification_deliveries d)" "d_sent_at j \<noteq> None"
  shows "j \<in> set (notification_deliveries d')"
  using assms(1)
proof (cases rule: delivery_step.cases)
  case (claim now rows)
  show ?thesis
    unfolding claim_deliveries_eq [OF claim]
    using dq.claim_keeps_settled [OF _ next_deliveries_open assms(3,4), of now] assms(2) by (simp add: deliveries_ok_def)
next
  case (queue j' u)
  then show ?thesis
    using assms(3) by (auto simp: insert_delivery_or_ignore_def split: if_splits)
qed (use assms(3,4) in \<open>auto simp: set_sent_def set_retry_def in_update_where intro!: bexI [of _ j]\<close>)

text \<open>
  Nothing is delivered again once it was acknowledged.  Over any interleaving of claims,
  acknowledgements, retries and new jobs, by any number of workers, a sent row stays in the table
  exactly as it is, there is never a second row for the same notification and channel, and no claim
  ever hands the sent row out.
\<close>

theorem delivery_sent_final:
  assumes "rtranclp delivery_step d d'" and "deliveries_ok d"
    and "j \<in> set (notification_deliveries d)" and "d_sent_at j \<noteq> None"
  shows "deliveries_ok d' \<and> j \<in> set (notification_deliveries d') \<and> d_id j \<notin> set (next_deliveries now d') \<and>
    (\<forall>j' \<in> set (notification_deliveries d'). delivery_key j' = delivery_key j \<longrightarrow> j' = j)"
proof -
  have inv: "deliveries_ok d' \<and> j \<in> set (notification_deliveries d')"
    using assms(1)
    by (induction rule: rtranclp_induct) (use assms(2-4) delivery_step_ok delivery_step_settled in blast)+
  then have ids: "distinct (map d_id (notification_deliveries d'))"
    and keys: "distinct (map delivery_key (notification_deliveries d'))" and mem: "j \<in> set (notification_deliveries d')"
    by (simp_all add: deliveries_ok_def)
  have "d_id j \<notin> set (next_deliveries now d')"
    using dq.picked_open [OF ids next_deliveries_open mem] dq.open_unsettled assms(4) by blast
  moreover have "\<forall>j' \<in> set (notification_deliveries d'). delivery_key j' = delivery_key j \<longrightarrow> j' = j"
    using distinct_ids_eq [OF keys _ mem] by blast
  ultimately show ?thesis using inv by blast
qed

subsection \<open>The worker takes only these steps\<close>

lemma reaches_step [intro]: "rtranclp delivery_step d0 d \<Longrightarrow> delivery_step d d' \<Longrightarrow> rtranclp delivery_step d0 d'"
  by (rule rtranclp.rtrancl_into_rtrancl)

lemma leaves_keeps:
  assumes "\<And>x. keeps_on \<pi> (\<lambda>y. y = x) m"
  shows "keeps_on \<pi> Q m"
  unfolding keeps_on_def keeps_def
proof (intro allI impI)
  fix w assume "Q (\<pi> w)"
  moreover have "\<pi> (snd (m w)) = \<pi> w"
    by (rule keeps_on_leaves [of \<pi> m w "fst (m w)", OF assms]) simp
  ultimately show "Q (\<pi> (snd (m w)))" by simp
qed

lemma delivery_task_reaches:
  assumes "\<And>t k b. keeps_on db (rtranclp delivery_step d0) (es t k b)" "\<And>t k b. keeps_on db (rtranclp delivery_step d0) (bs t k b)"
  shows "keeps_on db (rtranclp delivery_step d0) (delivery_task E es bs row)"
  unfolding delivery_task_def
  by (intro keeps_intro assms; blast intro: delivery_step.intros)


section \<open>Concrete runs\<close>

definition demo_delivery :: "uuid \<Rightarrow> i64 option \<Rightarrow> delivery_row" where
  "demo_delivery i sent = \<lparr>d_id = i, d_notification_id = i, d_user_id = 2, d_channel = Email,
     d_email = ''bob@example.com'', d_kind = ''mention'', d_body = ''hi'', d_attempts = 0, d_next_attempt_at = 0,
     d_claimed_at = None, d_sent_at = sent, d_last_error = None\<rparr>"

definition demo_mail :: "keyspace world" where
  "demo_mail = demo_chat\<lparr>db := demo_db\<lparr>notification_deliveries := [demo_delivery 1 (Some 5), demo_delivery 2 None]\<rparr>\<rparr>"


theorem delivery_sent_final_witness:
  "demo_delivery 1 (Some 5) \<in> set (notification_deliveries
     ((db demo_mail)\<lparr>notification_deliveries := [demo_delivery 1 (Some 5), claim_delivery 9 (demo_delivery 2 None)]\<rparr>))"
proof -
  have "delivery_step (db demo_mail)
     ((db demo_mail)\<lparr>notification_deliveries := [demo_delivery 1 (Some 5), claim_delivery 9 (demo_delivery 2 None)]\<rparr>)"
    by (rule delivery_step.claim [where now = 9])
      (simp add: claim_deliveries_def demo_mail_def next_deliveries_def due_def demo_delivery_def update_where_def Let_def)
  moreover have "deliveries_ok (db demo_mail)" "demo_delivery 1 (Some 5) \<in> set (notification_deliveries (db demo_mail))"
      "d_sent_at (demo_delivery 1 (Some 5)) \<noteq> None"
    by (simp_all add: deliveries_ok_def demo_mail_def demo_delivery_def delivery_key_def)
  ultimately show ?thesis
    using delivery_sent_final [OF r_into_rtranclp] by blast
qed

end
