(* ===== verification/Rooms.thy ===== *)
theory Rooms
  imports Broadcast
begin

text \<open>
  \<^verbatim>\<open>backend/src/websocket/rooms.rs\<close>: the room manager, one task that owns a table of rooms with the
  number of local clients in each, subscribes to the rooms' topics at the Valkey server, routes what is
  published there to the clients, and restores its subscriptions after the connection was lost.

  The manager is a state machine.  Its inputs are the commands of the connections, the published
  messages, the loss of the connection and the attempts to restore it; the outcome of every call to
  the server is part of the input.  What is sent into a room or to the control channel is recorded in
  the state, in order.
\<close>

section \<open>State\<close>

datatype manager_command = Subscribe string | Release string

record room_entry =
  re_sent :: "string list"     \<comment> \<open>what the room's broadcast sender was given so far\<close>
  re_clients :: nat

datatype manager_phase =
    Running
  | Reconnecting nat           \<comment> \<open>the retry delay in milliseconds\<close>
  | Stopped

record manager =
  rooms :: "(string \<times> room_entry) list"
  subscriptions :: "string list"     \<comment> \<open>topics the current sink is subscribed to\<close>
  control_sent :: "string list"
  phase :: manager_phase

text \<open>The capacity of a room's buffer: \<^verbatim>\<open>WS_ROOM_EVENT_CAPACITY\<close>, by default 4096, clamped.\<close>

definition room_event_capacity :: "'s env \<Rightarrow> nat" where
  "room_event_capacity E =
     (let v = (case Option.bind (env_var E ''WS_ROOM_EVENT_CAPACITY'') parse_usize of
                 Some n \<Rightarrow> if n > 0 then n else 4096
               | None \<Rightarrow> 4096)
      in min 65536 (max 128 v))"

definition start :: manager where
  "start = \<lparr>rooms = [], subscriptions = [''_control''], control_sent = [], phase = Running\<rparr>"

section \<open>Commands\<close>

text \<open>
  \<open>sub_ok\<close> and \<open>unsub_ok\<close> say whether the server accepted the subscription and the cancellation; the
  reply is what the connection gets.
\<close>

fun on_command :: "bool \<Rightarrow> bool \<Rightarrow> manager_command \<Rightarrow> manager \<Rightarrow> (string + unit) option \<times> manager" where
  "on_command sub_ok unsub_ok (Subscribe ch) st =
     (case map_of (rooms st) ch of
        Some e \<Rightarrow>
          (Some (Inr ()), st\<lparr>rooms := AList.update ch (e\<lparr>re_clients := re_clients e + 1\<rparr>) (rooms st)\<rparr>)
      | None \<Rightarrow>
          if \<not> sub_ok then (Some (Inl ''Valkey room subscription failed''), st)
          else (Some (Inr ()),
                st\<lparr>rooms := AList.update ch \<lparr>re_sent = [], re_clients = 1\<rparr> (rooms st),
                   subscriptions := List.insert (room_key ch) (subscriptions st)\<rparr>))"
| "on_command sub_ok unsub_ok (Release ch) st =
     (case map_of (rooms st) ch of
        None \<Rightarrow> (None, st)
      | Some e \<Rightarrow>
          if re_clients e - 1 = 0
          then (None, st\<lparr>rooms := AList.delete ch (rooms st),
                         subscriptions := (if unsub_ok then removeAll (room_key ch) (subscriptions st)
                                           else subscriptions st)\<rparr>)
          else (None, st\<lparr>rooms := AList.update ch (e\<lparr>re_clients := re_clients e - 1\<rparr>) (rooms st)\<rparr>))"

section \<open>Routing\<close>

datatype route = ToRoom string | ToControl | Dropped

fun route_of :: "server_event \<Rightarrow> route" where
  "route_of (MessageEvent m) = ToRoom (cm_channel m)"
| "route_of (MessageUpdated m) = ToRoom (cm_channel m)"
| "route_of (ReactionUpdated ch _) = ToRoom ch"
| "route_of (ChannelCreated _) = ToControl"
| "route_of (ChannelDeleted _) = ToControl"
| "route_of (Participants ch _) = ToRoom ch"
| "route_of (ParticipantJoined ch _) = ToRoom ch"
| "route_of (ParticipantLeft ch _) = ToRoom ch"
| "route_of (PresenceSync ch _) = ToRoom ch"
| "route_of (Typing ch _ _ _) = ToRoom ch"
| "route_of _ = Dropped"

definition send_to_room :: "string \<Rightarrow> string \<Rightarrow> manager \<Rightarrow> manager" where
  "send_to_room ch wire st =
     (case map_of (rooms st) ch of
        None \<Rightarrow> st
      | Some e \<Rightarrow> st\<lparr>rooms := AList.update ch (e\<lparr>re_sent := re_sent e @ [wire]\<rparr>) (rooms st)\<rparr>)"

definition on_pubsub :: "codecs \<Rightarrow> string \<Rightarrow> manager \<Rightarrow> manager" where
  "on_pubsub C payload st =
     (case event_parse C payload of
        None \<Rightarrow> st
      | Some event \<Rightarrow>
          (case route_of event of
             ToRoom ch \<Rightarrow> send_to_room ch payload st
           | ToControl \<Rightarrow> st\<lparr>control_sent := control_sent st @ [payload]\<rparr>
           | Dropped \<Rightarrow> st))"

section \<open>Losing and restoring the connection\<close>

definition interrupted_notice :: string where
  "interrupted_notice = ''{\"type\":\"error\",\"message\":\"realtime connection interrupted\"}''"

definition on_connection_lost :: "manager \<Rightarrow> manager" where
  "on_connection_lost st =
     st\<lparr>control_sent := control_sent st @ [interrupted_notice], phase := Reconnecting 250\<rparr>"

text \<open>\<^verbatim>\<open>(current * 2).min(Duration::from_secs(10))\<close>, in milliseconds\<close>

definition next_room_retry_delay :: "nat \<Rightarrow> nat" where
  "next_room_retry_delay current = min (current * 2) 10000"

text \<open>
  One attempt: connect, subscribe to the control topic, then to every room in turn; the first failure
  ends it.  \<open>room_ok\<close> says which room subscriptions the server accepts.
\<close>

definition on_reconnect :: "bool \<Rightarrow> bool \<Rightarrow> (string \<Rightarrow> bool) \<Rightarrow> nat \<Rightarrow> manager \<Rightarrow> manager" where
  "on_reconnect connected control_ok room_ok delay st =
     (if connected \<and> control_ok \<and> list_all (\<lambda>(ch, _). room_ok ch) (rooms st)
      then st\<lparr>subscriptions := ''_control'' # map (\<lambda>(ch, _). room_key ch) (rooms st), phase := Running\<rparr>
      else st\<lparr>phase := Reconnecting (next_room_retry_delay delay)\<rparr>)"

section \<open>The machine\<close>

text \<open>
  \<open>manager_step C held st held' st'\<close>: one input in the phase that listens to it.  \<open>held ch\<close> counts the
  subscriptions to \<open>ch\<close> that some connection was granted and has not given back yet.
\<close>

inductive manager_step ::
  "codecs \<Rightarrow> (string \<Rightarrow> nat) \<times> manager \<Rightarrow> (string \<Rightarrow> nat) \<times> manager \<Rightarrow> bool" for C where
  granted: "phase st = Running \<Longrightarrow> on_command s u (Subscribe ch) st = (Some (Inr ()), st') \<Longrightarrow>
     manager_step C (held, st) (held(ch := held ch + 1), st')"
| refused: "phase st = Running \<Longrightarrow> on_command s u (Subscribe ch) st = (Some (Inl e), st') \<Longrightarrow>
     manager_step C (held, st) (held, st')"
| released: "phase st = Running \<Longrightarrow> held ch > 0 \<Longrightarrow> on_command s u (Release ch) st = (r, st') \<Longrightarrow>
     manager_step C (held, st) (held(ch := held ch - 1), st')"
| published: "phase st = Running \<Longrightarrow> manager_step C (held, st) (held, on_pubsub C payload st)"
| lost: "phase st = Running \<Longrightarrow> manager_step C (held, st) (held, on_connection_lost st)"
| retried: "phase st = Reconnecting n \<Longrightarrow> manager_step C (held, st) (held, on_reconnect c k rs n st)"
| closed: "phase st = Running \<Longrightarrow> manager_step C (held, st) (held, st\<lparr>phase := Stopped\<rparr>)"

inductive manager_reach :: "codecs \<Rightarrow> (string \<Rightarrow> nat) \<times> manager \<Rightarrow> bool" for C where
  start: "manager_reach C ((\<lambda>_. 0), start)"
| step: "manager_reach C s \<Longrightarrow> manager_step C s s' \<Longrightarrow> manager_reach C s'"

inductive_cases manager_stepE: "manager_step C s s'"

section \<open>Reference counts\<close>

definition count_in :: "manager \<Rightarrow> string \<Rightarrow> nat" where
  "count_in st ch = (case map_of (rooms st) ch of None \<Rightarrow> 0 | Some e \<Rightarrow> re_clients e)"

definition rooms_ok :: "manager \<Rightarrow> bool" where
  "rooms_ok st \<longleftrightarrow> distinct (map fst (rooms st)) \<and> ''_control'' \<in> set (subscriptions st) \<and>
     (\<forall>ch e. map_of (rooms st) ch = Some e \<longrightarrow> 0 < re_clients e \<and> room_key ch \<in> set (subscriptions st))"

definition delay_ok :: "manager \<Rightarrow> bool" where
  "delay_ok st \<longleftrightarrow> (\<forall>n. phase st = Reconnecting n \<longrightarrow> 250 \<le> n \<and> n \<le> 10000)"

definition manager_ok :: "(string \<Rightarrow> nat) \<times> manager \<Rightarrow> bool" where
  "manager_ok = (\<lambda>(held, st). rooms_ok st \<and> delay_ok st \<and> held = count_in st)"

lemma room_key_simps [simp]: "room_key a = room_key b \<longleftrightarrow> a = b" "room_key a \<noteq> ''_control''" "''_control'' \<noteq> room_key a"
  by (simp_all add: room_key_def)

lemma subscribe_granted:
  assumes "rooms_ok st" "on_command s u (Subscribe ch) st = (Some (Inr ()), st')"
  shows "rooms_ok st' \<and> count_in st' = (count_in st)(ch := count_in st ch + 1) \<and> phase st' = phase st"
  using assms
  by (auto simp: rooms_ok_def count_in_def update_conv' distinct_update fun_eq_iff
      simp del: map_of_eq_Some_iff split: option.splits if_splits)

lemma subscribe_refused:
  "on_command s u (Subscribe ch) st = (Some (Inl e), st') \<Longrightarrow> st' = st"
  by (auto split: option.splits if_splits)

lemma release_ok:
  assumes "rooms_ok st" "on_command s u (Release ch) st = (r, st')"
  shows "rooms_ok st' \<and> count_in st' = (count_in st)(ch := count_in st ch - 1) \<and> phase st' = phase st"
proof (cases "map_of (rooms st) ch")
  case None
  with assms show ?thesis by (auto simp: count_in_def fun_eq_iff)
next
  case (Some e)
  with assms show ?thesis
    by (auto simp: rooms_ok_def count_in_def update_conv' delete_conv' distinct_update distinct_delete fun_eq_iff
        simp del: map_of_eq_Some_iff split: option.splits if_splits)
qed

declare on_command.simps [simp del]

lemma send_to_room_ok:
  "rooms_ok st \<Longrightarrow> rooms_ok (send_to_room ch p st) \<and> count_in (send_to_room ch p st) = count_in st"
  by (auto simp: send_to_room_def rooms_ok_def count_in_def update_conv' distinct_update fun_eq_iff
      simp del: map_of_eq_Some_iff split: option.splits if_splits)

lemma send_to_room_frame [simp]:
  "phase (send_to_room ch p st) = phase st" "subscriptions (send_to_room ch p st) = subscriptions st"
  "control_sent (send_to_room ch p st) = control_sent st"
  by (simp_all add: send_to_room_def split: option.splits)

lemma on_pubsub_ok:
  assumes "rooms_ok st"
  shows "rooms_ok (on_pubsub C p st) \<and> count_in (on_pubsub C p st) = count_in st \<and> phase (on_pubsub C p st) = phase st"
  using assms send_to_room_ok [OF assms]
  by (auto simp: on_pubsub_def rooms_ok_def count_in_def split: option.splits route.splits)

lemma on_reconnect_ok:
  assumes "rooms_ok st" "250 \<le> n" "n \<le> 10000"
  shows "rooms_ok (on_reconnect c k rs n st) \<and> count_in (on_reconnect c k rs n st) = count_in st \<and>
    delay_ok (on_reconnect c k rs n st)"
  using assms
  by (auto simp: on_reconnect_def rooms_ok_def count_in_def delay_ok_def next_room_retry_delay_def
      dest!: map_of_SomeD intro: rev_image_eqI)

lemma manager_step_ok:
  assumes "manager_step C s s'" "manager_ok s"
  shows "manager_ok s'"
  using assms
proof (cases rule: manager_step.cases)
  case (granted st s u ch st' held)
  with assms(2) subscribe_granted show ?thesis by (auto simp: manager_ok_def delay_ok_def)
next
  case (refused st s u ch e st' held)
  with assms(2) subscribe_refused [OF refused(4)] show ?thesis by simp
next
  case (released st held ch s u r st')
  with assms(2) release_ok show ?thesis by (auto simp: manager_ok_def delay_ok_def)
next
  case (published st held payload)
  with assms(2) on_pubsub_ok [of st C payload] show ?thesis by (auto simp: manager_ok_def delay_ok_def)
next
  case (lost st held)
  with assms(2) show ?thesis
    by (auto simp: manager_ok_def on_connection_lost_def delay_ok_def rooms_ok_def count_in_def)
next
  case (retried st n held c k rs)
  with assms(2) on_reconnect_ok [of st n c k rs] show ?thesis by (auto simp: manager_ok_def delay_ok_def)
next
  case (closed st held)
  with assms(2) show ?thesis by (auto simp: manager_ok_def delay_ok_def rooms_ok_def count_in_def)
qed

lemma manager_reach_ok: "manager_reach C s \<Longrightarrow> manager_ok s"
proof (induction rule: manager_reach.induct)
  case start
  show ?case
    by (simp add: manager_ok_def rooms_ok_def delay_ok_def count_in_def Rooms.start_def fun_eq_iff)
next
  case (step s s')
  then show ?case by (blast intro: manager_step_ok)
qed


section \<open>Delivery\<close>


text \<open>
  Member lists are never routed.  The services publish a new member list of a channel to its room,
  but the manager drops every such event: no client of the room learns of it until it reloads.
\<close>

theorem member_lists_are_dropped:
  assumes "event_parse C payload = Some (Members ch members)"
  shows "on_pubsub C payload st = st"
  using assms by (simp add: on_pubsub_def)

text \<open>
  C37: after the connection was lost, one attempt in which the server answers is enough: the manager
  runs again, subscribed to the control topic and to every room that has clients, and the clients were
  told to reload.
\<close>

theorem reconnect_restores_rooms:
  assumes reach: "manager_reach C (held, st)" and run: "phase st = Running"
  shows "let lost = on_connection_lost st; again = on_reconnect True True (\<lambda>_. True) 250 lost
         in manager_reach C (held, again) \<and> phase again = Running \<and> rooms again = rooms st \<and>
            set (subscriptions again) = insert ''_control'' (room_key ` {ch. 0 < held ch}) \<and>
            interrupted_notice \<in> set (control_sent again)"
proof -
  let ?lost = "on_connection_lost st"
  let ?again = "on_reconnect True True (\<lambda>_. True) 250 ?lost"
  have "manager_step C (held, st) (held, ?lost)"
    by (rule manager_step.lost [OF run])
  moreover have "manager_step C (held, ?lost) (held, ?again)"
    by (rule manager_step.retried) (simp add: on_connection_lost_def)
  ultimately have restored: "manager_reach C (held, ?again)"
    using reach by (blast intro: manager_reach.step)
  have all: "list_all (\<lambda>(ch, _). True) xs" for xs :: "(string \<times> room_entry) list"
    by (simp add: list_all_iff)
  have rooms: "rooms ?again = rooms st"
    by (simp add: on_reconnect_def on_connection_lost_def)
  have "{ch. 0 < held ch} = fst ` set (rooms st)"
    using manager_reach_ok [OF reach]
    by (auto simp: manager_ok_def rooms_ok_def count_in_def map_of_eq_None_iff image_iff split: option.splits
        dest: map_of_SomeD)
  then show ?thesis
    using restored rooms by (auto simp: Let_def on_reconnect_def on_connection_lost_def all image_image case_prod_beta)
qed

text \<open>
  Returning a subscription that was never granted closes the room for somebody else.  A
  connection whose switch to a channel failed still releases that channel when it ends; if another
  client has entered the room in between, its entry is removed and the topic is cancelled, so that
  client gets no further message of the room.
\<close>

theorem stray_release_drops_room:
  assumes "map_of (rooms st) ch = None"
  shows "let (r1, s1) = on_command False True (Subscribe ch) st;
             (r2, s2) = on_command True True (Subscribe ch) s1;
             (r3, s3) = on_command True True (Release ch) s2
         in r1 = Some (Inl ''Valkey room subscription failed'') \<and> r2 = Some (Inr ()) \<and>
            count_in s2 ch = 1 \<and> map_of (rooms s3) ch = None \<and> room_key ch \<notin> set (subscriptions s3)"
  using assms by (simp add: on_command.simps count_in_def update_conv' delete_conv')

section \<open>Concrete runs\<close>

definition demo_room :: manager where
  "demo_room = snd (on_command True True (Subscribe ''main'') start)"

lemma demo_room_reach: "manager_reach C ((\<lambda>_. 0)(''main'' := 1), demo_room)"
proof -
  have "on_command True True (Subscribe ''main'') start = (Some (Inr ()), demo_room)"
    by (simp add: demo_room_def on_command.simps start_def)
  moreover have "phase start = Running" by (simp add: start_def)
  ultimately have "manager_step C ((\<lambda>_. 0), start) ((\<lambda>_. 0)(''main'' := (0 :: nat) + 1), demo_room)"
    by (rule manager_step.granted [rotated])
  then show ?thesis
    using manager_reach.step [OF manager_reach.start] by fastforce
qed

lemma demo_room_running: "phase demo_room = Running" "rooms demo_room = [(''main'', \<lparr>re_sent = [], re_clients = 1\<rparr>)]"
  by (simp_all add: demo_room_def on_command.simps start_def)


definition demo_hello :: chat_message where
  "demo_hello = into_message demo_codecs demo_stored"

definition demo_wire :: codecs where
  "demo_wire = demo_codecs\<lparr>event_parse := (\<lambda>_. Some (MessageEvent demo_hello))\<rparr>"


theorem member_lists_are_dropped_witness:
  "on_pubsub (demo_codecs\<lparr>event_parse := (\<lambda>_. Some (Members ''main'' []))\<rparr>) ''m'' demo_room = demo_room"
  by (rule member_lists_are_dropped [where ch = "''main''" and members = "[]"]) simp

theorem reconnect_restores_rooms_witness:
  "phase (on_reconnect True True (\<lambda>_. True) 250 (on_connection_lost demo_room)) = Running \<and>
   set (subscriptions (on_reconnect True True (\<lambda>_. True) 250 (on_connection_lost demo_room))) =
     {''_control'', room_key ''main''}"
proof -
  have "{ch. 0 < ((\<lambda>_. 0 :: nat)(''main'' := 1)) ch} = {''main''}" by auto
  with reconnect_restores_rooms [OF demo_room_reach demo_room_running(1), of demo_codecs] show ?thesis
    by (simp add: Let_def)
qed

theorem stray_release_drops_room_witness:
  "map_of (rooms (snd (on_command True True (Release ''x'') (snd (on_command True True (Subscribe ''x'')
     (snd (on_command False True (Subscribe ''x'') demo_room))))))) ''x'' = None"
  using stray_release_drops_room [of demo_room "''x''"] by (simp add: demo_room_running case_prod_beta Let_def)

end
