(* ===== verification/Handler.thy ===== *)
theory Handler
  imports Delivery Rooms
begin

text \<open>
  \<^verbatim>\<open>backend/src/websocket/handler.rs\<close>: the life of a WebSocket connection, from the upgrade request over
  the client's events to the clean-up.  Every kind of client event is one definition, \<open>handle_client_event\<close>
  dispatches on them, and \<open>handle_socket\<close> is the connection's task, run on the list of the inputs its
  \<^verbatim>\<open>select!\<close> loop receives.
\<close>

section \<open>Upgrade\<close>

definition websocket_origin_allowed :: "header_map \<Rightarrow> string option \<Rightarrow> bool" where
  "websocket_origin_allowed headers configured_origin =
     (case header_str headers ''origin'' of
        None \<Rightarrow> True
      | Some origin \<Rightarrow>
          (case configured_origin of
             Some c \<Rightarrow> origin = c
           | None \<Rightarrow>
               (case header_str headers ''host'' of
                  None \<Rightarrow> False
                | Some host \<Rightarrow> origin = ''http://'' @ host \<or> origin = ''https://'' @ host)))"

definition cors_origin :: "'s env \<Rightarrow> string option" where
  "cors_origin E =
     (case env_var E ''CORS_ORIGIN'' of
        None \<Rightarrow> None
      | Some origin \<Rightarrow> if trim origin = [] then None else Some origin)"

text \<open>The answer to an accepted upgrade is the session that \<open>handle_socket\<close> is started with.\<close>

definition websocket :: "'s env \<Rightarrow> header_map \<Rightarrow> ('s, session) app" where
  "websocket E headers =
     (if \<not> websocket_origin_allowed headers (cors_origin E)
      then fail (forbidden ''websocket origin is not allowed'')
      else
      try_bind (load_session E headers) (\<lambda>session.
      try_bind (ensure_channel_access E MAIN_CHANNEL (au_id (s_user session))) (\<lambda>_.
      ok session)))"

section \<open>Calls to the room manager\<close>

text \<open>
  The command and the reply travel through channels, which are closed when the manager is gone; the
  manager itself refuses when the server does not accept the subscription.
\<close>

definition rooms_subscribe :: "'s env \<Rightarrow> string \<Rightarrow> ('s, unit) app" where
  "rooms_subscribe E channel = (\<lambda>w.
     case try_bind (external E (bad_request ''room manager is unavailable'') (ok ())) (\<lambda>_.
          try_bind (external E (bad_request ''room manager is unavailable'') (ok ())) (\<lambda>_.
          external E (bad_request ''Valkey room subscription failed'') (ok ()))) w of
       (Inl e, w') \<Rightarrow> (Inl e, w'\<lparr>room_log := room_log w' @ [SubscribeFailed channel]\<rparr>)
     | (Inr x, w') \<Rightarrow> (Inr x, w'\<lparr>room_log := room_log w' @ [Subscribed channel]\<rparr>))"

definition rooms_release :: "string \<Rightarrow> ('s, 'e, unit) io" where
  "rooms_release channel = (\<lambda>w. (Inr (), w\<lparr>room_log := room_log w @ [Released channel]\<rparr>))"

section \<open>Lists sent to the client\<close>

definition participant_for_user :: "'s env \<Rightarrow> auth_user \<Rightarrow> ('s, 'e, participant) io" where
  "participant_for_user E user =
     try_bind (now_i64 E) (\<lambda>now.
     try_bind (attempt (db_query E id (\<lambda>d.
       find (\<lambda>u. u_id u = au_id user \<and> u_deleted_at u = None) (users d)))) (\<lambda>r.
     let profile = (case r of Inl _ \<Rightarrow> None | Inr row \<Rightarrow> row) in
     ok \<lparr>pa_user_id = au_id user, pa_username = au_username user,
         pa_display_name = (case profile of None \<Rightarrow> au_username user | Some u \<Rightarrow> u_display_name u),
         pa_custom_status =
           (case profile of None \<Rightarrow> '''' | Some u \<Rightarrow> if status_live now u then u_custom_status u else ''''),
         pa_roles = au_roles user, pa_online = True\<rparr>))"

definition send_channels :: "'s env \<Rightarrow> uuid \<Rightarrow> ('s, unit) app" where
  "send_channels E user_id =
     try_bind (map_err app_of_repository (list_channels E user_id)) (\<lambda>names.
     send_event E (Channels names))"

definition send_private_conversations :: "'s env \<Rightarrow> uuid \<Rightarrow> ('s, unit) app" where
  "send_private_conversations E user_id =
     try_bind (list_visible_conversations E user_id) (\<lambda>conversations.
     send_event E (PrivateConversations (filter (\<lambda>c. cs_kind c \<noteq> Public) conversations)))"

section \<open>Sending a message\<close>

definition owned_files :: "database \<Rightarrow> uuid list \<Rightarrow> uuid \<Rightarrow> nat" where
  "owned_files d ids u =
     rows_matching (\<lambda>f. f_id f \<in> set ids \<and> f_uploader_user_id f = u \<and> f_deleted_at f = None) (files d)"

text \<open>The guards of the event, up to the look-up of the client id; the result is the trimmed text.\<close>

definition send_guards :: "'s env \<Rightarrow> auth_user \<Rightarrow> string \<Rightarrow> string \<Rightarrow> uuid list \<Rightarrow> ('s, string) app" where
  "send_guards E user channel raw file_ids =
     try_bind (lift (require_permission user ''chat:write'')) (\<lambda>_.
     try_bind (enforce_rate_limit E (message_rate_key E (au_id user)) 60 60) (\<lambda>_.
     try_bind (ensure_channel_access E channel (au_id user)) (\<lambda>_.
     try_bind (ensure_channel_posting_access E channel (au_id user) (au_permissions user)) (\<lambda>_.
     let txt = trim raw in
     if txt = [] \<or> length txt > 2000
     then fail (bad_request (''message must be 1'' @ en_dash @ ''2000 characters''))
     else if length file_ids > 10 then fail (bad_request ''a message can contain at most 10 files'')
     else
     try_bind
       (if file_ids \<noteq> []
        then try_bind (db_query E app_of_sqlx (\<lambda>d. owned_files d file_ids (au_id user))) (\<lambda>n.
             if n \<noteq> length file_ids then fail (forbidden ''one or more files are not available'') else ok ())
        else ok ()) (\<lambda>_.
     ok txt)))))"

definition same_request :: "chat_message \<Rightarrow> string \<Rightarrow> string \<Rightarrow> uuid option \<Rightarrow> uuid list \<Rightarrow> bool" where
  "same_request existing channel txt root_message_id file_ids =
     (cm_channel existing = channel \<and> cm_text existing = txt \<and>
      cm_root_message_id existing = root_message_id \<and> cm_file_ids existing = file_ids)"

text \<open>A repeated client id: answered with the stored message when it is the same request.\<close>

definition answer_existing ::
  "'s env \<Rightarrow> auth_user \<Rightarrow> chat_message \<Rightarrow> string \<Rightarrow> string \<Rightarrow> uuid option \<Rightarrow> uuid list \<Rightarrow> ('s, unit) app" where
  "answer_existing E user existing channel txt root_message_id file_ids =
     (if \<not> same_request existing channel txt root_message_id file_ids
      then fail (bad_request ''client_id was already used for a different message'')
      else
      try_bind (create_message_notifications E user existing) (\<lambda>_.
      send_event E (MessageEvent existing)))"

definition scope_json :: "mention_kind option \<Rightarrow> json" where
  "scope_json scope =
     (case scope of None \<Rightarrow> JNull | Some ChannelScope \<Rightarrow> JStr ''channel'' | Some HereScope \<Rightarrow> JStr ''here'')"

definition build_message ::
  "'s env \<Rightarrow> auth_user \<Rightarrow> string \<Rightarrow> string \<Rightarrow> string \<Rightarrow> uuid option \<Rightarrow> string option \<Rightarrow> uuid list \<Rightarrow> ('s, chat_message) app" where
  "build_message E user username channel txt root_message_id client_id file_ids =
     try_bind (uuid_now_v7 E) (\<lambda>id.
     try_bind (now_millis E) (\<lambda>created_at.
     try_bind
       (if mention_scope (uni E) txt = Some HereScope
        then try_bind (attempt (list_presence E channel)) (\<lambda>r.
             ok (map (\<lambda>p. uuid_str E (pa_user_id p))
                   (filter (\<lambda>p. pa_user_id p \<noteq> au_id user) (case r of Inl _ \<Rightarrow> [] | Inr ps \<Rightarrow> ps))))
        else ok []) (\<lambda>online.
     ok \<lparr>cm_id = id, cm_channel = channel, cm_username = username, cm_text = txt, cm_created_at = created_at,
         cm_edited = False, cm_deleted = False, cm_root_message_id = root_message_id, cm_reply_count = 0,
         cm_metadata = JObj
           [(''root_message_id'', json_opt (map_option (uuid_str E) root_message_id)),
            (''file_ids'', JArr (map (\<lambda>f. JStr (uuid_str E f)) file_ids)),
            (''mention_scope'', scope_json (mention_scope (uni E) txt)),
            (''online_user_ids'', JArr (map JStr online))],
         cm_mentions = extract_mentioned_usernames (uni E) txt (au_username user),
         cm_client_id = client_id, cm_file_ids = file_ids\<rparr>)))"

text \<open>The retry event is queued unless an unpublished one for the message is waiting.\<close>

definition queue_notification_retry :: "'s env \<Rightarrow> uuid \<Rightarrow> uuid \<Rightarrow> uuid \<Rightarrow> i64 \<Rightarrow> unit stmt" where
  "queue_notification_retry E i actor message_id now d =
     (if list_ex (\<lambda>e. o_topic e = ''message.notifications'' \<and> o_published_at e = None \<and>
           Option.bind (json_get ''message_id'' (o_payload e)) json_str = Some (uuid_str E message_id))
          (outbox_events d)
      then Inr ((), d)
      else insert_outbox
        \<lparr>o_id = i, o_topic = ''message.notifications'',
         o_payload = JObj [(''actor_id'', JStr (uuid_str E actor)), (''message_id'', JStr (uuid_str E message_id))],
         o_created_at = now, o_published_at = None, o_attempts = 0, o_claimed_at = None\<rparr> d)"

text \<open>After the message was saved: notify or queue a retry, cache, broadcast.\<close>

definition publish_message :: "'s env \<Rightarrow> auth_user \<Rightarrow> uuid \<Rightarrow> string \<Rightarrow> chat_message \<Rightarrow> ('s, unit) app" where
  "publish_message E user session_id channel msg =
     try_bind (attempt (create_message_notifications E user msg)) (\<lambda>notified.
     try_bind
       (case notified of
          Inl _ \<Rightarrow>
            try_bind (uuid_now_v7 E) (\<lambda>i.
            try_bind (now_i64 E) (\<lambda>now.
            ignore (db_exec E id (queue_notification_retry E i (au_id user) (cm_id msg) now))))
        | Inr _ \<Rightarrow> ok ()) (\<lambda>_.
     try_bind (store_message E msg session_id) (\<lambda>_.
     broadcast E channel (MessageEvent msg))))"

definition save_and_publish ::
  "'s env \<Rightarrow> auth_user \<Rightarrow> uuid \<Rightarrow> string \<Rightarrow> chat_message \<Rightarrow> ('s, unit) app" where
  "save_and_publish E user session_id channel msg =
     try_bind (attempt (save_message E msg session_id (au_id user))) (\<lambda>saved.
     case saved of
       Inr _ \<Rightarrow> publish_message E user session_id channel msg
     | Inl e \<Rightarrow>
         (case cm_client_id msg of
            None \<Rightarrow> fail (app_of_repository e)
          | Some client_id \<Rightarrow>
              try_bind (map_err app_of_repository (find_message_by_client_id E session_id client_id)) (\<lambda>found.
              case found of
                None \<Rightarrow> fail (app_of_repository e)
              | Some existing \<Rightarrow>
                  answer_existing E user existing (cm_channel msg) (cm_text msg) (cm_root_message_id msg)
                    (cm_file_ids msg))))"

definition send_message ::
  "'s env \<Rightarrow> auth_user \<Rightarrow> string \<Rightarrow> uuid \<Rightarrow> string \<Rightarrow> string \<Rightarrow> uuid option \<Rightarrow> string option \<Rightarrow> uuid list \<Rightarrow> ('s, unit) app" where
  "send_message E user username session_id channel raw root_message_id raw_client_id file_ids =
     try_bind (send_guards E user channel raw file_ids) (\<lambda>txt.
     let client_id = (case raw_client_id of None \<Rightarrow> None | Some k \<Rightarrow> if trim k = [] then None else Some k) in
     try_bind
       (case client_id of
          None \<Rightarrow> ok None
        | Some k \<Rightarrow> map_err app_of_repository (find_message_by_client_id E session_id k)) (\<lambda>found.
     case found of
       Some existing \<Rightarrow> answer_existing E user existing channel txt root_message_id file_ids
     | None \<Rightarrow>
         try_bind (build_message E user username channel txt root_message_id client_id file_ids) (\<lambda>msg.
         save_and_publish E user session_id channel msg)))"

section \<open>The other events of a channel\<close>

text \<open>\<^verbatim>\<open>require_permission\<close> and \<^verbatim>\<open>ensure_channel_access\<close>, the first lines of most events.\<close>

definition writer_in :: "'s env \<Rightarrow> auth_user \<Rightarrow> string \<Rightarrow> ('s, unit) app" where
  "writer_in E user channel =
     try_bind (lift (require_permission user ''chat:write'')) (\<lambda>_.
     ensure_channel_access E channel (au_id user))"

definition edit_event :: "'s env \<Rightarrow> auth_user \<Rightarrow> uuid \<Rightarrow> string \<Rightarrow> uuid \<Rightarrow> string \<Rightarrow> ('s, unit) app" where
  "edit_event E user session_id channel i raw =
     try_bind (writer_in E user channel) (\<lambda>_.
     let txt = trim raw in
     if txt = [] \<or> length txt > 2000
     then fail (bad_request (''message must be 1'' @ en_dash @ ''2000 characters''))
     else
     try_bind (map_err app_of_repository (edit_message E channel i session_id txt)) (\<lambda>msg.
     try_bind (update_hot_message E msg) (\<lambda>_.
     broadcast E channel (MessageUpdated msg))))"

definition delete_event :: "'s env \<Rightarrow> auth_user \<Rightarrow> uuid \<Rightarrow> string \<Rightarrow> uuid \<Rightarrow> ('s, unit) app" where
  "delete_event E user session_id channel i =
     try_bind (writer_in E user channel) (\<lambda>_.
     try_bind (map_err app_of_repository
       (delete_message E channel i session_id (is_moderator (au_permissions user)))) (\<lambda>msg.
     try_bind (update_hot_message E msg) (\<lambda>_.
     broadcast E channel (MessageUpdated msg))))"

definition reaction_targets :: "database \<Rightarrow> uuid \<Rightarrow> string \<Rightarrow> (msg_row \<times> channel_row) list" where
  "reaction_targets d message_id channel =
     filter (\<lambda>(m, c). m_id m = message_id \<and> ch_name c = channel \<and> ch_deleted_at c = None)
       (messages_join_channels d)"

definition insert_reaction_or_ignore :: "uuid \<Rightarrow> string \<Rightarrow> i64 \<Rightarrow> msg_row \<times> channel_row \<Rightarrow> unit stmt" where
  "insert_reaction_or_ignore u emoji now target d =
     (if list_ex (\<lambda>r. r_message_id r = m_id (fst target) \<and> r_user_id r = u \<and> r_emoji r = emoji) (message_reactions d)
      then Inr ((), d)
      else constrained
        [(1 \<le> length (chars emoji) \<and> length (chars emoji) \<le> 64, ''message_reactions_emoji_check''),
         (has_user d u, ''message_reactions_user_id_fkey'')]
        ((), d\<lparr>message_reactions := message_reactions d @
            [\<lparr>r_message_id = m_id (fst target), r_user_id = u, r_emoji = emoji, r_created_at = now\<rparr>]\<rparr>))"

definition add_reaction :: "'s env \<Rightarrow> auth_user \<Rightarrow> string \<Rightarrow> uuid \<Rightarrow> string \<Rightarrow> ('s, unit) app" where
  "add_reaction E user channel message_id raw =
     try_bind (writer_in E user channel) (\<lambda>_.
     try_bind (lift (normalize_emoji raw)) (\<lambda>emoji.
     try_bind (now_i64 E) (\<lambda>now.
     try_bind (db_exec E app_of_sqlx (\<lambda>d.
       insert_all (insert_reaction_or_ignore (au_id user) emoji now) (reaction_targets d message_id channel) d)) (\<lambda>_.
     broadcast_reaction E channel message_id emoji))))"

definition delete_reaction :: "uuid \<Rightarrow> uuid \<Rightarrow> string \<Rightarrow> string \<Rightarrow> unit stmt" where
  "delete_reaction message_id u emoji channel d =
     Inr ((), d\<lparr>message_reactions := filter (\<lambda>r. \<not> (r_message_id r = message_id \<and> r_user_id r = u \<and>
        r_emoji r = emoji \<and> reaction_targets d message_id channel \<noteq> [])) (message_reactions d)\<rparr>)"

definition remove_reaction :: "'s env \<Rightarrow> auth_user \<Rightarrow> string \<Rightarrow> uuid \<Rightarrow> string \<Rightarrow> ('s, unit) app" where
  "remove_reaction E user channel message_id raw =
     try_bind (writer_in E user channel) (\<lambda>_.
     try_bind (lift (normalize_emoji raw)) (\<lambda>emoji.
     try_bind (db_exec E app_of_sqlx (delete_reaction message_id (au_id user) emoji channel)) (\<lambda>_.
     broadcast_reaction E channel message_id emoji)))"

definition typing_event :: "'s env \<Rightarrow> auth_user \<Rightarrow> string \<Rightarrow> string \<Rightarrow> bool \<Rightarrow> ('s, unit) app" where
  "typing_event E user username channel typing =
     try_bind (writer_in E user channel) (\<lambda>_.
     broadcast E channel (Typing channel (au_id user) username typing))"

text \<open>
  \<^verbatim>\<open>INSERT INTO channel_reads ... ON CONFLICT (user_id, channel_id) DO UPDATE\<close>: the later of the two
  positions, and the message that belongs to it.
\<close>

definition upsert_read :: "uuid \<Rightarrow> i64 \<Rightarrow> uuid \<Rightarrow> i64 \<Rightarrow> channel_row \<Rightarrow> unit stmt" where
  "upsert_read u created_at message_id now c d =
     constrained [(has_user d u, ''channel_reads_user_id_fkey'')]
       ((),
        (let same = (\<lambda>r. cr_user_id r = u \<and> cr_channel_id r = ch_id c) in
         if list_ex same (channel_reads d)
         then d\<lparr>channel_reads := update_where same
                  (\<lambda>r. r\<lparr>cr_last_read_created_at := max (cr_last_read_created_at r) created_at,
                         cr_last_read_message_id :=
                           (if created_at \<ge> cr_last_read_created_at r then Some message_id
                            else cr_last_read_message_id r),
                         cr_updated_at := now\<rparr>) (channel_reads d)\<rparr>
         else d\<lparr>channel_reads := channel_reads d @
                  [\<lparr>cr_user_id = u, cr_channel_id = ch_id c, cr_last_read_created_at = created_at,
                    cr_last_read_message_id = Some message_id, cr_updated_at = now\<rparr>]\<rparr>))"

definition mark_read :: "'s env \<Rightarrow> auth_user \<Rightarrow> string \<Rightarrow> uuid \<Rightarrow> u64 \<Rightarrow> ('s, unit) app" where
  "mark_read E user channel message_id created_at =
     try_bind (writer_in E user channel) (\<lambda>_.
     try_bind (now_i64 E) (\<lambda>now.
     try_bind (db_exec E app_of_sqlx (\<lambda>d.
       insert_all (upsert_read (au_id user) (sint created_at) message_id now)
         (filter (\<lambda>c. ch_name c = channel) (channels d)) d)) (\<lambda>_.
     send_event E (ReadStateUpdated channel (au_id user) message_id created_at))))"

text \<open>A name given by the client: normalized, or exactly the main channel's.\<close>

definition channel_argument :: "'s env \<Rightarrow> string \<Rightarrow> app_error + string" where
  "channel_argument E raw =
     (case normalize_channel_name (uni E) raw of
        Inr name \<Rightarrow> Inr name
      | Inl _ \<Rightarrow> if raw = MAIN_CHANNEL then Inr MAIN_CHANNEL else Inl (bad_request ''invalid channel''))"

definition load_history_event :: "'s env \<Rightarrow> auth_user \<Rightarrow> string \<Rightarrow> string \<Rightarrow> u64 \<Rightarrow> uuid \<Rightarrow> ('s, unit) app" where
  "load_history_event E user channel raw before_created_at before_id =
     try_bind (lift (channel_argument E raw)) (\<lambda>requested.
     if requested \<noteq> channel then ok ()
     else
     try_bind (ensure_channel_access E requested (au_id user)) (\<lambda>_.
     send_history_page E requested (Some (before_created_at, before_id))))"

definition load_thread_event ::
  "'s env \<Rightarrow> auth_user \<Rightarrow> string \<Rightarrow> uuid \<Rightarrow> u64 option \<Rightarrow> uuid option \<Rightarrow> ('s, unit) app" where
  "load_thread_event E user channel message_id before_created_at before_id =
     try_bind (writer_in E user channel) (\<lambda>_.
     try_bind (load_thread E channel message_id
       (case (before_created_at, before_id) of (Some t, Some i) \<Rightarrow> Some (t, i) | _ \<Rightarrow> None) HISTORY_PAGE_SIZE) (\<lambda>ms.
     send_event E (ThreadHistory message_id ms (length ms = HISTORY_PAGE_SIZE))))"

definition heartbeat :: "'s env \<Rightarrow> auth_user \<Rightarrow> uuid \<Rightarrow> string \<Rightarrow> ('s, unit) app" where
  "heartbeat E user session_id channel =
     try_bind (connection E) (\<lambda>_.
     try_bind (vk_read E (exists_key (vk E) (session_key E session_id))) (\<lambda>active.
     if \<not> active then fail (unauthorized ''session expired'')
     else
     try_bind (participant_for_user E user) (\<lambda>participant.
     try_bind (ignore (refresh_presence E channel participant)) (\<lambda>_.
     ignore (broadcast E channel (ParticipantJoined channel participant))))))"

section \<open>Dispatch\<close>

definition join_event :: "'s env \<Rightarrow> auth_user \<Rightarrow> string \<Rightarrow> ('s, string option) app" where
  "join_event E user raw =
     try_bind (lift (channel_argument E raw)) (\<lambda>name.
     try_bind (ensure_channel_access E name (au_id user)) (\<lambda>_.
     ok (Some name)))"

definition no_switch :: "('s, 'a) app \<Rightarrow> ('s, string option) app" where
  "no_switch m = try_bind m (\<lambda>_. ok None)"

fun client_action ::
  "'s env \<Rightarrow> auth_user \<Rightarrow> string \<Rightarrow> uuid \<Rightarrow> string \<Rightarrow> client_event \<Rightarrow> ('s, string option) app" where
  "client_action E user username session_id channel ListChannels =
     no_switch (try_bind (send_channels E (au_id user)) (\<lambda>_. send_private_conversations E (au_id user)))"
| "client_action E user username session_id channel (CreateChannel name) =
     no_switch (create_public_channel E user name)"
| "client_action E user username session_id channel (CreatePrivateChannel name) =
     no_switch (try_bind (create_private_conversation E user name) (\<lambda>_. send_private_conversations E (au_id user)))"
| "client_action E user username session_id channel (OpenDirect user_id) =
     try_bind (open_direct E user user_id) (\<lambda>(_, direct_name).
     try_bind (send_private_conversations E (au_id user)) (\<lambda>_.
     ok (Some direct_name)))"
| "client_action E user username session_id channel (InviteMember target user_id) =
     no_switch (invite_member E user target user_id)"
| "client_action E user username session_id channel (RemoveMember target user_id) =
     no_switch (remove_member E user target user_id)"
| "client_action E user username session_id channel (JoinChannel name) = join_event E user name"
| "client_action E user username session_id channel (DeleteChannel name) =
     try_bind (delete_channel_service E user name) (\<lambda>deleted.
     ok (if channel = deleted then Some MAIN_CHANNEL else None))"
| "client_action E user username session_id channel (SendMessage raw root client_id file_ids) =
     no_switch (send_message E user username session_id channel raw root client_id file_ids)"
| "client_action E user username session_id channel (EditMessage i raw) =
     no_switch (edit_event E user session_id channel i raw)"
| "client_action E user username session_id channel (DeleteMessage i) =
     no_switch (delete_event E user session_id channel i)"
| "client_action E user username session_id channel (AddReaction i emoji) =
     no_switch (add_reaction E user channel i emoji)"
| "client_action E user username session_id channel (RemoveReaction i emoji) =
     no_switch (remove_reaction E user channel i emoji)"
| "client_action E user username session_id channel (TypingEvent typing) =
     no_switch (typing_event E user username channel typing)"
| "client_action E user username session_id channel (MarkRead i created_at) =
     no_switch (mark_read E user channel i created_at)"
| "client_action E user username session_id channel (LoadHistory raw t i) =
     no_switch (load_history_event E user channel raw t i)"
| "client_action E user username session_id channel (LoadThread i t b) =
     no_switch (load_thread_event E user channel i t b)"
| "client_action E user username session_id channel Heartbeat =
     no_switch (heartbeat E user session_id channel)"

text \<open>
  The result is the channel to switch to.  The source also assigns it to its \<^verbatim>\<open>channel\<close> argument right
  before it returns it, which the caller's own assignment repeats.
\<close>

definition handle_client_event ::
  "'s env \<Rightarrow> string \<Rightarrow> string \<Rightarrow> auth_user \<Rightarrow> uuid \<Rightarrow> string \<Rightarrow> ('s, string option) app" where
  "handle_client_event E channel username user session_id txt =
     try_bind (ok_or (bad_request ''invalid event'') (client_event_parse (codec E) txt)) (\<lambda>event.
     client_action E user username session_id channel event)"

section \<open>The connection\<close>

text \<open>What one iteration of the \<^verbatim>\<open>select!\<close> loop may receive; running out of inputs ends the connection.\<close>

datatype socket_input =
    TextFrame string
  | CloseOrError
  | OtherFrame
  | ControlMessage string
  | ControlLagged
  | ControlClosed
  | RoomMessage string
  | RoomLagged
  | RoomClosed
  | ShuttingDown

datatype loop_next = Continue string | Break string

definition send_members :: "'s env \<Rightarrow> string \<Rightarrow> ('s, unit) app" where
  "send_members E channel =
     try_bind (attempt (channel_members_of E channel)) (\<lambda>r.
     send_event E (Members channel (case r of Inl _ \<Rightarrow> [] | Inr ms \<Rightarrow> ms)))"

definition switch_channel :: "'s env \<Rightarrow> session \<Rightarrow> string \<Rightarrow> string \<Rightarrow> ('s, loop_next) app" where
  "switch_channel E session previous target =
     try_bind (rooms_release previous) (\<lambda>_.
     try_bind (ignore (remove_presence E previous (au_id (s_user session)))) (\<lambda>_.
     try_bind (ignore (broadcast E previous (ParticipantLeft previous (au_id (s_user session))))) (\<lambda>_.
     try_bind (attempt (rooms_subscribe E target)) (\<lambda>subscribed.
     case subscribed of
       Inl e \<Rightarrow>
         try_bind (ignore (send_event E (ErrorEvent (message e)))) (\<lambda>_. ok (Break target))
     | Inr _ \<Rightarrow>
         try_bind (attempt (send_joined_with_history E target)) (\<lambda>joined.
         case joined of
           Inl _ \<Rightarrow> ok (Break target)
         | Inr _ \<Rightarrow>
             try_bind (ignore (send_members E target)) (\<lambda>_.
             try_bind (participant_for_user E (s_user session)) (\<lambda>participant.
             try_bind (ignore (refresh_presence E target participant)) (\<lambda>_.
             try_bind (ignore (sync_presence E target)) (\<lambda>_.
             try_bind (ignore (broadcast E target (ParticipantJoined target participant))) (\<lambda>_.
             ok (Continue target)))))))))))"

definition on_text :: "'s env \<Rightarrow> session \<Rightarrow> string \<Rightarrow> string \<Rightarrow> ('s, loop_next) app" where
  "on_text E session channel txt =
     try_bind (attempt (handle_client_event E channel (au_username (s_user session)) (s_user session) (s_id session) txt))
       (\<lambda>r.
     case r of
       Inr (Some target) \<Rightarrow> switch_channel E session channel target
     | Inr None \<Rightarrow> ok (Continue channel)
     | Inl e \<Rightarrow>
         try_bind (ignore (send_event E (ErrorEvent (message e)))) (\<lambda>_.
         ok (if status e = UNAUTHORIZED then Break channel else Continue channel)))"

text \<open>A frame relayed from the control channel or from the room.\<close>

definition relay :: "'s env \<Rightarrow> string \<Rightarrow> string \<Rightarrow> ('s, loop_next) app" where
  "relay E channel wire =
     try_bind (attempt (socket_send E wire)) (\<lambda>r.
     ok (case r of Inl _ \<Rightarrow> Break channel | Inr _ \<Rightarrow> Continue channel))"

fun on_input :: "'s env \<Rightarrow> session \<Rightarrow> string \<Rightarrow> socket_input \<Rightarrow> ('s, loop_next) app" where
  "on_input E session channel (TextFrame txt) = on_text E session channel txt"
| "on_input E session channel CloseOrError = ok (Break channel)"
| "on_input E session channel OtherFrame = ok (Continue channel)"
| "on_input E session channel (ControlMessage wire) = relay E channel wire"
| "on_input E session channel ControlLagged = ok (Continue channel)"
| "on_input E session channel ControlClosed = ok (Break channel)"
| "on_input E session channel (RoomMessage wire) = relay E channel wire"
| "on_input E session channel RoomLagged = ok (Continue channel)"
| "on_input E session channel RoomClosed = ok (Break channel)"
| "on_input E session channel ShuttingDown =
     try_bind (ignore (external E (bad_request ''connection closed'') (ok ()))) (\<lambda>_. ok (Break channel))"

text \<open>The loop returns the channel it was in when it ended.\<close>

fun socket_loop :: "'s env \<Rightarrow> session \<Rightarrow> string \<Rightarrow> socket_input list \<Rightarrow> ('s, string) app" where
  "socket_loop E session channel [] = ok channel"
| "socket_loop E session channel (x # xs) =
     try_bind (on_input E session channel x) (\<lambda>next.
     case next of
       Break ch \<Rightarrow> ok ch
     | Continue ch \<Rightarrow> socket_loop E session ch xs)"

definition disconnect :: "'s env \<Rightarrow> session \<Rightarrow> string \<Rightarrow> ('s, unit) app" where
  "disconnect E session channel =
     try_bind (ignore (remove_presence E channel (au_id (s_user session)))) (\<lambda>_.
     try_bind (ignore (broadcast E channel (ParticipantLeft channel (au_id (s_user session))))) (\<lambda>_.
     rooms_release channel))"

text \<open>Entering the main room; each of the steps may fail, and then the room is left again.\<close>

definition enter_main :: "'s env \<Rightarrow> participant \<Rightarrow> ('s, unit) app" where
  "enter_main E participant =
     try_bind (send_joined_with_history E MAIN_CHANNEL) (\<lambda>_.
     try_bind (send_members E MAIN_CHANNEL) (\<lambda>_.
     try_bind (refresh_presence E MAIN_CHANNEL participant) (\<lambda>_.
     sync_presence E MAIN_CHANNEL)))"

definition handle_socket :: "'s env \<Rightarrow> session \<Rightarrow> socket_input list \<Rightarrow> ('s, unit) app" where
  "handle_socket E session inputs =
     try_bind (participant_for_user E (s_user session)) (\<lambda>participant.
     try_bind (attempt
       (try_bind (send_event E (Welcome (au_username (s_user session)))) (\<lambda>_.
        try_bind (send_channels E (au_id (s_user session))) (\<lambda>_.
        send_private_conversations E (au_id (s_user session)))))) (\<lambda>greeted.
     case greeted of
       Inl _ \<Rightarrow> ok ()
     | Inr _ \<Rightarrow>
     try_bind (attempt (rooms_subscribe E MAIN_CHANNEL)) (\<lambda>subscribed.
     case subscribed of
       Inl _ \<Rightarrow> ok ()
     | Inr _ \<Rightarrow>
     try_bind (attempt (enter_main E participant)) (\<lambda>entered.
     case entered of
       Inl _ \<Rightarrow> rooms_release MAIN_CHANNEL
     | Inr _ \<Rightarrow>
     try_bind (ignore (broadcast E MAIN_CHANNEL (ParticipantJoined MAIN_CHANNEL participant))) (\<lambda>_.
     try_bind (socket_loop E session MAIN_CHANNEL inputs) (\<lambda>channel.
     disconnect E session channel))))))"

end
