(* ===== verification/Members.thy ===== *)
theory Members
  imports Membership
begin

text \<open>
  \<^verbatim>\<open>backend/src/api/members.rs\<close>: the HTTP handlers that list, invite, remove, promote and demote members,
  let a member leave, and hand a channel over to a new owner.  A request is its headers and its path
  and body arguments; the answer is a status code or an error.
\<close>

section \<open>Statements\<close>

text \<open>\<^verbatim>\<open>UPDATE channel_members SET membership_role=r WHERE channel_id=c AND user_id=u AND p\<close>\<close>

definition set_member_role ::
  "(membership_role \<Rightarrow> bool) \<Rightarrow> membership_role \<Rightarrow> uuid \<Rightarrow> uuid \<Rightarrow> nat stmt" where
  "set_member_role p r c u d =
     (let q = (\<lambda>m. cmb_channel_id m = c \<and> cmb_user_id m = u \<and> p (cmb_role m))
      in Inr (rows_matching q (channel_members d),
              d\<lparr>channel_members := update_where q (\<lambda>m. m\<lparr>cmb_role := r\<rparr>) (channel_members d)\<rparr>))"

definition delete_member :: "uuid \<Rightarrow> uuid \<Rightarrow> unit stmt" where
  "delete_member c u d =
     Inr ((), d\<lparr>channel_members :=
       filter (\<lambda>m. \<not> (cmb_channel_id m = c \<and> cmb_user_id m = u)) (channel_members d)\<rparr>)"

definition set_channel_owner :: "uuid \<Rightarrow> uuid \<Rightarrow> unit stmt" where
  "set_channel_owner c owner d =
     constrained [(has_user d owner \<or> \<not> has_channel d c, ''channels_owner_user_id_fkey'')]
       ((), d\<lparr>channels := update_where (\<lambda>r. ch_id r = c) (\<lambda>r. r\<lparr>ch_owner_user_id := Some owner\<rparr>) (channels d)\<rparr>)"

section \<open>Handlers\<close>

definition list_channel_members :: "'s env \<Rightarrow> header_map \<Rightarrow> string \<Rightarrow> ('s, channel_member list) app" where
  "list_channel_members E headers name =
     try_bind (load_session E headers) (\<lambda>session.
     try_bind (ensure_channel_access E name (au_id (s_user session))) (\<lambda>_.
     channel_members_of E name))"

definition invite_channel_member :: "'s env \<Rightarrow> header_map \<Rightarrow> string \<Rightarrow> uuid \<Rightarrow> ('s, status_code) app" where
  "invite_channel_member E headers name user_id =
     try_bind (load_session E headers) (\<lambda>session.
     try_bind (lift (require_csrf headers session)) (\<lambda>_.
     try_bind (invite_member E (s_user session) name user_id) (\<lambda>_.
     ok NO_CONTENT)))"

definition remove_channel_member :: "'s env \<Rightarrow> header_map \<Rightarrow> string \<Rightarrow> uuid \<Rightarrow> ('s, status_code) app" where
  "remove_channel_member E headers name user_id =
     try_bind (load_session E headers) (\<lambda>session.
     try_bind (lift (require_csrf headers session)) (\<lambda>_.
     try_bind (remove_member E (s_user session) name user_id) (\<lambda>_.
     ok NO_CONTENT)))"

definition own_membership :: "string \<Rightarrow> uuid \<Rightarrow> database \<Rightarrow> (channel_row \<times> member_row) option" where
  "own_membership name u d =
     find (\<lambda>_. True)
       [(c, m). c \<leftarrow> channels d, m \<leftarrow> channel_members d,
          cmb_channel_id m = ch_id c \<and> cmb_user_id m = u \<and> ch_name c = name \<and> ch_deleted_at c = None]"

text \<open>\<^verbatim>\<open>leave_channel\<close> after its session, CSRF and permission guards.\<close>

definition leave_conversation :: "'s env \<Rightarrow> auth_user \<Rightarrow> string \<Rightarrow> ('s, status_code) app" where
  "leave_conversation E user name =
     (let me = au_id user in
      try_bind (db_query E app_of_sqlx (own_membership name me)) (\<lambda>row.
      case row of
        None \<Rightarrow> fail (app_of_repository NotFound)
      | Some (c, m) \<Rightarrow>
          if ch_kind c = Public then fail (bad_request ''public channels do not require leaving'')
          else if ch_owner_user_id c = Some me \<or> cmb_role m = RoleOwner
          then fail (bad_request ''the channel owner must transfer ownership or delete the channel'')
          else
          try_bind (db_exec E app_of_sqlx (delete_member (ch_id c) me)) (\<lambda>_.
          try_bind (publish_system_message E name (au_username user @ '' left the conversation'')) (\<lambda>_.
          try_bind (channel_members_of E name) (\<lambda>members.
          try_bind (ignore (broadcast E name (Members name members))) (\<lambda>_.
          try_bind (now_i64 E) (\<lambda>now.
          try_bind (record_audit_pool E app_of_sqlx
            (audit me ''channel.member_left'' ''channel'' (ch_id c)
               (JObj [(''user_id'', JStr (uuid_str E me))]) now)) (\<lambda>_.
          ok NO_CONTENT))))))))"

definition leave_channel :: "'s env \<Rightarrow> header_map \<Rightarrow> string \<Rightarrow> ('s, status_code) app" where
  "leave_channel E headers name =
     try_bind (load_session E headers) (\<lambda>session.
     try_bind (lift (require_csrf headers session)) (\<lambda>_.
     try_bind (lift (require_permission (s_user session) ''chat:write'')) (\<lambda>_.
     leave_conversation E (s_user session) name)))"

definition promote_channel_moderator :: "'s env \<Rightarrow> header_map \<Rightarrow> string \<Rightarrow> uuid \<Rightarrow> ('s, status_code) app" where
  "promote_channel_moderator E headers name user_id =
     try_bind (load_session E headers) (\<lambda>session.
     try_bind (lift (require_csrf headers session)) (\<lambda>_.
     try_bind (channel_moderator_manager E name (s_user session)) (\<lambda>channel_id.
     try_bind (db_exec E app_of_sqlx
       (set_member_role (\<lambda>r. r = RoleMember) RoleModerator channel_id user_id)) (\<lambda>n.
     if n = 0 then fail (app_of_repository NotFound)
     else
     try_bind (now_i64 E) (\<lambda>now.
     try_bind (record_audit_pool E app_of_sqlx
       (audit (au_id (s_user session)) ''channel.moderator_promoted'' ''channel'' channel_id
          (JObj [(''user_id'', JStr (uuid_str E user_id))]) now)) (\<lambda>_.
     ok NO_CONTENT))))))"

definition demote_channel_moderator :: "'s env \<Rightarrow> header_map \<Rightarrow> string \<Rightarrow> uuid \<Rightarrow> ('s, status_code) app" where
  "demote_channel_moderator E headers name user_id =
     try_bind (load_session E headers) (\<lambda>session.
     try_bind (lift (require_csrf headers session)) (\<lambda>_.
     try_bind (channel_moderator_manager E name (s_user session)) (\<lambda>channel_id.
     try_bind (db_exec E app_of_sqlx
       (set_member_role (\<lambda>r. r = RoleModerator) RoleMember channel_id user_id)) (\<lambda>n.
     if n = 0 then fail (app_of_repository NotFound)
     else
     try_bind (now_i64 E) (\<lambda>now.
     try_bind (record_audit_pool E app_of_sqlx
       (audit (au_id (s_user session)) ''channel.moderator_demoted'' ''channel'' channel_id
          (JObj [(''user_id'', JStr (uuid_str E user_id))]) now)) (\<lambda>_.
     ok NO_CONTENT))))))"

definition transfer_tx :: "'s env \<Rightarrow> uuid \<Rightarrow> uuid \<Rightarrow> uuid \<Rightarrow> ('s, unit) app" where
  "transfer_tx E channel_id old_owner new_owner =
     try_bind (db_exec E app_of_sqlx (set_channel_owner channel_id new_owner)) (\<lambda>_.
     try_bind (db_exec E app_of_sqlx (set_member_role (\<lambda>_. True) RoleModerator channel_id old_owner)) (\<lambda>_.
     try_bind (db_exec E app_of_sqlx (set_member_role (\<lambda>_. True) RoleOwner channel_id new_owner)) (\<lambda>_.
     ok ())))"

text \<open>\<^verbatim>\<open>transfer_channel_ownership\<close> after its session, CSRF and permission guards.\<close>

definition transfer_ownership :: "'s env \<Rightarrow> auth_user \<Rightarrow> string \<Rightarrow> uuid \<Rightarrow> ('s, status_code) app" where
  "transfer_ownership E user name new_owner =
     (let me = au_id user in
      try_bind (db_query E app_of_sqlx (\<lambda>d. live_channels d name)) (\<lambda>rows.
      case rows of
        [] \<Rightarrow> fail (app_of_repository NotFound)
      | c # _ \<Rightarrow>
          if ch_owner_user_id c \<noteq> Some me
          then fail (forbidden ''only the channel owner can transfer ownership'')
          else if new_owner = me then fail (bad_request ''cannot transfer ownership to yourself'')
          else
          try_bind (db_query E app_of_sqlx (\<lambda>d. is_member d (ch_id c) new_owner)) (\<lambda>is_mem.
          if \<not> is_mem then fail (bad_request ''target user is not a member of the channel'')
          else
          try_bind (transaction E app_of_sqlx (transfer_tx E (ch_id c) me new_owner)) (\<lambda>_.
          try_bind (channel_members_of E name) (\<lambda>members.
          try_bind (ignore (broadcast E name (Members name members))) (\<lambda>_.
          try_bind (now_i64 E) (\<lambda>now.
          try_bind (record_audit_pool E app_of_sqlx
            (audit me ''channel.ownership_transferred'' ''channel'' (ch_id c)
               (JObj [(''old_owner'', JStr (uuid_str E me)), (''new_owner'', JStr (uuid_str E new_owner))]) now)) (\<lambda>_.
          ok NO_CONTENT))))))))"

definition transfer_channel_ownership :: "'s env \<Rightarrow> header_map \<Rightarrow> string \<Rightarrow> uuid \<Rightarrow> ('s, status_code) app" where
  "transfer_channel_ownership E headers name new_owner =
     try_bind (load_session E headers) (\<lambda>session.
     try_bind (lift (require_csrf headers session)) (\<lambda>_.
     try_bind (lift (require_permission (s_user session) ''chat:write'')) (\<lambda>_.
     transfer_ownership E (s_user session) name new_owner)))"

section \<open>The membership invariant\<close>

lemma set_member_role_ok:
  "set_member_role p r c u d = Inr (n, d') \<Longrightarrow>
     d' = d\<lparr>channel_members := update_where (\<lambda>m. cmb_channel_id m = c \<and> cmb_user_id m = u \<and> p (cmb_role m))
            (\<lambda>m. m\<lparr>cmb_role := r\<rparr>) (channel_members d)\<rparr>"
  by (simp add: set_member_role_def Let_def)

text \<open>Role changes keep the membership rows' keys.\<close>

lemma update_role_keys:
  assumes "member_keys_ok d"
  shows "member_keys_ok (d\<lparr>channel_members := update_where q (\<lambda>m. m\<lparr>cmb_role := r\<rparr>) (channel_members d)\<rparr>)"
proof -
  let ?ms = "update_where q (\<lambda>m. m\<lparr>cmb_role := r\<rparr>) (channel_members d)"
  have "map member_key ?ms = map member_key (channel_members d)"
    "map cmb_channel_id ?ms = map cmb_channel_id (channel_members d)"
    by (rule update_where_key; simp add: member_key_def)+
  then have "distinct (map member_key ?ms) = distinct (map member_key (channel_members d))"
    and "set (map cmb_channel_id ?ms) = set (map cmb_channel_id (channel_members d))"
    by presburger+
  with assms show ?thesis
    by (simp add: member_keys_ok_def)
qed

lemma set_member_role_membership:
  assumes ok: "membership_ok d" and run: "set_member_role p r c u d = Inr (n, d')"
    and r: "r \<noteq> RoleOwner" "\<not> p RoleOwner"
  shows "membership_ok d'"
proof -
  note d' = set_member_role_ok [OF run]
  have "owners_ok d'"
    using ok r by (auto simp: membership_defs d' update_where_def split: if_splits)
  moreover have "member_keys_ok d'"
    unfolding d' by (rule update_role_keys) (use ok in \<open>simp add: membership_ok_def\<close>)
  ultimately show ?thesis
    using ok by (simp add: membership_defs d')
qed

lemma delete_member_membership:
  assumes ok: "membership_ok d" and run: "delete_member c u d = Inr (x, d')"
    and not_owner: "\<And>m. m \<in> set (channel_members d) \<Longrightarrow> cmb_channel_id m = c \<Longrightarrow> cmb_user_id m = u \<Longrightarrow>
      cmb_role m \<noteq> RoleOwner"
  shows "membership_ok d'"
proof -
  have d': "d' = d\<lparr>channel_members :=
       filter (\<lambda>m. \<not> (cmb_channel_id m = c \<and> cmb_user_id m = u)) (channel_members d)\<rparr>"
    using run by (simp add: delete_member_def)
  have "set (channel_members d') \<subseteq> set (channel_members d)"
    by (auto simp: d')
  then have "member_keys_ok d'"
    using ok unfolding membership_defs by (auto simp: d' distinct_map_filter)
  moreover have "owners_ok d'"
    using ok not_owner by (auto simp: membership_defs d')
  ultimately show ?thesis
    using ok by (simp add: membership_defs d')
qed

lemma owner_row:
  "membership_ok d \<Longrightarrow> c \<in> set (channels d) \<Longrightarrow> m \<in> set (channel_members d) \<Longrightarrow> cmb_channel_id m = ch_id c \<Longrightarrow>
     cmb_role m = RoleOwner \<Longrightarrow> ch_owner_user_id c = Some (cmb_user_id m)"
  unfolding membership_defs by blast

text \<open>Handing over: the old owner becomes a moderator, the new one the only owner.\<close>

lemma transfer_membership:
  assumes ok: "membership_ok d"
    and c: "c \<in> set (channels d)" "ch_owner_user_id c = Some old"
    and new: "is_member d (ch_id c) new" "new \<noteq> old"
    and s1: "set_channel_owner (ch_id c) new d = Inr (x1, d1)"
    and s2: "set_member_role (\<lambda>_. True) RoleModerator (ch_id c) old d1 = Inr (x2, d2)"
    and s3: "set_member_role (\<lambda>_. True) RoleOwner (ch_id c) new d2 = Inr (x3, d3)"
  shows "membership_ok d3"
proof -
  have d1: "d1 = d\<lparr>channels := update_where (\<lambda>r. ch_id r = ch_id c)
      (\<lambda>r. r\<lparr>ch_owner_user_id := Some new\<rparr>) (channels d)\<rparr>"
    using s1 by (simp add: set_channel_owner_def)
  note d2 = set_member_role_ok [OF s2] and d3 = set_member_role_ok [OF s3]
  have chans: "channels d3 = channels d1" and
    mems: "channel_members d3 = map (\<lambda>m. if cmb_channel_id m = ch_id c \<and> cmb_user_id m = new then m\<lparr>cmb_role := RoleOwner\<rparr>
        else if cmb_channel_id m = ch_id c \<and> cmb_user_id m = old then m\<lparr>cmb_role := RoleModerator\<rparr> else m)
        (channel_members d)"
    using new(2) by (auto simp: d1 d2 d3 update_where_def)
  have "map ch_id (channels d1) = map ch_id (channels d)" "map ch_name (channels d1) = map ch_name (channels d)"
    by (auto simp: d1 intro!: update_where_key)
  moreover from this(1) have "ch_id ` set (channels d1) = ch_id ` set (channels d)"
    by (metis set_map)
  ultimately have keys1: "channel_keys_ok d1" "member_keys_ok d1"
    using ok by (simp_all add: membership_defs d1)
  then have keys: "channel_keys_ok d3" "member_keys_ok d3"
    using update_role_keys [OF update_role_keys [OF keys1(2)]]
    by (simp_all add: channel_keys_ok_def d2 d3)
  have "filter live_direct (update_where p (\<lambda>r. r\<lparr>ch_owner_user_id := Some new\<rparr>) cs) =
      update_where p (\<lambda>r. r\<lparr>ch_owner_user_id := Some new\<rparr>) (filter live_direct cs)" for p cs
    by (induction cs) (auto simp: update_where_def live_direct_def)
  then have direct: "direct_keys_ok d3"
    using ok by (simp add: membership_defs chans d1 update_where_key)
  have "owners_ok d3"
    unfolding owners_ok_def
  proof (intro ballI allI)
    fix c' v assume c': "c' \<in> set (channels d3)"
    show "(ch_owner_user_id c' = Some v) = (\<exists>m \<in> set (channel_members d3). cmb_channel_id m = ch_id c' \<and>
        cmb_user_id m = v \<and> cmb_role m = RoleOwner)"
    proof (cases "ch_id c' = ch_id c")
      case True
      then have owner': "ch_owner_user_id c' = Some new"
        using c' by (auto simp: chans d1 update_where_def split: if_splits)
      have "cmb_role m \<noteq> RoleOwner \<or> cmb_user_id m = old"
        if "m \<in> set (channel_members d)" "cmb_channel_id m = ch_id c" for m
        using owner_row [OF ok c(1) that] c(2) by auto
      then have only: "v = new" if "m \<in> set (channel_members d3)" "cmb_channel_id m = ch_id c"
          "cmb_user_id m = v" "cmb_role m = RoleOwner" for m
        using that by (auto simp: mems split: if_splits)
      obtain m0 where m0: "m0 \<in> set (channel_members d)" "cmb_channel_id m0 = ch_id c" "cmb_user_id m0 = new"
        using new(1) by (auto simp: is_member_def list_ex_iff)
      then have in3: "m0\<lparr>cmb_role := RoleOwner\<rparr> \<in> set (channel_members d3)"
        by (force simp: mems)
      show ?thesis
      proof (cases "v = new")
        case v: True
        show ?thesis
          using v True owner' m0 bexI [OF _ in3] by simp
      next
        case v: False
        then show ?thesis
          using only True owner' by auto
      qed
    next
      case False
      then have "c' \<in> set (channels d)"
        using c' by (auto simp: chans d1 update_where_def split: if_splits)
      with False ok show ?thesis
        by (auto simp: membership_defs mems split: if_splits)
    qed
  qed
  with keys direct show ?thesis
    by (simp add: membership_ok_def)
qed

lemma find_TrueD: "find (\<lambda>_. True) xs = Some x \<Longrightarrow> x \<in> set xs"
  by (cases xs) auto

lemma leave_delete_membership:
  assumes ok: "membership_ok d" and row: "own_membership name me d = Some (c, m)"
    and owner: "ch_owner_user_id c \<noteq> Some me" and g: "\<And>x. keeps_on db membership_ok (g x)"
  shows "leads_to (\<lambda>d'. d' = d) (try_bind (db_exec E app_of_sqlx (delete_member (ch_id c) me)) g) membership_ok"
proof (rule leads_to_exec)
  have c: "c \<in> set (channels d)"
    using row by (auto simp: own_membership_def dest!: find_TrueD)
  show "membership_ok d''" if "d1 = d" "delete_member (ch_id c) me d1 = Inr (x, d'')" for d1 x d''
    by (rule delete_member_membership [OF ok]) (use that owner owner_row [OF ok c] in auto)
qed (use ok g in auto)

lemma leave_conversation_membership [keeps_intro]:
  "keeps_on db membership_ok (leave_conversation E user name)"
  unfolding leave_conversation_def Let_def keeps_on_leads_to
  by (rule leads_to_query)
    (auto split: option.splits intro!: leads_to_pure leave_delete_membership keeps_intro)

lemma transfer_commit_membership:
  assumes ok: "membership_ok d" and c: "live_channels d name = c # cs"
    and guards: "ch_owner_user_id c = Some me" "new \<noteq> me" "is_member d (ch_id c) new"
    and g: "\<And>x. keeps_on db membership_ok (g x)"
  shows "leads_to (\<lambda>d'. d' = d) (try_bind (transaction E app_of_sqlx (transfer_tx E (ch_id c) me new)) g)
    membership_ok"
proof (rule leads_to_transaction)
  have c: "c \<in> set (channels d)"
    using c filter_is_subset [of "\<lambda>c. ch_name c = name \<and> ch_deleted_at c = None" "channels d"]
    by (simp add: live_channels_def)
  show "membership_ok (db w')" if "db w = d" "transfer_tx E (ch_id c) me new w = (Inr x, w')" for w x w'
    using that(2,1) guards by (auto simp: transfer_tx_def ok_simps intro: transfer_membership [OF ok c])
qed (use ok g in auto)

lemma transfer_ownership_membership [keeps_intro]:
  "keeps_on db membership_ok (transfer_ownership E user name new)"
  unfolding transfer_ownership_def Let_def keeps_on_leads_to
  by (rule leads_to_query)
    (auto split: list.splits intro!: leads_to_pure leads_to_query transfer_commit_membership keeps_intro)

lemma member_handlers_keep_membership [keeps_intro]:
  "keeps_on db membership_ok (list_channel_members E headers name)"
  "keeps_on db membership_ok (invite_channel_member E headers name u)"
  "keeps_on db membership_ok (remove_channel_member E headers name u)"
  "keeps_on db membership_ok (leave_channel E headers name)"
  "keeps_on db membership_ok (promote_channel_moderator E headers name u)"
  "keeps_on db membership_ok (demote_channel_moderator E headers name u)"
  "keeps_on db membership_ok (transfer_channel_ownership E headers name u)"
  unfolding list_channel_members_def invite_channel_member_def remove_channel_member_def
    leave_channel_def promote_channel_moderator_def demote_channel_moderator_def
    transfer_channel_ownership_def
  by - (intro keeps_intro; (erule (1) set_member_role_membership)?; simp)+

end
