(* ===== verification/Channel_Api.thy ===== *)
theory Channel_Api
  imports Delivery Members
begin

text \<open>
  The HTTP handlers of \<^verbatim>\<open>backend/src/api/channels.rs\<close> (invite links, creating and opening
  conversations, favorites) and of \<^verbatim>\<open>backend/src/api/drafts.rs\<close>.
\<close>

section \<open>Invite links\<close>

definition insert_invite_link :: "invite_link_row \<Rightarrow> unit stmt" where
  "insert_invite_link l d =
     constrained
       [(\<not> list_ex (\<lambda>r. l_id r = l_id l) (channel_invite_links d), ''channel_invite_links_pkey''),
        (\<not> list_ex (\<lambda>r. l_token_hash r = l_token_hash l) (channel_invite_links d), ''channel_invite_links_token_hash_key''),
        (has_channel d (l_channel_id l), ''channel_invite_links_channel_id_fkey''),
        (has_user d (l_created_by l), ''channel_invite_links_created_by_fkey'')]
       ((), d\<lparr>channel_invite_links := channel_invite_links d @ [l]\<rparr>)"

record invite_link_response =
  il_token :: string
  il_expires_at :: "i64 option"
  il_max_uses :: int

definition create_invite_link ::
  "'s env \<Rightarrow> header_map \<Rightarrow> string \<Rightarrow> i64 option \<Rightarrow> int option \<Rightarrow> ('s, invite_link_response) app" where
  "create_invite_link E headers name expires requested =
     try_bind (load_session E headers) (\<lambda>session.
     try_bind (lift (require_csrf headers session)) (\<lambda>_.
     try_bind (lift (require_permission (s_user session) ''chat:write'')) (\<lambda>_.
     try_bind (ensure_not_globally_banned E (au_id (s_user session))) (\<lambda>_.
     try_bind (db_query E app_of_sqlx (\<lambda>d. live_channels d name)) (\<lambda>rows.
     case rows of
       [] \<Rightarrow> fail (app_of_repository NotFound)
     | channel # _ \<Rightarrow>
     try_bind (ensure_channel_access E name (au_id (s_user session))) (\<lambda>_.
     if ch_kind channel = Private \<and> ch_owner_user_id channel \<noteq> Some (au_id (s_user session)) \<and>
        \<not> is_moderator (au_permissions (s_user session))
     then fail (forbidden ''only the channel owner can create invite links'')
     else
     let max_uses = (case requested of None \<Rightarrow> 0 | Some n \<Rightarrow> n) in
     if \<not> (0 \<le> max_uses \<and> max_uses \<le> 100000)
     then fail (bad_request ''max_uses must be between 0 and 100000'')
     else
     try_bind (case expires of None \<Rightarrow> ok False | Some t \<Rightarrow> try_bind (now_i64 E) (\<lambda>now. ok (t \<le> now))) (\<lambda>past.
     if past then fail (bad_request ''invite link expiry must be in the future'')
     else
     try_bind (random_hex E) (\<lambda>token.
     try_bind (uuid_now_v7 E) (\<lambda>i.
     try_bind (now_i64 E) (\<lambda>now.
     try_bind (db_exec E app_of_sqlx (insert_invite_link
       \<lparr>l_id = i, l_channel_id = ch_id channel, l_token_hash = invite_token_hash E token,
        l_created_by = au_id (s_user session), l_expires_at = expires, l_max_uses = max_uses, l_uses = 0,
        l_created_at = now\<rparr>)) (\<lambda>_.
     ok \<lparr>il_token = token, il_expires_at = expires, il_max_uses = max_uses\<rparr>)))))))))))"

definition link_rows :: "string \<Rightarrow> database \<Rightarrow> (invite_link_row \<times> channel_row) list" where
  "link_rows hash d =
     [(l, c). l \<leftarrow> channel_invite_links d, c \<leftarrow> channels d,
        ch_id c = l_channel_id l \<and> l_token_hash l = hash \<and> ch_deleted_at c = None]"

definition link_spent :: "i64 \<Rightarrow> invite_link_row \<Rightarrow> bool" where
  "link_spent now l =
     ((case l_expires_at l of None \<Rightarrow> False | Some t \<Rightarrow> t \<le> now) \<or>
      (l_max_uses l > 0 \<and> l_uses l \<ge> l_max_uses l))"

definition use_link :: "string \<Rightarrow> unit stmt" where
  "use_link hash d =
     Inr ((), d\<lparr>channel_invite_links := update_where (\<lambda>l. l_token_hash l = hash)
       (\<lambda>l. l\<lparr>l_uses := l_uses l + 1\<rparr>) (channel_invite_links d)\<rparr>)"

text \<open>The transaction; it returns the channel's name and whether the user was a member before.\<close>

definition accept_link_tx :: "'s env \<Rightarrow> uuid \<Rightarrow> string \<Rightarrow> ('s, string \<times> bool) app" where
  "accept_link_tx E user_id hash =
     try_bind (db_query E app_of_sqlx (link_rows hash)) (\<lambda>rows.
     case rows of
       [] \<Rightarrow> fail (app_of_repository NotFound)
     | (l, c) # _ \<Rightarrow>
     try_bind (now_i64 E) (\<lambda>now.
     if link_spent now l then fail (bad_request ''invite link is expired or exhausted'')
     else
     try_bind (db_query E app_of_sqlx (\<lambda>d. banned_from now d user_id (ch_id c))) (\<lambda>banned.
     if banned then fail (forbidden ''conversation access denied'')
     else
     try_bind (db_query E app_of_sqlx (\<lambda>d. is_member d (ch_id c) user_id)) (\<lambda>already_member.
     try_bind
       (when_do (\<not> already_member)
          (try_bind (db_exec E app_of_sqlx (insert_member
             \<lparr>cmb_channel_id = ch_id c, cmb_user_id = user_id, cmb_role = RoleMember, cmb_invited_by = None,
              cmb_created_at = now\<rparr>)) (\<lambda>_.
           db_exec E app_of_sqlx (use_link hash)))) (\<lambda>_.
     ok (ch_name c, already_member))))))"

definition accept_invite_link :: "'s env \<Rightarrow> header_map \<Rightarrow> string \<Rightarrow> ('s, string) app" where
  "accept_invite_link E headers token =
     try_bind (load_session E headers) (\<lambda>session.
     try_bind (lift (require_csrf headers session)) (\<lambda>_.
     try_bind (lift (require_permission (s_user session) ''chat:write'')) (\<lambda>_.
     if length token \<noteq> 64 \<or> \<not> list_all ascii_hexdigit token then fail (bad_request ''invalid invite link'')
     else
     try_bind (transaction E app_of_sqlx (accept_link_tx E (au_id (s_user session)) (invite_token_hash E token)))
       (\<lambda>(name, already_member).
     try_bind
       (when_do (\<not> already_member)
          (publish_system_message E name (au_username (s_user session) @ '' joined the conversation''))) (\<lambda>_.
     ok name)))))"

section \<open>Conversations\<close>

definition create_channel_handler :: "'s env \<Rightarrow> header_map \<Rightarrow> string \<Rightarrow> ('s, status_code \<times> string) app" where
  "create_channel_handler E headers request_name =
     try_bind (load_session E headers) (\<lambda>session.
     try_bind (lift (require_csrf headers session)) (\<lambda>_.
     try_bind (create_public_channel E (s_user session) request_name) (\<lambda>name.
     ok (CREATED, name))))"

text \<open>\<^verbatim>\<open>list_visible_conversations(...).into_iter().find(|item| item.id == id)\<close>\<close>

definition visible_summary :: "'s env \<Rightarrow> uuid \<Rightarrow> uuid \<Rightarrow> ('s, conversation_summary) app" where
  "visible_summary E user_id channel_id =
     try_bind (list_visible_conversations E user_id) (\<lambda>items.
     ok_or (app_of_repository NotFound) (find (\<lambda>item. cs_id item = channel_id) items))"

definition create_private_channel ::
  "'s env \<Rightarrow> header_map \<Rightarrow> string \<Rightarrow> ('s, status_code \<times> conversation_summary) app" where
  "create_private_channel E headers request_name =
     try_bind (load_session E headers) (\<lambda>session.
     try_bind (lift (require_csrf headers session)) (\<lambda>_.
     try_bind (create_private_conversation E (s_user session) request_name) (\<lambda>(i, _).
     try_bind (visible_summary E (au_id (s_user session)) i) (\<lambda>summary.
     ok (CREATED, summary)))))"

definition open_direct_conversation :: "'s env \<Rightarrow> header_map \<Rightarrow> uuid \<Rightarrow> ('s, conversation_summary) app" where
  "open_direct_conversation E headers peer =
     try_bind (load_session E headers) (\<lambda>session.
     try_bind (lift (require_csrf headers session)) (\<lambda>_.
     try_bind (open_direct E (s_user session) peer) (\<lambda>(i, _).
     visible_summary E (au_id (s_user session)) i)))"

section \<open>Favorites\<close>

definition insert_favorite_or_ignore :: "uuid \<Rightarrow> i64 \<Rightarrow> channel_row \<Rightarrow> unit stmt" where
  "insert_favorite_or_ignore u now c d =
     (if list_ex (\<lambda>f. fv_user_id f = u \<and> fv_channel_id f = ch_id c) (channel_favorites d) then Inr ((), d)
      else constrained [(has_user d u, ''channel_favorites_user_id_fkey'')]
        ((), d\<lparr>channel_favorites := channel_favorites d @
             [\<lparr>fv_user_id = u, fv_channel_id = ch_id c, fv_created_at = now\<rparr>]\<rparr>))"

definition favorite_channel :: "'s env \<Rightarrow> header_map \<Rightarrow> string \<Rightarrow> ('s, status_code) app" where
  "favorite_channel E headers name =
     try_bind (load_session E headers) (\<lambda>session.
     try_bind (lift (require_csrf headers session)) (\<lambda>_.
     try_bind (ensure_channel_access E name (au_id (s_user session))) (\<lambda>_.
     try_bind (now_i64 E) (\<lambda>now.
     try_bind (db_exec E app_of_sqlx (\<lambda>d.
       insert_all (insert_favorite_or_ignore (au_id (s_user session)) now) (live_channels d name) d)) (\<lambda>_.
     ok NO_CONTENT)))))"

definition delete_favorite :: "uuid \<Rightarrow> string \<Rightarrow> unit stmt" where
  "delete_favorite u name d =
     Inr ((), d\<lparr>channel_favorites := filter (\<lambda>f. \<not> (fv_user_id f = u \<and>
        list_ex (\<lambda>c. ch_id c = fv_channel_id f \<and> ch_name c = name) (channels d))) (channel_favorites d)\<rparr>)"

definition unfavorite_channel :: "'s env \<Rightarrow> header_map \<Rightarrow> string \<Rightarrow> ('s, status_code) app" where
  "unfavorite_channel E headers name =
     try_bind (load_session E headers) (\<lambda>session.
     try_bind (lift (require_csrf headers session)) (\<lambda>_.
     try_bind (db_exec E app_of_sqlx (delete_favorite (au_id (s_user session)) name)) (\<lambda>_.
     ok NO_CONTENT)))"

definition favorite_rows :: "uuid \<Rightarrow> i64 \<Rightarrow> database \<Rightarrow> (favorite_row \<times> channel_row) list" where
  "favorite_rows u now d =
     [(f, c). f \<leftarrow> channel_favorites d, c \<leftarrow> channels d,
        ch_id c = fv_channel_id f \<and> fv_user_id f = u \<and> ch_deleted_at c = None \<and>
        (ch_kind c = Public \<or> is_member d (ch_id c) u) \<and> \<not> banned_from now d u (ch_id c)]"

definition list_favorite_channels :: "'s env \<Rightarrow> header_map \<Rightarrow> ('s, string list) app" where
  "list_favorite_channels E headers =
     try_bind (load_session E headers) (\<lambda>session.
     try_bind (now_i64 E) (\<lambda>now.
     db_query E app_of_sqlx (\<lambda>d.
       map (\<lambda>(f, c). ch_name c)
         (sort_key (\<lambda>(f, c). (fv_created_at f, pg_collate E (ch_name c), ch_name c))
           (favorite_rows (au_id (s_user session)) now d)))))"

section \<open>Drafts\<close>

definition draft_of :: "database \<Rightarrow> uuid \<Rightarrow> string \<Rightarrow> string option" where
  "draft_of d u name =
     (case [dr_body r. r \<leftarrow> channel_drafts d, c \<leftarrow> channels d,
              ch_id c = dr_channel_id r \<and> dr_user_id r = u \<and> ch_name c = name \<and> ch_deleted_at c = None] of
        [] \<Rightarrow> None | b # _ \<Rightarrow> Some b)"

definition get_draft :: "'s env \<Rightarrow> header_map \<Rightarrow> string \<Rightarrow> ('s, string \<times> string) app" where
  "get_draft E headers raw =
     try_bind (load_session E headers) (\<lambda>session.
     try_bind (lift (normalize_channel_name (uni E) raw)) (\<lambda>channel.
     try_bind (ensure_channel_access E channel (au_id (s_user session))) (\<lambda>_.
     try_bind (db_query E app_of_sqlx (\<lambda>d. draft_of d (au_id (s_user session)) channel)) (\<lambda>body.
     ok (channel, case body of None \<Rightarrow> '''' | Some b \<Rightarrow> b)))))"

text \<open>One row of \<^verbatim>\<open>INSERT INTO channel_drafts ... ON CONFLICT (user_id, channel_id) DO UPDATE\<close>; the check
  on the length counts characters.\<close>

definition upsert_draft :: "uuid \<Rightarrow> string \<Rightarrow> i64 \<Rightarrow> channel_row \<Rightarrow> unit stmt" where
  "upsert_draft u body now c d =
     constrained
       [(length (chars body) \<le> 2000, ''channel_drafts_body_length''),
        (has_user d u, ''channel_drafts_user_id_fkey'')]
       ((),
        (let same = (\<lambda>r. dr_user_id r = u \<and> dr_channel_id r = ch_id c) in
         if list_ex same (channel_drafts d)
         then d\<lparr>channel_drafts := update_where same (\<lambda>r. r\<lparr>dr_body := body, dr_updated_at := now\<rparr>) (channel_drafts d)\<rparr>
         else d\<lparr>channel_drafts := channel_drafts d @
                  [\<lparr>dr_user_id = u, dr_channel_id = ch_id c, dr_body = body, dr_updated_at = now\<rparr>]\<rparr>))"

definition update_draft :: "'s env \<Rightarrow> header_map \<Rightarrow> string \<Rightarrow> string \<Rightarrow> ('s, string \<times> string \<times> i64) app" where
  "update_draft E headers raw request_body =
     try_bind (load_session E headers) (\<lambda>session.
     try_bind (lift (require_csrf headers session)) (\<lambda>_.
     try_bind (lift (normalize_channel_name (uni E) raw)) (\<lambda>channel.
     try_bind (ensure_channel_access E channel (au_id (s_user session))) (\<lambda>_.
     try_bind (lift (normalize_draft_body request_body)) (\<lambda>body.
     try_bind (now_i64 E) (\<lambda>now.
     try_bind (db_exec E app_of_sqlx (\<lambda>d.
       insert_all (upsert_draft (au_id (s_user session)) body now) (live_channels d channel) d)) (\<lambda>_.
     ok (channel, body, now))))))))"

definition delete_draft_rows :: "uuid \<Rightarrow> string \<Rightarrow> unit stmt" where
  "delete_draft_rows u name d =
     Inr ((), d\<lparr>channel_drafts := filter (\<lambda>r. \<not> (dr_user_id r = u \<and>
        list_ex (\<lambda>c. ch_id c = dr_channel_id r \<and> ch_name c = name) (channels d))) (channel_drafts d)\<rparr>)"

definition delete_draft :: "'s env \<Rightarrow> header_map \<Rightarrow> string \<Rightarrow> ('s, status_code) app" where
  "delete_draft E headers raw =
     try_bind (load_session E headers) (\<lambda>session.
     try_bind (lift (require_csrf headers session)) (\<lambda>_.
     try_bind (lift (normalize_channel_name (uni E) raw)) (\<lambda>channel.
     try_bind (ensure_channel_access E channel (au_id (s_user session))) (\<lambda>_.
     try_bind (db_exec E app_of_sqlx (delete_draft_rows (au_id (s_user session)) channel)) (\<lambda>_.
     ok NO_CONTENT)))))"

section \<open>Accepting an invite link\<close>

definition joined_row :: "uuid \<Rightarrow> uuid \<Rightarrow> i64 \<Rightarrow> member_row" where
  "joined_row c u now = \<lparr>cmb_channel_id = c, cmb_user_id = u, cmb_role = RoleMember, cmb_invited_by = None, cmb_created_at = now\<rparr>"

lemma accept_link_tx_ok:
  assumes "accept_link_tx E u hash w = (Inr (name, already), w')"
  shows "\<exists>l c now. l \<in> set (channel_invite_links (db w)) \<and> c \<in> set (channels (db w)) \<and> ch_id c = l_channel_id l \<and>
     l_token_hash l = hash \<and> ch_deleted_at c = None \<and> ch_name c = name \<and> \<not> link_spent now l \<and>
     \<not> banned_from now (db w) u (ch_id c) \<and> already = is_member (db w) (ch_id c) u \<and>
     (if already then db w' = db w
      else insert_member (joined_row (ch_id c) u now) (db w) =
             Inr ((), (db w)\<lparr>channel_members := channel_members (db w) @ [joined_row (ch_id c) u now]\<rparr>) \<and>
           db w' = (db w)\<lparr>channel_members := channel_members (db w) @ [joined_row (ch_id c) u now],
             channel_invite_links := update_where (\<lambda>l. l_token_hash l = hash) (\<lambda>l. l\<lparr>l_uses := l_uses l + 1\<rparr>)
               (channel_invite_links (db w))\<rparr>)"
proof -
  have row: "(l, c) # rest = link_rows hash d \<Longrightarrow> l \<in> set (channel_invite_links d) \<and> c \<in> set (channels d) \<and>
      ch_id c = l_channel_id l \<and> l_token_hash l = hash \<and> ch_deleted_at c = None" for l c rest d
    using list.set_intros(1) [of "(l, c)" rest] by (auto simp: link_rows_def)
  from assms obtain l c rest where lc: "link_rows hash (db w) = (l, c) # rest"
    by (auto simp: accept_link_tx_def ok_simps split: list.splits)
  show ?thesis
    using assms lc row [OF lc [symmetric]]
    by (intro exI [of _ l] exI [of _ c] exI [of _ "sint (clock E (tick (next_tick w)))"])
      (auto simp: accept_link_tx_def ok_simps use_link_def joined_row_def insert_member_ok when_do_def split: if_splits)
qed


subsection \<open>Capacity\<close>

definition links_ok :: "database \<Rightarrow> bool" where
  "links_ok d \<longleftrightarrow> distinct (map l_token_hash (channel_invite_links d)) \<and>
     (\<forall>l \<in> set (channel_invite_links d). 0 \<le> l_uses l \<and> (0 < l_max_uses l \<longrightarrow> l_uses l \<le> l_max_uses l))"

lemma links_ok_cong: "channel_invite_links d' = channel_invite_links d \<Longrightarrow> links_ok d' = links_ok d"
  by (simp add: links_ok_def)

lemma accept_tx_links_ok:
  assumes "links_ok (db w)" "accept_link_tx E u hash w = (Inr x, w')"
  shows "links_ok (db w')"
proof -
  obtain name already where x: "x = (name, already)" by (cases x)
  obtain l now where l: "l \<in> set (channel_invite_links (db w))" "l_token_hash l = hash" "\<not> link_spent now l"
    and d': "db w' = db w \<or> channel_invite_links (db w') =
      update_where (\<lambda>l. l_token_hash l = hash) (\<lambda>l. l\<lparr>l_uses := l_uses l + 1\<rparr>) (channel_invite_links (db w))"
    using accept_link_tx_ok [OF assms(2) [unfolded x]] by (auto split: if_splits)
  have one: "l' \<in> set (channel_invite_links (db w)) \<Longrightarrow> l_token_hash l' = hash \<Longrightarrow> l' = l" for l'
    using assms(1) l distinct_ids_eq [of l_token_hash "channel_invite_links (db w)" l' l] by (auto simp: links_ok_def)
  from d' show ?thesis
  proof
    assume eq: "channel_invite_links (db w') =
      update_where (\<lambda>l. l_token_hash l = hash) (\<lambda>l. l\<lparr>l_uses := l_uses l + 1\<rparr>) (channel_invite_links (db w))"
    have "l_max_uses l > 0 \<longrightarrow> l_uses l < l_max_uses l"
      using l(3) by (auto simp: link_spent_def)
    then show ?thesis
      using assms(1) one unfolding links_ok_def eq
      by (fastforce simp: update_where_key in_update_where)
  qed (use assms(1) in simp)
qed

lemma insert_link_links_ok:
  "links_ok d \<Longrightarrow> insert_invite_link l d = Inr (x, d') \<Longrightarrow> l_uses l = 0 \<Longrightarrow> links_ok d'"
  by (auto simp: links_ok_def insert_invite_link_def list_ex_iff)

lemma invite_handlers_links_ok:
  "keeps_on db links_ok (create_invite_link E headers name expires requested)"
  "keeps_on db links_ok (accept_invite_link E headers token)"
proof -
  show "keeps_on db links_ok (create_invite_link E headers name expires requested)"
    unfolding create_invite_link_def
    by (intro keeps_intro; erule (1) insert_link_links_ok; simp)
  show "keeps_on db links_ok (accept_invite_link E headers token)"
    unfolding accept_invite_link_def
    by (intro keeps_intro keeps_on_transaction_commit) (erule (1) accept_tx_links_ok | simp add: links_ok_def)+
qed

text \<open>
  An invite link is never used more often than it allows.  Whatever a request to create or to accept
  a link does, successful or not, a link with a limit has at most that many uses, and no two links have
  the same token hash.
\<close>

theorem invite_link_capacity:
  assumes "links_ok (db w)"
    and "accept_invite_link E headers token w = (r, w') \<or> create_invite_link E headers name expires requested w = (r', w')"
  shows "links_ok (db w')"
  using assms keeps_onD [OF invite_handlers_links_ok(1)] keeps_onD [OF invite_handlers_links_ok(2)] by blast

lemma invite_handlers_membership [keeps_intro]:
  "keeps_on db membership_ok (create_invite_link E headers name expires requested)"
  "keeps_on db membership_ok (accept_invite_link E headers token)"
proof -
  have ins: "insert_invite_link l d = Inr (x, d') \<Longrightarrow> membership_ok d' = membership_ok d" for l d x d'
    by (rule membership_ok_cong) (auto simp: insert_invite_link_def)
  show "keeps_on db membership_ok (create_invite_link E headers name expires requested)"
    unfolding create_invite_link_def by (intro keeps_intro) (simp add: ins)
  have use: "membership_ok d \<Longrightarrow> use_link h d = Inr (x, d') \<Longrightarrow> membership_ok d'" for d h x d'
    using membership_ok_cong [of d' d] by (auto simp: use_link_def)
  show "keeps_on db membership_ok (accept_invite_link E headers token)"
    unfolding accept_invite_link_def accept_link_tx_def
    by (intro keeps_intro keeps_on_transaction_db) (erule (1) use | erule (1) insert_member_membership | simp)+
qed

section \<open>Drafts\<close>

lemma live_channels_one:
  assumes "channel_keys_ok d" "c \<in> set (channels d)" "ch_name c = name" "ch_deleted_at c = None"
  shows "live_channels d name = [c]"
proof -
  have "distinct (live_channels d name)"
    using assms(1) by (simp add: live_channels_def channel_keys_ok_def distinct_map)
  moreover have "set (live_channels d name) = {c}"
  proof (intro equalityI subsetI)
    fix x assume "x \<in> set (live_channels d name)"
    then have "x = c"
      using assms distinct_ids_eq [of ch_name "channels d" x c] by (simp add: live_channels_def channel_keys_ok_def)
    then show "x \<in> {c}" by simp
  qed (use assms in \<open>simp add: live_channels_def\<close>)
  ultimately have "length (live_channels d name) = 1"
    using distinct_card by fastforce
  with \<open>set (live_channels d name) = {c}\<close> show ?thesis
    by (auto simp: length_Suc_conv)
qed

lemma upsert_draft_rows:
  assumes "upsert_draft u body now c d = Inr (x, d')"
  shows "channels d' = channels d"
    and "\<exists>r \<in> set (channel_drafts d'). dr_user_id r = u \<and> dr_channel_id r = ch_id c"
    and "r \<in> set (channel_drafts d') \<Longrightarrow> dr_user_id r = u \<Longrightarrow> dr_channel_id r = ch_id c \<Longrightarrow> dr_body r = body"
proof -
  let ?same = "\<lambda>r. dr_user_id r = u \<and> dr_channel_id r = ch_id c"
  let ?new = "\<lambda>r. r\<lparr>dr_body := body, dr_updated_at := now\<rparr>"
  have "channels d' = channels d \<and> (\<exists>r \<in> set (channel_drafts d'). ?same r) \<and>
     (\<forall>r \<in> set (channel_drafts d'). ?same r \<longrightarrow> dr_body r = body)"
  proof (cases "\<exists>r \<in> set (channel_drafts d). ?same r")
    case True
    then have d': "d' = d\<lparr>channel_drafts := update_where ?same ?new (channel_drafts d)\<rparr>"
      using assms by (simp add: upsert_draft_def Let_def list_ex_iff)
    from True obtain r where "r \<in> set (channel_drafts d)" "?same r" by blast
    then have "?new r \<in> set (channel_drafts d')" "?same (?new r)"
      unfolding d' by (auto simp: in_update_where intro!: bexI [of _ r])
    moreover have "dr_body x = body" if x: "x \<in> set (channel_drafts d')" "?same x" for x
    proof -
      obtain r where "x = (if ?same r then ?new r else r)"
        using x(1) by (auto simp: d' in_update_where)
      with x(2) show ?thesis by (cases "?same r") simp_all
    qed
    moreover have "channels d' = channels d" by (simp add: d')
    ultimately show ?thesis by blast
  next
    case False
    with assms show ?thesis
      by (auto simp: upsert_draft_def Let_def list_ex_iff)
  qed
  then show "channels d' = channels d" "\<exists>r \<in> set (channel_drafts d'). ?same r"
    "r \<in> set (channel_drafts d') \<Longrightarrow> dr_user_id r = u \<Longrightarrow> dr_channel_id r = ch_id c \<Longrightarrow> dr_body r = body"
    by auto
qed

lemma draft_of_stored:
  assumes keys: "channel_keys_ok d" and c: "c \<in> set (channels d)" "ch_name c = name" "ch_deleted_at c = None"
    and run: "upsert_draft u body now c d = Inr (x, d')"
  shows "draft_of d' u name = Some body"
proof -
  let ?rows = "[dr_body r. r \<leftarrow> channel_drafts d', c \<leftarrow> channels d',
      ch_id c = dr_channel_id r \<and> dr_user_id r = u \<and> ch_name c = name \<and> ch_deleted_at c = None]"
  note rows = upsert_draft_rows [OF run]
  have one: "c' \<in> set (channels d) \<Longrightarrow> ch_name c' = name \<Longrightarrow> c' = c" for c'
    using keys c distinct_ids_eq [of ch_name "channels d" c' c] by (auto simp: channel_keys_ok_def)
  have "b = body" if "b \<in> set ?rows" for b
    using that one rows(3) by (auto simp: rows(1))
  moreover have "body \<in> set ?rows"
    using rows(2,3) c by (auto simp: rows(1)) force
  ultimately have "?rows \<noteq> []" "hd ?rows = body"
    by (metis (no_types, lifting) empty_iff empty_set, metis (no_types, lifting) empty_iff empty_set hd_in_set)
  then show ?thesis
    unfolding draft_of_def by (cases ?rows) simp_all
qed

lemma update_draft_ok:
  assumes V: "valkey (vk E) \<alpha>" and run: "update_draft E headers raw request w = (Inr (ch, body, now), w')"
  shows "\<exists>s w1. load_session E headers w = (Inr s, w1) \<and> normalize_channel_name (uni E) raw = Inr ch \<and>
     normalize_draft_body request = Inr body \<and>
     (\<exists>t. may_access t (db w) ch (au_id (s_user s))) \<and>
     (\<exists>n. insert_all (upsert_draft (au_id (s_user s)) body now) (live_channels (db w) ch) (db w) = Inr (n, db w')) \<and>
     cache w' = cache w1"
proof -
  from run obtain s w1 where "load_session E headers w = (Inr s, w1)"
    by (auto simp: update_draft_def ok_simps)
  with load_session_run [OF V this] run show ?thesis
    by (auto simp: update_draft_def ok_simps ensure_channel_access_ok)
qed

text \<open>
  A saved draft is what the next read returns.  When saving and reading with the same cookie and
  channel both succeed, the text read is the trimmed text that was sent, of at most 2000 bytes.
\<close>

theorem draft_roundtrip:
  assumes V: "valkey (vk E) \<alpha>" and keys: "channel_keys_ok (db w)"
    and save: "update_draft E headers raw request w = (Inr (ch, body, now), w1)"
    and get: "get_draft E headers raw w1 = (Inr (ch', body'), w2)"
  shows "ch' = ch \<and> body' = body \<and> body = trim request \<and> length body \<le> 2000"
proof -
  obtain s v t n where s: "load_session E headers w = (Inr s, v)" "normalize_channel_name (uni E) raw = Inr ch"
      "normalize_draft_body request = Inr body" "may_access t (db w) ch (au_id (s_user s))"
      "insert_all (upsert_draft (au_id (s_user s)) body now) (live_channels (db w) ch) (db w) = Inr (n, db w1)"
      "cache w1 = cache v"
    using update_draft_ok [OF V save] by blast
  obtain c where c: "c \<in> set (channels (db w))" "ch_name c = ch" "ch_deleted_at c = None"
    using s(4) by (auto simp: may_access_def)
  have "\<exists>x. upsert_draft (au_id (s_user s)) body now c (db w) = Inr (x, db w1)"
    using s(5) by (auto simp: live_channels_one [OF keys c] split: sum.splits)
  then have stored: "draft_of (db w1) (au_id (s_user s)) ch = Some body"
    using draft_of_stored [OF keys c] by blast
  obtain s' v' where s': "load_session E headers w1 = (Inr s', v')" and body': "ch' = ch"
      "body' = (case draft_of (db v') (au_id (s_user s')) ch of None \<Rightarrow> '''' | Some b \<Rightarrow> b)"
    using get s(2) by (auto simp: get_draft_def ok_simps ensure_channel_access_ok)
  have "ks_hash (\<alpha> (cache w1)) = ks_hash (\<alpha> (cache w))"
    using load_session_run [OF V s(1)] s(6) by auto
  then have "s' = s"
    by (rule load_session_again [OF V s(1) s'])
  moreover have "db v' = db w1"
    using load_session_run [OF V s'] by auto
  ultimately show ?thesis
    using body' stored s(3) by (auto simp: normalize_draft_body_def Let_def split: if_splits)
qed

section \<open>Concrete runs\<close>

text \<open>A direct conversation of Ada and Bob, and Ada's session.\<close>

definition demo_dm :: "keyspace world" where
  "demo_dm = demo_chat\<lparr>db := demo_db\<lparr>
       channels := [demo_main, (new_channel 12 ''dm'' 0)\<lparr>ch_kind := Direct, ch_direct_key := Some ''1:2''\<rparr>],
       channel_members := [(demo_member 1 RoleMember)\<lparr>cmb_channel_id := 12\<rparr>, (demo_member 2 RoleMember)\<lparr>cmb_channel_id := 12\<rparr>]\<rparr>,
     cache := ks_hset (session_key demo_env 100) [(''csrf'', ''c0ffee''), (''user'', ''u'')] ks_empty\<rparr>"

text \<open>
  A direct conversation can get a third member.  The rule that only the owner makes invite links is
  checked for private channels only, and a direct conversation is not one: in the run below one of its
  two participants makes a link, and somebody else joins the conversation with it.
\<close>

theorem direct_conversation_third_member:
  "fst (create_invite_link demo_env demo_headers ''dm'' None None demo_dm) =
     Inr \<lparr>il_token = ''c0ffee'', il_expires_at = None, il_max_uses = 0\<rparr> \<and>
   (let w1 = snd (create_invite_link demo_env demo_headers ''dm'' None None demo_dm)
    in fst (accept_link_tx demo_env 3 (invite_token_hash demo_env ''c0ffee'') w1) = Inr (''dm'', False))"
  unfolding Let_def by (rule conjI; code_simp)

text \<open>The conversation of Bob and Eve with an invite link for two people, and Ada's session.\<close>

definition demo_link :: "keyspace world" where
  "demo_link = demo_dm\<lparr>db := (db demo_dm)\<lparr>
       channel_members := [(demo_member 2 RoleMember)\<lparr>cmb_channel_id := 12\<rparr>, (demo_member 3 RoleMember)\<lparr>cmb_channel_id := 12\<rparr>],
       channel_invite_links := [\<lparr>l_id = 60, l_channel_id = 12, l_token_hash = invite_token_hash demo_env demo_token,
         l_created_by = 2, l_expires_at = None, l_max_uses = 2, l_uses = 1, l_created_at = 0\<rparr>]\<rparr>\<rparr>"


theorem invite_link_capacity_witness:
  "fst (accept_invite_link demo_env demo_headers demo_token demo_link) = Inr ''dm'' \<and>
   links_ok (db demo_link) \<and> links_ok (db (snd (accept_invite_link demo_env demo_headers demo_token demo_link)))"
proof -
  have run: "fst (accept_invite_link demo_env demo_headers demo_token demo_link) = Inr ''dm''"
    by code_simp
  have "links_ok (db demo_link)"
    by (simp add: links_ok_def demo_link_def)
  with invite_link_capacity [OF this disjI1 [OF run_fst [OF run]]] run show ?thesis by blast
qed

definition demo_save :: "keyspace world" where
  "demo_save = demo_dm\<lparr>db := demo_db\<rparr>"

theorem draft_roundtrip_witness:
  "\<exists>w1 w2. update_draft demo_env demo_headers ''team'' '' later '' demo_save = (Inr (''team'', ''later'', 1005), w1) \<and>
     get_draft demo_env demo_headers ''team'' w1 = (Inr (''team'', ''later''), w2) \<and> channel_keys_ok (db demo_save)"
proof -
  let ?save = "update_draft demo_env demo_headers ''team'' '' later ''"
  have save: "fst (?save demo_save) = Inr (''team'', ''later'', 1005)"
    by code_simp
  have get: "fst (get_draft demo_env demo_headers ''team'' (snd (?save demo_save))) = Inr (''team'', ''later'')"
    by code_simp
  have "channel_keys_ok (db demo_save)"
    by (simp add: channel_keys_ok_def demo_save_def demo_dm_def demo_db_def demo_chat_def demo_main_def demo_team_def new_channel_def)
  with draft_roundtrip [OF demo_valkey this run_fst [OF save] run_fst [OF get]] run_fst [OF save] run_fst [OF get]
  show ?thesis by blast
qed

end
