(* ===== verification/Discovery.thy ===== *)
theory Discovery
  imports History
begin

text \<open>
  \<^verbatim>\<open>backend/src/api/discovery.rs\<close>: listing channels and unread counts, searching users and messages, and the
  preview of a link, with the guard that keeps the server from fetching addresses of its own network.
  Full-text search, name resolution, the HTTP client and the HTML parser are parameters.
\<close>

section \<open>Patterns\<close>

text \<open>SQL \<^verbatim>\<open>LIKE\<close> on lists of characters: \<^verbatim>\<open>%\<close> any text, \<^verbatim>\<open>_\<close> any character, a backslash escapes the next one.\<close>

fun like :: "string list \<Rightarrow> string list \<Rightarrow> bool" where
  "like [] ts = (ts = [])"
| "like (p # ps) ts =
     (if p = ''%'' then like ps ts \<or> (case ts of [] \<Rightarrow> False | _ # ts' \<Rightarrow> like (p # ps) ts')
      else if p = [CHR 0x5C]
      then (case ps of [] \<Rightarrow> False
            | q # qs \<Rightarrow> (case ts of [] \<Rightarrow> False | t # ts' \<Rightarrow> t = q \<and> like qs ts'))
      else (case ts of [] \<Rightarrow> False | t # ts' \<Rightarrow> (p = ''_'' \<or> t = p) \<and> like ps ts'))"

text \<open>\<^verbatim>\<open>lower(v) LIKE lower('%' || q || '%')\<close>\<close>

definition contains_text :: "'s env \<Rightarrow> string \<Rightarrow> string \<Rightarrow> bool" where
  "contains_text E q v = like (chars (pg_lower E (''%'' @ q @ ''%''))) (chars (pg_lower E v))"

section \<open>Lists\<close>

definition list_channels_handler :: "'s env \<Rightarrow> header_map \<Rightarrow> ('s, string list) app" where
  "list_channels_handler E headers =
     try_bind (load_session E headers) (\<lambda>session.
     map_err app_of_repository (list_channels E (au_id (s_user session))))"

record unread_entry =
  ue_channel :: string
  ue_unread_count :: int
  ue_latest_created_at :: "i64 option"

definition last_read :: "database \<Rightarrow> uuid \<Rightarrow> uuid \<Rightarrow> i64" where
  "last_read d c u =
     (case find (\<lambda>r. cr_channel_id r = c \<and> cr_user_id r = u) (channel_reads d) of
        None \<Rightarrow> 0 | Some r \<Rightarrow> cr_last_read_created_at r)"

definition unread_messages :: "database \<Rightarrow> uuid \<Rightarrow> uuid \<Rightarrow> msg_row list" where
  "unread_messages d u c =
     filter (\<lambda>m. m_channel_id m = c \<and> m_deleted_at m = None \<and> m_created_at m > last_read d c u \<and>
                  m_owner_user_id m \<noteq> Some u) (messages d)"

definition max_opt :: "i64 list \<Rightarrow> i64 option" where
  "max_opt ts = (case ts of [] \<Rightarrow> None | t # ts \<Rightarrow> Some (fold max ts t))"

definition unread_rows :: "'s env \<Rightarrow> database \<Rightarrow> uuid \<Rightarrow> i64 \<Rightarrow> unread_entry list" where
  "unread_rows E d u now =
     map (\<lambda>c. \<lparr>ue_channel = ch_name c, ue_unread_count = int (length (unread_messages d u (ch_id c))),
               ue_latest_created_at = max_opt (map m_created_at (unread_messages d u (ch_id c)))\<rparr>)
       (sort_key (\<lambda>c. (pg_collate E (ch_name c), ch_name c))
         (filter (\<lambda>c. ch_deleted_at c = None \<and> ch_archived_at c = None \<and>
                       (ch_kind c = Public \<or> is_member d (ch_id c) u) \<and> \<not> banned_from now d u (ch_id c)) (channels d)))"

definition list_unread :: "'s env \<Rightarrow> header_map \<Rightarrow> ('s, unread_entry list) app" where
  "list_unread E headers =
     try_bind (load_session E headers) (\<lambda>session.
     try_bind (now_i64 E) (\<lambda>now.
     db_query E app_of_sqlx (\<lambda>d. unread_rows E d (au_id (s_user session)) now)))"

definition list_conversations :: "'s env \<Rightarrow> header_map \<Rightarrow> ('s, conversation_summary list) app" where
  "list_conversations E headers =
     try_bind (load_session E headers) (\<lambda>session.
     list_visible_conversations E (au_id (s_user session)))"

record user_search_result =
  us_id :: uuid
  us_username :: string

definition user_search_rows :: "'s env \<Rightarrow> database \<Rightarrow> uuid \<Rightarrow> string \<Rightarrow> user_search_result list" where
  "user_search_rows E d me q =
     map (\<lambda>u. \<lparr>us_id = u_id u, us_username = u_username u\<rparr>)
       (take 20 (sort_key (\<lambda>u. (pg_collate E (u_username u), u_username u))
         (filter (\<lambda>u. u_id u \<noteq> me \<and> u_disabled_at u = None \<and> u_deleted_at u = None \<and>
                       (q = [] \<or> contains_text E q (u_username u) \<or> contains_text E q (u_email u))) (users d))))"

definition search_users :: "'s env \<Rightarrow> header_map \<Rightarrow> string option \<Rightarrow> ('s, user_search_result list) app" where
  "search_users E headers q =
     try_bind (load_session E headers) (\<lambda>session.
     db_query E app_of_sqlx (\<lambda>d.
       user_search_rows E d (au_id (s_user session)) (case q of None \<Rightarrow> [] | Some s \<Rightarrow> s)))"

section \<open>Message search\<close>

record search_query =
  sq_q :: "string option"
  sq_channel :: "string option"
  sq_from :: "i64 option"
  sq_to :: "i64 option"
  sq_before_created_at :: "i64 option"
  sq_before_id :: "uuid option"
  sq_limit :: "i64 option"

record search_result =
  sr_message :: chat_message
  sr_snippet :: string
  sr_highlighted :: string

text \<open>
  \<open>fts\<close> and \<open>headline\<close> stand for the full-text match \<^verbatim>\<open>search_vector @@ plainto_tsquery\<close> and \<^verbatim>\<open>ts_headline\<close>, both on
  the text of the message and the search term.
\<close>

definition search_cursor :: "search_query \<Rightarrow> msg_row \<Rightarrow> bool" where
  "search_cursor q m =
     (case sq_before_created_at q of
        None \<Rightarrow> True
      | Some t \<Rightarrow> (case sq_before_id q of None \<Rightarrow> False | Some i \<Rightarrow> (m_created_at m, m_id m) < (t, i)))"

definition search_wanted ::
  "'s env \<Rightarrow> (string \<Rightarrow> string \<Rightarrow> bool) \<Rightarrow> database \<Rightarrow> uuid \<Rightarrow> string \<Rightarrow> search_query \<Rightarrow> i64 \<Rightarrow> msg_row \<times> channel_row \<Rightarrow> bool" where
  "search_wanted E fts d u needle q now = (\<lambda>(m, c).
     ch_deleted_at c = None \<and> ch_archived_at c = None \<and> m_deleted_at m = None \<and>
     (ch_kind c = Public \<or> is_member d (ch_id c) u) \<and> \<not> banned_from now d u (ch_id c) \<and>
     (case sq_channel q of None \<Rightarrow> True | Some n \<Rightarrow> ch_name c = n) \<and>
     (case sq_from q of None \<Rightarrow> True | Some t \<Rightarrow> m_created_at m \<ge> t) \<and>
     (case sq_to q of None \<Rightarrow> True | Some t \<Rightarrow> m_created_at m \<le> t) \<and>
     (fts (m_text m) needle \<or> contains_text E needle (m_text m)))"

definition search_scope ::
  "'s env \<Rightarrow> (string \<Rightarrow> string \<Rightarrow> bool) \<Rightarrow> database \<Rightarrow> uuid \<Rightarrow> string \<Rightarrow> search_query \<Rightarrow> i64 \<Rightarrow> (msg_row \<times> channel_row) list" where
  "search_scope E fts d u needle q now =
     order_desc message_order
       (filter (\<lambda>x. search_wanted E fts d u needle q now x \<and> search_cursor q (fst x)) (messages_join_channels d))"

definition clamp :: "i64 \<Rightarrow> i64 \<Rightarrow> i64 \<Rightarrow> i64" where
  "clamp lo hi x = max lo (min hi x)"

definition search_limit :: "search_query \<Rightarrow> nat" where
  "search_limit q = nat (clamp 1 100 (case sq_limit q of None \<Rightarrow> 50 | Some n \<Rightarrow> n))"

definition search_items ::
  "(string \<Rightarrow> string \<Rightarrow> string) \<Rightarrow> string \<Rightarrow> message_row list \<Rightarrow> sqlx_error + search_result list" where
  "search_items headline needle rows =
     map_sum id (map (\<lambda>(r, m). \<lparr>sr_message = m, sr_snippet = cm_text m, sr_highlighted = headline (mr_text r) needle\<rparr>) \<circ> zip rows)
       (try_from_rows rows)"

definition search_messages ::
  "'s env \<Rightarrow> (string \<Rightarrow> string \<Rightarrow> bool) \<Rightarrow> (string \<Rightarrow> string \<Rightarrow> string) \<Rightarrow> header_map \<Rightarrow> search_query \<Rightarrow>
   ('s, search_result list \<times> (u64 \<times> uuid) option) app" where
  "search_messages E fts headline headers q =
     try_bind (load_session E headers) (\<lambda>session.
     let needle = trim (case sq_q q of None \<Rightarrow> [] | Some s \<Rightarrow> s) in
     if needle = [] \<or> length needle > 200 then ok ([], None)
     else
     let limit = search_limit q in
     try_bind (now_i64 E) (\<lambda>now.
     try_bind (db_query E app_of_sqlx (\<lambda>d.
       map (select_message d) (take (limit + 1) (search_scope E fts d (au_id (s_user session)) needle q now)))) (\<lambda>rows.
     try_bind (map_err app_of_sqlx (lift (search_items headline needle rows))) (\<lambda>all.
     let items = take limit all;
         next = (if length rows > limit \<and> items \<noteq> []
                 then Some (cm_created_at (sr_message (last items)), cm_id (sr_message (last items))) else None) in
     ok (items, next)))))"

section \<open>Link previews\<close>

type_synonym u16 = "16 word"

datatype ip_addr = V4 u8 u8 u8 u8 | V6 u16 u16 u16 u16 u16 u16 u16 u16

type_synonym socket_addr = "ip_addr \<times> nat"

text \<open>The classes of \<^verbatim>\<open>std::net::Ipv4Addr\<close> and \<^verbatim>\<open>Ipv6Addr\<close>.\<close>

definition ipv4_is_private :: "u8 \<Rightarrow> u8 \<Rightarrow> bool" where
  "ipv4_is_private a b = (a = 10 \<or> a = 172 \<and> 16 \<le> b \<and> b \<le> 31 \<or> a = 192 \<and> b = 168)"

definition public_v4 :: "u8 \<Rightarrow> u8 \<Rightarrow> u8 \<Rightarrow> u8 \<Rightarrow> bool" where
  "public_v4 a b c d =
     (\<not> a = 127 \<and> \<not> ipv4_is_private a b \<and> \<not> (a = 169 \<and> b = 254) \<and> \<not> (a = 0 \<and> b = 0 \<and> c = 0 \<and> d = 0) \<and>
      \<not> (224 \<le> a \<and> a \<le> 239))"

text \<open>\<^verbatim>\<open>Ipv6Addr::to_ipv4\<close>: addresses \<^verbatim>\<open>::a.b.c.d\<close> and \<^verbatim>\<open>::ffff:a.b.c.d\<close>, so also \<^verbatim>\<open>::1\<close>.\<close>

definition high_byte :: "u16 \<Rightarrow> u8" where
  "high_byte x = ucast (drop_bit 8 x)"

definition low_byte :: "u16 \<Rightarrow> u8" where
  "low_byte x = ucast x"

fun is_public_ip :: "ip_addr \<Rightarrow> bool" where
  "is_public_ip (V4 a b c d) = public_v4 a b c d"
| "is_public_ip (V6 s0 s1 s2 s3 s4 s5 s6 s7) =
     (if s0 = 0 \<and> s1 = 0 \<and> s2 = 0 \<and> s3 = 0 \<and> s4 = 0 \<and> (s5 = 0 \<or> s5 = 0xFFFF)
      then public_v4 (high_byte s6) (low_byte s6) (high_byte s7) (low_byte s7)
      else
        \<not> (s0 = 0 \<and> s1 = 0 \<and> s2 = 0 \<and> s3 = 0 \<and> s4 = 0 \<and> s5 = 0 \<and> s6 = 0 \<and> s7 = 1) \<and>
        \<not> (and s0 0xFE00 = 0xFC00) \<and> \<not> (and s0 0xFFC0 = 0xFE80) \<and>
        \<not> (s0 = 0 \<and> s1 = 0 \<and> s2 = 0 \<and> s3 = 0 \<and> s4 = 0 \<and> s5 = 0 \<and> s6 = 0 \<and> s7 = 0) \<and>
        \<not> (and s0 0xFF00 = 0xFF00))"

definition validate_preview_url :: "'s env \<Rightarrow> string \<Rightarrow> app_error + url" where
  "validate_preview_url E raw =
     (if length raw > 2048 then Inl (bad_request ''preview URL is too long'')
      else
      (case url_parse E raw of
         None \<Rightarrow> Inl (bad_request ''invalid preview URL'')
       | Some u \<Rightarrow>
           if url_scheme u \<notin> set [''http'', ''https''] \<or> url_host u = None \<or>
              url_username u = [] \<and> url_password u \<noteq> None \<or> url_username u \<noteq> []
           then Inl (bad_request ''preview URL must be a public HTTP URL'')
           else Inr u))"

definition ends_with :: "string \<Rightarrow> string \<Rightarrow> bool" where
  "ends_with s suffix = (drop (length s - length suffix) s = suffix)"

fun select_address :: "socket_addr list \<Rightarrow> socket_addr option \<Rightarrow> app_error + socket_addr option" where
  "select_address [] selected = Inr selected"
| "select_address (a # as) selected =
     (if \<not> is_public_ip (fst a) then Inl (forbidden ''preview host is not public'')
      else select_address as (case selected of None \<Rightarrow> Some a | Some s \<Rightarrow> Some s))"

text \<open>\<open>port\<close> is \<^verbatim>\<open>port_or_known_default\<close> of a URL, \<open>resolve\<close> is \<^verbatim>\<open>lookup_host\<close>.\<close>

definition ensure_public_preview_host ::
  "(url \<Rightarrow> nat option) \<Rightarrow> (string \<Rightarrow> nat \<Rightarrow> ('s, string, socket_addr list) io) \<Rightarrow> url \<Rightarrow> ('s, socket_addr) app" where
  "ensure_public_preview_host port resolve u =
     try_bind (ok_or (bad_request ''preview URL has no host'') (url_host u)) (\<lambda>host.
     if map ascii_lower host = ''localhost'' \<or> ends_with host ''.localhost''
     then fail (forbidden ''preview host is not public'')
     else
     try_bind (map_err (\<lambda>_. bad_request ''preview host could not be resolved'')
       (resolve host (case port u of None \<Rightarrow> 80 | Some p \<Rightarrow> p))) (\<lambda>addresses.
     try_bind (lift (select_address addresses None)) (\<lambda>selected.
     ok_or (bad_request ''preview host could not be resolved'') selected)))"

definition PREVIEW_LIMIT :: nat where "PREVIEW_LIMIT = 256 * 1024"

text \<open>The chunks of the answer; \<open>Inl\<close> is a broken stream.\<close>

fun read_preview :: "(string + string) list \<Rightarrow> string \<Rightarrow> app_error + string" where
  "read_preview [] bytes = Inr bytes"
| "read_preview (Inl _ # cs) bytes = Inl (service_unavailable ''preview fetch failed'')"
| "read_preview (Inr chunk # cs) bytes =
     (if length bytes + length chunk > PREVIEW_LIMIT then Inl (bad_request ''preview target is too large'')
      else read_preview cs (bytes @ chunk))"

definition join_space :: "string list \<Rightarrow> string" where
  "join_space ws = (case ws of [] \<Rightarrow> [] | w # ws \<Rightarrow> w @ concat (map (\<lambda>x. CHR '' '' # x) ws))"

definition bounded_text :: "string \<Rightarrow> nat \<Rightarrow> string option" where
  "bounded_text value limit =
     (let normalized = join_space (split_whitespace value)
      in if normalized = [] then None else Some (concat (take limit (chars normalized))))"

text \<open>What the HTML parser finds: the text nodes of the first title, and the attributes of each meta element.\<close>

record html_document =
  ht_title :: "string list option"
  ht_meta :: "(string \<times> string) list list"

record preview_metadata =
  pm_title :: "string option"
  pm_description :: "string option"
  pm_image_url :: "string option"

definition meta_key :: "(string \<times> string) list \<Rightarrow> string" where
  "meta_key attrs =
     map ascii_lower
       (case map_of attrs ''property'' of
          Some v \<Rightarrow> v | None \<Rightarrow> (case map_of attrs ''name'' of Some v \<Rightarrow> v | None \<Rightarrow> []))"

text \<open>\<open>join base s\<close> is \<^verbatim>\<open>Url::join\<close> with the printed form of the result.\<close>

definition scan_meta ::
  "(url \<Rightarrow> string \<Rightarrow> (url \<times> string) option) \<Rightarrow> url \<Rightarrow> (string \<times> string) list \<Rightarrow>
   string option \<times> string option \<Rightarrow> string option \<times> string option" where
  "scan_meta join base attrs = (\<lambda>(description, image).
     case map_of attrs ''content'' of
       None \<Rightarrow> (description, image)
     | Some content \<Rightarrow>
         ((if description = None \<and> meta_key attrs \<in> set [''description'', ''og:description'']
           then bounded_text content 500 else description),
          (if image = None \<and> meta_key attrs = ''og:image''
           then (case join base (trim content) of
                   Some (u, printed) \<Rightarrow> if url_scheme u \<in> set [''http'', ''https''] then Some printed else None
                 | None \<Rightarrow> None)
           else image)))"

definition preview_metadata_of ::
  "(url \<Rightarrow> string \<Rightarrow> (url \<times> string) option) \<Rightarrow> html_document \<Rightarrow> url \<Rightarrow> preview_metadata" where
  "preview_metadata_of join doc base =
     (let (description, image) = fold (scan_meta join base) (ht_meta doc) (None, None)
      in \<lparr>pm_title = Option.bind (map_option join_space (ht_title doc)) (\<lambda>v. bounded_text v 300),
          pm_description = description, pm_image_url = image\<rparr>)"

record preview_response =
  pr_status :: nat
  pr_content_length :: "nat option"
  pr_chunks :: "(string + string) list"

text \<open>
  \<open>get\<close> is the HTTP client, which connects to the given address and follows no redirects; \<open>parse_html\<close> is the
  HTML parser on the decoded bytes.
\<close>

definition link_preview ::
  "'s env \<Rightarrow> (url \<Rightarrow> nat option) \<Rightarrow> (string \<Rightarrow> nat \<Rightarrow> ('s, string, socket_addr list) io) \<Rightarrow>
   (url \<Rightarrow> socket_addr \<Rightarrow> ('s, string, preview_response) io) \<Rightarrow> (string \<Rightarrow> html_document) \<Rightarrow>
   (url \<Rightarrow> string \<Rightarrow> (url \<times> string) option) \<Rightarrow> header_map \<Rightarrow> string \<Rightarrow> ('s, url \<times> preview_metadata) app" where
  "link_preview E port resolve get parse_html join headers raw =
     try_bind (load_session E headers) (\<lambda>_.
     try_bind (lift (validate_preview_url E raw)) (\<lambda>url.
     try_bind (ensure_public_preview_host port resolve url) (\<lambda>address.
     try_bind (external E (service_unavailable ''preview client unavailable'') (ok ())) (\<lambda>_.
     try_bind (map_err (\<lambda>_. service_unavailable ''preview fetch failed'') (get url address)) (\<lambda>response.
     if \<not> (200 \<le> pr_status response \<and> pr_status response < 300)
     then fail (bad_request ''preview target was not successful'')
     else if (case pr_content_length response of None \<Rightarrow> 0 | Some n \<Rightarrow> n) > PREVIEW_LIMIT
     then fail (bad_request ''preview target is too large'')
     else
     try_bind (lift (read_preview (pr_chunks response) [])) (\<lambda>bytes.
     ok (url, preview_metadata_of join (parse_html bytes) url)))))))"

section \<open>Search results\<close>

lemma set_order_desc [simp]: "set (order_desc k xs) = set xs"
  by (simp add: order_desc_def)

lemma length_order_desc [simp]: "length (order_desc k xs) = length xs"
  by (simp add: order_desc_def)

lemma filter_order_desc: "filter P (order_desc k xs) = order_desc k (filter P xs)"
  by (simp add: order_desc_def filter_sort flip: rev_filter)

text \<open>In a list that decreases strictly, what is smaller than the n-th element is what comes after it.\<close>

lemma filter_after_cursor:
  assumes "sorted_wrt (\<lambda>x y. k y < k x) xs" and "0 < n" "n \<le> length xs"
  shows "filter (\<lambda>x. k x < (k (xs ! (n - 1)) :: 'k :: linorder)) xs = drop n xs"
proof -
  let ?c = "k (xs ! (n - 1))"
  have "\<not> k x < ?c" if x: "x \<in> set (take n xs)" for x
  proof -
    obtain i where i: "i < n" "x = xs ! i" using x assms(3) by (force simp: in_set_conv_nth)
    then have "i = n - 1 \<or> k (xs ! (n - 1)) < k (xs ! i)"
      using assms sorted_wrt_nth_less [OF assms(1), of i "n - 1"] by force
    with i show ?thesis by auto
  qed
  moreover have "k x < ?c" if x: "x \<in> set (drop n xs)" for x
  proof -
    obtain i where "i < length xs - n" "x = xs ! (n + i)" using x assms(3) by (force simp: in_set_conv_nth)
    with sorted_wrt_nth_less [OF assms(1), of "n - 1" "n + i"] assms(2) show ?thesis by simp
  qed
  moreover have "filter (\<lambda>x. k x < ?c) (take n xs @ drop n xs) =
      filter (\<lambda>x. k x < ?c) (take n xs) @ filter (\<lambda>x. k x < ?c) (drop n xs)" by (rule filter_append)
  ultimately show ?thesis
    by (simp add: filter_empty_conv filter_id_conv)
qed

lemma order_desc_strict:
  assumes "distinct (map k xs)"
  shows "sorted_wrt (\<lambda>x y. k y < k x) (order_desc k xs)"
proof -
  have "distinct (map k (sort_key k (rev xs)))"
    using assms by (simp add: distinct_map)
  then have "sorted_wrt (<) (map k (sort_key k (rev xs)))"
    by (simp add: strict_sorted_iff)
  then show ?thesis by (simp add: order_desc_def sorted_wrt_rev sorted_wrt_map)
qed

lemma search_scope_strict:
  assumes "messages_ok d" "channel_keys_ok d"
  shows "sorted_wrt (\<lambda>x y. message_order y < message_order x) (search_scope E fts d u needle q now)"
  unfolding search_scope_def by (intro order_desc_strict distinct_map_filter distinct_join assms)


lemma search_items_ok:
  assumes "search_items headline needle rows = Inr all"
  shows "length all = length rows \<and> (\<forall>i < length rows. try_from_row (rows ! i) = Inr (sr_message (all ! i)))"
proof -
  from assms obtain ms where "try_from_rows rows = Inr ms"
    "all = map (\<lambda>(r, m). \<lparr>sr_message = m, sr_snippet = cm_text m, sr_highlighted = headline (mr_text r) needle\<rparr>) (zip rows ms)"
    by (cases "try_from_rows rows") (auto simp: search_items_def)
  then show ?thesis by (auto simp: try_from_rows_ok list_all2_conv_all_nth)
qed


section \<open>Preview guard\<close>

lemma select_address_ok:
  "select_address as selected = Inr r \<longleftrightarrow>
     (\<forall>a \<in> set as. is_public_ip (fst a)) \<and> r = (case selected of Some s \<Rightarrow> Some s | None \<Rightarrow> (case as of [] \<Rightarrow> None | a # _ \<Rightarrow> Some a))"
  by (induction as selected rule: select_address.induct) (auto split: option.splits list.splits)

lemma PREVIEW_LIMIT_code [code_unfold]: "(PREVIEW_LIMIT < n) = (262144 < int n)"
  by (simp add: PREVIEW_LIMIT_def)

lemma read_preview_bound:
  "read_preview cs bytes = Inr r \<Longrightarrow> length bytes \<le> PREVIEW_LIMIT \<Longrightarrow> length r \<le> PREVIEW_LIMIT"
  by (induction cs bytes rule: read_preview.induct) (auto split: if_splits)


text \<open>
  The guard lets the IPv6 loopback address through: \<^verbatim>\<open>to_ipv4\<close> reads \<^verbatim>\<open>::1\<close> as \<^verbatim>\<open>0.0.0.1\<close>, which is in none of the
  IPv4 classes that are refused.
\<close>

theorem ipv6_loopback_is_public: "is_public_ip (V6 0 0 0 0 0 0 0 1)"
  by (simp add: public_v4_def ipv4_is_private_def high_byte_def low_byte_def)

section \<open>Concrete runs\<close>

definition demo_query :: search_query where
  "demo_query = \<lparr>sq_q = Some '' HELLO '', sq_channel = None, sq_from = None, sq_to = None, sq_before_created_at = None,
     sq_before_id = None, sq_limit = Some 1\<rparr>"

definition demo_text_search :: "database \<Rightarrow> search_query \<Rightarrow> (msg_row \<times> channel_row) list" where
  "demo_text_search d q = search_scope demo_env (\<lambda>_ _. False) d 1 ''hello'' q 1000"

definition demo_two_messages :: database where
  "demo_two_messages = demo_db\<lparr>messages := [demo_message, demo_message\<lparr>m_id := 51, m_client_id := None, m_created_at := 950\<rparr>]\<rparr>"




end
