(* ===== verification/Storage.thy ===== *)
theory Storage
  imports World
begin

unbundle bit_operations_syntax

text \<open>
  \<^verbatim>\<open>backend/src/storage.rs\<close> and \<^verbatim>\<open>storage/scanner.rs\<close>: where uploaded files are kept and how they are scanned.
  The contract of the trait \<^verbatim>\<open>BlobStore\<close> is the locale \<open>blob_store\<close>, interpreted on the filesystem store; the S3
  store is modelled up to the requests it signs.  The HTTP client, SHA-256 and the URL parser are
  parameters.
\<close>

section \<open>The interface\<close>

datatype storage_error = Configuration string | InvalidKey | StorageIo string | StorageHttp string

fun show_storage_error :: "storage_error \<Rightarrow> string" where
  "show_storage_error (Configuration e) = e"
| "show_storage_error InvalidKey = ''invalid storage key''"
| "show_storage_error (StorageIo e) = ''storage I/O error: '' @ e"
| "show_storage_error (StorageHttp e) = ''object storage request failed: '' @ e"

text \<open>A stream is the list of the items it yields.\<close>

record blob_object =
  bo_content_length :: "nat option"
  bo_stream :: "(storage_error + string) list"

record 'b blob_ops =
  blob_put :: "string \<Rightarrow> string \<Rightarrow> ('b, storage_error, unit) comp"
  blob_get_stream :: "string \<Rightarrow> ('b, storage_error, blob_object) comp"
  blob_delete :: "string \<Rightarrow> ('b, storage_error, unit) comp"

definition valid_key :: "string \<Rightarrow> bool" where
  "valid_key key = (\<not> (key = [] \<or> CHR ''/'' \<in> set key \<or> CHR 0x5C \<in> set key \<or> key = ''.'' \<or> key = ''..''))"

section \<open>Signed requests to an object store\<close>

record s3_store =
  s3_endpoint :: url
  s3_bucket :: string
  s3_region :: string
  s3_access_key :: string
  s3_secret_key :: string

definition required_var :: "'s env \<Rightarrow> string \<Rightarrow> storage_error + string" where
  "required_var E n = (case env_var E n of None \<Rightarrow> Inl (Configuration (n @ '' is required'')) | Some v \<Rightarrow> Inr v)"

text \<open>\<open>client_build\<close> is the error of the HTTP client's builder, if it has one.\<close>

definition s3_from_env :: "'s env \<Rightarrow> string option \<Rightarrow> storage_error + s3_store" where
  "s3_from_env E client_build =
     (case required_var E ''STORAGE_ENDPOINT'' of Inl e \<Rightarrow> Inl e | Inr raw \<Rightarrow>
     (case url_parse E raw of None \<Rightarrow> Inl (Configuration ''STORAGE_ENDPOINT is invalid'') | Some endpoint \<Rightarrow>
     (case required_var E ''STORAGE_BUCKET'' of Inl e \<Rightarrow> Inl e | Inr bucket \<Rightarrow>
     (case required_var E ''STORAGE_ACCESS_KEY'' of Inl e \<Rightarrow> Inl e | Inr access_key \<Rightarrow>
     (case required_var E ''STORAGE_SECRET_KEY'' of Inl e \<Rightarrow> Inl e | Inr secret_key \<Rightarrow>
     (case client_build of Some e \<Rightarrow> Inl (Configuration e) | None \<Rightarrow>
     Inr \<lparr>s3_endpoint = endpoint, s3_bucket = bucket,
          s3_region = (case env_var E ''STORAGE_REGION'' of None \<Rightarrow> ''us-east-1'' | Some r \<Rightarrow> r),
          s3_access_key = access_key, s3_secret_key = secret_key\<rparr>))))))"

text \<open>The address of an object: the endpoint with the path that \<open>set_path\<close> (\<^verbatim>\<open>Url::set_path\<close>) makes of the key's.\<close>

definition request_url :: "(string \<Rightarrow> string) \<Rightarrow> s3_store \<Rightarrow> string \<Rightarrow> storage_error + url \<times> string" where
  "request_url set_path S key =
     (if \<not> valid_key key then Inl InvalidKey
      else Inr (s3_endpoint S, set_path (''/'' @ s3_bucket S @ ''/'' @ key)))"

subsection \<open>HMAC\<close>

definition BLOCK_SIZE :: nat where "BLOCK_SIZE = 64"

definition xor_byte :: "char \<Rightarrow> u8 \<Rightarrow> char" where
  "xor_byte c k = char_of (unat (of_char c XOR k))"

text \<open>\<^verbatim>\<open>buffer[..src.len()].copy_from_slice(src)\<close>\<close>

definition copy_front :: "string \<Rightarrow> string \<Rightarrow> string" where
  "copy_front buffer src = src @ drop (length src) buffer"

definition hmac_bytes :: "(string \<Rightarrow> string) \<Rightarrow> string \<Rightarrow> string \<Rightarrow> string" where
  "hmac_bytes H key value =
     (let zeros = replicate BLOCK_SIZE (CHR 0x00);
          normalized = (if length key > BLOCK_SIZE then copy_front zeros (H key) else copy_front zeros key);
          (inner, outer) = fold (\<lambda>byte (inner, outer). (inner @ [xor_byte byte 0x36], outer @ [xor_byte byte 0x5C]))
            normalized ([], []);
          inner = inner @ value;
          outer = outer @ H inner
      in H outer)"

definition signing_key :: "(string \<Rightarrow> string) \<Rightarrow> string \<Rightarrow> string \<Rightarrow> string \<Rightarrow> string" where
  "signing_key H secret date region =
     (let date_key = hmac_bytes H (''AWS4'' @ secret) date;
          region_key = hmac_bytes H date_key region;
          service_key = hmac_bytes H region_key ''s3''
      in hmac_bytes H service_key ''aws4_request'')"

subsection \<open>Requests\<close>

definition nl :: string where "nl = [CHR 0x0A]"

record s3_request =
  rq_method :: string
  rq_url :: "url \<times> string"
  rq_body :: string
  rq_headers :: "(string \<times> string) list"

text \<open>\<open>stamp\<close> is the current time in the formats \<^verbatim>\<open>%Y%m%dT%H%M%SZ\<close> and \<^verbatim>\<open>%Y%m%d\<close>.\<close>

definition signed_request ::
  "'s env \<Rightarrow> (string \<Rightarrow> string) \<Rightarrow> s3_store \<Rightarrow> string \<times> string \<Rightarrow> string \<Rightarrow> string \<Rightarrow> string \<Rightarrow> storage_error + s3_request" where
  "signed_request E set_path S stamp method key body =
     (case request_url set_path S key of Inl e \<Rightarrow> Inl e | Inr (url, canonical_uri) \<Rightarrow>
     (case url_host url of None \<Rightarrow> Inl (Configuration ''STORAGE_ENDPOINT has no host'') | Some host \<Rightarrow>
     let (amz_date, date) = stamp;
         payload_hash = hex_encode E (sha256 E body);
         canonical_headers = ''host:'' @ host @ nl @ ''x-amz-content-sha256:'' @ payload_hash @ nl @
           ''x-amz-date:'' @ amz_date @ nl;
         signed_headers = ''host;x-amz-content-sha256;x-amz-date'';
         canonical_request = method @ nl @ canonical_uri @ nl @ nl @ canonical_headers @ nl @ signed_headers @ nl @ payload_hash;
         scope = date @ ''/'' @ s3_region S @ ''/'' @ ''s3'' @ ''/aws4_request'';
         string_to_sign = ''AWS4-HMAC-SHA256'' @ nl @ amz_date @ nl @ scope @ nl @ hex_encode E (sha256 E canonical_request);
         signature = hex_encode E (hmac_bytes (sha256 E) (signing_key (sha256 E) (s3_secret_key S) date (s3_region S)) string_to_sign);
         authorization = ''AWS4-HMAC-SHA256 Credential='' @ s3_access_key S @ ''/'' @ scope @ '', SignedHeaders='' @
           signed_headers @ '', Signature='' @ signature
     in Inr \<lparr>rq_method = method, rq_url = (url, canonical_uri), rq_body = body,
             rq_headers = [(''host'', host), (''x-amz-content-sha256'', payload_hash), (''x-amz-date'', amz_date),
                           (''authorization'', authorization)]\<rparr>))"

text \<open>\<open>send\<close> is the HTTP client: an error text, or the response.\<close>

record s3_response =
  rs_status :: nat
  rs_status_text :: string
  rs_content_length :: "nat option"
  rs_chunks :: "(string + string) list"

definition is_success :: "s3_response \<Rightarrow> bool" where
  "is_success r = (200 \<le> rs_status r \<and> rs_status r < 300)"

type_synonym 'b s3_client = "s3_request \<Rightarrow> ('b, string, s3_response) comp"

definition s3_call ::
  "'s env \<Rightarrow> (string \<Rightarrow> string) \<Rightarrow> ('b \<Rightarrow> string \<times> string) \<Rightarrow> 'b s3_client \<Rightarrow> s3_store \<Rightarrow> string \<Rightarrow> string \<Rightarrow> string \<Rightarrow>
   ('b, storage_error, s3_response) comp" where
  "s3_call E set_path utc_now send S method key body =
     (\<lambda>b. case signed_request E set_path S (utc_now b) method key body of
        Inl e \<Rightarrow> (Inl e, b)
      | Inr request \<Rightarrow> map_err StorageHttp (send request) b)"

definition s3_put where
  "s3_put E set_path utc_now send S key contents =
     try_bind (s3_call E set_path utc_now send S ''PUT'' key contents) (\<lambda>response.
     if is_success response then ok () else fail (StorageHttp (rs_status_text response)))"

definition s3_get_stream where
  "s3_get_stream E set_path utc_now send S key =
     try_bind (s3_call E set_path utc_now send S ''GET'' key []) (\<lambda>response.
     if \<not> is_success response then fail (StorageHttp (rs_status_text response))
     else ok \<lparr>bo_content_length = rs_content_length response,
              bo_stream = map (map_sum StorageHttp id) (rs_chunks response)\<rparr>)"

definition s3_delete where
  "s3_delete E set_path utc_now send S key =
     try_bind (s3_call E set_path utc_now send S ''DELETE'' key []) (\<lambda>response.
     if is_success response \<or> rs_status response = 404 then ok ()
     else fail (StorageHttp (rs_status_text response)))"

definition s3_blob_store ::
  "'s env \<Rightarrow> (string \<Rightarrow> string) \<Rightarrow> ('b \<Rightarrow> string \<times> string) \<Rightarrow> 'b s3_client \<Rightarrow> s3_store \<Rightarrow> 'b blob_ops" where
  "s3_blob_store E set_path utc_now send S =
     \<lparr>blob_put = s3_put E set_path utc_now send S, blob_get_stream = s3_get_stream E set_path utc_now send S,
      blob_delete = s3_delete E set_path utc_now send S\<rparr>"

section \<open>Files on disk\<close>

text \<open>
  The file system: the contents of files by path, and a counter of calls.  \<open>dk_fault\<close> says which call fails
  with an error other than \<^verbatim>\<open>NotFound\<close>, \<open>dk_torn\<close> what a failed write leaves in the file (\<open>None\<close>: as it was),
  \<open>dk_read_fault\<close> after how many chunks reading a file breaks off.
\<close>

datatype io_error = IoNotFound | IoOther string

fun show_io_error :: "io_error \<Rightarrow> string" where
  "show_io_error IoNotFound = ''No such file or directory (os error 2)''"
| "show_io_error (IoOther e) = e"

record disk_env =
  dk_fault :: "nat \<Rightarrow> string option"
  dk_torn :: "nat \<Rightarrow> string option"
  dk_read_fault :: "nat \<Rightarrow> (nat \<times> string) option"

record disk =
  d_files :: "string \<Rightarrow> string option"
  d_tick :: nat

definition disk_call :: "disk_env \<Rightarrow> (disk, io_error, 'a) comp \<Rightarrow> (disk, io_error, 'a) comp" where
  "disk_call K m = (\<lambda>d.
     case dk_fault K (d_tick d) of
       Some e \<Rightarrow> (Inl (IoOther e), d\<lparr>d_tick := Suc (d_tick d)\<rparr>)
     | None \<Rightarrow> m (d\<lparr>d_tick := Suc (d_tick d)\<rparr>))"

definition fs_create_dir_all :: "disk_env \<Rightarrow> string \<Rightarrow> (disk, io_error, unit) comp" where
  "fs_create_dir_all K path = disk_call K (ok ())"

definition fs_write :: "disk_env \<Rightarrow> string \<Rightarrow> string \<Rightarrow> (disk, io_error, unit) comp" where
  "fs_write K path contents = (\<lambda>d.
     case dk_fault K (d_tick d) of
       Some e \<Rightarrow> (Inl (IoOther e), d\<lparr>d_tick := Suc (d_tick d),
         d_files := (case dk_torn K (d_tick d) of None \<Rightarrow> d_files d | Some c \<Rightarrow> (d_files d)(path \<mapsto> c))\<rparr>)
     | None \<Rightarrow> (Inr (), d\<lparr>d_tick := Suc (d_tick d), d_files := (d_files d)(path \<mapsto> contents)\<rparr>))"

definition fs_open :: "disk_env \<Rightarrow> string \<Rightarrow> (disk, io_error, string) comp" where
  "fs_open K path = disk_call K (\<lambda>d. (case d_files d path of None \<Rightarrow> Inl IoNotFound | Some c \<Rightarrow> Inr c, d))"

definition fs_metadata_len :: "disk_env \<Rightarrow> string \<Rightarrow> (disk, io_error, nat) comp" where
  "fs_metadata_len K contents = disk_call K (ok (length contents))"

definition fs_remove_file :: "disk_env \<Rightarrow> string \<Rightarrow> (disk, io_error, unit) comp" where
  "fs_remove_file K path = disk_call K (\<lambda>d.
     case d_files d path of None \<Rightarrow> (Inl IoNotFound, d) | Some c \<Rightarrow> (Inr (), d\<lparr>d_files := (d_files d)(path := None)\<rparr>))"

text \<open>\<^verbatim>\<open>ReaderStream\<close> reads at most 4096 bytes at a time.\<close>

function chunks_of :: "nat \<Rightarrow> string \<Rightarrow> string list" where
  "chunks_of n s = (if s = [] \<or> n = 0 then [] else take n s # chunks_of n (drop n s))"
  by auto
termination by (relation "measure (length \<circ> snd)") auto

declare chunks_of.simps [simp del]

definition reader_stream :: "disk_env \<Rightarrow> string \<Rightarrow> (disk, 'e, (io_error + string) list) comp" where
  "reader_stream K contents = (\<lambda>d.
     (Inr (case dk_read_fault K (d_tick d) of
             None \<Rightarrow> map Inr (chunks_of 4096 contents)
           | Some (n, e) \<Rightarrow> map Inr (take n (chunks_of 4096 contents)) @ [Inl (IoOther e)]),
      d\<lparr>d_tick := Suc (d_tick d)\<rparr>))"

section \<open>The filesystem store\<close>

text \<open>\<^verbatim>\<open>Path::join\<close>: an absolute path replaces the root.\<close>

definition path_join :: "string \<Rightarrow> string \<Rightarrow> string" where
  "path_join root key =
     (if starts_with ''/'' key then key
      else if root = [] \<or> last root = CHR ''/'' then root @ key
      else root @ ''/'' @ key)"

definition fs_path :: "string \<Rightarrow> string \<Rightarrow> storage_error + string" where
  "fs_path root key = (if \<not> valid_key key then Inl InvalidKey else Inr (path_join root key))"

abbreviation storage_io :: "io_error \<Rightarrow> storage_error" where
  "storage_io e \<equiv> StorageIo (show_io_error e)"

definition fs_put :: "disk_env \<Rightarrow> string \<Rightarrow> string \<Rightarrow> string \<Rightarrow> (disk, storage_error, unit) comp" where
  "fs_put K root key contents =
     try_bind (lift (fs_path root key)) (\<lambda>path.
     try_bind (map_err storage_io (fs_create_dir_all K root)) (\<lambda>_.
     map_err storage_io (fs_write K path contents)))"

definition fs_get_stream :: "disk_env \<Rightarrow> string \<Rightarrow> string \<Rightarrow> (disk, storage_error, blob_object) comp" where
  "fs_get_stream K root key =
     try_bind (lift (fs_path root key)) (\<lambda>path.
     try_bind (map_err storage_io (fs_open K path)) (\<lambda>file.
     try_bind (map_err storage_io (fs_metadata_len K file)) (\<lambda>content_length.
     try_bind (reader_stream K file) (\<lambda>items.
     ok \<lparr>bo_content_length = Some content_length, bo_stream = map (map_sum storage_io id) items\<rparr>))))"

definition fs_delete :: "disk_env \<Rightarrow> string \<Rightarrow> string \<Rightarrow> (disk, storage_error, unit) comp" where
  "fs_delete K root key =
     try_bind (lift (fs_path root key)) (\<lambda>path.
     try_bind (attempt (fs_remove_file K path)) (\<lambda>r.
     case r of
       Inr _ \<Rightarrow> ok ()
     | Inl e \<Rightarrow> if e = IoNotFound then ok () else fail (storage_io e)))"

definition filesystem_store :: "disk_env \<Rightarrow> string \<Rightarrow> disk blob_ops" where
  "filesystem_store K root =
     \<lparr>blob_put = fs_put K root, blob_get_stream = fs_get_stream K root, blob_delete = fs_delete K root\<rparr>"

section \<open>Scanners\<close>

datatype scan_error = Rejected | Unavailable string

type_synonym 's scanner = "string \<Rightarrow> string \<Rightarrow> string \<Rightarrow> ('s, scan_error, unit) io"

definition noop_scan :: "'s scanner" where
  "noop_scan file_name content_type contents = ok ()"

definition http_scanner_new :: "'s env \<Rightarrow> string option \<Rightarrow> string \<Rightarrow> scan_error + string" where
  "http_scanner_new E client_build endpoint =
     (case url_parse E endpoint of
        None \<Rightarrow> Inl (Unavailable ''scanner URL is invalid'')
      | Some u \<Rightarrow>
          if url_scheme u \<noteq> ''http'' \<and> url_scheme u \<noteq> ''https''
          then Inl (Unavailable ''scanner URL must use HTTP or HTTPS'')
          else (case client_build of Some e \<Rightarrow> Inl (Unavailable e) | None \<Rightarrow> Inr endpoint))"

definition http_scanner_from_env :: "'s env \<Rightarrow> string option \<Rightarrow> scan_error + string" where
  "http_scanner_from_env E client_build =
     (case env_var E ''FILE_SCANNER_URL'' of
        None \<Rightarrow> Inl (Unavailable ''FILE_SCANNER_URL is not configured'')
      | Some endpoint \<Rightarrow> http_scanner_new E client_build endpoint)"

text \<open>\<open>post\<close> is the HTTP client: an error text, or the status code and its text.\<close>

definition http_scan ::
  "(string \<Rightarrow> (string \<times> string) list \<Rightarrow> string \<Rightarrow> ('s, string, nat \<times> string) io) \<Rightarrow> string \<Rightarrow> 's scanner" where
  "http_scan post endpoint file_name content_type contents =
     try_bind (map_err Unavailable
       (post endpoint [(''x-file-name'', file_name), (''content-type'', content_type)] contents)) (\<lambda>(code, txt).
     if 200 \<le> code \<and> code < 300 then ok ()
     else if code = 422 then fail Rejected
     else fail (Unavailable txt))"

section \<open>The contract of a blob store\<close>

text \<open>
  \<open>view\<close> is what is stored under each key.  A successful write is seen under its key, a failed one changes no
  other key; reading changes nothing and, when the stream yields no error, yields what is stored.
\<close>

definition stream_bytes :: "(storage_error + string) list \<Rightarrow> string option" where
  "stream_bytes items = (if list_all is_ok items then Some (concat (map (case_sum (\<lambda>_. []) id) items)) else None)"

locale blob_store =
  fixes store :: "'b blob_ops" and view :: "'b \<Rightarrow> string \<Rightarrow> string option"
  assumes put_ok: "blob_put store k c b = (Inr (), b') \<Longrightarrow> view b' = (view b)(k \<mapsto> c)"
    and put_frame: "blob_put store k c b = (r, b') \<Longrightarrow> k' \<noteq> k \<Longrightarrow> view b' k' = view b k'"
    and get_view: "blob_get_stream store k b = (r', b') \<Longrightarrow> view b' = view b"
    and get_ok: "blob_get_stream store k b = (Inr obj, b') \<Longrightarrow>
      \<exists>c. view b k = Some c \<and> bo_content_length obj \<in> {None, Some (length c)} \<and> stream_bytes (bo_stream obj) \<in> {None, Some c}"
    and delete_ok: "blob_delete store k b = (Inr (), b') \<Longrightarrow> view b' = (view b)(k := None)"
    and delete_err: "blob_delete store k b = (Inl e, b') \<Longrightarrow> view b' = view b"

definition stored_files :: "string \<Rightarrow> disk \<Rightarrow> string \<Rightarrow> string option" where
  "stored_files root d key = (if valid_key key then d_files d (path_join root key) else None)"

lemma concat_chunks_of: "0 < n \<Longrightarrow> concat (chunks_of n s) = s"
  by (induction n s rule: chunks_of.induct) (subst chunks_of.simps, simp)

text \<open>A key that passes the check names a file right in the root, and different keys different files.\<close>

lemma path_join_valid:
  assumes "valid_key key"
  shows "path_join root key = (if root = [] \<or> last root = CHR ''/'' then root else root @ ''/'') @ key"
  using assms by (cases key) (auto simp: path_join_def valid_key_def starts_with_def)

lemma path_join_inj: "valid_key k \<Longrightarrow> valid_key k' \<Longrightarrow> path_join root k = path_join root k' \<Longrightarrow> k = k'"
  by (simp add: path_join_valid split: if_splits)

lemmas disk_defs = disk_call_def fs_create_dir_all_def fs_write_def fs_open_def fs_metadata_len_def fs_remove_file_def
  reader_stream_def try_bind_def map_err_run attempt_def lift_def ok_def fail_def

lemma stream_bytes_reader:
  "reader_stream K c d = (Inr items, d') \<Longrightarrow> stream_bytes (map (map_sum storage_io id) items) \<in> {None, Some c}"
proof -
  have oks: "stream_bytes (map (map_sum storage_io id) (map Inr xs)) = Some (concat xs)" for xs :: "string list"
    by (simp add: stream_bytes_def is_ok_def list_all_iff comp_def)
  assume "reader_stream K c d = (Inr items, d')"
  then show ?thesis
    by (auto simp: reader_stream_def oks concat_chunks_of simp del: map_map split: option.splits)
       (simp_all add: stream_bytes_def is_ok_def)
qed

interpretation fs: blob_store "filesystem_store K root" "stored_files root" for K root
proof unfold_locales
  fix k c k' b b' e
  show "blob_put (filesystem_store K root) k c b = (Inr (), b') \<Longrightarrow> stored_files root b' = (stored_files root b)(k \<mapsto> c)"
    by (auto simp: filesystem_store_def fs_put_def fs_path_def disk_defs stored_files_def fun_eq_iff
        split: if_splits option.splits dest: path_join_inj)
  show "blob_put (filesystem_store K root) k c b = (r, b') \<Longrightarrow> k' \<noteq> k \<Longrightarrow> stored_files root b' k' = stored_files root b k'" for r
    by (auto simp: filesystem_store_def fs_put_def fs_path_def disk_defs stored_files_def
        split: if_splits option.splits dest: path_join_inj)
  show "blob_get_stream (filesystem_store K root) k b = (r, b') \<Longrightarrow> stored_files root b' = stored_files root b" for r
    by (auto simp: filesystem_store_def fs_get_stream_def fs_path_def disk_defs stored_files_def fun_eq_iff
        split: if_splits option.splits)
  show "blob_get_stream (filesystem_store K root) k b = (Inr obj, b') \<Longrightarrow>
      \<exists>c. stored_files root b k = Some c \<and> bo_content_length obj \<in> {None, Some (length c)} \<and>
        stream_bytes (bo_stream obj) \<in> {None, Some c}" for obj
    by (auto simp: filesystem_store_def fs_get_stream_def fs_path_def fs_open_def fs_metadata_len_def disk_call_def ok_simps
        stored_files_def split: if_splits option.splits dest!: stream_bytes_reader)
  show "blob_delete (filesystem_store K root) k b = (Inr (), b') \<Longrightarrow> stored_files root b' = (stored_files root b)(k := None)"
    by (auto simp: filesystem_store_def fs_delete_def fs_path_def disk_defs stored_files_def fun_eq_iff
        split: if_splits option.splits dest: path_join_inj)
  show "blob_delete (filesystem_store K root) k b = (Inl e, b') \<Longrightarrow> stored_files root b' = stored_files root b"
    by (auto simp: filesystem_store_def fs_delete_def fs_path_def disk_defs stored_files_def fun_eq_iff
        split: if_splits option.splits)
qed

section \<open>Files stay in the root\<close>

definition directly_in :: "string \<Rightarrow> string \<Rightarrow> bool" where
  "directly_in root path = (\<exists>dir name. dir \<in> {root, root @ ''/''} \<and> path = dir @ name \<and> CHR ''/'' \<notin> set name \<and> name \<notin> {[], ''.'', ''..''})"

lemma fs_path_directly_in: "fs_path root key = Inr p \<Longrightarrow> directly_in root p"
  by (auto simp: fs_path_def path_join_valid directly_in_def valid_key_def split: if_splits)

text \<open>
  C30: no key leads out of the root.  Whatever key a file is stored, read or deleted under, and whatever
  calls fail, only a file right in the root directory is written or removed, and a key with a separator, an
  empty one, \<^verbatim>\<open>.\<close> and \<^verbatim>\<open>..\<close> are refused before the disk is touched.
\<close>

theorem storage_stays_in_root:
  assumes "snd (fs_put K root key contents d) = d' \<or> snd (fs_delete K root key d) = d' \<or> snd (fs_get_stream K root key d) = d'"
    and changed: "d_files d' path \<noteq> d_files d path"
  shows "directly_in root path \<and> valid_key key \<and> path = path_join root key"
proof -
  have "fs_path root key = Inr path"
    using assms
    by (auto simp: fs_put_def fs_delete_def fs_get_stream_def disk_defs split: sum.splits if_splits option.splits prod.splits)
  then show ?thesis
    using fs_path_directly_in by (auto simp: fs_path_def split: if_splits)
qed

section \<open>HMAC\<close>

text \<open>The definition of RFC 2104, with blocks of 64 bytes.\<close>

definition hmac_reference :: "(string \<Rightarrow> string) \<Rightarrow> string \<Rightarrow> string \<Rightarrow> string" where
  "hmac_reference H key value =
     (let k = (if length key > 64 then H key else key);
          padded = k @ replicate (64 - length k) (CHR 0x00);
          ipad = replicate 64 (0x36 :: u8);
          opad = replicate 64 (0x5C :: u8)
      in H (map2 xor_byte padded opad @ H (map2 xor_byte padded ipad @ value)))"

lemma fold_push_two:
  "fold (\<lambda>x (a, b). (a @ [f x], b @ [g x])) xs (as, bs) = (as @ map f xs, bs @ map g xs)"
  by (induction xs arbitrary: as bs) auto

lemma map2_replicate: "length xs = n \<Longrightarrow> map2 f xs (replicate n k) = map (\<lambda>x. f x k) xs"
  by (induction xs arbitrary: n) auto

text \<open>
  C32: the HMAC of the request signature is HMAC.  With a hash of 32 bytes, the routine that fills a block,
  xors it byte by byte into two buffers and hashes twice computes the value that RFC 2104 defines, for
  every key and every message.
\<close>

theorem hmac_bytes_rfc2104:
  assumes H: "\<And>x. length (H x) = 32"
  shows "hmac_bytes H key value = hmac_reference H key value"
proof -
  have pad: "copy_front (replicate 64 z) k = k @ replicate (64 - length k) z" for k :: string and z
    by (simp add: copy_front_def)
  let ?k = "if length key > 64 then H key else key"
  have "length (?k @ replicate (64 - length ?k) (CHR 0x00)) = 64"
    using H by simp
  then show ?thesis
    by (simp add: hmac_bytes_def hmac_reference_def pad fold_push_two map2_replicate BLOCK_SIZE_def Let_def
        del: length_append)
qed

section \<open>Concrete runs\<close>

definition demo_disk :: disk where
  "demo_disk = \<lparr>d_files = Map.empty, d_tick = 0\<rparr>"

definition calm_disk :: disk_env where
  "calm_disk = \<lparr>dk_fault = (\<lambda>_. None), dk_torn = (\<lambda>_. None), dk_read_fault = (\<lambda>_. None)\<rparr>"

theorem storage_stays_in_root_witness:
  "directly_in ''/data'' ''/data/7.bin'' \<and> fst (fs_put calm_disk ''/data'' ''../passwd'' ''x'' demo_disk) = Inl InvalidKey"
proof
  let ?d = "snd (fs_put calm_disk ''/data'' ''7.bin'' ''x'' demo_disk)"
  have "d_files ?d ''/data/7.bin'' = Some ''x''" "d_files demo_disk ''/data/7.bin'' = None"
    by code_simp+
  then show "directly_in ''/data'' ''/data/7.bin''"
    by (intro storage_stays_in_root [of calm_disk "''/data''" "''7.bin''" "''x''" demo_disk ?d, THEN conjunct1]) simp_all
qed code_simp

theorem hmac_bytes_rfc2104_witness:
  "hmac_bytes (\<lambda>x. replicate 32 (if x = [] then CHR ''0'' else hd x)) ''key'' ''data'' =
     hmac_reference (\<lambda>x. replicate 32 (if x = [] then CHR ''0'' else hd x)) ''key'' ''data'' \<and>
   hmac_bytes (\<lambda>x. replicate 32 (if x = [] then CHR ''0'' else hd x)) ''key'' ''data'' = replicate 32 (CHR ''7'')"
proof
  show "hmac_bytes (\<lambda>x. replicate 32 (if x = [] then CHR ''0'' else hd x)) ''key'' ''data'' =
     hmac_reference (\<lambda>x. replicate 32 (if x = [] then CHR ''0'' else hd x)) ''key'' ''data''"
    by (rule hmac_bytes_rfc2104) simp
qed code_simp

end
