(* ===== verification/Media.thy ===== *)
theory Media
  imports Discovery Storage
begin

text \<open>
  \<^verbatim>\<open>backend/src/api/media.rs\<close>: reading single messages, saved messages, reports, and the upload and download of
  files.  A handler that uses the blob store runs on the world together with the store's state.
\<close>

section \<open>Messages\<close>

definition visible_message :: "database \<Rightarrow> uuid \<Rightarrow> uuid \<Rightarrow> (msg_row \<times> channel_row) option" where
  "visible_message d i u =
     find (\<lambda>(m, c). m_id m = i \<and> ch_deleted_at c = None \<and> (ch_kind c = Public \<or> is_member d (ch_id c) u))
       (messages_join_channels d)"

definition get_message :: "'s env \<Rightarrow> header_map \<Rightarrow> uuid \<Rightarrow> ('s, chat_message) app" where
  "get_message E headers i =
     try_bind (load_session E headers) (\<lambda>session.
     try_bind (db_query E app_of_sqlx (\<lambda>d. map_option (select_message d) (visible_message d i (au_id (s_user session))))) (\<lambda>r.
     try_bind (ok_or (app_of_repository NotFound) r) (\<lambda>row.
     try_bind (ensure_channel_access E (mr_channel row) (au_id (s_user session))) (\<lambda>_.
     map_err app_of_sqlx (lift (try_from_row row))))))"

definition ensure_message_access :: "'s env \<Rightarrow> uuid \<Rightarrow> uuid \<Rightarrow> ('s, unit) app" where
  "ensure_message_access E i u =
     try_bind (db_query E app_of_sqlx (\<lambda>d. map_option (ch_name \<circ> snd) (visible_message d i u))) (\<lambda>r.
     try_bind (ok_or (app_of_repository NotFound) r) (\<lambda>channel.
     ensure_channel_access E channel u))"

definition permalink_url :: "'s env \<Rightarrow> string \<Rightarrow> uuid \<Rightarrow> string" where
  "permalink_url E origin i = origin @ ''/?message='' @ uuid_str E i"

definition message_permalink :: "'s env \<Rightarrow> header_map \<Rightarrow> uuid \<Rightarrow> ('s, string) app" where
  "message_permalink E headers i =
     try_bind (load_session E headers) (\<lambda>session.
     try_bind (ensure_message_access E i (au_id (s_user session))) (\<lambda>_.
     let origin = (case header_str headers ''origin'' of
                     Some v \<Rightarrow> if starts_with ''http://'' v \<or> starts_with ''https://'' v then v else []
                   | None \<Rightarrow> [])
     in ok (permalink_url E origin i)))"

section \<open>Saved messages\<close>

definition insert_saved_or_ignore :: "saved_row \<Rightarrow> unit stmt" where
  "insert_saved_or_ignore s d =
     (if list_ex (\<lambda>r. sv_user_id r = sv_user_id s \<and> sv_message_id r = sv_message_id s) (saved_messages d) then Inr ((), d)
      else constrained [(has_user d (sv_user_id s), ''saved_messages_user_id_fkey''),
                        (has_message d (sv_message_id s), ''saved_messages_message_id_fkey'')]
             ((), d\<lparr>saved_messages := saved_messages d @ [s]\<rparr>))"

text \<open>\<^verbatim>\<open>save_message\<close> and \<^verbatim>\<open>unsave_message\<close> of the API.\<close>

definition bookmark_message :: "'s env \<Rightarrow> header_map \<Rightarrow> uuid \<Rightarrow> ('s, status_code) app" where
  "bookmark_message E headers i =
     try_bind (load_session E headers) (\<lambda>session.
     try_bind (lift (require_csrf headers session)) (\<lambda>_.
     try_bind (ensure_message_access E i (au_id (s_user session))) (\<lambda>_.
     try_bind (now_i64 E) (\<lambda>now.
     try_bind (db_exec E app_of_sqlx (insert_saved_or_ignore
       \<lparr>sv_user_id = au_id (s_user session), sv_message_id = i, sv_created_at = now\<rparr>)) (\<lambda>_.
     ok NO_CONTENT)))))"

definition delete_saved :: "uuid \<Rightarrow> uuid \<Rightarrow> unit stmt" where
  "delete_saved u i d =
     Inr ((), d\<lparr>saved_messages := filter (\<lambda>r. \<not> (sv_user_id r = u \<and> sv_message_id r = i)) (saved_messages d)\<rparr>)"

definition unsave_message :: "'s env \<Rightarrow> header_map \<Rightarrow> uuid \<Rightarrow> ('s, status_code) app" where
  "unsave_message E headers i =
     try_bind (load_session E headers) (\<lambda>session.
     try_bind (lift (require_csrf headers session)) (\<lambda>_.
     try_bind (db_exec E app_of_sqlx (delete_saved (au_id (s_user session)) i)) (\<lambda>_.
     ok NO_CONTENT)))"

text \<open>This query selects the stored text, also of a deleted message.\<close>

definition select_saved :: "database \<Rightarrow> msg_row \<times> channel_row \<Rightarrow> message_row" where
  "select_saved d x = (select_message d x)\<lparr>mr_text := m_text (fst x)\<rparr>"

definition saved_scope :: "database \<Rightarrow> uuid \<Rightarrow> i64 \<Rightarrow> (saved_row \<times> msg_row \<times> channel_row) list" where
  "saved_scope d u now =
     order_desc (\<lambda>(s, _). (sv_created_at s, sv_message_id s))
       [(s, m, c). s \<leftarrow> saved_messages d, m \<leftarrow> messages d, c \<leftarrow> channels d,
          m_id m = sv_message_id s \<and> ch_id c = m_channel_id m \<and> sv_user_id s = u \<and> ch_deleted_at c = None \<and>
          (ch_kind c = Public \<or> is_member d (ch_id c) u) \<and> \<not> banned_from now d u (ch_id c)]"

definition list_limit :: "i64 option \<Rightarrow> nat" where
  "list_limit limit = nat (clamp 1 200 (case limit of None \<Rightarrow> 100 | Some n \<Rightarrow> n))"

definition list_saved_messages :: "'s env \<Rightarrow> header_map \<Rightarrow> i64 option \<Rightarrow> ('s, chat_message list) app" where
  "list_saved_messages E headers limit =
     try_bind (load_session E headers) (\<lambda>session.
     try_bind (now_i64 E) (\<lambda>now.
     try_bind (db_query E app_of_sqlx (\<lambda>d.
       map (select_saved d \<circ> snd) (take (list_limit limit) (saved_scope d (au_id (s_user session)) now)))) (\<lambda>rows.
     map_err app_of_sqlx (lift (try_from_rows rows)))))"

section \<open>Reports\<close>

definition upsert_report :: "report_row \<Rightarrow> uuid stmt" where
  "upsert_report r d =
     (let same = (\<lambda>x. rp_message_id x = rp_message_id r \<and> rp_reporter_user_id x = rp_reporter_user_id r) in
      case find same (message_reports d) of
        Some x \<Rightarrow> Inr (rp_id x, d\<lparr>message_reports := update_where same
          (\<lambda>x. x\<lparr>rp_reason := rp_reason r, rp_status := ''open'', rp_resolved_at := None, rp_resolved_by := None\<rparr>) (message_reports d)\<rparr>)
      | None \<Rightarrow> constrained [(\<not> list_ex (\<lambda>x. rp_id x = rp_id r) (message_reports d), ''message_reports_pkey''),
                        (has_message d (rp_message_id r), ''message_reports_message_id_fkey''),
                        (has_user d (rp_reporter_user_id r), ''message_reports_reporter_user_id_fkey'')]
             (rp_id r, d\<lparr>message_reports := message_reports d @ [r]\<rparr>))"

definition report_message :: "'s env \<Rightarrow> header_map \<Rightarrow> uuid \<Rightarrow> string \<Rightarrow> ('s, status_code) app" where
  "report_message E headers i raw =
     try_bind (load_session E headers) (\<lambda>session.
     try_bind (lift (require_csrf headers session)) (\<lambda>_.
     let reason = trim raw in
     if reason = [] \<or> length reason > 500
     then fail (bad_request (''report reason must be 1'' @ en_dash @ ''500 characters''))
     else
     try_bind (ensure_message_access E i (au_id (s_user session))) (\<lambda>_.
     try_bind (now_i64 E) (\<lambda>now.
     try_bind (uuid_now_v7 E) (\<lambda>new_id.
     try_bind (db_exec E app_of_sqlx (upsert_report
       \<lparr>rp_id = new_id, rp_message_id = i, rp_reporter_user_id = au_id (s_user session), rp_reason = reason,
        rp_status = ''open'', rp_created_at = now, rp_resolved_at = None, rp_resolved_by = None\<rparr>)) (\<lambda>report_id.
     try_bind (record_audit_pool E app_of_sqlx
       \<lparr>ae_actor = Some (au_id (s_user session)), ae_action = ''report.created'', ae_target_type = ''message_report'',
        ae_target_id = report_id,
        ae_metadata = JObj [(''message_id'', JStr (uuid_str E i)), (''reason'', JStr reason)], ae_created_at = now\<rparr>) (\<lambda>_.
     ok NO_CONTENT)))))))"

record report_view =
  rv_id :: uuid
  rv_message_id :: uuid
  rv_reporter_user_id :: uuid
  rv_reason :: string
  rv_status :: string
  rv_created_at :: i64
  rv_resolved_at :: "i64 option"
  rv_text :: string
  rv_channel :: string
  rv_username :: string

definition report_rows :: "database \<Rightarrow> string option \<Rightarrow> report_view list" where
  "report_rows d st =
     map (\<lambda>(r, m, c). \<lparr>rv_id = rp_id r, rv_message_id = rp_message_id r, rv_reporter_user_id = rp_reporter_user_id r,
            rv_reason = rp_reason r, rv_status = rp_status r, rv_created_at = rp_created_at r,
            rv_resolved_at = rp_resolved_at r, rv_text = m_text m, rv_channel = ch_name c, rv_username = m_username m\<rparr>)
       (order_desc (\<lambda>(r, _). (rp_created_at r, rp_id r))
         [(r, m, c). r \<leftarrow> message_reports d, m \<leftarrow> messages d, c \<leftarrow> channels d,
            m_id m = rp_message_id r \<and> ch_id c = m_channel_id m \<and>
            (case st of None \<Rightarrow> True | Some s \<Rightarrow> rp_status r = s)])"

definition list_message_reports :: "'s env \<Rightarrow> header_map \<Rightarrow> string option \<Rightarrow> i64 option \<Rightarrow> ('s, report_view list) app" where
  "list_message_reports E headers st limit =
     try_bind (load_session E headers) (\<lambda>session.
     try_bind (lift (require_permission (s_user session) ''moderation:read'')) (\<lambda>_.
     db_query E app_of_sqlx (\<lambda>d. take (list_limit limit) (report_rows d st))))"

definition update_report :: "string \<Rightarrow> i64 option \<Rightarrow> uuid option \<Rightarrow> uuid \<Rightarrow> nat stmt" where
  "update_report st resolved_at resolved_by i d =
     (let p = (\<lambda>r. rp_id r = i) in
      constrained [(rows_matching p (message_reports d) = 0 \<or> null_or (has_user d) resolved_by, ''message_reports_resolved_by_fkey'')]
        (rows_matching p (message_reports d),
         d\<lparr>message_reports := update_where p
             (\<lambda>r. r\<lparr>rp_status := st, rp_resolved_at := resolved_at, rp_resolved_by := resolved_by\<rparr>) (message_reports d)\<rparr>))"

definition report_action :: "string \<Rightarrow> i64 \<Rightarrow> uuid \<Rightarrow> app_error + string \<times> i64 option \<times> uuid option" where
  "report_action action now u =
     (if action = ''resolve'' then Inr (''resolved'', Some now, Some u)
      else if action = ''reopen'' then Inr (''open'', None, None)
      else Inl (bad_request ''unknown report action''))"

definition update_message_report :: "'s env \<Rightarrow> header_map \<Rightarrow> uuid \<Rightarrow> string \<Rightarrow> ('s, status_code) app" where
  "update_message_report E headers i action =
     try_bind (load_session E headers) (\<lambda>session.
     try_bind (lift (require_csrf headers session)) (\<lambda>_.
     try_bind (lift (require_permission (s_user session) ''moderation:write'')) (\<lambda>_.
     try_bind (now_i64 E) (\<lambda>now.
     try_bind (lift (report_action action now (au_id (s_user session)))) (\<lambda>(st, resolved_at, resolved_by).
     try_bind (db_exec E app_of_sqlx (update_report st resolved_at resolved_by i)) (\<lambda>n.
     if n = 0 then fail (app_of_repository NotFound)
     else
     try_bind (record_audit_pool E app_of_sqlx
       \<lparr>ae_actor = Some (au_id (s_user session)), ae_action = ''report.'' @ action, ae_target_type = ''message_report'',
        ae_target_id = i, ae_metadata = JObj [(''status'', JStr st)], ae_created_at = now\<rparr>) (\<lambda>_.
     ok NO_CONTENT)))))))"

section \<open>Upload\<close>

text \<open>Steps on the world or on the blob store, run on both.\<close>

type_synonym ('s, 'b, 'a) media = "('s world \<times> 'b, app_error, 'a) comp"

definition on_world :: "('w, 'e, 'a) comp \<Rightarrow> ('w \<times> 'b, 'e, 'a) comp" where
  "on_world m = (\<lambda>(w, b). case m w of (r, w') \<Rightarrow> (r, (w', b)))"

definition on_blobs :: "('b, 'e, 'a) comp \<Rightarrow> ('w \<times> 'b, 'e, 'a) comp" where
  "on_blobs m = (\<lambda>(w, b). case m b of (r, b') \<Rightarrow> (r, (w, b')))"

definition sanitize_upload_name :: "string \<Rightarrow> string" where
  "sanitize_upload_name name =
     trim (concat (take 255 (filter (\<lambda>c. \<not> is_control c)
       (last (split_on (\<lambda>c. c = ''/'' \<or> c = [CHR 0x5C]) (chars name))))))"

text \<open>A part of a multipart body, or an error of the parser; the items of a part are its chunks, or an error.\<close>

record multipart_field =
  mp_name :: "string option"
  mp_file_name :: "string option"
  mp_content_type :: "string option"
  mp_chunks :: "(unit + string) list"

record upload =
  up_name :: string
  up_content_type :: string
  up_bytes :: "string option"

fun read_chunks :: "(unit + string) list \<Rightarrow> string \<Rightarrow> app_error + string" where
  "read_chunks [] data = Inr data"
| "read_chunks (Inl _ # cs) data = Inl (bad_request ''could not read upload'')"
| "read_chunks (Inr chunk # cs) data =
     (if length data + length chunk > MAX_FILE_BYTES then Inl (bad_request ''file exceeds the 25 MiB limit'')
      else read_chunks cs (data @ chunk))"

fun read_fields :: "(unit + multipart_field) list \<Rightarrow> upload \<Rightarrow> app_error + upload" where
  "read_fields [] u = Inr u"
| "read_fields (Inl _ # fs) u = Inl (bad_request ''invalid multipart body'')"
| "read_fields (Inr field # fs) u =
     (if mp_name field \<noteq> Some ''file'' then read_fields fs u
      else
        let u = (case mp_file_name field of None \<Rightarrow> u | Some n \<Rightarrow> u\<lparr>up_name := sanitize_upload_name n\<rparr>);
            u = (case mp_content_type field of None \<Rightarrow> u | Some t \<Rightarrow> u\<lparr>up_content_type := t\<rparr>)
        in map_sum id (\<lambda>data. u\<lparr>up_bytes := Some data\<rparr>) (read_chunks (mp_chunks field) []))"

definition read_upload :: "(unit + multipart_field) list \<Rightarrow> app_error + string \<times> string \<times> string" where
  "read_upload parts =
     (case read_fields parts \<lparr>up_name = ''upload.bin'', up_content_type = ''application/octet-stream'', up_bytes = None\<rparr> of
        Inl e \<Rightarrow> Inl e
      | Inr u \<Rightarrow>
          (case up_bytes u of
             None \<Rightarrow> Inl (bad_request (''multipart field '' @ quoted ''file'' @ '' is required''))
           | Some bytes \<Rightarrow> Inr (up_name u, up_content_type u, bytes)))"

fun scan_failure :: "scan_error \<Rightarrow> app_error" where
  "scan_failure Rejected = bad_request ''file rejected by scanner''"
| "scan_failure (Unavailable _) = service_unavailable ''file scanner unavailable''"

definition insert_file :: "file_row \<Rightarrow> unit stmt" where
  "insert_file f d =
     constrained [(\<not> has_file d (f_id f), ''files_pkey''),
                  (has_user d (f_uploader_user_id f), ''files_uploader_user_id_fkey''),
                  (\<not> list_ex (\<lambda>r. f_storage_key r = f_storage_key f) (files d), ''files_storage_key_key'')]
       ((), d\<lparr>files := files d @ [f]\<rparr>)"

record file_upload_response =
  fu_id :: uuid
  fu_name :: string
  fu_content_type :: string
  fu_size_bytes :: nat
  fu_download_url :: string

definition upload_rate_key :: "'s env \<Rightarrow> uuid \<Rightarrow> string" where
  "upload_rate_key E u = ''chat:rate:upload:'' @ uuid_str E u"

text \<open>Who may upload, and what: up to the scan nothing is written but the rate counter.\<close>

definition accept_upload ::
  "'s env \<Rightarrow> 's scanner \<Rightarrow> header_map \<Rightarrow> (unit + multipart_field) list \<Rightarrow> ('s, session \<times> string \<times> string \<times> string) app" where
  "accept_upload E scan headers parts =
     try_bind (load_session E headers) (\<lambda>session.
     try_bind (lift (require_csrf headers session)) (\<lambda>_.
     try_bind (lift (require_permission (s_user session) ''chat:write'')) (\<lambda>_.
     try_bind (now_i64 E) (\<lambda>now.
     try_bind (db_query E app_of_sqlx (\<lambda>d. globally_banned now d (au_id (s_user session)))) (\<lambda>banned.
     if banned then fail (forbidden ''conversation access denied'')
     else
     try_bind (enforce_rate_limit E (upload_rate_key E (au_id (s_user session))) 30 60) (\<lambda>_.
     try_bind (lift (read_upload parts)) (\<lambda>(name, content_type, bytes).
     try_bind (map_err scan_failure (scan name content_type bytes)) (\<lambda>_.
     ok (session, name, content_type, bytes)))))))))"

definition storage_unavailable :: app_error where
  "storage_unavailable = service_unavailable ''file storage unavailable''"

definition store_upload ::
  "'s env \<Rightarrow> 'b blob_ops \<Rightarrow> session \<Rightarrow> string \<Rightarrow> string \<Rightarrow> string \<Rightarrow> ('s, 'b, file_upload_response) media" where
  "store_upload E store session original_name content_type bytes =
     try_bind (on_world (uuid_now_v7 E)) (\<lambda>i.
     let storage_key = uuid_str E i @ ''.bin'' in
     try_bind (on_blobs (map_err (\<lambda>_. storage_unavailable) (blob_put store storage_key bytes))) (\<lambda>_.
     let checksum = hex_encode E (sha256 E bytes) in
     try_bind (on_world (now_i64 E)) (\<lambda>now.
     try_bind (attempt (on_world (db_exec E app_of_sqlx (insert_file
       \<lparr>f_id = i, f_uploader_user_id = au_id (s_user session), f_storage_key = storage_key, f_original_name = original_name,
        f_content_type = content_type, f_size_bytes = int (length bytes), f_checksum = checksum, f_created_at = now,
        f_deleted_at = None\<rparr>)))) (\<lambda>r.
     case r of
       Inl e \<Rightarrow> try_bind (ignore (on_blobs (blob_delete store storage_key))) (\<lambda>_. fail e)
     | Inr _ \<Rightarrow> ok \<lparr>fu_id = i, fu_name = original_name, fu_content_type = content_type, fu_size_bytes = length bytes,
                    fu_download_url = ''/api/v1/files/'' @ uuid_str E i\<rparr>))))"

definition upload_file ::
  "'s env \<Rightarrow> 's scanner \<Rightarrow> 'b blob_ops \<Rightarrow> header_map \<Rightarrow> (unit + multipart_field) list \<Rightarrow> ('s, 'b, file_upload_response) media" where
  "upload_file E scan store headers parts =
     try_bind (on_world (accept_upload E scan headers parts)) (\<lambda>(session, original_name, content_type, bytes).
     store_upload E store session original_name content_type bytes)"

section \<open>Download\<close>

text \<open>The file, if it is not deleted and the user may have it.\<close>

definition attached_visibly :: "database \<Rightarrow> uuid \<Rightarrow> i64 \<Rightarrow> uuid \<Rightarrow> bool" where
  "attached_visibly d u now i =
     list_ex (\<lambda>(m, c). list_ex (\<lambda>x. mf_file_id x = i \<and> mf_message_id x = m_id m) (message_files d) \<and>
         m_deleted_at m = None \<and> ch_deleted_at c = None \<and> (ch_kind c = Public \<or> is_member d (ch_id c) u) \<and>
         \<not> banned_from now d u (ch_id c))
       (messages_join_channels d)"

definition downloadable :: "database \<Rightarrow> uuid \<Rightarrow> i64 \<Rightarrow> file_row \<Rightarrow> bool" where
  "downloadable d u now f =
     (f_deleted_at f = None \<and> \<not> globally_banned now d u \<and>
      (f_uploader_user_id f = u \<and> \<not> list_ex (\<lambda>b. b_user_id b = u \<and> ban_active now b) (user_bans d) \<or>
       attached_visibly d u now (f_id f)))"

definition disposition_char :: "char \<Rightarrow> bool" where
  "disposition_char b = (ascii_alphanumeric b \<or> b \<in> set ''!#$&+-.^_`|~'')"

definition hex_digit :: "nat \<Rightarrow> char" where
  "hex_digit n = (if n < 10 then char_of (48 + n) else char_of (55 + n))"

text \<open>\<^verbatim>\<open>format!("%{byte:02X}")\<close>\<close>

definition percent :: "char \<Rightarrow> string" where
  "percent b = [CHR ''%'', hex_digit (of_char b div 16), hex_digit (of_char b mod 16)]"

definition encode_name :: "string \<Rightarrow> string" where
  "encode_name name =
     concat (map (\<lambda>b. if disposition_char b then [b] else percent b)
       (filter (\<lambda>b. b \<notin> {CHR 0x0D, CHR 0x0A, CHR 0x00}) name))"

definition ascii_name :: "string \<Rightarrow> string" where
  "ascii_name name =
     (let ascii = concat (take 150 (filter (\<lambda>c. case c of [a] \<Rightarrow> ascii_graphic a \<and> a \<notin> {CHR 0x22, CHR 0x5C, CHR '';''} | _ \<Rightarrow> False) (chars name)))
      in if ascii = [] then ''download'' else ascii)"

definition content_disposition :: "string \<Rightarrow> string" where
  "content_disposition name =
     ''attachment; filename='' @ [CHR 0x22] @ ascii_name name @ [CHR 0x22] @ ''; filename*=UTF-8'' @ [CHR 0x27, CHR 0x27] @ encode_name name"

text \<open>What \<^verbatim>\<open>HeaderValue\<close> accepts.\<close>

definition header_value_ok :: "string \<Rightarrow> bool" where
  "header_value_ok v = list_all (\<lambda>b. of_char b = (9 :: nat) \<or> of_char b \<ge> (32 :: nat) \<and> of_char b \<noteq> (127 :: nat)) v"

record file_response =
  fr_headers :: header_map
  fr_body :: "(storage_error + string) list"

definition download_file ::
  "'s env \<Rightarrow> 'b blob_ops \<Rightarrow> header_map \<Rightarrow> uuid \<Rightarrow> ('s, 'b, file_response) media" where
  "download_file E store headers i =
     try_bind (on_world (load_session E headers)) (\<lambda>session.
     try_bind (on_world (now_i64 E)) (\<lambda>now.
     try_bind (on_world (db_query E app_of_sqlx (\<lambda>d.
       find (\<lambda>f. f_id f = i \<and> downloadable d (au_id (s_user session)) now f) (files d)))) (\<lambda>r.
     try_bind (ok_or (app_of_repository NotFound) r) (\<lambda>f.
     try_bind (on_blobs (map_err (\<lambda>_. storage_unavailable) (blob_get_stream store (f_storage_key f)))) (\<lambda>object.
     if header_value_ok (f_content_type f) \<and> header_value_ok (content_disposition (f_original_name f))
     then ok \<lparr>fr_headers = [(''content-type'', f_content_type f),
                            (''content-disposition'', content_disposition (f_original_name f))] @
                (case bo_content_length object of None \<Rightarrow> [] | Some n \<Rightarrow> [(''content-length'', show_nat n)]),
              fr_body = bo_stream object\<rparr>
     else fail (service_unavailable ''could not construct file response''))))))"

section \<open>File names\<close>

text \<open>A \<^verbatim>\<open>str\<close> holds whole characters: each is as long as its first byte says, and ASCII bytes stand alone.\<close>

definition whole_char :: "string \<Rightarrow> bool" where
  "whole_char g = (g \<noteq> [] \<and> length g = utf8_width (hd g) \<and> (length g = 1 \<or> list_all (\<lambda>b. \<not> is_ascii_char b) g))"

definition utf8_ok :: "string \<Rightarrow> bool" where
  "utf8_ok s = list_all whole_char (chars s)"

lemma chars_concat: "list_all whole_char gs \<Longrightarrow> chars (concat gs) = gs"
proof (induction gs)
  case (Cons g gs)
  then obtain c t where g: "g = c # t" "length t = utf8_width c - 1"
    by (cases g) (auto simp: whole_char_def)
  with Cons show ?case by simp
qed simp

lemma ascii_in_concat:
  assumes "list_all whole_char gs" "c \<in> set (concat gs)" "is_ascii_char c"
  shows "[c] \<in> set gs"
proof -
  from assms(2) obtain g where g: "g \<in> set gs" "c \<in> set g" by auto
  with assms have "length g = 1" by (auto simp: whole_char_def list_all_iff)
  then obtain a where "g = [a]" by (cases g) auto
  with g show ?thesis by simp
qed

text \<open>
  The stored name of an upload is a plain file name.  Whatever name a client sends, the stored one has no
  path separator, no control character, at most 255 characters, and no white space at its ends.
\<close>

theorem sanitize_upload_name_safe:
  assumes "utf8_ok name" and s: "s = sanitize_upload_name name"
  shows "CHR ''/'' \<notin> set s \<and> CHR 0x5C \<notin> set s \<and> list_all (\<lambda>c. \<not> is_control c) (chars s) \<and>
     length (chars s) \<le> 255 \<and> trim s = s"
proof -
  let ?sep = "\<lambda>c. c = ''/'' \<or> c = [CHR 0x5C]"
  let ?base = "last (split_on ?sep (chars name))"
  let ?gs = "take 255 (filter (\<lambda>c. \<not> is_control c) ?base)"
  let ?ts = "trim_list is_whitespace ?gs"
  have base: "?base \<in> set (split_on ?sep (chars name))" by simp
  have sub: "set ?ts \<subseteq> set ?gs" "set ?gs \<subseteq> {c \<in> set ?base. \<not> is_control c}"
    by (auto dest!: set_trim_list [THEN subsetD] in_set_takeD)
  with set_split_on [OF base] assms(1) have whole: "list_all whole_char ?gs" "list_all whole_char ?ts"
    by (auto simp: utf8_ok_def list_all_iff)
  have st: "s = concat ?ts"
    by (simp add: s sanitize_upload_name_def trim_def chars_concat [OF whole(1)])
  then have cs: "chars s = ?ts" by (simp add: chars_concat [OF whole(2)])
  have "\<not> ?sep c" if "c \<in> set ?ts" for c
    using split_on_no_sep [OF base] sub that by blast
  then have "''/'' \<notin> set ?ts" "[CHR 0x5C] \<notin> set ?ts" by blast+
  then have "CHR ''/'' \<notin> set s" "CHR 0x5C \<notin> set s"
    using ascii_in_concat [OF whole(2), of "CHR ''/''"] ascii_in_concat [OF whole(2), of "CHR 0x5C"]
    unfolding st by (auto simp: is_ascii_char_def simp del: set_concat)
  moreover have "list_all (\<lambda>c. \<not> is_control c) (chars s)"
    using sub by (auto simp: cs list_all_iff)
  moreover have "length (chars s) \<le> 255"
    using length_trim_list [of is_whitespace ?gs] by (simp add: cs)
  moreover have "trim s = s"
    unfolding trim_def cs trim_list_idem by (rule st [symmetric])
  ultimately show ?thesis by blast
qed

theorem sanitize_upload_name_safe_witness:
  "utf8_ok ''../etc/ notes.txt '' \<and> sanitize_upload_name ''../etc/ notes.txt '' = ''notes.txt'' \<and>
   CHR ''/'' \<notin> set (sanitize_upload_name ''../etc/ notes.txt '')"
proof -
  have ok: "utf8_ok ''../etc/ notes.txt ''" by code_simp
  moreover have "sanitize_upload_name ''../etc/ notes.txt '' = ''notes.txt''" by code_simp
  ultimately show ?thesis
    using sanitize_upload_name_safe [OF ok refl] by blast
qed

text \<open>The fallback \<^verbatim>\<open>upload.bin\<close> of the code never applies: splitting always yields a last piece, which may be empty.\<close>

lemma sanitize_upload_name_empty: "sanitize_upload_name ''reports/'' = []"
  by code_simp

text \<open>Percent-decoding, as a browser does it.\<close>

definition hex_value :: "char \<Rightarrow> nat" where
  "hex_value c = (if in_range c 48 57 then of_char c - 48 else of_char c - 55)"

fun percent_decode :: "string \<Rightarrow> string" where
  "percent_decode (c # x # y # s) =
     (if c = CHR ''%'' then char_of (16 * hex_value x + hex_value y) # percent_decode s else c # percent_decode (x # y # s))"
| "percent_decode s = s"

lemma of_char_div_16 [simp]: "of_char c div 16 < (16 :: nat)"
  using nat_of_char_less_256 [of c] by (simp add: less_mult_imp_div_less)

lemma of_char_hex_digit: "n < 16 \<Longrightarrow> of_char (hex_digit n) = (if n < 10 then 48 + n else 55 + n)"
  by (simp add: hex_digit_def)

lemma hex_value_digit: "n < 16 \<Longrightarrow> hex_value (hex_digit n) = n"
  by (simp add: hex_value_def in_range_def of_char_hex_digit)

lemma percent_decode_percent: "percent_decode (percent b @ s) = b # percent_decode s"
proof -
  have "16 * hex_value (hex_digit (of_char b div 16)) + hex_value (hex_digit (of_char b mod 16)) = of_char b"
    by (simp add: hex_value_digit)
  then show ?thesis by (simp add: percent_def)
qed

lemma percent_decode_plain: "c \<noteq> CHR ''%'' \<Longrightarrow> percent_decode (c # s) = c # percent_decode s"
  by (cases s rule: percent_decode.cases) auto

lemma percent_decode_encode:
  "percent_decode (encode_name name) = filter (\<lambda>b. b \<notin> {CHR 0x0D, CHR 0x0A, CHR 0x00}) name"
proof -
  have pct: "disposition_char b \<Longrightarrow> b \<noteq> CHR ''%''" for b
    by (auto simp: disposition_char_def ascii_alphanumeric_def in_range_def)
  have "percent_decode (concat (map (\<lambda>b. if disposition_char b then [b] else percent b) bs)) = bs" for bs
    by (induction bs) (auto simp: percent_decode_percent percent_decode_plain pct)
  then show ?thesis by (simp add: encode_name_def)
qed

definition token_char :: "char \<Rightarrow> bool" where
  "token_char c = (ascii_graphic c \<and> c \<notin> {CHR 0x22, CHR 0x5C, CHR '';''})"

lemma token_char_iff: "token_char c \<longleftrightarrow> of_char c \<in> {33..126} - {34, 92, 59 :: nat}"
proof -
  have "c = CHR 0x22 \<longleftrightarrow> of_char c = (34 :: nat)" "c = CHR 0x5C \<longleftrightarrow> of_char c = (92 :: nat)" "c = CHR '';'' \<longleftrightarrow> of_char c = (59 :: nat)"
    using of_char_eq_iff [of c "CHR 0x22", where ?'a = nat] of_char_eq_iff [of c "CHR 0x5C", where ?'a = nat]
      of_char_eq_iff [of c "CHR '';''", where ?'a = nat] by simp_all
  then show ?thesis by (auto simp: token_char_def ascii_graphic_def in_range_def)
qed

lemma ascii_name_chars: "list_all token_char (ascii_name name)"
proof -
  have "list_all token_char (concat (take 150 (filter (\<lambda>c. case c of [a] \<Rightarrow> ascii_graphic a \<and> a \<notin> {CHR 0x22, CHR 0x5C, CHR '';''} | _ \<Rightarrow> False) gs)))" for gs
    by (auto simp: list_all_iff token_char_def split: list.splits dest!: in_set_takeD)
  moreover have "list_all token_char ''download''" by code_simp
  ultimately show ?thesis
    unfolding ascii_name_def Let_def by presburger
qed

lemma encode_name_chars: "list_all token_char (encode_name name)"
proof -
  have "token_char (hex_digit n)" if "n < 16" for n
    using that by (simp add: token_char_iff of_char_hex_digit)
  moreover have "disposition_char b \<Longrightarrow> token_char b" for b
    by (auto simp: token_char_def disposition_char_def ascii_alphanumeric_def ascii_graphic_def in_range_def)
  moreover have "token_char (CHR ''%'')" by code_simp
  ultimately show ?thesis
    by (auto simp: encode_name_def list_all_iff percent_def)
qed

text \<open>
  A download header cannot be broken by a file name.  For every stored name the value of
  \<^verbatim>\<open>Content-Disposition\<close> is a valid header value; the plain name between the quotes and the encoded one have
  only visible ASCII characters other than the quote, the backslash and the semicolon, so no name ends
  its parameter early; and decoding the encoded name gives the name back, without line breaks and NULs.
\<close>

theorem content_disposition_safe:
  "\<exists>ascii encoded. content_disposition name =
       ''attachment; filename='' @ [CHR 0x22] @ ascii @ [CHR 0x22] @ ''; filename*=UTF-8'' @ [CHR 0x27, CHR 0x27] @ encoded \<and>
     list_all token_char ascii \<and> ascii \<noteq> [] \<and> list_all token_char encoded \<and>
     header_value_ok (content_disposition name) \<and>
     percent_decode encoded = filter (\<lambda>b. b \<notin> {CHR 0x0D, CHR 0x0A, CHR 0x00}) name"
proof -
  have ok: "list_all token_char s \<Longrightarrow> header_value_ok s" for s
    by (auto simp: header_value_ok_def list_all_iff token_char_iff)
  have "header_value_ok (''attachment; filename='' @ [CHR 0x22])" "header_value_ok ([CHR 0x22] @ ''; filename*=UTF-8'' @ [CHR 0x27, CHR 0x27])"
    by code_simp+
  with ok [OF ascii_name_chars] ok [OF encode_name_chars] have "header_value_ok (content_disposition name)"
    by (simp add: content_disposition_def header_value_ok_def)
  moreover have "ascii_name name \<noteq> []" by (simp add: ascii_name_def Let_def)
  ultimately show ?thesis
    using ascii_name_chars encode_name_chars percent_decode_encode
    by (intro exI [of _ "ascii_name name"] exI [of _ "encode_name name"]) (auto simp: content_disposition_def)
qed

section \<open>Uploads and downloads\<close>

lemma on_world_okD [ok_simps]:
  "(on_world m p = (Inr x, p')) \<longleftrightarrow> (\<exists>w'. m (fst p) = (Inr x, w') \<and> p' = (w', snd p))"
  by (auto simp: on_world_def split: prod.splits)

lemma on_blobs_okD [ok_simps]:
  "(on_blobs m p = (Inr x, p')) \<longleftrightarrow> (\<exists>b'. m (snd p) = (Inr x, b') \<and> p' = (fst p, b'))"
  by (auto simp: on_blobs_def split: prod.splits)

lemma on_world_runD: "on_world m p = (r, p') \<Longrightarrow> m (fst p) = (r, fst p') \<and> snd p' = snd p"
  by (auto simp: on_world_def split: prod.splits)

lemma on_blobs_runD: "on_blobs m p = (r, p') \<Longrightarrow> m (snd p) = (r, snd p') \<and> fst p' = fst p"
  by (auto simp: on_blobs_def split: prod.splits)

lemma read_chunks_bound:
  "read_chunks cs data = Inr r \<Longrightarrow> length data \<le> MAX_FILE_BYTES \<Longrightarrow> length r \<le> MAX_FILE_BYTES"
  by (induction cs data rule: read_chunks.induct) (auto split: if_splits)

lemma read_upload_bound: "read_upload parts = Inr (name, content_type, bytes) \<Longrightarrow> length bytes \<le> MAX_FILE_BYTES"
proof -
  have "read_fields parts u = Inr u' \<Longrightarrow> up_bytes u' = Some bytes \<Longrightarrow> up_bytes u = None \<Longrightarrow> length bytes \<le> MAX_FILE_BYTES" for u u'
    by (induction parts u rule: read_fields.induct)
       (auto simp: Let_def map_sum_def read_chunks_bound split: if_splits sum.splits option.splits)
  then show "read_upload parts = Inr (name, content_type, bytes) \<Longrightarrow> length bytes \<le> MAX_FILE_BYTES"
    by (auto simp: read_upload_def split: sum.splits option.splits)
qed

lemma accept_upload_ok:
  "accept_upload E scan headers parts w = (Inr (session, name, content_type, bytes), w') \<Longrightarrow>
     read_upload parts = Inr (name, content_type, bytes)"
  by (auto simp: accept_upload_def ok_simps split: if_splits)

lemma accept_upload_db:
  assumes "\<And>n t c Q. keeps_on db Q (scan n t c)" "accept_upload E scan headers parts w = (r, w')"
  shows "db w' = db w"
proof (rule keeps_on_leaves [of db "accept_upload E scan headers parts", OF _ assms(2)])
  show "keeps_on db (\<lambda>y. y = x) (accept_upload E scan headers parts)" for x
    unfolding accept_upload_def by (intro keeps_intro assms(1))
qed

lemma db_exec_err_db: "db_exec E conv f w = (Inl e, w') \<Longrightarrow> db w' = db w"
  by (auto simp: io_defs map_err_run split: if_splits sum.splits)

context blob_store
begin

lemma frames:
  "k' \<noteq> k \<Longrightarrow> view (snd (blob_put store k c b)) k' = view b k'"
  "k' \<noteq> k \<Longrightarrow> view (snd (blob_delete store k b)) k' = view b k'"
proof -
  show "k' \<noteq> k \<Longrightarrow> view (snd (blob_put store k c b)) k' = view b k'"
    by (rule put_frame [of k c b "fst (blob_put store k c b)"]) simp_all
  show "k' \<noteq> k \<Longrightarrow> view (snd (blob_delete store k b)) k' = view b k'"
    using delete_ok [of k b] delete_err [of k b]
    by (cases "blob_delete store k b"; cases "fst (blob_delete store k b)") auto
qed

lemma store_upload_failed:
  assumes "store_upload E store session name content_type bytes (w, b) = (Inl e, (w1, b1))"
    and "\<forall>n. k \<noteq> uuid_str E (uuids E n) @ ''.bin''"
  shows "db w1 = db w \<and> view b1 k = view b k"
  using assms
  by (auto simp: store_upload_def Let_def try_bind_def on_world_def on_blobs_def uuid_now_v7_def now_i64_def attempt_def
      ignore_run map_err_run map_sum_def frames split: prod.splits sum.splits dest: db_exec_err_db)
    (metis frames snd_conv)

lemma upload_failed:
  assumes scan: "\<And>n t c Q. keeps_on db Q (scan n t c)"
    and run: "upload_file E scan store headers parts (w, b) = (Inl e, (w1, b1))"
    and k: "\<forall>n. k \<noteq> uuid_str E (uuids E n) @ ''.bin''"
  shows "files (db w1) = files (db w) \<and> view b1 k = view b k"
proof -
  obtain r w0 where acc: "accept_upload E scan headers parts w = (r, w0)" by (cases "accept_upload E scan headers parts w")
  from run acc accept_upload_db [OF scan acc] store_upload_failed [OF _ k] show ?thesis
    by (cases r) (auto simp: upload_file_def try_bind_def on_world_def split: prod.splits)
qed

lemma upload_stored:
  assumes "upload_file E scan store headers parts (w, b) = (Inr resp, (w1, b1))"
  shows "\<exists>u name content_type bytes t d. read_upload parts = Inr (name, content_type, bytes) \<and>
     length bytes \<le> MAX_FILE_BYTES \<and> fu_name resp = name \<and> fu_content_type resp = content_type \<and>
     fu_size_bytes resp = length bytes \<and> \<not> has_file d (fu_id resp) \<and>
     files (db w1) = files d @ [\<lparr>f_id = fu_id resp, f_uploader_user_id = u, f_storage_key = uuid_str E (fu_id resp) @ ''.bin'',
        f_original_name = name, f_content_type = content_type, f_size_bytes = int (length bytes),
        f_checksum = hex_encode E (sha256 E bytes), f_created_at = t, f_deleted_at = None\<rparr>] \<and>
     view b1 = (view b)(uuid_str E (fu_id resp) @ ''.bin'' \<mapsto> bytes)"
  using assms
  by (auto simp: upload_file_def store_upload_def Let_def ok_simps insert_file_def read_upload_bound
      split: prod.splits sum.splits dest!: accept_upload_ok put_ok)
    (metis old.sum.exhaust old.unit.exhaust)+

lemma download_stored:
  assumes "download_file E store headers i (w, b) = (Inr r, (w', b'))"
  shows "\<exists>f c. f \<in> set (files (db w)) \<and> f_id f = i \<and> view b (f_storage_key f) = Some c \<and>
     stream_bytes (fr_body r) \<in> {None, Some c} \<and>
     map_of (fr_headers r) ''content-type'' = Some (f_content_type f) \<and>
     map_of (fr_headers r) ''content-disposition'' = Some (content_disposition (f_original_name f)) \<and>
     map_of (fr_headers r) ''content-length'' \<in> {None, Some (show_nat (length c))} \<and> view b' = view b"
proof -
  from assms obtain session v now f obj where s: "load_session E headers w = (Inr session, v)"
    and f: "find (\<lambda>f. f_id f = i \<and> downloadable (db v) (au_id (s_user session)) now f) (files (db v)) = Some f"
    and g: "blob_get_stream store (f_storage_key f) b = (Inr obj, b')"
    and r: "r = \<lparr>fr_headers = [(''content-type'', f_content_type f), (''content-disposition'', content_disposition (f_original_name f))] @
        (case bo_content_length obj of None \<Rightarrow> [] | Some n \<Rightarrow> [(''content-length'', show_nat n)]), fr_body = bo_stream obj\<rparr>"
    by (auto simp: download_file_def ok_simps split: if_splits)
  have "db v = db w"
    by (rule keeps_on_leaves [of db "load_session E headers", OF _ s]) (intro keeps_intro)
  with f have "f \<in> set (files (db w))" "f_id f = i" by (auto simp: find_Some_iff)
  moreover from get_ok [OF g] obtain c where "view b (f_storage_key f) = Some c" "bo_content_length obj \<in> {None, Some (length c)}"
    "stream_bytes (bo_stream obj) \<in> {None, Some c}" by blast
  ultimately show ?thesis
    using get_view [OF g] by (intro exI [of _ f] exI [of _ c]) (auto simp: r)
qed

end

text \<open>
  C24: an uploaded file is downloaded as it was sent.  With files on disk: after an upload was answered, a
  download of its id that is answered carries the sent content type and the stored name, and its body is
  exactly the sent bytes, at most 25 MiB of them, unless the stream breaks off with an error.
\<close>

theorem upload_download_roundtrip:
  assumes up: "upload_file E scan (filesystem_store K root) headers parts (w, b) = (Inr resp, (w1, b1))"
    and down: "download_file E (filesystem_store K root) headers' (fu_id resp) (w1, b1) = (Inr r, p)"
  shows "\<exists>bytes. read_upload parts = Inr (fu_name resp, fu_content_type resp, bytes) \<and> length bytes \<le> MAX_FILE_BYTES \<and>
     fu_size_bytes resp = length bytes \<and> stream_bytes (fr_body r) \<in> {None, Some bytes} \<and>
     map_of (fr_headers r) ''content-type'' = Some (fu_content_type resp) \<and>
     map_of (fr_headers r) ''content-disposition'' = Some (content_disposition (fu_name resp))"
proof -
  from fs.upload_stored [OF up] obtain u bytes t d row where
    parts: "read_upload parts = Inr (fu_name resp, fu_content_type resp, bytes)" "length bytes \<le> MAX_FILE_BYTES"
      "fu_size_bytes resp = length bytes"
    and row: "row = \<lparr>f_id = fu_id resp, f_uploader_user_id = u, f_storage_key = uuid_str E (fu_id resp) @ ''.bin'',
        f_original_name = fu_name resp, f_content_type = fu_content_type resp, f_size_bytes = int (length bytes),
        f_checksum = hex_encode E (sha256 E bytes), f_created_at = t, f_deleted_at = None\<rparr>"
    and files: "\<not> has_file d (fu_id resp)" "files (db w1) = files d @ [row]"
    and blob: "stored_files root b1 (f_storage_key row) = Some bytes"
    by fastforce
  obtain w2 b2 where "p = (w2, b2)" by (cases p)
  with fs.download_stored [of E K root headers' "fu_id resp" w1 b1 r w2 b2] down obtain f c where
    f: "f \<in> set (files (db w1))" "f_id f = fu_id resp" "stored_files root b1 (f_storage_key f) = Some c"
    and r: "stream_bytes (fr_body r) \<in> {None, Some c}" "map_of (fr_headers r) ''content-type'' = Some (f_content_type f)"
      "map_of (fr_headers r) ''content-disposition'' = Some (content_disposition (f_original_name f))"
    by blast
  from f(1,2) files have "f = row" by (auto simp: has_file_def list_ex_iff)
  with parts row blob f(3) r show ?thesis by auto
qed


text \<open>
  C27: a file is sent only to a user who may have it.  A download is answered only with a session; the file
  is not deleted, no ban covers the user everywhere, and the user uploaded it or may read a live message
  it is attached to.  The body is what the store has under the file's key, and no table changes.
\<close>

theorem download_needs_access:
  assumes run: "download_file E store headers i (w, b) = (Inr r, (w', b'))"
  shows "\<exists>session v f obj. load_session E headers w = (Inr session, v) \<and> f \<in> set (files (db w)) \<and> f_id f = i \<and>
     f_deleted_at f = None \<and> blob_get_stream store (f_storage_key f) b = (Inr obj, b') \<and> fr_body r = bo_stream obj \<and>
     \<not> globally_banned (sint (clock E (tick v))) (db w) (au_id (s_user session)) \<and>
     (f_uploader_user_id f = au_id (s_user session) \<or>
      (\<exists>m c. (m, c) \<in> set (messages_join_channels (db w)) \<and> m_deleted_at m = None \<and>
         i \<in> set (file_ids_of (db w) (m_id m)) \<and>
         may_access (sint (clock E (tick v))) (db w) (ch_name c) (au_id (s_user session)))) \<and>
     db w' = db w"
proof -
  from run obtain session v f obj where s: "load_session E headers w = (Inr session, v)"
    and f: "find (\<lambda>f. f_id f = i \<and> downloadable (db v) (au_id (s_user session)) (sint (clock E (tick v))) f) (files (db v)) = Some f"
    and g: "blob_get_stream store (f_storage_key f) b = (Inr obj, b')" "fr_body r = bo_stream obj" "db w' = db v"
    by (auto simp: download_file_def ok_simps split: if_splits)
  have d: "db v = db w"
    by (rule keeps_on_leaves [of db "load_session E headers", OF _ s]) (intro keeps_intro)
  have access: "may_access now d' (ch_name c) u" if "(m, c) \<in> set (messages_join_channels d')" "ch_deleted_at c = None"
      "ch_kind c = Public \<or> is_member d' (ch_id c) u" "\<not> banned_from now d' u (ch_id c)" for now d' m c u
    using that by (auto simp: messages_join_channels_def access_allowed_iff [symmetric] access_allowed_def list_ex_iff)
  from f have "f \<in> set (files (db w))" "f_id f = i" and down: "downloadable (db w) (au_id (s_user session)) (sint (clock E (tick v))) f"
    by (auto simp: find_Some_iff d)
  moreover from down have "f_uploader_user_id f = au_id (s_user session) \<or>
      (\<exists>m c. (m, c) \<in> set (messages_join_channels (db w)) \<and> m_deleted_at m = None \<and> i \<in> set (file_ids_of (db w) (m_id m)) \<and>
         may_access (sint (clock E (tick v))) (db w) (ch_name c) (au_id (s_user session)))"
    using access \<open>f_id f = i\<close>
    by (fastforce simp: downloadable_def attached_visibly_def list_ex_iff file_ids_of_def image_iff)
  ultimately show ?thesis
    using s g d down by (auto simp: downloadable_def)
qed

section \<open>Reading, saving and reporting messages\<close>

lemma visible_message_Some:
  "visible_message d i u = Some (m, c) \<Longrightarrow> (m, c) \<in> set (messages_join_channels d) \<and> m_id m = i"
proof -
  have "find P xs = Some x \<Longrightarrow> x \<in> set xs \<and> P x" for P and xs :: "'x list" and x
    by (auto simp: find_Some_iff)
  from this [of _ "messages_join_channels d" "(m, c)"] show "visible_message d i u = Some (m, c) \<Longrightarrow> ?thesis"
    unfolding visible_message_def by blast
qed

lemma ensure_message_access_ok:
  assumes "ensure_message_access E i u w = (Inr x, w')"
  shows "\<exists>m c. (m, c) \<in> set (messages_join_channels (db w)) \<and> m_id m = i \<and>
     may_access (sint (clock E (Suc (tick w)))) (db w) (ch_name c) u \<and> db w' = db w \<and> cache w' = cache w"
  using assms by (auto simp: ensure_message_access_def ok_simps ensure_channel_access_ok dest!: visible_message_Some) blast

lemma keeps_on_message_access [keeps_intro]:
  "keeps_on db Q (ensure_message_access E i u)" "keeps_on cache R (ensure_message_access E i u)"
  unfolding ensure_message_access_def by (intro keeps_intro)+

definition report_key :: "report_row \<Rightarrow> uuid \<times> uuid" where
  "report_key r = (rp_message_id r, rp_reporter_user_id r)"

definition reports_ok :: "database \<Rightarrow> bool" where
  "reports_ok d = distinct (map report_key (message_reports d))"

lemma filter_key_unique:
  "distinct (map k xs) \<Longrightarrow> x \<in> set xs \<Longrightarrow> filter (\<lambda>y. k y = k x) xs = [x]"
  by (induction xs) (auto simp: filter_empty_conv image_iff)

lemma filter_update_where:
  assumes "\<And>y. P (f y) = P y"
  shows "filter P (update_where P f xs) = map f (filter P xs)" "filter (\<lambda>y. \<not> P y) (update_where P f xs) = filter (\<lambda>y. \<not> P y) xs"
  unfolding update_where_def using assms by (induction xs) auto

lemma upsert_report_ok:
  assumes "upsert_report r d = Inr (i, d')" "reports_ok d" "rp_status r = ''open''" "rp_resolved_at r = None" "rp_resolved_by r = None"
  shows "reports_ok d' \<and> filter (\<lambda>x. report_key x \<noteq> report_key r) (message_reports d') =
       filter (\<lambda>x. report_key x \<noteq> report_key r) (message_reports d) \<and>
     (\<exists>x. filter (\<lambda>x. report_key x = report_key r) (message_reports d') = [x] \<and> rp_id x = i \<and> rp_reason x = rp_reason r \<and>
        rp_status x = ''open'' \<and> rp_resolved_at x = None \<and> rp_resolved_by x = None) \<and>
     d' = d\<lparr>message_reports := message_reports d'\<rparr>"
proof -
  let ?same = "\<lambda>x. rp_message_id x = rp_message_id r \<and> rp_reporter_user_id x = rp_reporter_user_id r"
  let ?open = "\<lambda>x. x\<lparr>rp_reason := rp_reason r, rp_status := ''open'', rp_resolved_at := None, rp_resolved_by := None\<rparr>"
  have same: "?same = (\<lambda>x. report_key x = report_key r)" by (auto simp: report_key_def)
  show ?thesis
  proof (cases "find ?same (message_reports d)")
    case None
    then have new: "\<forall>x \<in> set (message_reports d). report_key x \<noteq> report_key r"
      by (auto simp: find_None_iff report_key_def)
    with assms None show ?thesis
      by (auto simp: upsert_report_def reports_ok_def Let_def filter_empty_conv)
  next
    case (Some x)
    then have x: "x \<in> set (message_reports d)" "report_key x = report_key r"
      by (auto simp: find_Some_iff report_key_def)
    have d': "message_reports d' = update_where (\<lambda>y. report_key y = report_key r) ?open (message_reports d)" "i = rp_id x"
      "d' = d\<lparr>message_reports := message_reports d'\<rparr>"
      using assms(1) Some by (auto simp: upsert_report_def Let_def same)
    have key: "report_key (?open y) = report_key y" for y by (simp add: report_key_def)
    have keys: "map report_key (message_reports d') = map report_key (message_reports d)"
      unfolding d'(1) by (rule update_where_key) (rule key)
    have "filter (\<lambda>y. report_key y = report_key r) (message_reports d) = [x]"
      using filter_key_unique [OF _ x(1), of report_key] assms(2) x(2) by (simp add: reports_ok_def)
    then have one: "filter (\<lambda>y. report_key y = report_key r) (message_reports d') = [?open x]"
      unfolding d'(1) by (simp add: filter_update_where key)
    have "filter (\<lambda>y. report_key y \<noteq> report_key r) (message_reports d') = filter (\<lambda>y. report_key y \<noteq> report_key r) (message_reports d)"
      unfolding d'(1) by (simp add: filter_update_where key)
    with one keys d'(2,3) assms(2) show ?thesis by (simp add: reports_ok_def)
  qed
qed

text \<open>
  A report is filed once per reader and is open.  A report that was answered has a reason of 1 to 500
  bytes without white space around it and is about a message in a conversation its reporter may read;
  afterwards there is exactly one report of this reporter on this message, open and unresolved and with
  this reason, whether there was one before or not; the reports of others are unchanged.
\<close>

theorem report_message_opens_one:
  assumes ok: "reports_ok (db w)" and run: "report_message E headers i raw w = (Inr r, w')"
  shows "\<exists>session v t m c x. load_session E headers w = (Inr session, v) \<and> 1 \<le> length (trim raw) \<and> length (trim raw) \<le> 500 \<and>
     (m, c) \<in> set (messages_join_channels (db w)) \<and> m_id m = i \<and> may_access t (db w) (ch_name c) (au_id (s_user session)) \<and>
     filter (\<lambda>y. report_key y = (i, au_id (s_user session))) (message_reports (db w')) = [x] \<and> rp_reason x = trim raw \<and>
     rp_status x = ''open'' \<and> rp_resolved_at x = None \<and> rp_resolved_by x = None \<and>
     filter (\<lambda>y. report_key y \<noteq> (i, au_id (s_user session))) (message_reports (db w')) =
       filter (\<lambda>y. report_key y \<noteq> (i, au_id (s_user session))) (message_reports (db w)) \<and> reports_ok (db w')"
proof -
  from run obtain session v v1 v2 new_id now rid ev where s: "load_session E headers w = (Inr session, v)"
    and len: "trim raw \<noteq> []" "length (trim raw) \<le> 500"
    and acc: "ensure_message_access E i (au_id (s_user session)) v = (Inr (), v1)"
    and audit: "record_audit_pool E app_of_sqlx ev v2 = (Inr (), w')"
    and ups: "upsert_report \<lparr>rp_id = new_id, rp_message_id = i, rp_reporter_user_id = au_id (s_user session), rp_reason = trim raw,
        rp_status = ''open'', rp_created_at = now, rp_resolved_at = None, rp_resolved_by = None\<rparr> (db v1) = Inr (rid, db v2)"
    by (fastforce simp: report_message_def Let_def ok_simps not_less split: if_splits)
  have "db v = db w"
    by (rule keeps_on_leaves [of db "load_session E headers", OF _ s]) (intro keeps_intro)
  with ensure_message_access_ok [OF acc] obtain t m c where m: "(m, c) \<in> set (messages_join_channels (db w))" "m_id m = i"
    "may_access t (db w) (ch_name c) (au_id (s_user session))" and d1: "db v1 = db w"
    by auto
  have "message_reports (db w') = message_reports (db v2)"
    using audit by (auto simp: record_audit_pool_def record_audit_ok ok_simps dest!: insert_audit_ok)
  then show ?thesis
    using upsert_report_ok [OF ups] ok s len m d1 by (auto simp: report_key_def reports_ok_def Suc_le_eq)
qed

section \<open>Concrete runs\<close>

lemma MAX_FILE_BYTES_code [code_unfold]: "(MAX_FILE_BYTES < n) = (26214400 < int n)"
  by (simp add: MAX_FILE_BYTES_def)

definition demo_parts :: "(unit + multipart_field) list" where
  "demo_parts = [Inr \<lparr>mp_name = Some ''note'', mp_file_name = None, mp_content_type = None, mp_chunks = []\<rparr>,
     Inr \<lparr>mp_name = Some ''file'', mp_file_name = Some ''a/b.txt'', mp_content_type = Some ''text/plain'',
       mp_chunks = [Inr ''hel'', Inr ''lo'']\<rparr>]"

theorem upload_download_roundtrip_witness:
  "\<exists>resp w1 b1 r p. upload_file demo_env noop_scan (filesystem_store calm_disk ''/data'') demo_headers demo_parts (demo_signed_in, demo_disk) =
       (Inr resp, (w1, b1)) \<and>
     download_file demo_env (filesystem_store calm_disk ''/data'') demo_headers (fu_id resp) (w1, b1) = (Inr r, p) \<and>
     fu_name resp = ''b.txt'' \<and> stream_bytes (fr_body r) = Some ''hello''"
proof -
  let ?up = "upload_file demo_env noop_scan (filesystem_store calm_disk ''/data'') demo_headers demo_parts (demo_signed_in, demo_disk)"
  let ?down = "case ?up of (Inr resp, wb) \<Rightarrow> download_file demo_env (filesystem_store calm_disk ''/data'') demo_headers (fu_id resp) wb"
  have "(case fst ?up of Inl _ \<Rightarrow> False | Inr resp \<Rightarrow> fu_name resp = ''b.txt'')"
    by code_simp
  then obtain resp w1 b1 where up: "?up = (Inr resp, (w1, b1))" and name: "fu_name resp = ''b.txt''"
    by (cases ?up) (auto split: sum.splits)
  have "(case fst ?down of Inl _ \<Rightarrow> False | Inr r \<Rightarrow> list_all is_ok (fr_body r))"
    by code_simp
  then obtain r p where down: "?down = (Inr r, p)" and ok: "list_all is_ok (fr_body r)"
    by (cases ?down) (auto split: sum.splits)
  have "read_upload demo_parts = Inr (''b.txt'', ''text/plain'', ''hello'')"
    by code_simp
  with upload_download_roundtrip [OF up, of demo_headers r p] up down have "stream_bytes (fr_body r) \<in> {None, Some ''hello''}"
    by auto
  with ok have "stream_bytes (fr_body r) = Some ''hello''" by (auto simp: stream_bytes_def)
  with up down name show ?thesis by auto
qed

text \<open>A disk whose writes fail.\<close>

definition full_disk :: disk_env where
  "full_disk = calm_disk\<lparr>dk_fault := (\<lambda>t. if t = 1 then Some ''No space left on device'' else None), dk_torn := (\<lambda>_. Some ''he'')\<rparr>"


text \<open>Bob's file, attached to the message in the main channel.\<close>

definition demo_shared :: "keyspace world" where
  "demo_shared = demo_signed_in\<lparr>db := demo_db\<lparr>files := [\<lparr>f_id = 7, f_uploader_user_id = 2, f_storage_key = ''7.bin'',
     f_original_name = ''a.txt'', f_content_type = ''text/plain'', f_size_bytes = 5, f_checksum = ''x'', f_created_at = 0,
     f_deleted_at = None\<rparr>], message_files := [\<lparr>mf_message_id = 50, mf_file_id = 7\<rparr>]\<rparr>\<rparr>"

definition demo_filled :: disk where
  "demo_filled = \<lparr>d_files = [''/data/7.bin'' \<mapsto> ''hello''], d_tick = 0\<rparr>"

theorem download_needs_access_witness:
  "\<exists>r w' b' m c t. download_file demo_env (filesystem_store calm_disk ''/data'') demo_headers 7 (demo_shared, demo_filled) = (Inr r, (w', b')) \<and>
     (m, c) \<in> set (messages_join_channels (db demo_shared)) \<and> 7 \<in> set (file_ids_of (db demo_shared) (m_id m)) \<and>
     may_access t (db demo_shared) (ch_name c) 1"
proof -
  let ?down = "download_file demo_env (filesystem_store calm_disk ''/data'') demo_headers 7 (demo_shared, demo_filled)"
  have "(case fst ?down of Inl _ \<Rightarrow> False | Inr _ \<Rightarrow> True)"
    by code_simp
  then obtain r w' b' where down: "?down = (Inr r, (w', b'))"
    by (cases ?down) (auto split: sum.splits)
  have load: "fst (load_session demo_env demo_headers demo_shared) = Inr \<lparr>s_id = 100, s_csrf = ''c0ffee'', s_user = demo_user\<rparr>"
    by code_simp
  have "f \<in> set (files (db demo_shared)) \<Longrightarrow> f_uploader_user_id f = 2" for f
    by (auto simp: demo_shared_def)
  with download_needs_access [OF down] run_fst [OF load] obtain m c t where
    "(m, c) \<in> set (messages_join_channels (db demo_shared))" "7 \<in> set (file_ids_of (db demo_shared) (m_id m))"
    "may_access t (db demo_shared) (ch_name c) 1"
    by (fastforce simp: demo_user_def)
  with down show ?thesis by blast
qed

theorem report_message_opens_one_witness:
  "\<exists>w' x. report_message demo_env demo_headers 50 '' spam '' demo_signed_in = (Inr NO_CONTENT, w') \<and>
     x \<in> set (message_reports (db w')) \<and> rp_reason x = ''spam'' \<and> rp_status x = ''open''"
proof -
  have run: "fst (report_message demo_env demo_headers 50 '' spam '' demo_signed_in) = Inr NO_CONTENT"
    by code_simp
  have ok: "reports_ok (db demo_signed_in)"
    by (simp add: reports_ok_def demo_signed_in_def demo_chat_def demo_db_def empty_db_def)
  have "trim '' spam '' = ''spam''" by code_simp
  with report_message_opens_one [OF ok run_fst [OF run]] obtain x u where
    "filter (\<lambda>y. report_key y = (50, u)) (message_reports (db (snd (report_message demo_env demo_headers 50 '' spam '' demo_signed_in)))) = [x]"
    "rp_reason x = ''spam''" "rp_status x = ''open''"
    by auto
  moreover have "filter P xs = [x] \<Longrightarrow> x \<in> set xs" for P and xs :: "report_row list"
    by (drule arg_cong [where f = set]) auto
  ultimately show ?thesis
    using run_fst [OF run] by blast
qed

text \<open>The list of saved messages still shows the text of a message that was deleted.\<close>

definition demo_saved :: "keyspace world" where
  "demo_saved = demo_signed_in\<lparr>db := demo_db\<lparr>messages := [demo_message\<lparr>m_deleted_at := Some 950\<rparr>],
     saved_messages := [\<lparr>sv_user_id = 1, sv_message_id = 50, sv_created_at = 940\<rparr>]\<rparr>\<rparr>"

lemma saved_shows_deleted_text:
  "map_sum id (map (\<lambda>m. (cm_deleted m, cm_text m))) (fst (list_saved_messages demo_env demo_headers None demo_saved)) =
     Inr [(True, ''hello'')]"
  by code_simp

end
