(* ===== verification/Verifier.thy ===== *)
theory Verifier
  imports Auth
begin

text \<open>
  \<^verbatim>\<open>verify_password_coalesced\<close> of \<^verbatim>\<open>backend/src/auth.rs\<close>.  Argon2 is slow, so callers that ask the same
  question at the same time share one computation (a flight), and a semaphore bounds how many run at
  once.  A caller looks its key up in the table of flights and either subscribes to the flight it finds
  or starts one; the flight's task waits for a permit, computes, sends the outcome and removes the flight.

  \<open>verifier_step\<close> interleaves any number of callers and tasks.  The shared state is the table, the
  permits, and per flight the cell of the watch channel.  What one caller sees of it is
  \<open>verify_password_coalesced\<close>, the form the request handlers use.
\<close>

section \<open>State\<close>

datatype verification_outcome = Verified bool | Overloaded | Unavailable

datatype flight_phase = Queued | Hashing | Finished verification_outcome | Sent | Removed

record flight =
  fl_key :: string
  fl_password :: string
  fl_encoded :: string
  fl_phase :: flight_phase
  fl_value :: "verification_outcome option"     \<comment> \<open>what the watch channel holds\<close>

record caller =
  ca_user :: uuid
  ca_password :: string
  ca_encoded :: string
  ca_flight :: nat                               \<comment> \<open>the flight whose channel it reads\<close>
  ca_answer :: "(app_error + bool) option"

record verifier =
  table :: "string \<Rightarrow> nat option"
  flights :: "flight list"
  callers :: "caller list"
  permits :: nat

definition verifier_start :: "nat \<Rightarrow> verifier" where
  "verifier_start limit = \<lparr>table = (\<lambda>_. None), flights = [], callers = [], permits = limit\<rparr>"

section \<open>Operations\<close>

definition outcome_answer :: "verification_outcome \<Rightarrow> app_error + bool" where
  "outcome_answer r =
     (case r of
        Verified b \<Rightarrow> Inr b
      | Overloaded \<Rightarrow> Inl (too_many_requests ''authentication service is busy'')
      | Unavailable \<Rightarrow> Inl (service_unavailable ''authentication service unavailable''))"

text \<open>The section under the lock of the table, and the start of the flight's task.\<close>

definition begin_call :: "'s env \<Rightarrow> uuid \<Rightarrow> string \<Rightarrow> string \<Rightarrow> verifier \<Rightarrow> verifier" where
  "begin_call E user_id password encoded st =
     (let key = verification_key E user_id password encoded;
          caller = (\<lambda>i. \<lparr>ca_user = user_id, ca_password = password, ca_encoded = encoded, ca_flight = i,
            ca_answer = None\<rparr>) in
      case table st key of
        Some i \<Rightarrow> st\<lparr>callers := callers st @ [caller i]\<rparr>
      | None \<Rightarrow>
          let i = length (flights st) in
          st\<lparr>table := (table st)(key \<mapsto> i),
             flights := flights st @ [\<lparr>fl_key = key, fl_password = password, fl_encoded = encoded,
               fl_phase = Queued, fl_value = None\<rparr>],
             callers := callers st @ [caller i]\<rparr>)"

definition set_phase :: "nat \<Rightarrow> flight_phase \<Rightarrow> verifier \<Rightarrow> verifier" where
  "set_phase i p st = st\<lparr>flights := (flights st)[i := (flights st ! i)\<lparr>fl_phase := p\<rparr>]\<rparr>"

definition acquire :: "nat \<Rightarrow> verifier \<Rightarrow> verifier" where
  "acquire i st = (set_phase i Hashing st)\<lparr>permits := permits st - 1\<rparr>"

definition finish_hash :: "nat \<Rightarrow> verification_outcome \<Rightarrow> verifier \<Rightarrow> verifier" where
  "finish_hash i r st = (set_phase i (Finished r) st)\<lparr>permits := permits st + 1\<rparr>"

definition send_outcome :: "nat \<Rightarrow> verification_outcome \<Rightarrow> verifier \<Rightarrow> verifier" where
  "send_outcome i r st =
     st\<lparr>flights := (flights st)[i := (flights st ! i)\<lparr>fl_phase := Sent, fl_value := Some r\<rparr>]\<rparr>"

definition remove_flight :: "nat \<Rightarrow> verifier \<Rightarrow> verifier" where
  "remove_flight i st = (set_phase i Removed st)\<lparr>table := (table st)(fl_key (flights st ! i) := None)\<rparr>"

definition answer_caller :: "nat \<Rightarrow> verification_outcome \<Rightarrow> verifier \<Rightarrow> verifier" where
  "answer_caller j r st =
     st\<lparr>callers := (callers st)[j := (callers st ! j)\<lparr>ca_answer := Some (outcome_answer r)\<rparr>]\<rparr>"

text \<open>
  The steps of the tasks and of the waiting callers.  A wait for a permit may time out at any moment,
  and a hashing task may panic; both give up their permit, if they have one.
\<close>

inductive flight_step :: "'s env \<Rightarrow> verifier \<Rightarrow> verifier \<Rightarrow> bool" for E where
  acquired: "i < length (flights st) \<Longrightarrow> fl_phase (flights st ! i) = Queued \<Longrightarrow> permits st > 0 \<Longrightarrow>
    flight_step E st (acquire i st)"
| timed_out: "i < length (flights st) \<Longrightarrow> fl_phase (flights st ! i) = Queued \<Longrightarrow>
    flight_step E st (set_phase i (Finished Overloaded) st)"
| hashed: "i < length (flights st) \<Longrightarrow> fl_phase (flights st ! i) = Hashing \<Longrightarrow>
    flight_step E st
      (finish_hash i (Verified (verify_password E (fl_password (flights st ! i)) (fl_encoded (flights st ! i)))) st)"
| panicked: "i < length (flights st) \<Longrightarrow> fl_phase (flights st ! i) = Hashing \<Longrightarrow>
    flight_step E st (finish_hash i Unavailable st)"
| sent: "i < length (flights st) \<Longrightarrow> fl_phase (flights st ! i) = Finished r \<Longrightarrow>
    flight_step E st (send_outcome i r st)"
| removed: "i < length (flights st) \<Longrightarrow> fl_phase (flights st ! i) = Sent \<Longrightarrow>
    flight_step E st (remove_flight i st)"
| answered: "j < length (callers st) \<Longrightarrow> ca_answer (callers st ! j) = None \<Longrightarrow>
    fl_value (flights st ! ca_flight (callers st ! j)) = Some r \<Longrightarrow> flight_step E st (answer_caller j r st)"

text \<open>\<open>R\<close> holds the questions that are asked: user id, password and stored hash.\<close>

inductive verifier_reach ::
  "'s env \<Rightarrow> (uuid \<times> string \<times> string) set \<Rightarrow> nat \<Rightarrow> verifier \<Rightarrow> bool" for E R limit where
  start: "verifier_reach E R limit (verifier_start limit)"
| called: "verifier_reach E R limit st \<Longrightarrow> (u, p, e) \<in> R \<Longrightarrow> verifier_reach E R limit (begin_call E u p e st)"
| moved: "verifier_reach E R limit st \<Longrightarrow> flight_step E st st' \<Longrightarrow> verifier_reach E R limit st'"

text \<open>One caller's view: busy, unavailable, or the result of the check.\<close>

definition verify_password_coalesced :: "'s env \<Rightarrow> uuid \<Rightarrow> string \<Rightarrow> string \<Rightarrow> ('s, bool) app" where
  "verify_password_coalesced E user_id password encoded =
     try_bind (external E (too_many_requests ''authentication service is busy'') (ok ())) (\<lambda>_.
     try_bind (external E (service_unavailable ''authentication service unavailable'') (ok ())) (\<lambda>_.
     ok (verify_password E password encoded)))"

section \<open>Invariant\<close>

definition outcome_ok :: "'s env \<Rightarrow> flight \<Rightarrow> verification_outcome \<Rightarrow> bool" where
  "outcome_ok E f r = (case r of Verified b \<Rightarrow> b = verify_password E (fl_password f) (fl_encoded f) | _ \<Rightarrow> True)"

lemma outcome_ok_update [simp]:
  "outcome_ok E (f\<lparr>fl_phase := p\<rparr>) r = outcome_ok E f r" "outcome_ok E (f\<lparr>fl_value := v\<rparr>) r = outcome_ok E f r"
  by (simp_all add: outcome_ok_def split: verification_outcome.splits)

definition phase_ok :: "'s env \<Rightarrow> flight \<Rightarrow> bool" where
  "phase_ok E f =
     (case fl_phase f of
        Finished r \<Rightarrow> fl_value f = None \<and> outcome_ok E f r
      | Sent \<Rightarrow> (case fl_value f of None \<Rightarrow> False | Some r \<Rightarrow> outcome_ok E f r)
      | Removed \<Rightarrow> (case fl_value f of None \<Rightarrow> False | Some r \<Rightarrow> outcome_ok E f r)
      | _ \<Rightarrow> fl_value f = None)"

definition flight_ok :: "'s env \<Rightarrow> (uuid \<times> string \<times> string) set \<Rightarrow> flight \<Rightarrow> bool" where
  "flight_ok E R f \<longleftrightarrow> phase_ok E f \<and>
     (\<exists>u. (u, fl_password f, fl_encoded f) \<in> R \<and> fl_key f = verification_key E u (fl_password f) (fl_encoded f))"

definition caller_ok :: "'s env \<Rightarrow> (uuid \<times> string \<times> string) set \<Rightarrow> flight list \<Rightarrow> caller \<Rightarrow> bool" where
  "caller_ok E R fs c \<longleftrightarrow> ca_flight c < length fs \<and> (ca_user c, ca_password c, ca_encoded c) \<in> R \<and>
     fl_key (fs ! ca_flight c) = verification_key E (ca_user c) (ca_password c) (ca_encoded c) \<and>
     (\<forall>a. ca_answer c = Some a \<longrightarrow> (\<exists>r. fl_value (fs ! ca_flight c) = Some r \<and> a = outcome_answer r))"

definition hashing :: "flight list \<Rightarrow> nat" where
  "hashing fs = sum_list (map (\<lambda>f. of_bool (fl_phase f = Hashing)) fs)"

definition verifier_ok :: "'s env \<Rightarrow> (uuid \<times> string \<times> string) set \<Rightarrow> nat \<Rightarrow> verifier \<Rightarrow> bool" where
  "verifier_ok E R limit st \<longleftrightarrow>
     (\<forall>f \<in> set (flights st). flight_ok E R f) \<and>
     (\<forall>k i. table st k = Some i \<longleftrightarrow>
        i < length (flights st) \<and> fl_key (flights st ! i) = k \<and> fl_phase (flights st ! i) \<noteq> Removed) \<and>
     (\<forall>c \<in> set (callers st). caller_ok E R (flights st) c) \<and>
     permits st + hashing (flights st) = limit"

lemma sum_list_map_update:
  fixes f :: "'a \<Rightarrow> nat"
  assumes "i < length xs"
  shows "sum_list (map f (xs[i := x])) + f (xs ! i) = sum_list (map f xs) + f x"
proof -
  have "f (xs ! i) \<le> sum_list (map f xs)"
    using assms by (simp add: member_le_sum_list)
  then show ?thesis
    using assms by (simp add: map_update sum_list_update)
qed

lemma hashing_update:
  "i < length fs \<Longrightarrow> hashing (fs[i := f]) + of_bool (fl_phase (fs ! i) = Hashing) =
     hashing fs + of_bool (fl_phase f = Hashing)"
  unfolding hashing_def by (rule sum_list_map_update)

text \<open>One flight moves on: same question, no value taken back, permits accounted for, and the table follows.\<close>

lemma flight_moves:
  assumes ok: "verifier_ok E R limit st" and i: "i < length (flights st)"
    and f: "fl_key f = fl_key (flights st ! i)" "fl_password f = fl_password (flights st ! i)"
      "fl_encoded f = fl_encoded (flights st ! i)" "phase_ok E f"
      "\<And>r. fl_value (flights st ! i) = Some r \<Longrightarrow> fl_value f = Some r"
    and p: "p + of_bool (fl_phase f = Hashing) = permits st + of_bool (fl_phase (flights st ! i) = Hashing)"
    and t: "\<And>k j. t k = Some j \<longleftrightarrow> (if j = i then k = fl_key f \<and> fl_phase f \<noteq> Removed else table st k = Some j)"
  shows "verifier_ok E R limit (st\<lparr>flights := (flights st)[i := f], permits := p, table := t\<rparr>)"
proof -
  note inv = ok [unfolded verifier_ok_def]
  have "flight_ok E R (flights st ! i)" using inv i by simp
  with f have "flight_ok E R f" by (simp add: flight_ok_def)
  then have 1: "\<forall>g \<in> set ((flights st)[i := f]). flight_ok E R g"
    using inv set_update_subset_insert by fastforce
  have 2: "caller_ok E R ((flights st)[i := f]) c" if "c \<in> set (callers st)" for c
  proof -
    have c: "caller_ok E R (flights st) c" using inv that by blast
    show ?thesis
    proof (cases "ca_flight c = i")
      case True
      with c f(1,5) show ?thesis unfolding caller_ok_def by (metis length_list_update nth_list_update_eq)
    next
      case False
      with c show ?thesis by (simp add: caller_ok_def)
    qed
  qed
  have 3: "t k = Some j \<longleftrightarrow> j < length (flights st) \<and> fl_key ((flights st)[i := f] ! j) = k \<and>
      fl_phase ((flights st)[i := f] ! j) \<noteq> Removed" for k j
    using inv i by (auto simp: t nth_list_update)
  have 4: "p + hashing ((flights st)[i := f]) = limit"
    using p hashing_update [OF i, of f] inv by linarith
  from 1 2 3 4 show ?thesis by (simp add: verifier_ok_def)
qed

text \<open>The same when the table does not change.\<close>

lemma flight_moves_in_table:
  assumes "verifier_ok E R limit st" "i < length (flights st)"
    and "fl_phase (flights st ! i) \<noteq> Removed" "fl_phase f \<noteq> Removed"
    and "fl_key f = fl_key (flights st ! i)" "fl_password f = fl_password (flights st ! i)"
      "fl_encoded f = fl_encoded (flights st ! i)" "phase_ok E f"
      "\<And>r. fl_value (flights st ! i) = Some r \<Longrightarrow> fl_value f = Some r"
    and "p + of_bool (fl_phase f = Hashing) = permits st + of_bool (fl_phase (flights st ! i) = Hashing)"
  shows "verifier_ok E R limit (st\<lparr>flights := (flights st)[i := f], permits := p\<rparr>)"
proof -
  have "table st k = Some j \<longleftrightarrow> (if j = i then k = fl_key f \<and> fl_phase f \<noteq> Removed else table st k = Some j)" for k j
    using assms(1-5) by (auto simp: verifier_ok_def)
  from flight_moves [OF assms(1,2,5-10) this] show ?thesis by simp
qed

lemma begin_call_keeps:
  assumes ok: "verifier_ok E R limit st" and r: "(u, p, e) \<in> R"
  shows "verifier_ok E R limit (begin_call E u p e st)"
proof (cases "table st (verification_key E u p e)")
  case (Some i)
  with ok have "i < length (flights st)" "fl_key (flights st ! i) = verification_key E u p e"
    by (auto simp: verifier_ok_def)
  with r have "caller_ok E R (flights st) \<lparr>ca_user = u, ca_password = p, ca_encoded = e, ca_flight = i, ca_answer = None\<rparr>"
    by (simp add: caller_ok_def)
  moreover have "begin_call E u p e st =
      st\<lparr>callers := callers st @ [\<lparr>ca_user = u, ca_password = p, ca_encoded = e, ca_flight = i, ca_answer = None\<rparr>]\<rparr>"
    by (simp add: begin_call_def Let_def Some)
  ultimately show ?thesis
    using ok by (simp add: verifier_ok_def)
next
  case None
  let ?f = "\<lparr>fl_key = verification_key E u p e, fl_password = p, fl_encoded = e, fl_phase = Queued, fl_value = None\<rparr>"
  note inv = ok [unfolded verifier_ok_def]
  have f: "flight_ok E R ?f" using r by (auto simp: flight_ok_def phase_ok_def)
  have c: "caller_ok E R (flights st @ [?f]) c" if "c \<in> set (callers st)" for c
    using inv that by (auto simp: caller_ok_def nth_append)
  have "fl_key (flights st ! i) \<noteq> verification_key E u p e \<or> fl_phase (flights st ! i) = Removed"
    if "i < length (flights st)" for i
    using inv None that by (metis option.distinct(1))
  then have t: "((table st)(verification_key E u p e \<mapsto> length (flights st))) k = Some i \<longleftrightarrow>
      i < length (flights st @ [?f]) \<and> fl_key ((flights st @ [?f]) ! i) = k \<and>
      fl_phase ((flights st @ [?f]) ! i) \<noteq> Removed" for k i
    using inv by (auto simp: nth_append less_Suc_eq)
  show ?thesis
    using inv f c t r None by (simp add: begin_call_def verifier_ok_def caller_ok_def hashing_def Let_def)
qed

lemma verifier_ok_flight: "verifier_ok E R limit st \<Longrightarrow> i < length (flights st) \<Longrightarrow> phase_ok E (flights st ! i)"
  by (simp add: verifier_ok_def flight_ok_def)

lemma remove_flight_keeps:
  assumes ok: "verifier_ok E R limit st" and i: "i < length (flights st)" and s: "fl_phase (flights st ! i) = Sent"
  shows "verifier_ok E R limit (remove_flight i st)"
proof -
  let ?f = "(flights st ! i)\<lparr>fl_phase := Removed\<rparr>"
  let ?t = "(table st)(fl_key (flights st ! i) := None)"
  have own: "table st (fl_key (flights st ! i)) = Some i" and only: "\<And>k. table st k = Some i \<Longrightarrow> k = fl_key (flights st ! i)"
    using ok i s by (simp_all add: verifier_ok_def)
  have t: "?t k = Some j \<longleftrightarrow> (if j = i then k = fl_key ?f \<and> fl_phase ?f \<noteq> Removed else table st k = Some j)" for k j
    using own only [of k] by (cases "k = fl_key (flights st ! i)") auto
  have "verifier_ok E R limit (st\<lparr>flights := (flights st)[i := ?f], permits := permits st, table := ?t\<rparr>)"
    using verifier_ok_flight [OF ok i] s by (intro flight_moves [OF ok i _ _ _ _ _ _ t]) (simp_all add: phase_ok_def split: option.splits)
  then show ?thesis by (simp add: remove_flight_def set_phase_def)
qed

lemma answer_caller_keeps:
  assumes ok: "verifier_ok E R limit st" and j: "j < length (callers st)"
    and v: "fl_value (flights st ! ca_flight (callers st ! j)) = Some r"
  shows "verifier_ok E R limit (answer_caller j r st)"
proof -
  let ?c = "(callers st ! j)\<lparr>ca_answer := Some (outcome_answer r)\<rparr>"
  have "caller_ok E R (flights st) (callers st ! j)" using ok j by (simp add: verifier_ok_def)
  with v have "caller_ok E R (flights st) ?c" by (simp add: caller_ok_def)
  then have "\<forall>c \<in> set ((callers st)[j := ?c]). caller_ok E R (flights st) c"
    using ok set_update_subset_insert [of "callers st" j ?c] by (auto simp: verifier_ok_def)
  with ok show ?thesis by (simp add: answer_caller_def verifier_ok_def)
qed

lemma flight_step_keeps:
  assumes "flight_step E st st'" and ok: "verifier_ok E R limit st"
  shows "verifier_ok E R limit st'"
  using assms(1)
proof cases
  case (acquired i)
  with verifier_ok_flight [OF ok, of i] flight_moves_in_table [OF ok, of i "(flights st ! i)\<lparr>fl_phase := Hashing\<rparr>" "permits st - 1"]
  show ?thesis by (simp add: acquire_def set_phase_def phase_ok_def)
next
  case (timed_out i)
  with verifier_ok_flight [OF ok, of i]
    flight_moves_in_table [OF ok, of i "(flights st ! i)\<lparr>fl_phase := Finished Overloaded\<rparr>" "permits st"]
  show ?thesis by (simp add: set_phase_def phase_ok_def outcome_ok_def)
next
  case (hashed i)
  with verifier_ok_flight [OF ok, of i]
    flight_moves_in_table [OF ok, of i "(flights st ! i)\<lparr>fl_phase := Finished (Verified
      (verify_password E (fl_password (flights st ! i)) (fl_encoded (flights st ! i))))\<rparr>" "permits st + 1"]
  show ?thesis by (simp add: finish_hash_def set_phase_def phase_ok_def outcome_ok_def)
next
  case (panicked i)
  with verifier_ok_flight [OF ok, of i]
    flight_moves_in_table [OF ok, of i "(flights st ! i)\<lparr>fl_phase := Finished Unavailable\<rparr>" "permits st + 1"]
  show ?thesis by (simp add: finish_hash_def set_phase_def phase_ok_def outcome_ok_def)
next
  case (sent i r)
  with verifier_ok_flight [OF ok, of i]
    flight_moves_in_table [OF ok, of i "(flights st ! i)\<lparr>fl_phase := Sent, fl_value := Some r\<rparr>" "permits st"]
  show ?thesis by (cases r) (simp_all add: send_outcome_def phase_ok_def outcome_ok_def)
next
  case (removed i)
  then show ?thesis using remove_flight_keeps [OF ok] by simp
next
  case (answered j r)
  then show ?thesis using answer_caller_keeps [OF ok] by simp
qed

lemma verifier_reach_ok: "verifier_reach E R limit st \<Longrightarrow> verifier_ok E R limit st"
proof (induction rule: verifier_reach.induct)
  case start
  show ?case by (simp add: verifier_ok_def verifier_start_def hashing_def)
qed (blast intro: begin_call_keeps flight_step_keeps)+

section \<open>Properties\<close>


text \<open>Every step of a task or a waiting caller uses up some of the remaining work.\<close>

fun phase_work :: "flight_phase \<Rightarrow> nat" where
  "phase_work Queued = 4"
| "phase_work Hashing = 3"
| "phase_work (Finished _) = 2"
| "phase_work Sent = 1"
| "phase_work Removed = 0"

definition remaining :: "verifier \<Rightarrow> nat" where
  "remaining st = sum_list (map (\<lambda>f. phase_work (fl_phase f)) (flights st)) +
     sum_list (map (\<lambda>c. of_bool (ca_answer c = None)) (callers st))"

lemma flight_step_remaining:
  assumes "flight_step E st st'"
  shows "remaining st' < remaining st"
proof -
  have less: "sum_list (map g (xs[i := x])) < sum_list (map g xs)"
    if "i < length xs" "g x < g (xs ! i)" for g :: "'x \<Rightarrow> nat" and xs i x
    using sum_list_map_update [OF that(1), of g x] that(2) by linarith
  from assms show ?thesis
    by cases (auto simp: remaining_def acquire_def finish_hash_def send_outcome_def remove_flight_def
        answer_caller_def set_phase_def intro!: less)
qed

lemma flight_step_reach: "(flight_step E)\<^sup>*\<^sup>* st st' \<Longrightarrow> verifier_reach E R limit st \<Longrightarrow> verifier_reach E R limit st'"
  by (induction rule: rtranclp_induct) (auto intro: verifier_reach.moved)

lemma stuck_is_done:
  assumes ok: "verifier_ok E R limit st" and stuck: "\<And>st'. \<not> flight_step E st st'"
  shows "(\<forall>c \<in> set (callers st). ca_answer c \<noteq> None) \<and> table st = (\<lambda>_. None) \<and> permits st = limit"
proof -
  have gone: "fl_phase (flights st ! i) = Removed" if "i < length (flights st)" for i
    using that stuck by (cases "fl_phase (flights st ! i)") (blast intro: flight_step.intros)+
  then have "ca_answer c \<noteq> None" if "c \<in> set (callers st)" for c
  proof -
    obtain j where j: "j < length (callers st)" "callers st ! j = c" using \<open>c \<in> set (callers st)\<close> by (auto simp: in_set_conv_nth)
    have "ca_flight c < length (flights st)" using ok \<open>c \<in> set (callers st)\<close> by (auto simp: verifier_ok_def caller_ok_def)
    from verifier_ok_flight [OF ok this] gone [OF this] have "fl_value (flights st ! ca_flight c) \<noteq> None"
      by (auto simp: phase_ok_def split: option.splits)
    then show ?thesis using stuck j flight_step.answered [of j st] by blast
  qed
  moreover have "table st k = None" for k
    using ok gone by (cases "table st k") (auto simp: verifier_ok_def)
  moreover have "hashing (flights st) = 0"
    unfolding hashing_def sum_list_eq_0_iff using gone by (auto simp: in_set_conv_nth)
  ultimately show ?thesis
    using ok by (simp add: verifier_ok_def fun_eq_iff)
qed

text \<open>
  C14: every caller is answered and no flight is left behind.  Without new callers the verifier makes only
  finitely many steps, and when it can make no more, every caller has its answer, the table of flights is
  empty and all permits are back.
\<close>

theorem verifier_completes:
  assumes reach: "verifier_reach E R limit st"
  shows "wfp (flight_step E)\<inverse>\<inverse> \<and>
     (\<exists>st'. (flight_step E)\<^sup>*\<^sup>* st st' \<and> \<not> (\<exists>st''. flight_step E st' st'')) \<and>
     (\<forall>st'. (flight_step E)\<^sup>*\<^sup>* st st' \<and> \<not> (\<exists>st''. flight_step E st' st'') \<longrightarrow>
        (\<forall>c \<in> set (callers st'). ca_answer c \<noteq> None) \<and> table st' = (\<lambda>_. None) \<and> permits st' = limit)"
proof (intro conjI)
  show wf: "wfp (flight_step E)\<inverse>\<inverse>"
    by (rule wfp_if_convertible_to_nat [of _ remaining]) (simp add: flight_step_remaining)
  show "\<exists>st'. (flight_step E)\<^sup>*\<^sup>* st st' \<and> \<not> (\<exists>st''. flight_step E st' st'')"
    using wf
  proof (induction st rule: wfp_induct_rule)
    case (less st)
    then show ?case by (metis conversep_iff converse_rtranclp_into_rtranclp rtranclp.rtrancl_refl)
  qed
  show "\<forall>st'. (flight_step E)\<^sup>*\<^sup>* st st' \<and> \<not> (\<exists>st''. flight_step E st' st'') \<longrightarrow>
      (\<forall>c \<in> set (callers st'). ca_answer c \<noteq> None) \<and> table st' = (\<lambda>_. None) \<and> permits st' = limit"
    using stuck_is_done [OF verifier_reach_ok [OF flight_step_reach [OF _ reach]]] by blast
qed

definition demo_call :: verifier where
  "demo_call = begin_call demo_env 1 ''pw'' ''h'' (verifier_start 1)"

definition demo_answered :: verifier where
  "demo_answered =
     (let b = verify_password demo_env ''pw'' ''h''
      in answer_caller 0 (Verified b) (send_outcome 0 (Verified b) (finish_hash 0 (Verified b) (acquire 0 demo_call))))"

lemma demo_call_reach: "verifier_reach demo_env {(1, ''pw'', ''h'')} 1 demo_call"
  unfolding demo_call_def by (intro verifier_reach.called verifier_reach.start) simp

lemma demo_answered_reach: "verifier_reach demo_env {(1, ''pw'', ''h'')} 1 demo_answered"
proof -
  note defs = demo_call_def begin_call_def verifier_start_def acquire_def finish_hash_def send_outcome_def set_phase_def
  let ?b = "verify_password demo_env ''pw'' ''h''"
  let ?s1 = "acquire 0 demo_call"
  let ?s2 = "finish_hash 0 (Verified ?b) ?s1"
  let ?s3 = "send_outcome 0 (Verified ?b) ?s2"
  have s1: "flight_step demo_env demo_call ?s1"
    by (rule flight_step.acquired) (simp_all add: defs Let_def)
  have s2: "flight_step demo_env ?s1 ?s2"
    using flight_step.hashed [of 0 ?s1 demo_env] by (simp add: defs Let_def)
  have s3: "flight_step demo_env ?s2 ?s3"
    by (rule flight_step.sent) (simp_all add: defs Let_def)
  have s4: "flight_step demo_env ?s3 (answer_caller 0 (Verified ?b) ?s3)"
    by (rule flight_step.answered) (simp_all add: defs Let_def)
  note moved = verifier_reach.moved
  show ?thesis
    unfolding demo_answered_def Let_def by (rule moved [OF moved [OF moved [OF moved [OF demo_call_reach s1] s2] s3] s4])
qed


theorem verifier_completes_witness:
  "\<exists>st'. (flight_step demo_env)\<^sup>*\<^sup>* demo_call st' \<and> table st' = (\<lambda>_. None) \<and> permits st' = 1"
  using verifier_completes [OF demo_call_reach] by blast

end
