(* ===== verification/Failures.thy ===== *)
theory Failures
  imports World
begin

text \<open>
  Which errors a computation can answer.  \<open>fails_only P m\<close>: whenever \<open>m\<close> fails, the error has \<open>P\<close>.  The
  rules follow the structure of a computation, so that the errors of a handler are read off its
  definition.
\<close>

definition fails_only :: "('e \<Rightarrow> bool) \<Rightarrow> ('w, 'e, 'a) comp \<Rightarrow> bool" where
  "fails_only P m \<longleftrightarrow> (\<forall>w e. fst (m w) = Inl e \<longrightarrow> P e)"

named_theorems fails_intro \<open>computations whose errors have a property\<close>

lemma fails_onlyD: "fails_only P m \<Longrightarrow> m w = (Inl e, w') \<Longrightarrow> P e"
  unfolding fails_only_def by (metis fst_conv)

lemma fails_only_True [simp]: "fails_only (\<lambda>e. True) m"
  by (simp add: fails_only_def)

lemma fails_only_basic [fails_intro]:
  "fails_only P (ok x)" "P e \<Longrightarrow> fails_only P (fail e)" "fails_only P (gets g)" "P e \<Longrightarrow> fails_only P (ok_or e v)"
  "fails_only P (attempt m)" "fails_only P (ignore m)"
  by (auto simp: fails_only_def ok_or_def attempt_run ignore_run split: option.splits)

lemma fails_only_lift [fails_intro]: "(\<And>e. r = Inl e \<Longrightarrow> P e) \<Longrightarrow> fails_only P (lift r)"
  by (simp add: fails_only_def)

lemma fails_only_try_bind [fails_intro]:
  "fails_only P m \<Longrightarrow> (\<And>x. fails_only P (f x)) \<Longrightarrow> fails_only P (try_bind m f)"
  unfolding fails_only_def try_bind_def by (auto split: prod.splits sum.splits) (metis fst_conv)

lemma fails_only_map_err [fails_intro]: "fails_only (\<lambda>e. P (g e)) m \<Longrightarrow> fails_only P (map_err g m)"
  unfolding fails_only_def map_err_run by (auto simp: map_sum_def split: sum.splits)

lemma fails_only_control [fails_intro]:
  "fails_only P m \<Longrightarrow> fails_only P n \<Longrightarrow> fails_only P (if b then m else n)"
  "fails_only P m \<Longrightarrow> (\<And>x. fails_only P (f x)) \<Longrightarrow> fails_only P (case o1 of None \<Rightarrow> m | Some x \<Rightarrow> f x)"
  "(\<And>x. fails_only P (f' x)) \<Longrightarrow> (\<And>x. fails_only P (g x)) \<Longrightarrow> fails_only P (case s of Inl x \<Rightarrow> f' x | Inr y \<Rightarrow> g y)"
  "(\<And>x y. fails_only P (h x y)) \<Longrightarrow> fails_only P (case q of (x, y) \<Rightarrow> h x y)"
  "fails_only P m \<Longrightarrow> (\<And>x xs. fails_only P (k x xs)) \<Longrightarrow> fails_only P (case l of [] \<Rightarrow> m | x # xs \<Rightarrow> k x xs)"
  "(\<And>x. fails_only P (f x)) \<Longrightarrow> fails_only P (let x = u in f x)"
  "fails_only P v \<Longrightarrow> fails_only P (when_do b v)"
  by (auto simp: when_do_def fails_only_def split: option.splits sum.splits prod.splits list.splits)

lemma fails_only_for_each [fails_intro]: "(\<And>x. fails_only P (f x)) \<Longrightarrow> fails_only P (for_each xs f)"
  by (induction xs) (auto intro!: fails_intro)

lemma fails_only_external [fails_intro]: "P e \<Longrightarrow> fails_only P m \<Longrightarrow> fails_only P (external E e m)"
  by (simp add: fails_only_def external_def)

lemma fails_only_clock [fails_intro]:
  "fails_only P (now_millis E)" "fails_only P (now_i64 E)" "fails_only P (uuid_now_v7 E)" "fails_only P (random_hex E)"
  by (simp_all add: fails_only_def io_defs)

lemma fails_only_db [fails_intro]:
  "(\<And>e. P (conv e)) \<Longrightarrow> fails_only P (db_query E conv f)" "(\<And>e. P (conv e)) \<Longrightarrow> fails_only P (db_exec E conv g)"
  by (auto simp: fails_only_def io_defs map_err_run map_sum_def split: sum.splits)

lemma fails_only_transaction [fails_intro]:
  "(\<And>e. P (conv e)) \<Longrightarrow> fails_only P m \<Longrightarrow> fails_only P (transaction E conv m)"
  unfolding fails_only_def transaction_def try_bind_def external_def
  by (auto split: prod.splits sum.splits if_splits) (metis fst_conv)

lemma fails_only_valkey [fails_intro]:
  "P (service_unavailable ''cache connection unavailable'') \<Longrightarrow> fails_only P (connection E)"
  "P app_of_redis \<Longrightarrow> fails_only P (vk_write E f)" "P app_of_redis \<Longrightarrow> fails_only P (vk_read E g)"
  "P app_of_redis \<Longrightarrow> fails_only P (vk_modify E h)"
  "P (bad_request ''connection closed'') \<Longrightarrow> fails_only P (socket_send E p)"
  by (auto simp: fails_only_def io_defs split: prod.splits)

end
