(* ===== verification/Account.thy ===== *)
theory Account
  imports Verifier Delivery Failures
begin

text \<open>
  \<^verbatim>\<open>backend/src/api/account.rs\<close> (registration, login, recovery, sessions and the account's own data) and
  \<^verbatim>\<open>backend/src/auth/recovery.rs\<close> (how a recovery token reaches its owner).
\<close>

section \<open>Recovery delivery (auth/recovery.rs)\<close>

datatype recovery_error = RecoveryConfiguration string | RecoveryNetwork string

fun show_recovery_error :: "recovery_error \<Rightarrow> string" where
  "show_recovery_error (RecoveryConfiguration m) = ''recovery configuration: '' @ m"
| "show_recovery_error (RecoveryNetwork m) = ''recovery delivery: '' @ m"

type_synonym 's notifier = "string \<Rightarrow> string \<Rightarrow> ('s, recovery_error, unit) io"

definition disabled_notify :: "'s notifier" where
  "disabled_notify email token = fail (RecoveryConfiguration ''account recovery delivery is not configured'')"

text \<open>\<open>client_build\<close> is the error of the HTTP client's builder, if it has one.\<close>

definition recovery_webhook_new :: "'s env \<Rightarrow> string option \<Rightarrow> string \<Rightarrow> recovery_error + string" where
  "recovery_webhook_new E client_build endpoint =
     (case url_parse E endpoint of
        None \<Rightarrow> Inl (RecoveryConfiguration ''recovery URL is invalid'')
      | Some u \<Rightarrow>
          if url_scheme u \<noteq> ''http'' \<and> url_scheme u \<noteq> ''https''
          then Inl (RecoveryConfiguration ''recovery URL must use HTTP or HTTPS'')
          else (case client_build of Some e \<Rightarrow> Inl (RecoveryConfiguration e) | None \<Rightarrow> Inr endpoint))"

definition recovery_webhook_from_env :: "'s env \<Rightarrow> string option \<Rightarrow> recovery_error + string" where
  "recovery_webhook_from_env E client_build =
     (case env_var E ''RECOVERY_WEBHOOK_URL'' of
        None \<Rightarrow> Inl (RecoveryConfiguration ''RECOVERY_WEBHOOK_URL is required'')
      | Some endpoint \<Rightarrow> recovery_webhook_new E client_build endpoint)"

text \<open>\<open>post\<close> is the HTTP client: an error text, or the status code and its text.\<close>

definition recovery_webhook_notify ::
  "(string \<Rightarrow> json \<Rightarrow> ('s, string, nat \<times> string) io) \<Rightarrow> string \<Rightarrow> 's notifier" where
  "recovery_webhook_notify post endpoint email token =
     try_bind (map_err RecoveryNetwork (post endpoint
       (JObj [(''email'', JStr email), (''token'', JStr token), (''expires_in_seconds'', JNum 1800)]))) (\<lambda>(code, txt).
     if 200 \<le> code \<and> code < 300 then ok () else fail (RecoveryNetwork txt))"

section \<open>Requests\<close>

definition recovery_token_hash :: "'s env \<Rightarrow> string \<Rightarrow> string" where
  "recovery_token_hash E token = hex_encode E (sha256 E token)"

definition client_ip :: "header_map \<Rightarrow> string" where
  "client_ip headers =
     (case header_str headers ''cf-connecting-ip'' of
        Some ip \<Rightarrow> ip
      | None \<Rightarrow>
          (case header_str headers ''x-real-ip'' of
             Some ip \<Rightarrow> ip
           | None \<Rightarrow>
               (case Option.bind (header_str headers ''x-forwarded-for'')
                  (\<lambda>s. case split_on (\<lambda>c. c = CHR '','') s of [] \<Rightarrow> None | ip # _ \<Rightarrow> Some ip) of
                  Some ip \<Rightarrow> trim ip
                | None \<Rightarrow> ''127.0.0.1'')))"

definition validate_username :: "unicode \<Rightarrow> string \<Rightarrow> app_error + unit" where
  "validate_username U username =
     (if length username < 2 \<or> length username > 40 \<or>
         \<not> list_all (\<lambda>c. is_alphanumeric U c \<or> c = ''_'' \<or> c = ''-'') (chars username)
      then Inl (bad_request ''invalid username'')
      else if to_lowercase U username \<in> set [''admin'', ''system'', ''here'', ''channel'', ''everyone'',
                ''administrator'', ''moderator'']
      then Inl (bad_request ''username is reserved'')
      else Inr ())"

text \<open>The headers of an answer that opens a session, and the user.\<close>

definition session_headers :: "'s env \<Rightarrow> uuid \<Rightarrow> string \<Rightarrow> header_map" where
  "session_headers E i csrf = [(''set-cookie'', auth_cookie E (env_var E ''COOKIE_SECURE'') i), (CSRF_HEADER, csrf)]"

definition register :: "'s env \<Rightarrow> header_map \<Rightarrow> string \<Rightarrow> string \<Rightarrow> string \<Rightarrow>
    ('s, status_code \<times> header_map \<times> auth_user) app" where
  "register E headers raw_email raw_name password =
     (let email = to_lowercase (uni E) (trim raw_email); username = trim raw_name in
      if CHR ''@'' \<notin> set email \<or> length email > 320 then fail (bad_request ''invalid email'')
      else
      try_bind (lift (validate_username (uni E) username)) (\<lambda>_.
      try_bind (enforce_rate_limit E (''chat:rate:register:ip:'' @ hex_encode E (sha256 E (client_ip headers))) 5 3600) (\<lambda>_.
      try_bind (password_hash E password) (\<lambda>hash.
      try_bind (map_err map_conflict (register_user E email username hash)) (\<lambda>user.
      try_bind (create_session E user) (\<lambda>(id, csrf).
      ok (CREATED, session_headers E id csrf, user)))))))"

text \<open>\<open>dummy\<close> is the hash in the cell \<^verbatim>\<open>DUMMY_HASH\<close>, which is checked when there is no such account.\<close>

definition login :: "'s env \<Rightarrow> string \<Rightarrow> header_map \<Rightarrow> string \<Rightarrow> string \<Rightarrow> ('s, header_map \<times> auth_user) app" where
  "login E dummy headers raw_email password =
     (let email = to_lowercase (uni E) (trim raw_email) in
      try_bind (enforce_rate_limit E (''chat:rate:login:ip:'' @ hex_encode E (sha256 E (client_ip headers))) 20 300) (\<lambda>_.
      try_bind (enforce_rate_limit E (''chat:rate:login:target:'' @ hex_encode E (sha256 E email)) 5 300) (\<lambda>_.
      try_bind (map_err app_of_repository (find_user_for_login E (trim raw_email))) (\<lambda>found.
      let (user, hash, disabled) =
        (case found of Some (u, h, x) \<Rightarrow> (Some u, h, x) | None \<Rightarrow> (None, dummy, False)) in
      try_bind (verify_password_coalesced E (case user of Some u \<Rightarrow> au_id u | None \<Rightarrow> 0) password hash) (\<lambda>verified.
      if disabled then fail (unauthorized ''invalid credentials'')
      else
      (case user of
         None \<Rightarrow> fail (unauthorized ''invalid credentials'')
       | Some u \<Rightarrow>
           if \<not> verified then fail (unauthorized ''invalid credentials'')
           else
           try_bind (create_session E u) (\<lambda>(id, csrf).
           ok (session_headers E id csrf, u))))))))"

section \<open>Recovery\<close>

definition delete_open_tokens :: "uuid \<Rightarrow> unit stmt" where
  "delete_open_tokens u d =
     Inr ((), d\<lparr>account_recovery_tokens :=
       filter (\<lambda>t. \<not> (rt_user_id t = u \<and> rt_used_at t = None)) (account_recovery_tokens d)\<rparr>)"

definition insert_recovery_token :: "recovery_token_row \<Rightarrow> unit stmt" where
  "insert_recovery_token t d =
     constrained
       [(\<not> list_ex (\<lambda>r. rt_id r = rt_id t) (account_recovery_tokens d), ''account_recovery_tokens_pkey''),
        (\<not> list_ex (\<lambda>r. rt_token_hash r = rt_token_hash t) (account_recovery_tokens d),
         ''account_recovery_tokens_token_hash_key''),
        (has_user d (rt_user_id t), ''account_recovery_tokens_user_id_fkey'')]
       ((), d\<lparr>account_recovery_tokens := account_recovery_tokens d @ [t]\<rparr>)"

definition recovery_message :: string where
  "recovery_message = ''If the account exists, recovery instructions will be sent.''"

definition request_recovery :: "'s env \<Rightarrow> 's notifier \<Rightarrow> string \<Rightarrow> ('s, string) app" where
  "request_recovery E notify raw_email =
     (let email = to_lowercase (uni E) (trim raw_email) in
      if email = [] \<or> length email > 320 then fail (bad_request ''invalid email'')
      else
      try_bind (enforce_rate_limit E (''chat:rate:recovery:'' @ hex_encode E (sha256 E email)) 5 3600) (\<lambda>_.
      try_bind (db_query E app_of_sqlx (\<lambda>d.
        find (\<lambda>u. pg_lower E (u_email u) = pg_lower E email \<and> u_disabled_at u = None \<and> u_deleted_at u = None)
          (users d))) (\<lambda>row.
      case row of
        None \<Rightarrow> ok recovery_message
      | Some u \<Rightarrow>
          try_bind (random_hex E) (\<lambda>token.
          try_bind (now_i64 E) (\<lambda>now.
          try_bind (transaction E app_of_sqlx
            (try_bind (db_exec E app_of_sqlx (delete_open_tokens (u_id u))) (\<lambda>_.
             try_bind (uuid_now_v7 E) (\<lambda>id.
             db_exec E app_of_sqlx (insert_recovery_token
               \<lparr>rt_id = id, rt_user_id = u_id u, rt_token_hash = recovery_token_hash E token,
                rt_expires_at = now + 30 * 60 * 1000, rt_created_at = now, rt_used_at = None\<rparr>))))) (\<lambda>_.
          try_bind (attempt (notify (u_email u) token)) (\<lambda>_.
          ok recovery_message)))))))"

definition usable_token :: "i64 \<Rightarrow> string \<Rightarrow> recovery_token_row \<Rightarrow> bool" where
  "usable_token now hash t = (rt_token_hash t = hash \<and> rt_used_at t = None \<and> rt_expires_at t > now)"

definition set_password :: "string \<Rightarrow> i64 \<Rightarrow> uuid \<Rightarrow> nat stmt" where
  "set_password hash now user d =
     (let p = (\<lambda>u. u_id u = user \<and> u_deleted_at u = None)
      in Inr (rows_matching p (users d),
              d\<lparr>users := update_where p
                  (\<lambda>u. u\<lparr>u_password_hash := hash, u_role_version := u_role_version u + 1, u_updated_at := now\<rparr>) (users d)\<rparr>))"

definition use_token :: "i64 \<Rightarrow> string \<Rightarrow> unit stmt" where
  "use_token now hash d =
     Inr ((), d\<lparr>account_recovery_tokens := update_where (\<lambda>t. rt_token_hash t = hash)
       (\<lambda>t. t\<lparr>rt_used_at := Some now\<rparr>) (account_recovery_tokens d)\<rparr>)"

definition reset_recovery :: "'s env \<Rightarrow> string \<Rightarrow> string \<Rightarrow> ('s, string) app" where
  "reset_recovery E raw_token password =
     (let token = trim raw_token in
      if length token \<noteq> 64 \<or> \<not> list_all ascii_hexdigit token
      then fail (unauthorized ''invalid or expired recovery token'')
      else
      try_bind (password_hash E password) (\<lambda>hash.
      try_bind (now_i64 E) (\<lambda>now.
      try_bind (transaction E app_of_sqlx
        (try_bind (db_query E app_of_sqlx (\<lambda>d.
           map_option rt_user_id (find (usable_token now (recovery_token_hash E token)) (account_recovery_tokens d)))) (\<lambda>row.
         try_bind (ok_or (unauthorized ''invalid or expired recovery token'') row) (\<lambda>user_id.
         try_bind (db_exec E app_of_sqlx (set_password hash now user_id)) (\<lambda>_.
         try_bind (db_exec E app_of_sqlx (use_token now (recovery_token_hash E token))) (\<lambda>_.
         try_bind (record_audit E app_of_sqlx
           (system_audit (Some user_id) ''user.password_recovered'' user_id (JObj []) now)) (\<lambda>_.
         queue_auth_invalidation E app_of_sqlx user_id now)))))) ) (\<lambda>_.
      ok ''password reset successfully''))))"

section \<open>Sessions\<close>

definition logout :: "'s env \<Rightarrow> header_map \<Rightarrow> ('s, status_code) app" where
  "logout E headers =
     try_bind (load_session E headers) (\<lambda>session.
     try_bind (lift (require_csrf headers session)) (\<lambda>_.
     try_bind (connection E) (\<lambda>_.
     try_bind (vk_write E (del (vk E) [session_key E (s_id session)])) (\<lambda>_.
     try_bind (vk_write E (srem (vk E) (user_sessions_key E (au_id (s_user session))) [uuid_str E (s_id session)])) (\<lambda>_.
     ok NO_CONTENT)))))"

definition me :: "'s env \<Rightarrow> header_map \<Rightarrow> ('s, header_map \<times> auth_user) app" where
  "me E headers =
     try_bind (load_session E headers) (\<lambda>session.
     ok ([(CSRF_HEADER, s_csrf session)], s_user session))"

record session_view =
  sv_id :: uuid
  sv_current :: bool

text \<open>The body of the loop: a listed id without a session is taken off the list.\<close>

definition view_session :: "'s env \<Rightarrow> session \<Rightarrow> string \<Rightarrow> ('s, session_view option) app" where
  "view_session E session raw =
     (case uuid_parse E raw of
        None \<Rightarrow> ok None
      | Some i \<Rightarrow>
          try_bind (vk_read E (exists_key (vk E) (session_key E i))) (\<lambda>found.
          if found then ok (Some \<lparr>sv_id = i, sv_current = (i = s_id session)\<rparr>)
          else
          try_bind (vk_write E (srem (vk E) (user_sessions_key E (au_id (s_user session))) [raw])) (\<lambda>_.
          ok None)))"

definition list_sessions :: "'s env \<Rightarrow> header_map \<Rightarrow> ('s, session_view list) app" where
  "list_sessions E headers =
     try_bind (load_session E headers) (\<lambda>session.
     try_bind (connection E) (\<lambda>_.
     try_bind (vk_read E (smembers (vk E) (user_sessions_key E (au_id (s_user session))))) (\<lambda>ids.
     try_bind (for_each ids (view_session E session)) (\<lambda>views.
     ok (List.map_filter (\<lambda>v. v) views)))))"

definition revoke_session :: "'s env \<Rightarrow> header_map \<Rightarrow> uuid \<Rightarrow> ('s, status_code) app" where
  "revoke_session E headers i =
     try_bind (load_session E headers) (\<lambda>session.
     try_bind (lift (require_csrf headers session)) (\<lambda>_.
     if i = s_id session then fail (bad_request ''use logout to revoke the current session'')
     else
     try_bind (connection E) (\<lambda>_.
     try_bind (vk_write E (del (vk E) [session_key E i])) (\<lambda>_.
     try_bind (vk_write E (srem (vk E) (user_sessions_key E (au_id (s_user session))) [uuid_str E i])) (\<lambda>_.
     ok NO_CONTENT)))))"

section \<open>The account\<close>

definition update_account :: "'s env \<Rightarrow> header_map \<Rightarrow> string \<Rightarrow> ('s, auth_user) app" where
  "update_account E headers raw_name =
     try_bind (load_session E headers) (\<lambda>session.
     try_bind (lift (require_csrf headers session)) (\<lambda>_.
     let username = trim raw_name in
     try_bind (lift (validate_username (uni E) username)) (\<lambda>_.
     try_bind (map_err app_of_repository (update_username E (au_id (s_user session)) username)) (\<lambda>_.
     let user = (s_user session)\<lparr>au_username := username\<rparr> in
     try_bind (ok_or (bad_request ''could not update session'') (user_print (codec E) user)) (\<lambda>serialized.
     try_bind (connection E) (\<lambda>_.
     try_bind (vk_write E (hset (vk E) (session_key E (s_id session)) [(''user'', serialized)])) (\<lambda>_.
     ok user)))))))"

record exported_message =
  xm_channel :: string
  xm_id :: uuid
  xm_text :: string
  xm_created_at :: i64
  xm_edited :: bool
  xm_deleted :: bool

definition exported_rows :: "database \<Rightarrow> uuid \<Rightarrow> exported_message list" where
  "exported_rows d u =
     map (\<lambda>(m, c). \<lparr>xm_channel = ch_name c, xm_id = m_id m, xm_text = m_text m, xm_created_at = m_created_at m,
             xm_edited = m_edited m, xm_deleted = (m_deleted_at m \<noteq> None)\<rparr>)
       (sort_key (\<lambda>(m, c). m_created_at m)
         (filter (\<lambda>(m, c). m_owner_user_id m = Some u) (messages_join_channels d)))"

definition export_account :: "'s env \<Rightarrow> header_map \<Rightarrow> ('s, auth_user \<times> exported_message list \<times> i64) app" where
  "export_account E headers =
     try_bind (load_session E headers) (\<lambda>session.
     try_bind (db_query E app_of_sqlx (\<lambda>d. exported_rows d (au_id (s_user session)))) (\<lambda>rows.
     try_bind (now_i64 E) (\<lambda>now.
     ok (s_user session, rows, now))))"

definition mark_user_deleted :: "i64 \<Rightarrow> uuid \<Rightarrow> unit stmt" where
  "mark_user_deleted now user d =
     Inr ((), d\<lparr>users := update_where (\<lambda>u. u_id u = user \<and> u_deleted_at u = None)
       (\<lambda>u. u\<lparr>u_deleted_at := Some now, u_disabled_at := Some now, u_role_version := u_role_version u + 1,
               u_updated_at := now\<rparr>) (users d)\<rparr>)"

definition delete_account :: "'s env \<Rightarrow> header_map \<Rightarrow> ('s, status_code) app" where
  "delete_account E headers =
     try_bind (load_session E headers) (\<lambda>session.
     try_bind (lift (require_csrf headers session)) (\<lambda>_.
     let user = au_id (s_user session) in
     try_bind (now_i64 E) (\<lambda>now.
     try_bind (transaction E app_of_sqlx
       (try_bind (db_exec E app_of_sqlx (mark_user_deleted now user)) (\<lambda>_.
        record_audit E app_of_sqlx (system_audit (Some user) ''user.self_deleted'' user (JObj []) now)))) (\<lambda>_.
     try_bind (connection E) (\<lambda>_.
     try_bind (vk_read E (smembers (vk E) (user_sessions_key E user))) (\<lambda>ids.
     try_bind (for_each ids (\<lambda>raw.
       case uuid_parse E raw of
         None \<Rightarrow> ok ()
       | Some i \<Rightarrow> vk_write E (del (vk E) [session_key E i]))) (\<lambda>_.
     try_bind (vk_write E (del (vk E) [user_sessions_key E user])) (\<lambda>_.
     ok NO_CONTENT))))))))"

text \<open>The body of the loop over the user's sessions: every session but the current one is ended.\<close>

definition end_other_session :: "'s env \<Rightarrow> session \<Rightarrow> string \<Rightarrow> ('s, unit) app" where
  "end_other_session E session raw =
     (if raw = uuid_str E (s_id session) then ok ()
      else
      (case uuid_parse E raw of
         None \<Rightarrow> ok ()
       | Some i \<Rightarrow>
           try_bind (vk_write E (del (vk E) [session_key E i])) (\<lambda>_.
           vk_write E (srem (vk E) (user_sessions_key E (au_id (s_user session))) [raw]))))"

definition change_password :: "'s env \<Rightarrow> header_map \<Rightarrow> string \<Rightarrow> string \<Rightarrow> ('s, status_code) app" where
  "change_password E headers current_password new_password =
     try_bind (load_session E headers) (\<lambda>session.
     try_bind (lift (require_csrf headers session)) (\<lambda>_.
     let user = au_id (s_user session) in
     try_bind (map_err app_of_repository (find_user_for_login E (au_username (s_user session)))) (\<lambda>found.
     case found of
       None \<Rightarrow> fail (unauthorized ''account unavailable'')
     | Some (_, current_hash, disabled) \<Rightarrow>
         try_bind (if disabled then ok False else verify_password_coalesced E user current_password current_hash) (\<lambda>verified.
         if disabled \<or> \<not> verified then fail (unauthorized ''current password is incorrect'')
         else
         try_bind (password_hash E new_password) (\<lambda>hash.
         try_bind (now_i64 E) (\<lambda>now.
         try_bind (db_exec E app_of_sqlx (set_password hash now user)) (\<lambda>_.
         try_bind (connection E) (\<lambda>_.
         try_bind (vk_read E (smembers (vk E) (user_sessions_key E user))) (\<lambda>ids.
         try_bind (for_each ids (end_other_session E session)) (\<lambda>_.
         try_bind (record_audit_pool E app_of_sqlx
           (system_audit (Some user) ''user.password_changed'' user (JObj []) now)) (\<lambda>_.
         ok NO_CONTENT))))))))))) "

section \<open>Login\<close>

lemma keeps_on_verify [keeps_intro]: "keeps_on db Q (verify_password_coalesced E u p e)"
  unfolding verify_password_coalesced_def by (intro keeps_intro)

lemma find_SomeD: "find P xs = Some x \<Longrightarrow> x \<in> set xs \<and> P x"
  by (auto simp: find_Some_iff)

lemma login_ok:
  assumes "login E dummy headers mail pw w = (Inr (hs, user), w')"
  shows "\<exists>u \<in> set (users (db w)). pg_lower E (trim mail) \<in> {pg_lower E (u_email u), pg_lower E (u_username u)} \<and>
     u_disabled_at u = None \<and> verify_password E pw (u_password_hash u) \<and> user = user_from_row (db w) u"
proof -
  from assms obtain w1 w2 where w2: "enforce_rate_limit E (''chat:rate:login:ip:'' @ hex_encode E (sha256 E (client_ip headers))) 20 300 w = (Inr (), w1)"
      "enforce_rate_limit E (''chat:rate:login:target:'' @ hex_encode E (sha256 E (to_lowercase (uni E) (trim mail)))) 5 300 w1 = (Inr (), w2)"
    and rest: "\<exists>u. find (\<lambda>u. pg_lower E (u_email u) = pg_lower E (trim mail) \<or> pg_lower E (u_username u) = pg_lower E (trim mail))
        (users (db w2)) = Some u \<and> user = user_from_row (db w2) u \<and> u_disabled_at u = None \<and> verify_password E pw (u_password_hash u)"
    by (auto simp: login_def Let_def ok_simps find_user_for_login_def verify_password_coalesced_def split: if_splits option.splits prod.splits)
  have "db w2 = db w"
    using keeps_onD [OF keeps_on_auth(1) _ w2(1), of "\<lambda>d. d = db w"] keeps_onD [OF keeps_on_auth(1) _ w2(2), of "\<lambda>d. d = db w"] by simp
  with rest obtain u where u: "find (\<lambda>u. pg_lower E (u_email u) = pg_lower E (trim mail) \<or> pg_lower E (u_username u) = pg_lower E (trim mail))
        (users (db w)) = Some u" "user = user_from_row (db w) u" "u_disabled_at u = None" "verify_password E pw (u_password_hash u)"
    by auto
  have "u \<in> set (users (db w))" "pg_lower E (u_email u) = pg_lower E (trim mail) \<or> pg_lower E (u_username u) = pg_lower E (trim mail)"
    using find_SomeD [OF u(1)] by auto
  with u(2-) show ?thesis
    by (intro bexI [of _ u]) auto
qed

text \<open>
  C15: logging in needs the password of an account that is in use.  When login answers with a session, some
  user's e-mail address or name is the one given (up to case), the account is not disabled, the password
  matches the stored hash, and the session belongs to that user; the database is not changed.  Every 401
  answer is the same, so it does not tell an unknown account from a disabled one or a wrong password.
\<close>

theorem login_spec:
  assumes run: "login E dummy headers mail pw w = (r, w')"
  shows "db w' = db w \<and>
     (\<forall>hs user. r = Inr (hs, user) \<longrightarrow>
        (\<exists>u \<in> set (users (db w)). pg_lower E (trim mail) \<in> {pg_lower E (u_email u), pg_lower E (u_username u)} \<and>
           u_disabled_at u = None \<and> verify_password E pw (u_password_hash u) \<and> user = user_from_row (db w) u)) \<and>
     (\<forall>e. r = Inl e \<and> status e = UNAUTHORIZED \<longrightarrow> e = unauthorized ''invalid credentials'')"
proof (intro conjI allI impI)
  show "db w' = db w"
    by (rule keeps_on_leaves [of db "login E dummy headers mail pw", OF _ run]) (unfold login_def find_user_for_login_def, (intro keeps_intro)+)
next
  fix hs user
  assume "r = Inr (hs, user)"
  with login_ok run show "\<exists>u \<in> set (users (db w)). pg_lower E (trim mail) \<in> {pg_lower E (u_email u), pg_lower E (u_username u)} \<and>
      u_disabled_at u = None \<and> verify_password E pw (u_password_hash u) \<and> user = user_from_row (db w) u"
    by blast
next
  fix e
  let ?P = "\<lambda>e. status e = UNAUTHORIZED \<longrightarrow> e = unauthorized ''invalid credentials''"
  have repo: "?P (app_of_repository (Database x))" for x
    by (auto simp: app_of_sqlx_def internal_server_error_def)
  have "fails_only ?P (login E dummy headers mail pw)"
    unfolding login_def enforce_rate_limit_def find_user_for_login_def verify_password_coalesced_def create_session_def
    by (intro fails_intro) (simp_all add: app_error_defs app_of_redis_def repo)
  moreover assume "r = Inl e \<and> status e = UNAUTHORIZED"
  ultimately show "e = unauthorized ''invalid credentials''"
    using run fails_onlyD by fastforce
qed

section \<open>Recovery tokens\<close>

lemma reset_recovery_ok:
  assumes "reset_recovery E raw pw w = (Inr m, w')"
  shows "\<exists>now hash t. usable_token now (recovery_token_hash E (trim raw)) t \<and> t \<in> set (account_recovery_tokens (db w)) \<and>
     account_recovery_tokens (db w') = update_where (\<lambda>t. rt_token_hash t = recovery_token_hash E (trim raw))
       (\<lambda>t. t\<lparr>rt_used_at := Some now\<rparr>) (account_recovery_tokens (db w)) \<and>
     users (db w') = update_where (\<lambda>u. u_id u = rt_user_id t \<and> u_deleted_at u = None)
       (\<lambda>u. u\<lparr>u_password_hash := hash, u_role_version := u_role_version u + 1, u_updated_at := now\<rparr>) (users (db w)) \<and>
     (\<exists>salt. argon2_hash E pw salt = Some hash) \<and> length pw \<in> {12..200} \<and>
     (\<exists>o' \<in> set (outbox_events (db w')). o_topic o' = ''auth.invalidate'' \<and> o_published_at o' = None \<and>
        o_payload o' = JObj [(''user_id'', JStr (uuid_str E (rt_user_id t)))])"
proof -
  from assms obtain now hash salt t a i where
    h: "\<not> length pw < 12" "\<not> length pw > 200" "argon2_hash E pw salt = Some hash"
    and t: "find (usable_token now (recovery_token_hash E (trim raw))) (account_recovery_tokens (db w)) = Some t"
    and d: "db w' = (db w)\<lparr>users := update_where (\<lambda>u. u_id u = rt_user_id t \<and> u_deleted_at u = None)
       (\<lambda>u. u\<lparr>u_password_hash := hash, u_role_version := u_role_version u + 1, u_updated_at := now\<rparr>) (users (db w)),
       account_recovery_tokens := update_where (\<lambda>t. rt_token_hash t = recovery_token_hash E (trim raw))
       (\<lambda>t. t\<lparr>rt_used_at := Some now\<rparr>) (account_recovery_tokens (db w)),
       audit_events := audit_events (db w) @ [a],
       outbox_events := outbox_events (db w) @ [\<lparr>o_id = i, o_topic = ''auth.invalidate'',
         o_payload = JObj [(''user_id'', JStr (uuid_str E (rt_user_id t)))], o_created_at = now,
         o_published_at = None, o_attempts = 0, o_claimed_at = None\<rparr>]\<rparr>"
    by (auto simp: reset_recovery_def Let_def ok_simps password_hash_def hash_password_unchecked_def set_password_def use_token_def
        record_audit_def queue_auth_invalidation_def insert_audit_def insert_outbox_def split: if_splits)
  from t have "t \<in> set (account_recovery_tokens (db w))" "usable_token now (recovery_token_hash E (trim raw)) t"
    by (auto simp: find_Some_iff)
  with h d show ?thesis
    by (intro exI [of _ now] exI [of _ hash] exI [of _ t]) auto
qed

lemma reset_recovery_refused:
  assumes used: "\<And>t. t \<in> set (account_recovery_tokens (db w)) \<Longrightarrow> rt_token_hash t = recovery_token_hash E (trim raw) \<Longrightarrow>
      rt_used_at t \<noteq> None"
  shows "db (snd (reset_recovery E raw pw w)) = db w \<and> (\<forall>m. fst (reset_recovery E raw pw w) \<noteq> Inr m)"
proof -
  obtain r w' where run: "reset_recovery E raw pw w = (r, w')" by force
  have "r \<noteq> Inr m" for m
  proof
    assume "r = Inr m"
    with run obtain now t where "usable_token now (recovery_token_hash E (trim raw)) t" "t \<in> set (account_recovery_tokens (db w))"
      using reset_recovery_ok [of E raw pw w m w'] by blast
    with used [of t] show False by (auto simp: usable_token_def)
  qed
  moreover have "db w' = db w" if "r = Inl e" for e
    using run that keeps_onD [OF keeps_on_auth(5), of "\<lambda>d. d = db w" w E pw]
    by (auto simp: reset_recovery_def Let_def try_bind_def now_i64_def split: if_splits prod.splits sum.splits
        dest: transaction_err_db)
  ultimately show ?thesis
    using run by (cases r) auto
qed


section \<open>Ending sessions\<close>

lemma session_keys_differ: "session_key E i \<noteq> user_sessions_key E u"
  by (simp add: session_key_def user_sessions_key_def)

text \<open>A loop that deletes session hashes: what one round empties stays empty.\<close>

lemma for_each_empties:
  assumes "for_each xs f w = (Inr ys, w')" and "x \<in> set xs"
    and hit: "\<And>w y w'. f x w = (Inr y, w') \<Longrightarrow> ks_hash (\<alpha> (cache w')) k = []"
    and keep: "\<And>z w y w'. f z w = (Inr y, w') \<Longrightarrow> ks_hash (\<alpha> (cache w)) k = [] \<Longrightarrow> ks_hash (\<alpha> (cache w')) k = []"
  shows "ks_hash (\<alpha> (cache w')) k = []"
proof -
  have stay: "for_each zs f v = (Inr us, v') \<Longrightarrow> ks_hash (\<alpha> (cache v)) k = [] \<Longrightarrow> ks_hash (\<alpha> (cache v')) k = []" for zs v us v'
    by (induction zs arbitrary: v us) (auto simp: ok_simps dest: keep)
  from assms(1,2) show ?thesis
  proof (induction xs arbitrary: w ys)
    case (Cons a xs)
    then obtain y w1 zs where run: "f a w = (Inr y, w1)" "for_each xs f w1 = (Inr zs, w')" by (auto simp: ok_simps)
    show ?case
    proof (cases "x = a")
      case True
      with hit run stay show ?thesis by blast
    next
      case False
      with Cons run show ?thesis by auto
    qed
  qed simp
qed

text \<open>
  Logging out ends the session.  After a logout was answered, the same request headers never get a
  session again: every further request with that cookie is answered 401 (or 503 while Valkey is down).
\<close>

theorem logout_ends_session:
  assumes V: "valkey (vk E) \<alpha>" and run: "logout E headers w = (Inr c, w1)"
    and later: "ks_hash (\<alpha> (cache w2)) = ks_hash (\<alpha> (cache w1))" and load: "load_session E headers w2 = (r, w3)"
  shows "\<exists>e. r = Inl e \<and> (status e = UNAUTHORIZED \<or> status e = SERVICE_UNAVAILABLE)"
proof -
  from run obtain s v where s: "load_session E headers w = (Inr s, v)"
    and gone: "ks_hash (\<alpha> (cache w1)) (session_key E (s_id s)) = []"
    by (auto simp: logout_def ok_simps valkey.del_abs [OF V] valkey.srem_abs [OF V] ks_del_def ks_srem_def ks_gone_def)
  obtain raw where "cookie_value headers ''vussa_session'' = Some raw" "uuid_parse E raw = Some (s_id s)"
    using load_session_run [OF V s] by blast
  from load_session_gone [OF V this _ load] gone later show ?thesis by simp
qed

lemma change_password_ok:
  assumes run: "change_password E headers old new w = (Inr c, w1)"
  shows "\<exists>s v u hash salt now w2 w3 ys. load_session E headers w = (Inr s, v) \<and> require_csrf headers s = Inr () \<and>
     u \<in> set (users (db v)) \<and> u_disabled_at u = None \<and> verify_password E old (u_password_hash u) \<and>
     argon2_hash E new salt = Some hash \<and> cache w2 = cache v \<and>
     users (db w2) = update_where (\<lambda>u. u_id u = au_id (s_user s) \<and> u_deleted_at u = None)
       (\<lambda>u. u\<lparr>u_password_hash := hash, u_role_version := u_role_version u + 1, u_updated_at := now\<rparr>) (users (db v)) \<and>
     for_each (smembers (vk E) (user_sessions_key E (au_id (s_user s))) (cache v)) (end_other_session E s) w2 = (Inr ys, w3) \<and>
     cache w1 = cache w3 \<and> users (db w1) = users (db w3)"
proof -
  from run obtain s v where s: "load_session E headers w = (Inr s, v)" "require_csrf headers s = Inr ()"
    by (auto simp: change_password_def Let_def ok_simps)
  with run obtain u where u: "u \<in> set (users (db v))" "u_disabled_at u = None" "verify_password E old (u_password_hash u)"
    by (auto simp: change_password_def Let_def ok_simps find_user_for_login_def verify_password_coalesced_def
        split: if_splits option.splits prod.splits dest!: find_SomeD)
  from run s obtain hash salt now w2 w3 ys where
    "for_each (smembers (vk E) (user_sessions_key E (au_id (s_user s))) (cache v)) (end_other_session E s) w2 = (Inr ys, w3)"
    "users (db w2) = update_where (\<lambda>u. u_id u = au_id (s_user s) \<and> u_deleted_at u = None)
       (\<lambda>u. u\<lparr>u_password_hash := hash, u_role_version := u_role_version u + 1, u_updated_at := now\<rparr>) (users (db v))"
    "argon2_hash E new salt = Some hash" "cache w2 = cache v"
    "cache w1 = cache w3" "users (db w1) = users (db w3)"
    by (auto simp: change_password_def Let_def ok_simps find_user_for_login_def verify_password_coalesced_def
        password_hash_def hash_password_unchecked_def set_password_def record_audit_pool_def record_audit_def insert_audit_def
        split: if_splits option.splits prod.splits)
  with s u show ?thesis by blast
qed

lemma end_other_session_run:
  assumes V: "valkey (vk E) \<alpha>" and run: "end_other_session E s raw w = (Inr y, w')"
  shows "db w' = db w" "ks_hash (\<alpha> (cache w)) k = [] \<Longrightarrow> ks_hash (\<alpha> (cache w')) k = []"
    "raw \<noteq> uuid_str E (s_id s) \<Longrightarrow> uuid_parse E raw = Some i \<Longrightarrow> ks_hash (\<alpha> (cache w')) (session_key E i) = []"
  using run
  by (auto simp: end_other_session_def ok_simps valkey.del_abs [OF V] valkey.srem_abs [OF V] ks_del_def ks_srem_def ks_gone_def
      split: if_splits option.splits)


lemma delete_account_ok:
  assumes run: "delete_account E headers w = (Inr c, w1)"
  shows "\<exists>s v now w2 w3 ys. load_session E headers w = (Inr s, v) \<and>
     for_each (smembers (vk E) (user_sessions_key E (au_id (s_user s))) (cache v)) (\<lambda>raw.
       case uuid_parse E raw of None \<Rightarrow> ok () | Some i \<Rightarrow> vk_write E (del (vk E) [session_key E i])) w2 = (Inr ys, w3) \<and>
     users (db w2) = update_where (\<lambda>u. u_id u = au_id (s_user s) \<and> u_deleted_at u = None)
       (\<lambda>u. u\<lparr>u_deleted_at := Some now, u_disabled_at := Some now, u_role_version := u_role_version u + 1,
               u_updated_at := now\<rparr>) (users (db v)) \<and>
     cache w2 = cache v \<and> db w1 = db w3 \<and> cache w1 = del (vk E) [user_sessions_key E (au_id (s_user s))] (cache w3)"
proof -
  from run obtain s v where s: "load_session E headers w = (Inr s, v)"
    by (auto simp: delete_account_def Let_def ok_simps)
  with run obtain now w2 w3 ys where
    "for_each (smembers (vk E) (user_sessions_key E (au_id (s_user s))) (cache v)) (\<lambda>raw.
       case uuid_parse E raw of None \<Rightarrow> ok () | Some i \<Rightarrow> vk_write E (del (vk E) [session_key E i])) w2 = (Inr ys, w3)"
    "users (db w2) = update_where (\<lambda>u. u_id u = au_id (s_user s) \<and> u_deleted_at u = None)
       (\<lambda>u. u\<lparr>u_deleted_at := Some now, u_disabled_at := Some now, u_role_version := u_role_version u + 1,
               u_updated_at := now\<rparr>) (users (db v))"
    "cache w2 = cache v" "db w1 = db w3" "cache w1 = del (vk E) [user_sessions_key E (au_id (s_user s))] (cache w3)"
    by (auto simp: delete_account_def Let_def ok_simps mark_user_deleted_def record_audit_def insert_audit_def)
  with s show ?thesis by blast
qed

text \<open>
  A deleted account is closed.  After an account deleted itself, every session in its list is gone, and
  no login succeeds as that user; the exception is an account that had been deleted before and enabled
  again by an administrator, which the statement leaves as it is.
\<close>

theorem deleted_account_closed:
  assumes V: "valkey (vk E) \<alpha>" and run: "delete_account E headers w = (Inr c, w1)"
    and later: "users (db w2) = users (db w1)" and again: "login E dummy headers' mail pw w2 = (Inr (hs, user), w3)"
  shows "\<exists>s v. load_session E headers w = (Inr s, v) \<and>
     (\<forall>raw \<in> set (ks_set (\<alpha> (cache v)) (user_sessions_key E (au_id (s_user s)))). \<forall>i.
        uuid_parse E raw = Some i \<longrightarrow> ks_hash (\<alpha> (cache w1)) (session_key E i) = []) \<and>
     (au_id user = au_id (s_user s) \<longrightarrow>
        (\<exists>u \<in> set (users (db w)). u_id u = au_id (s_user s) \<and> u_deleted_at u \<noteq> None \<and> u_disabled_at u = None))"
proof -
  let ?body = "\<lambda>raw. case uuid_parse E raw of None \<Rightarrow> ok () | Some i \<Rightarrow> vk_write E (del (vk E) [session_key E i])"
  from delete_account_ok [OF run] obtain s v now v2 v3 ys where s: "load_session E headers w = (Inr s, v)"
    and loop: "for_each (smembers (vk E) (user_sessions_key E (au_id (s_user s))) (cache v)) ?body v2 = (Inr ys, v3)"
    and us: "users (db v2) = update_where (\<lambda>u. u_id u = au_id (s_user s) \<and> u_deleted_at u = None)
       (\<lambda>u. u\<lparr>u_deleted_at := Some now, u_disabled_at := Some now, u_role_version := u_role_version u + 1,
               u_updated_at := now\<rparr>) (users (db v))"
    and w1: "db w1 = db v3" "cache w1 = del (vk E) [user_sessions_key E (au_id (s_user s))] (cache v3)"
    by blast
  have body: "ks_hash (\<alpha> (cache x)) k = [] \<Longrightarrow> ks_hash (\<alpha> (cache x')) k = []"
      "uuid_parse E raw = Some i \<Longrightarrow> ks_hash (\<alpha> (cache x')) (session_key E i) = []"
    if "?body raw x = (Inr y, x')" for raw x y x' k i
    using that by (auto simp: ok_simps valkey.del_abs [OF V] ks_del_def split: option.splits)
  have gone: "ks_hash (\<alpha> (cache w1)) (session_key E i) = []"
    if "raw \<in> set (ks_set (\<alpha> (cache v)) (user_sessions_key E (au_id (s_user s))))" "uuid_parse E raw = Some i" for raw i
  proof -
    have "ks_hash (\<alpha> (cache v3)) (session_key E i) = []"
      using that body by (intro for_each_empties [where \<alpha> = \<alpha>, OF loop, of raw]) (auto simp: valkey.smembers_abs [OF V])
    then show ?thesis by (simp add: w1 valkey.del_abs [OF V] ks_del_def)
  qed
  have "db v3 = db v2"
    by (rule keeps_on_leaves [of db "for_each _ ?body", OF _ loop]) (intro keeps_intro)+
  moreover have "db v = db w" using load_session_run [OF V s] by blast
  ultimately have users: "users (db w2) = update_where (\<lambda>u. u_id u = au_id (s_user s) \<and> u_deleted_at u = None)
       (\<lambda>u. u\<lparr>u_deleted_at := Some now, u_disabled_at := Some now, u_role_version := u_role_version u + 1,
               u_updated_at := now\<rparr>) (users (db w))"
    using later w1 us by simp
  obtain u where "u \<in> set (users (db w2))" "u_disabled_at u = None" "user = user_from_row (db w2) u"
    using login_ok [OF again] by blast
  then have "\<exists>u \<in> set (users (db w)). u_id u = au_id (s_user s) \<and> u_deleted_at u \<noteq> None \<and> u_disabled_at u = None"
    if "au_id user = au_id (s_user s)"
    using that unfolding users by (auto simp: update_where_def user_from_row_def split: if_splits)
  with s gone show ?thesis by blast
qed

text \<open>
  \<^verbatim>\<open>revoke_session\<close> does not ask whose session it ends: any session whose id is given is gone afterwards.
\<close>

lemma revoke_session_ends_any_session:
  assumes V: "valkey (vk E) \<alpha>" and run: "revoke_session E headers i w = (Inr c, w1)"
  shows "ks_hash (\<alpha> (cache w1)) (session_key E i) = []"
  using run
  by (auto simp: revoke_session_def ok_simps valkey.del_abs [OF V] valkey.srem_abs [OF V] ks_del_def ks_srem_def ks_gone_def
      split: if_splits)

section \<open>Concrete runs\<close>

lemma session_ttl_text [code_unfold]: "show_nat (nat SESSION_TTL_SECONDS) = ''1209600''"
  by (simp add: SESSION_TTL_SECONDS_def show_nat.simps) code_simp

theorem login_spec_witness:
  "\<exists>u \<in> set (users (db demo_chat)). u_disabled_at u = None \<and> verify_password demo_env ''h'' (u_password_hash u) \<and>
     fst (login demo_env ''d'' [] ''ada'' ''h'' demo_chat) =
       Inr (session_headers demo_env 109 ''c0ffee'', user_from_row (db demo_chat) u)"
proof -
  have run: "fst (login demo_env ''d'' [] ''ada'' ''h'' demo_chat) =
      Inr (session_headers demo_env 109 ''c0ffee'', user_from_row (db demo_chat) (demo_account 1 ''ada''))"
    by code_simp
  from login_spec [OF run_fst [OF this]] run show ?thesis by auto
qed

text \<open>Ada has an unused recovery token.\<close>

definition demo_forgot :: "keyspace world" where
  "demo_forgot = demo_chat\<lparr>db := demo_db\<lparr>account_recovery_tokens :=
     [\<lparr>rt_id = 60, rt_user_id = 1, rt_token_hash = demo_token, rt_expires_at = 5000, rt_created_at = 0, rt_used_at = None\<rparr>]\<rparr>\<rparr>"

lemma demo_token_simps: "trim demo_token = demo_token" "length demo_token = 64" "list_all ascii_hexdigit demo_token"
proof -
  have "list_all (\<lambda>c. is_ascii_char c \<and> \<not> is_whitespace [c] \<and> ascii_hexdigit c) demo_token"
    unfolding demo_token_def list_all_iff set_replicate_conv_if by simp code_simp
  then show "trim demo_token = demo_token" "list_all ascii_hexdigit demo_token"
    by (auto intro!: trim_no_whitespace simp: list_all_iff)
qed (simp add: demo_token_def)

lemma demo_reset: "fst (reset_recovery demo_env demo_token ''correct horse battery'' demo_forgot) = Inr ''password reset successfully''"
  by (simp add: reset_recovery_def Let_def demo_token_simps password_hash_def hash_password_unchecked_def try_bind_def io_defs
      map_err_run transaction_def recovery_token_hash_def demo_env_def demo_forgot_def demo_chat_def usable_token_def
      set_password_def use_token_def record_audit_def queue_auth_invalidation_def insert_audit_def insert_outbox_def
      constrained.simps system_audit_def null_or_def has_user_def demo_db_def update_where_def demo_account_def empty_db_def)


text \<open>Ada's second session is 104.\<close>

definition demo_two_sessions :: "keyspace world" where
  "demo_two_sessions = demo_signed_in\<lparr>cache := ks_sadd (user_sessions_key demo_env 1) ''104''
     (ks_hset (session_key demo_env 104) [(''csrf'', ''c''), (''user'', ''u'')] (cache demo_signed_in))\<rparr>"


text \<open>Ada has deleted her account.\<close>

definition demo_without_ada :: "keyspace world" where
  "demo_without_ada = demo_chat\<lparr>db := demo_db\<lparr>users := [(demo_account 1 ''ada'')\<lparr>u_deleted_at := Some 1003,
     u_disabled_at := Some 1003, u_role_version := 2, u_updated_at := 1003\<rparr>, demo_account 2 ''bob'', demo_account 3 ''eve'']\<rparr>\<rparr>"

end
