(* ===== verification/Admin.thy ===== *)
theory Admin
  imports Media Account Presence
begin

text \<open>
  \<^verbatim>\<open>backend/src/api/admin.rs\<close>: administration of users, roles, bans, channels and messages, and the audit trail.
  Every handler asks for a permission, and every one that writes for the CSRF token too.
\<close>

section \<open>Guards\<close>

text \<open>The opening of every handler, and of every handler that writes.\<close>

definition admin_reader :: "'s env \<Rightarrow> header_map \<Rightarrow> string \<Rightarrow> ('s, session) app" where
  "admin_reader E headers permission =
     try_bind (load_session E headers) (\<lambda>session.
     try_bind (lift (require_permission (s_user session) permission)) (\<lambda>_.
     ok session))"

definition admin_writer :: "'s env \<Rightarrow> header_map \<Rightarrow> string \<Rightarrow> ('s, session) app" where
  "admin_writer E headers permission =
     try_bind (load_session E headers) (\<lambda>session.
     try_bind (lift (require_csrf headers session)) (\<lambda>_.
     try_bind (lift (require_permission (s_user session) permission)) (\<lambda>_.
     ok session)))"

abbreviation actor_of :: "session \<Rightarrow> uuid" where
  "actor_of session \<equiv> au_id (s_user session)"

section \<open>Users\<close>

record admin_user_view =
  av_user :: auth_user
  av_disabled_at :: "i64 option"
  av_deleted_at :: "i64 option"
  av_created_at :: i64
  av_updated_at :: i64

definition admin_user_scope :: "'s env \<Rightarrow> database \<Rightarrow> string \<Rightarrow> uuid option \<Rightarrow> user_row list" where
  "admin_user_scope E d q after =
     sort_key u_id (filter (\<lambda>u. u_deleted_at u = None \<and>
         (q = [] \<or> contains_text E q (u_username u) \<or> contains_text E q (u_email u)) \<and>
         (case after of None \<Rightarrow> True | Some i \<Rightarrow> u_id u > i)) (users d))"

definition admin_user_row :: "database \<Rightarrow> user_row \<Rightarrow> admin_user_view" where
  "admin_user_row d u =
     \<lparr>av_user = user_from_row d u, av_disabled_at = u_disabled_at u, av_deleted_at = u_deleted_at u,
      av_created_at = u_created_at u, av_updated_at = u_updated_at u\<rparr>"

definition admin_users ::
  "'s env \<Rightarrow> header_map \<Rightarrow> string option \<Rightarrow> uuid option \<Rightarrow> i64 option \<Rightarrow> ('s, admin_user_view list \<times> uuid option) app" where
  "admin_users E headers q after n =
     try_bind (admin_reader E headers ''users:read'') (\<lambda>session.
     let limit = list_limit n; search = (case q of None \<Rightarrow> [] | Some s \<Rightarrow> s) in
     try_bind (db_query E app_of_sqlx (\<lambda>d.
       map (admin_user_row d) (take (limit + 1) (admin_user_scope E d search after)))) (\<lambda>rows.
     let items = take limit rows;
         next = (if length rows > limit \<and> items \<noteq> [] then Some (au_id (av_user (last items))) else None) in
     ok (items, next)))"

definition admin_disable_user :: "'s env \<Rightarrow> header_map \<Rightarrow> uuid \<Rightarrow> ('s, status_code) app" where
  "admin_disable_user E headers user =
     try_bind (admin_writer E headers ''users:write'') (\<lambda>session.
     try_bind (map_err app_of_repository (set_user_disabled E (actor_of session) user True)) (\<lambda>_.
     ok NO_CONTENT))"

definition admin_enable_user :: "'s env \<Rightarrow> header_map \<Rightarrow> uuid \<Rightarrow> ('s, status_code) app" where
  "admin_enable_user E headers user =
     try_bind (admin_writer E headers ''users:write'') (\<lambda>session.
     try_bind (map_err app_of_repository (set_user_disabled E (actor_of session) user False)) (\<lambda>_.
     ok NO_CONTENT))"

definition close_user :: "i64 \<Rightarrow> uuid \<Rightarrow> nat stmt" where
  "close_user now user d =
     (let p = (\<lambda>u. u_id u = user \<and> u_deleted_at u = None) in
      Inr (rows_matching p (users d),
           d\<lparr>users := update_where p
               (\<lambda>u. u\<lparr>u_deleted_at := coalesce (u_deleted_at u) now, u_disabled_at := coalesce (u_disabled_at u) now,
                       u_role_version := u_role_version u + 1, u_updated_at := now\<rparr>) (users d)\<rparr>))"

definition admin_delete_user :: "'s env \<Rightarrow> header_map \<Rightarrow> uuid \<Rightarrow> ('s, status_code) app" where
  "admin_delete_user E headers user =
     try_bind (admin_writer E headers ''users:write'') (\<lambda>session.
     if user = actor_of session then fail (bad_request ''you cannot delete your own account'')
     else
     try_bind (now_i64 E) (\<lambda>now.
     try_bind (transaction E app_of_sqlx
       (try_bind (db_exec E app_of_sqlx (close_user now user)) (\<lambda>n.
        if n = 0 then fail (app_of_repository NotFound)
        else
        try_bind (record_audit E app_of_sqlx (audit (actor_of session) ''user.deleted'' ''user'' user (JObj []) now)) (\<lambda>_.
        queue_auth_invalidation E app_of_sqlx user now)))) (\<lambda>_.
     ok NO_CONTENT)))"

definition replace_password :: "string \<Rightarrow> i64 \<Rightarrow> uuid \<Rightarrow> nat stmt" where
  "replace_password hash now user d =
     (let p = (\<lambda>u. u_id u = user \<and> u_deleted_at u = None) in
      Inr (rows_matching p (users d),
           d\<lparr>users := update_where p (\<lambda>u. u\<lparr>u_password_hash := hash, u_updated_at := now\<rparr>) (users d)\<rparr>))"

definition admin_reset_password :: "'s env \<Rightarrow> header_map \<Rightarrow> uuid \<Rightarrow> string \<Rightarrow> ('s, status_code) app" where
  "admin_reset_password E headers user password =
     try_bind (admin_writer E headers ''users:write'') (\<lambda>session.
     try_bind (password_hash E password) (\<lambda>hash.
     try_bind (now_i64 E) (\<lambda>now.
     try_bind (transaction E app_of_sqlx
       (try_bind (db_exec E app_of_sqlx (replace_password hash now user)) (\<lambda>n.
        if n = 0 then fail (app_of_repository NotFound)
        else
        try_bind (record_audit E app_of_sqlx (audit (actor_of session) ''user.password_reset'' ''user'' user (JObj []) now)) (\<lambda>_.
        queue_auth_invalidation E app_of_sqlx user now)))) (\<lambda>_.
     ok NO_CONTENT))))"

definition admin_invalidate_sessions :: "'s env \<Rightarrow> header_map \<Rightarrow> uuid \<Rightarrow> ('s, status_code) app" where
  "admin_invalidate_sessions E headers user =
     try_bind (admin_writer E headers ''users:write'') (\<lambda>session.
     try_bind (now_i64 E) (\<lambda>now.
     try_bind (transaction E app_of_sqlx
       (try_bind (record_audit E app_of_sqlx (audit (actor_of session) ''user.sessions_invalidated'' ''user'' user (JObj []) now)) (\<lambda>_.
        queue_auth_invalidation E app_of_sqlx user now))) (\<lambda>_.
     ok NO_CONTENT)))"

section \<open>Roles\<close>

definition collated :: "'s env \<Rightarrow> string \<Rightarrow> string \<times> string" where
  "collated E s = (pg_collate E s, s)"

definition role_listing :: "'s env \<Rightarrow> database \<Rightarrow> (string \<times> string list) list" where
  "role_listing E d =
     map (\<lambda>r. (ro_name r, sort_key (collated E)
            [pe_name p. rp \<leftarrow> role_permissions d, p \<leftarrow> permissions d, rpm_role_id rp = ro_id r \<and> pe_id p = rpm_permission_id rp]))
       (sort_key (collated E \<circ> ro_name) (roles d))"

definition admin_roles :: "'s env \<Rightarrow> header_map \<Rightarrow> ('s, (string \<times> string list) list \<times> string list) app" where
  "admin_roles E headers =
     try_bind (admin_reader E headers ''users:read'') (\<lambda>_.
     try_bind (db_query E app_of_sqlx (role_listing E)) (\<lambda>rows.
     ok (rows, [''user'', ''moderator'', ''admin''])))"

definition admin_permissions :: "'s env \<Rightarrow> header_map \<Rightarrow> ('s, string list) app" where
  "admin_permissions E headers =
     try_bind (admin_reader E headers ''users:read'') (\<lambda>_.
     db_query E app_of_sqlx (\<lambda>d. sort_key (collated E) (map pe_name (permissions d))))"

definition admin_assign_role :: "'s env \<Rightarrow> header_map \<Rightarrow> uuid \<Rightarrow> string \<Rightarrow> ('s, status_code) app" where
  "admin_assign_role E headers user role =
     try_bind (admin_writer E headers ''roles:write'') (\<lambda>session.
     try_bind (map_err app_of_repository (assign_role E (actor_of session) user role)) (\<lambda>_.
     ok NO_CONTENT))"

text \<open>The administrators whose accounts are in use.\<close>

definition active_admins :: "database \<Rightarrow> uuid list" where
  "active_admins d =
     [u_id u. x \<leftarrow> user_roles d, r \<leftarrow> roles d, u \<leftarrow> users d,
        ro_id r = ur_role_id x \<and> u_id u = ur_user_id x \<and> ro_name r = ''admin'' \<and> u_deleted_at u = None \<and> u_disabled_at u = None]"

definition delete_user_role :: "uuid \<Rightarrow> string \<Rightarrow> nat stmt" where
  "delete_user_role user role d =
     (let p = (\<lambda>x. ur_user_id x = user \<and> list_ex (\<lambda>r. ro_id r = ur_role_id x \<and> ro_name r = role) (roles d)) in
      Inr (rows_matching p (user_roles d), d\<lparr>user_roles := filter (\<lambda>x. \<not> p x) (user_roles d)\<rparr>))"

definition admin_remove_role :: "'s env \<Rightarrow> header_map \<Rightarrow> uuid \<Rightarrow> string \<Rightarrow> ('s, status_code) app" where
  "admin_remove_role E headers user role =
     try_bind (admin_writer E headers ''roles:write'') (\<lambda>session.
     try_bind (now_i64 E) (\<lambda>now.
     try_bind (transaction E app_of_sqlx
       (try_bind (if role = ''admin''
                  then try_bind (db_query E app_of_sqlx (\<lambda>d. length (active_admins d))) (\<lambda>count.
                       if count \<le> 1 then fail (bad_request ''the final administrator cannot be removed'') else ok ())
                  else ok ()) (\<lambda>_.
        try_bind (db_exec E app_of_sqlx (delete_user_role user role)) (\<lambda>n.
        if n = 0 then fail (app_of_repository NotFound)
        else
        try_bind (db_exec E app_of_sqlx (bump_role_version now user)) (\<lambda>_.
        try_bind (record_audit E app_of_sqlx
          (audit (actor_of session) ''user.role_removed'' ''user'' user (JObj [(''role'', JStr role)]) now)) (\<lambda>_.
        queue_auth_invalidation E app_of_sqlx user now)))))) (\<lambda>_.
     ok NO_CONTENT)))"

section \<open>Operations\<close>

definition admin_participants :: "'s env \<Rightarrow> header_map \<Rightarrow> string \<Rightarrow> ('s, participant list) app" where
  "admin_participants E headers channel =
     try_bind (admin_reader E headers ''users:read'') (\<lambda>_.
     list_presence E channel)"

record operations_view =
  op_outbox_pending :: nat
  op_notification_deliveries_pending :: nat
  op_active_users :: nat

text \<open>The number of open sockets is a gauge of the process and is left out.\<close>

definition admin_operations :: "'s env \<Rightarrow> header_map \<Rightarrow> ('s, operations_view) app" where
  "admin_operations E headers =
     try_bind (admin_reader E headers ''users:read'') (\<lambda>_.
     try_bind (db_query E app_of_sqlx (\<lambda>d. rows_matching (\<lambda>o'. o_published_at o' = None) (outbox_events d))) (\<lambda>pending.
     try_bind (db_query E app_of_sqlx (\<lambda>d. rows_matching (\<lambda>j. d_sent_at j = None) (notification_deliveries d))) (\<lambda>pending_notifications.
     try_bind (db_query E app_of_sqlx (\<lambda>d. rows_matching (\<lambda>u. u_disabled_at u = None) (users d))) (\<lambda>active.
     try_bind (connection E) (\<lambda>_.
     try_bind (vk_read E (\<lambda>_. ())) (\<lambda>_.
     ok \<lparr>op_outbox_pending = pending, op_notification_deliveries_pending = pending_notifications, op_active_users = active\<rparr>))))))"

section \<open>Bans\<close>

record ban_view =
  bv_ban :: ban_row
  bv_username :: string
  bv_channel :: "string option"

definition ban_rows :: "database \<Rightarrow> uuid option \<Rightarrow> ban_view list" where
  "ban_rows d user =
     map (\<lambda>(b, u, c). \<lparr>bv_ban = b, bv_username = u_username u, bv_channel = map_option ch_name c\<rparr>)
       (order_desc (\<lambda>(b, _). (b_created_at b, b_id b))
         [(b, u, c). b \<leftarrow> user_bans d, u \<leftarrow> users d, c \<leftarrow> left_join (filter (\<lambda>c. Some (ch_id c) = b_channel_id b) (channels d)),
            u_id u = b_user_id b \<and> (case user of None \<Rightarrow> True | Some i \<Rightarrow> b_user_id b = i)])"

definition admin_bans :: "'s env \<Rightarrow> header_map \<Rightarrow> uuid option \<Rightarrow> i64 option \<Rightarrow> ('s, ban_view list) app" where
  "admin_bans E headers user limit =
     try_bind (admin_reader E headers ''moderation:read'') (\<lambda>_.
     db_query E app_of_sqlx (\<lambda>d. take (list_limit limit) (ban_rows d user)))"

definition insert_ban :: "ban_row \<Rightarrow> unit stmt" where
  "insert_ban b d =
     constrained [(\<not> list_ex (\<lambda>x. b_id x = b_id b) (user_bans d), ''user_bans_pkey''),
                  (has_user d (b_user_id b), ''user_bans_user_id_fkey''),
                  (null_or (has_channel d) (b_channel_id b), ''user_bans_channel_id_fkey''),
                  (null_or (has_user d) (b_created_by b), ''user_bans_created_by_fkey'')]
       ((), d\<lparr>user_bans := user_bans d @ [b]\<rparr>)"

record ban_request =
  br_user_id :: uuid
  br_channel :: "string option"
  br_reason :: string
  br_expires_at :: "i64 option"

definition check_expiry :: "'s env \<Rightarrow> i64 option \<Rightarrow> ('s, unit) app" where
  "check_expiry E expires_at =
     (case expires_at of
        None \<Rightarrow> ok ()
      | Some t \<Rightarrow> try_bind (now_i64 E) (\<lambda>now.
          if t \<le> now then fail (bad_request ''ban expiry must be in the future'') else ok ()))"

definition ban_channel :: "'s env \<Rightarrow> string option \<Rightarrow> ('s, uuid option) app" where
  "ban_channel E channel =
     (case channel of
        None \<Rightarrow> ok None
      | Some name \<Rightarrow>
          try_bind (db_query E app_of_sqlx (\<lambda>d. map_option ch_id (find (\<lambda>c. ch_name c = name \<and> ch_deleted_at c = None) (channels d)))) (\<lambda>r.
          try_bind (ok_or (app_of_repository NotFound) r) (\<lambda>i. ok (Some i))))"

definition admin_create_ban :: "'s env \<Rightarrow> header_map \<Rightarrow> ban_request \<Rightarrow> ('s, status_code \<times> uuid) app" where
  "admin_create_ban E headers request =
     try_bind (admin_writer E headers ''moderation:write'') (\<lambda>session.
     let reason = trim (br_reason request) in
     if reason = [] \<or> length reason > 500 then fail (bad_request (''ban reason must be 1'' @ en_dash @ ''500 characters''))
     else
     try_bind (check_expiry E (br_expires_at request)) (\<lambda>_.
     try_bind (db_query E app_of_sqlx (\<lambda>d. list_ex (\<lambda>u. u_id u = br_user_id request \<and> u_deleted_at u = None) (users d))) (\<lambda>user_exists.
     if \<not> user_exists then fail (app_of_repository NotFound)
     else
     try_bind (ban_channel E (br_channel request)) (\<lambda>channel_id.
     try_bind (uuid_now_v7 E) (\<lambda>i.
     try_bind (now_i64 E) (\<lambda>now.
     try_bind (db_exec E app_of_sqlx (insert_ban
       \<lparr>b_id = i, b_user_id = br_user_id request, b_channel_id = channel_id, b_reason = reason, b_created_by = Some (actor_of session),
        b_expires_at = br_expires_at request, b_created_at = now, b_revoked_at = None, b_revoked_by = None\<rparr>)) (\<lambda>_.
     try_bind (record_audit_pool E app_of_sqlx (audit (actor_of session) ''user.banned'' ''user'' (br_user_id request)
       (JObj [(''reason'', JStr reason), (''channel_id'', json_opt (map_option (uuid_str E) channel_id))]) now)) (\<lambda>_.
     ok (CREATED, i)))))))))"

definition revoke_ban :: "i64 \<Rightarrow> uuid \<Rightarrow> uuid \<Rightarrow> uuid option stmt" where
  "revoke_ban now actor i d =
     (let p = (\<lambda>b. b_id b = i \<and> b_revoked_at b = None) in
      constrained [(\<not> list_ex p (user_bans d) \<or> has_user d actor, ''user_bans_revoked_by_fkey'')]
        (map_option b_user_id (find p (user_bans d)),
         d\<lparr>user_bans := update_where p (\<lambda>b. b\<lparr>b_revoked_at := Some now, b_revoked_by := Some actor\<rparr>) (user_bans d)\<rparr>))"

definition admin_revoke_ban :: "'s env \<Rightarrow> header_map \<Rightarrow> uuid \<Rightarrow> ('s, status_code) app" where
  "admin_revoke_ban E headers i =
     try_bind (admin_writer E headers ''moderation:write'') (\<lambda>session.
     try_bind (now_i64 E) (\<lambda>now.
     try_bind (transaction E app_of_sqlx
       (try_bind (db_exec E app_of_sqlx (revoke_ban now (actor_of session) i)) (\<lambda>r.
        try_bind (ok_or (app_of_repository NotFound) r) (\<lambda>user_id.
        record_audit E app_of_sqlx (audit (actor_of session) ''user.ban_revoked'' ''user'' user_id
          (JObj [(''ban_id'', JStr (uuid_str E i))]) now))))) (\<lambda>_.
     ok NO_CONTENT)))"

section \<open>Channels\<close>

definition admin_channel_rows :: "'s env \<Rightarrow> database \<Rightarrow> string \<Rightarrow> (channel_row \<times> nat) list" where
  "admin_channel_rows E d q =
     map (\<lambda>c. (c, rows_matching (\<lambda>m. cmb_channel_id m = ch_id c) (channel_members d)))
       (sort_key (\<lambda>c. (ch_name c \<noteq> ''main'', collated E (ch_name c)))
         (filter (\<lambda>c. q = [] \<or> contains_text E q (ch_name c)) (channels d)))"

definition admin_channels :: "'s env \<Rightarrow> header_map \<Rightarrow> string option \<Rightarrow> i64 option \<Rightarrow> ('s, (channel_row \<times> nat) list) app" where
  "admin_channels E headers q limit =
     try_bind (admin_reader E headers ''channels:read'') (\<lambda>_.
     db_query E app_of_sqlx (\<lambda>d. take (list_limit limit) (admin_channel_rows E d (case q of None \<Rightarrow> [] | Some s \<Rightarrow> s))))"

record channel_request =
  cq_name :: "string option"
  cq_description :: "string option"
  cq_retention_days :: "int option"
  cq_posting_restricted :: "bool option"

definition validate_retention_days :: "int option \<Rightarrow> app_error + int option" where
  "validate_retention_days v =
     (case v of
        None \<Rightarrow> Inr None
      | Some days \<Rightarrow> if \<not> (1 \<le> days \<and> days \<le> 3650) then Inl (bad_request ''retention must be between 1 and 3650 days'') else Inr v)"

text \<open>\<^verbatim>\<open>COALESCE($n, column)\<close>\<close>

definition or_keep :: "'a option \<Rightarrow> 'a \<Rightarrow> 'a" where
  "or_keep v old = (case v of None \<Rightarrow> old | Some x \<Rightarrow> x)"

definition apply_settings :: "channel_request \<Rightarrow> channel_row \<Rightarrow> channel_row" where
  "apply_settings q c = c\<lparr>ch_description := or_keep (cq_description q) (ch_description c),
     ch_retention_days := or_keep (cq_retention_days q) (ch_retention_days c),
     ch_posting_restricted := or_keep (cq_posting_restricted q) (ch_posting_restricted c)\<rparr>"

definition set_channel_settings :: "channel_request \<Rightarrow> string \<Rightarrow> unit stmt" where
  "set_channel_settings q name d =
     Inr ((), d\<lparr>channels := update_where (\<lambda>c. ch_name c = name) (apply_settings q) (channels d)\<rparr>)"

definition admin_create_channel :: "'s env \<Rightarrow> header_map \<Rightarrow> channel_request \<Rightarrow> ('s, status_code \<times> string) app" where
  "admin_create_channel E headers request =
     try_bind (admin_writer E headers ''channels:write'') (\<lambda>session.
     try_bind (lift (normalize_channel_name (uni E) (or_keep (cq_name request) []))) (\<lambda>name.
     if name = MAIN_CHANNEL then fail (bad_request ''main is reserved'')
     else
     try_bind (lift (validate_retention_days (cq_retention_days request))) (\<lambda>_.
     try_bind (map_err app_of_repository (create_channel E name)) (\<lambda>created.
     if \<not> created then fail (bad_request ''channel already exists'')
     else
     try_bind (db_exec E app_of_sqlx (set_channel_settings request name)) (\<lambda>_.
     try_bind (db_query E app_of_sqlx (\<lambda>d. map_option ch_id (find (\<lambda>c. ch_name c = name) (channels d)))) (\<lambda>r.
     try_bind (ok_or (app_of_sqlx SqlxRowNotFound) r) (\<lambda>channel_id.
     try_bind (now_i64 E) (\<lambda>now.
     try_bind (record_audit_pool E app_of_sqlx (audit (actor_of session) ''channel.created'' ''channel'' channel_id (JObj []) now)) (\<lambda>_.
     try_bind (publish_system_message E name (au_username (s_user session) @ '' created this channel'')) (\<lambda>_.
     ok (CREATED, name)))))))))))"

definition update_channel :: "string option \<Rightarrow> channel_request \<Rightarrow> uuid \<Rightarrow> unit stmt" where
  "update_channel name q i d =
     constrained [(case name of None \<Rightarrow> True | Some n \<Rightarrow> \<not> has_channel d i \<or> \<not> list_ex (\<lambda>c. ch_id c \<noteq> i \<and> ch_name c = n) (channels d),
                   ''channels_name_key'')]
       ((), d\<lparr>channels := update_where (\<lambda>c. ch_id c = i)
                (\<lambda>c. apply_settings q (c\<lparr>ch_name := or_keep name (ch_name c)\<rparr>)) (channels d)\<rparr>)"

definition new_name :: "unicode \<Rightarrow> string \<Rightarrow> string option \<Rightarrow> app_error + string option" where
  "new_name U current raw =
     (case raw of
        None \<Rightarrow> Inr None
      | Some r \<Rightarrow>
          (case normalize_channel_name U r of
             Inl e \<Rightarrow> Inl e
           | Inr n \<Rightarrow> if current = MAIN_CHANNEL \<and> n \<noteq> MAIN_CHANNEL then Inl (bad_request ''main cannot be renamed'') else Inr (Some n)))"

definition admin_update_channel :: "'s env \<Rightarrow> header_map \<Rightarrow> uuid \<Rightarrow> channel_request \<Rightarrow> ('s, status_code) app" where
  "admin_update_channel E headers i request =
     try_bind (admin_writer E headers ''channels:write'') (\<lambda>session.
     try_bind (transaction E app_of_sqlx
       (try_bind (db_query E app_of_sqlx (\<lambda>d. map_option ch_name (find (\<lambda>c. ch_id c = i \<and> ch_deleted_at c = None) (channels d)))) (\<lambda>r.
        try_bind (ok_or (app_of_repository NotFound) r) (\<lambda>current.
        try_bind (lift (new_name (uni E) current (cq_name request))) (\<lambda>name.
        try_bind (lift (validate_retention_days (cq_retention_days request))) (\<lambda>_.
        try_bind (db_exec E app_of_sqlx (update_channel name request i)) (\<lambda>_.
        try_bind (now_i64 E) (\<lambda>now.
        record_audit E app_of_sqlx (audit (actor_of session) ''channel.updated'' ''channel'' i (JObj []) now)))))))))
       (\<lambda>_. ok NO_CONTENT))"

definition set_channel_state :: "string \<Rightarrow> i64 \<Rightarrow> uuid \<Rightarrow> unit stmt" where
  "set_channel_state action now i d =
     (let set = (\<lambda>f. ((), d\<lparr>channels := update_where (\<lambda>c. ch_id c = i) f (channels d)\<rparr>)) in
      if action = ''archive'' then Inr (set (\<lambda>c. c\<lparr>ch_archived_at := coalesce (ch_archived_at c) now\<rparr>))
      else if action = ''restore'' then Inr (set (\<lambda>c. c\<lparr>ch_archived_at := None\<rparr>))
      else if action = ''delete'' then Inr (set (\<lambda>c. c\<lparr>ch_deleted_at := coalesce (ch_deleted_at c) now\<rparr>))
      else constrained [(\<not> list_ex (\<lambda>c. ch_id c = i \<and> ch_deleted_at c \<noteq> None \<and> ch_kind c = Direct \<and>
               (case ch_direct_key c of None \<Rightarrow> False | Some k \<Rightarrow> direct_key_taken d k)) (channels d), ''channels_direct_key_idx'')]
             (set (\<lambda>c. c\<lparr>ch_deleted_at := None\<rparr>)))"

definition channel_action :: "string \<Rightarrow> app_error + unit" where
  "channel_action action =
     (if action \<in> set [''archive'', ''restore'', ''delete'', ''undelete''] then Inr () else Inl (bad_request ''unknown channel action''))"

definition admin_channel_state :: "'s env \<Rightarrow> header_map \<Rightarrow> uuid \<Rightarrow> string \<Rightarrow> ('s, status_code) app" where
  "admin_channel_state E headers i action =
     try_bind (admin_writer E headers ''channels:write'') (\<lambda>session.
     try_bind (transaction E app_of_sqlx
       (try_bind (db_query E app_of_sqlx (\<lambda>d. map_option ch_name (find (\<lambda>c. ch_id c = i) (channels d)))) (\<lambda>r.
        try_bind (ok_or (app_of_repository NotFound) r) (\<lambda>name.
        if name = MAIN_CHANNEL then fail (bad_request ''main cannot be changed'')
        else
        try_bind (now_i64 E) (\<lambda>now.
        try_bind (lift (channel_action action)) (\<lambda>_.
        try_bind (db_exec E app_of_sqlx (set_channel_state action now i)) (\<lambda>_.
        try_bind (record_audit E app_of_sqlx (audit (actor_of session) (''channel.'' @ action) ''channel'' i (JObj []) now)) (\<lambda>_.
        ok name)))))))) (\<lambda>name.
     try_bind
       (if action = ''archive'' then publish_system_message E name ''This channel was archived and is now read-only''
        else if action = ''restore'' then publish_system_message E name ''This channel was restored''
        else ok ()) (\<lambda>_.
     ok NO_CONTENT)))"

section \<open>Messages\<close>

record admin_query =
  aq_channel :: "string option"
  aq_user :: "uuid option"
  aq_from :: "i64 option"
  aq_to :: "i64 option"
  aq_deleted :: "bool option"
  aq_limit :: "i64 option"

record admin_message_view =
  am_id :: uuid
  am_channel :: string
  am_username :: string
  am_text :: string
  am_created_at :: i64
  am_edited :: bool
  am_deleted_at :: "i64 option"
  am_deletion_reason :: "string option"

definition admin_message_wanted :: "database \<Rightarrow> admin_query \<Rightarrow> msg_row \<times> channel_row \<Rightarrow> bool" where
  "admin_message_wanted d q = (\<lambda>(m, c).
     (case aq_channel q of None \<Rightarrow> True | Some n \<Rightarrow> ch_name c = n) \<and>
     (case aq_user q of None \<Rightarrow> True | Some i \<Rightarrow> list_ex (\<lambda>u. u_username u = m_username m \<and> u_id u = i) (users d)) \<and>
     (case aq_from q of None \<Rightarrow> True | Some t \<Rightarrow> m_created_at m \<ge> t) \<and>
     (case aq_to q of None \<Rightarrow> True | Some t \<Rightarrow> m_created_at m \<le> t) \<and>
     (if or_keep (aq_deleted q) False then m_deleted_at m \<noteq> None else m_deleted_at m = None))"

definition admin_message_rows :: "database \<Rightarrow> admin_query \<Rightarrow> admin_message_view list" where
  "admin_message_rows d q =
     map (\<lambda>(m, c). \<lparr>am_id = m_id m, am_channel = ch_name c, am_username = m_username m, am_text = m_text m,
            am_created_at = m_created_at m, am_edited = m_edited m, am_deleted_at = m_deleted_at m,
            am_deletion_reason = m_deletion_reason m\<rparr>)
       (order_desc message_order (filter (admin_message_wanted d q) (messages_join_channels d)))"

definition admin_messages :: "'s env \<Rightarrow> header_map \<Rightarrow> admin_query \<Rightarrow> ('s, admin_message_view list) app" where
  "admin_messages E headers q =
     try_bind (admin_reader E headers ''moderation:read'') (\<lambda>_.
     db_query E app_of_sqlx (\<lambda>d. take (list_limit (aq_limit q)) (admin_message_rows d q)))"

text \<open>
  The statements of a moderation; \<open>guard\<close> is the additional condition of the bulk form, that the message is
  not in the wanted state yet.
\<close>

definition hide_message :: "(msg_row \<Rightarrow> bool) \<Rightarrow> i64 \<Rightarrow> uuid \<Rightarrow> string option \<Rightarrow> uuid \<Rightarrow> nat stmt" where
  "hide_message guard now actor reason i d =
     (let p = (\<lambda>m. m_id m = i \<and> guard m) in
      constrained [(\<not> list_ex p (messages d) \<or> has_user d actor, ''messages_deleted_by_fkey'')]
        (rows_matching p (messages d),
         d\<lparr>messages := update_where p
             (\<lambda>m. m\<lparr>m_deleted_at := Some now, m_deleted_by := Some actor, m_deletion_reason := reason\<rparr>) (messages d)\<rparr>))"

definition restore_message :: "(msg_row \<Rightarrow> bool) \<Rightarrow> uuid \<Rightarrow> nat stmt" where
  "restore_message guard i d =
     (let p = (\<lambda>m. m_id m = i \<and> guard m) in
      Inr (rows_matching p (messages d),
           d\<lparr>messages := update_where p
               (\<lambda>m. m\<lparr>m_deleted_at := None, m_deleted_by := None, m_deletion_reason := None\<rparr>) (messages d)\<rparr>))"

definition refresh_moderated_message :: "'s env \<Rightarrow> uuid \<Rightarrow> ('s, unit) app" where
  "refresh_moderated_message E i =
     try_bind (attempt (db_query E app_of_sqlx (\<lambda>d.
       map_option (select_message d) (find (\<lambda>(m, c). m_id m = i \<and> ch_deleted_at c = None) (messages_join_channels d))))) (\<lambda>r.
     case r of
       Inl _ \<Rightarrow> ok ()
     | Inr row \<Rightarrow>
         (case row of
            None \<Rightarrow> ok ()
          | Some row \<Rightarrow>
              (case try_from_row row of
                 Inl _ \<Rightarrow> ok ()
               | Inr m \<Rightarrow>
                   try_bind (ignore (broadcast E (cm_channel m) (MessageUpdated m))) (\<lambda>_.
                   try_bind (attempt (connection E)) (\<lambda>c.
                   case c of
                     Inl _ \<Rightarrow> ok ()
                   | Inr _ \<Rightarrow>
                       try_bind (ignore (vk_write E (del (vk E) [history_key (cm_channel m)]))) (\<lambda>_.
                       ignore (vk_write E (del (vk E) [history_order_key (cm_channel m)]))))))))"

definition admin_moderate_message :: "'s env \<Rightarrow> header_map \<Rightarrow> uuid \<Rightarrow> string \<Rightarrow> string option \<Rightarrow> ('s, status_code) app" where
  "admin_moderate_message E headers i action reason =
     try_bind (admin_writer E headers ''moderation:write'') (\<lambda>session.
     try_bind (now_i64 E) (\<lambda>now.
     try_bind (transaction E app_of_sqlx
       (try_bind (db_query E app_of_sqlx (\<lambda>d. find (\<lambda>(m, c). m_id m = i) (messages_join_channels d))) (\<lambda>r.
        try_bind (ok_or (app_of_repository NotFound) r) (\<lambda>_.
        try_bind
          (if action = ''delete'' then db_exec E app_of_sqlx (hide_message (\<lambda>_. True) now (actor_of session) reason i)
           else if action = ''restore'' then db_exec E app_of_sqlx (restore_message (\<lambda>_. True) i)
           else fail (bad_request ''unknown moderation action'')) (\<lambda>_.
        record_audit E app_of_sqlx (audit (actor_of session) (''message.'' @ action) ''message'' i
          (JObj [(''reason'', json_opt reason)]) now)))))) (\<lambda>_.
     try_bind (refresh_moderated_message E i) (\<lambda>_.
     ok NO_CONTENT))))"

record edit_view =
  ev_id :: uuid
  ev_editor_user_id :: "uuid option"
  ev_previous_text :: string
  ev_created_at :: i64

definition admin_message_history :: "'s env \<Rightarrow> header_map \<Rightarrow> uuid \<Rightarrow> ('s, edit_view list) app" where
  "admin_message_history E headers i =
     try_bind (admin_reader E headers ''moderation:read'') (\<lambda>_.
     db_query E app_of_sqlx (\<lambda>d.
       map (\<lambda>e. \<lparr>ev_id = e_id e, ev_editor_user_id = e_editor_user_id e, ev_previous_text = e_previous_text e,
                 ev_created_at = e_created_at e\<rparr>)
         (order_desc (\<lambda>e. (e_created_at e, e_id e)) (filter (\<lambda>e. e_message_id e = i) (message_edit_history d)))))"

definition bulk_one :: "'s env \<Rightarrow> uuid \<Rightarrow> string \<Rightarrow> string option \<Rightarrow> i64 \<Rightarrow> uuid \<Rightarrow> ('s, uuid \<times> bool) app" where
  "bulk_one E actor action reason now i =
     try_bind
       (if action = ''delete'' then db_exec E app_of_sqlx (hide_message (\<lambda>m. m_deleted_at m = None) now actor reason i)
        else db_exec E app_of_sqlx (restore_message (\<lambda>m. m_deleted_at m \<noteq> None) i)) (\<lambda>n.
     try_bind (when_do (n > 0) (record_audit E app_of_sqlx (audit actor (''message.'' @ action) ''message'' i
       (JObj [(''reason'', json_opt reason), (''bulk'', JBool True)]) now))) (\<lambda>_.
     ok (i, n > 0)))"

definition admin_bulk_moderate ::
  "'s env \<Rightarrow> header_map \<Rightarrow> uuid list \<Rightarrow> string \<Rightarrow> string option \<Rightarrow> ('s, (uuid \<times> bool) list) app" where
  "admin_bulk_moderate E headers ids action reason =
     try_bind (admin_writer E headers ''moderation:write'') (\<lambda>session.
     if ids = [] \<or> length ids > 100 then fail (bad_request (''bulk moderation must contain 1'' @ en_dash @ ''100 messages''))
     else if action \<noteq> ''delete'' \<and> action \<noteq> ''restore'' then fail (bad_request ''unknown moderation action'')
     else
     try_bind (now_i64 E) (\<lambda>now.
     try_bind (transaction E app_of_sqlx (for_each ids (bulk_one E (actor_of session) action reason now))) (\<lambda>results.
     try_bind (for_each (map fst (filter snd results)) (refresh_moderated_message E)) (\<lambda>_.
     ok results))))"

section \<open>The audit trail\<close>

definition audit_rows :: "database \<Rightarrow> uuid option \<Rightarrow> string option \<Rightarrow> uuid option \<Rightarrow> audit_row list" where
  "audit_rows d actor action target =
     order_desc (\<lambda>a. (a_created_at a, a_id a))
       (filter (\<lambda>a. (case actor of None \<Rightarrow> True | Some u \<Rightarrow> a_actor_user_id a = Some u) \<and>
                     (case action of None \<Rightarrow> True | Some s \<Rightarrow> a_action a = s) \<and>
                     (case target of None \<Rightarrow> True | Some i \<Rightarrow> a_target_id a = i)) (audit_events d))"

definition admin_audit ::
  "'s env \<Rightarrow> header_map \<Rightarrow> uuid option \<Rightarrow> string option \<Rightarrow> uuid option \<Rightarrow> i64 option \<Rightarrow> ('s, audit_row list) app" where
  "admin_audit E headers actor action target limit =
     try_bind (admin_reader E headers ''audit:read'') (\<lambda>_.
     db_query E app_of_sqlx (\<lambda>d. take (list_limit limit) (audit_rows d actor action target)))"

section \<open>Requests\<close>

text \<open>The administration routes of \<^verbatim>\<open>routes.rs\<close>, with what the handler of each one needs.\<close>

datatype admin_request =
    AUsers "string option" "uuid option" "i64 option"
  | ADisable uuid | AEnable uuid | ADelete uuid | AResetPassword uuid string | AInvalidate uuid
  | AAssignRole uuid string | ARemoveRole uuid string
  | AAudit "uuid option" "string option" "uuid option" "i64 option"
  | ARoles | APermissions | AParticipants string | AOperations
  | ABans "uuid option" "i64 option" | ACreateBan ban_request | ARevokeBan uuid
  | AChannels "string option" "i64 option" | ACreateChannel channel_request | AUpdateChannel uuid channel_request
  | AChannelState uuid string
  | AMessages admin_query | ABulkModerate "uuid list" string "string option" | AHistory uuid
  | AModerate uuid string "string option"

definition answered :: "('s, 'a) app \<Rightarrow> ('s, unit) app" where
  "answered m = try_bind m (\<lambda>_. ok ())"

fun handle_admin :: "'s env \<Rightarrow> header_map \<Rightarrow> admin_request \<Rightarrow> ('s, unit) app" where
  "handle_admin E hs (AUsers q a n) = answered (admin_users E hs q a n)"
| "handle_admin E hs (ADisable u) = answered (admin_disable_user E hs u)"
| "handle_admin E hs (AEnable u) = answered (admin_enable_user E hs u)"
| "handle_admin E hs (ADelete u) = answered (admin_delete_user E hs u)"
| "handle_admin E hs (AResetPassword u p) = answered (admin_reset_password E hs u p)"
| "handle_admin E hs (AInvalidate u) = answered (admin_invalidate_sessions E hs u)"
| "handle_admin E hs (AAssignRole u r) = answered (admin_assign_role E hs u r)"
| "handle_admin E hs (ARemoveRole u r) = answered (admin_remove_role E hs u r)"
| "handle_admin E hs (AAudit a b c n) = answered (admin_audit E hs a b c n)"
| "handle_admin E hs ARoles = answered (admin_roles E hs)"
| "handle_admin E hs APermissions = answered (admin_permissions E hs)"
| "handle_admin E hs (AParticipants c) = answered (admin_participants E hs c)"
| "handle_admin E hs AOperations = answered (admin_operations E hs)"
| "handle_admin E hs (ABans u n) = answered (admin_bans E hs u n)"
| "handle_admin E hs (ACreateBan r) = answered (admin_create_ban E hs r)"
| "handle_admin E hs (ARevokeBan i) = answered (admin_revoke_ban E hs i)"
| "handle_admin E hs (AChannels q n) = answered (admin_channels E hs q n)"
| "handle_admin E hs (ACreateChannel r) = answered (admin_create_channel E hs r)"
| "handle_admin E hs (AUpdateChannel i r) = answered (admin_update_channel E hs i r)"
| "handle_admin E hs (AChannelState i a) = answered (admin_channel_state E hs i a)"
| "handle_admin E hs (AMessages q) = answered (admin_messages E hs q)"
| "handle_admin E hs (ABulkModerate is a r) = answered (admin_bulk_moderate E hs is a r)"
| "handle_admin E hs (AHistory i) = answered (admin_message_history E hs i)"
| "handle_admin E hs (AModerate i a r) = answered (admin_moderate_message E hs i a r)"

text \<open>The table of permissions, and which requests only read.\<close>

fun admin_permission :: "admin_request \<Rightarrow> string" where
  "admin_permission (ADisable _) = ''users:write''"
| "admin_permission (AEnable _) = ''users:write''"
| "admin_permission (ADelete _) = ''users:write''"
| "admin_permission (AResetPassword _ _) = ''users:write''"
| "admin_permission (AInvalidate _) = ''users:write''"
| "admin_permission (AAssignRole _ _) = ''roles:write''"
| "admin_permission (ARemoveRole _ _) = ''roles:write''"
| "admin_permission (AAudit _ _ _ _) = ''audit:read''"
| "admin_permission (ABans _ _) = ''moderation:read''"
| "admin_permission (ACreateBan _) = ''moderation:write''"
| "admin_permission (ARevokeBan _) = ''moderation:write''"
| "admin_permission (AChannels _ _) = ''channels:read''"
| "admin_permission (ACreateChannel _) = ''channels:write''"
| "admin_permission (AUpdateChannel _ _) = ''channels:write''"
| "admin_permission (AChannelState _ _) = ''channels:write''"
| "admin_permission (AMessages _) = ''moderation:read''"
| "admin_permission (ABulkModerate _ _ _) = ''moderation:write''"
| "admin_permission (AHistory _) = ''moderation:read''"
| "admin_permission (AModerate _ _ _) = ''moderation:write''"
| "admin_permission _ = ''users:read''"

definition admin_reads :: "admin_request \<Rightarrow> bool" where
  "admin_reads r = (case r of AUsers _ _ _ \<Rightarrow> True | AAudit _ _ _ _ \<Rightarrow> True | ARoles \<Rightarrow> True | APermissions \<Rightarrow> True
     | AParticipants _ \<Rightarrow> True | AOperations \<Rightarrow> True | ABans _ _ \<Rightarrow> True | AChannels _ _ \<Rightarrow> True | AMessages _ \<Rightarrow> True
     | AHistory _ \<Rightarrow> True | _ \<Rightarrow> False)"

text \<open>Every handler opens with its guard.\<close>

lemma handle_admin_guarded:
  "\<exists>k. handle_admin E hs r = try_bind ((if admin_reads r then admin_reader else admin_writer) E hs (admin_permission r)) k"
proof -
  have guarded: "\<exists>k. answered (try_bind g f) = try_bind g k" for g :: "('s, session) app" and f
    by (auto simp: answered_def try_bind_assoc)
  show ?thesis
    by (cases r; simp only: handle_admin.simps admin_reads_def admin_request.case admin_permission.simps if_True if_False
          admin_users_def admin_disable_user_def admin_enable_user_def admin_delete_user_def admin_reset_password_def
          admin_invalidate_sessions_def admin_assign_role_def admin_remove_role_def admin_audit_def admin_roles_def
          admin_permissions_def admin_participants_def admin_operations_def admin_bans_def admin_create_ban_def
          admin_revoke_ban_def admin_channels_def admin_create_channel_def admin_update_channel_def
          admin_channel_state_def admin_messages_def admin_bulk_moderate_def admin_message_history_def
          admin_moderate_message_def guarded)
qed

lemma keeps_on_admin_guard [keeps_intro]:
  "keeps_on db Q (admin_reader E hs p)" "keeps_on db Q (admin_writer E hs p)"
  "keeps_on socket S (admin_reader E hs p)" "keeps_on socket S (admin_writer E hs p)"
  unfolding admin_reader_def admin_writer_def by (intro keeps_intro)+

lemma admin_guard_ok:
  "admin_reader E hs p w = (Inr s, w') \<longleftrightarrow> load_session E hs w = (Inr s, w') \<and> require_permission (s_user s) p = Inr ()"
  "admin_writer E hs p w = (Inr s, w') \<longleftrightarrow>
     load_session E hs w = (Inr s, w') \<and> require_csrf hs s = Inr () \<and> require_permission (s_user s) p = Inr ()"
  by (auto simp: admin_reader_def admin_writer_def ok_simps)

text \<open>
  C22: administration needs the permission of the request.  A request to any administration route that is
  answered without an error came with a stored session whose user has the permission the route asks for
  and, if the route writes, with that session's CSRF token.  A request without them ends with an error
  and leaves the tables and the socket as they were.
\<close>

theorem admin_needs_permission:
  "(\<exists>s v. load_session E hs w = (Inr s, v) \<and> admin_permission r \<in> set (au_permissions (s_user s)) \<and>
      (admin_reads r \<or> require_csrf hs s = Inr ())) \<or>
   (\<exists>e w'. handle_admin E hs r w = (Inl e, w') \<and> db w' = db w \<and> socket w' = socket w)"
proof -
  let ?g = "(if admin_reads r then admin_reader else admin_writer) E hs (admin_permission r)"
  obtain k where k: "handle_admin E hs r = try_bind ?g k" using handle_admin_guarded by blast
  obtain x v where run: "?g w = (x, v)" by (cases "?g w")
  show ?thesis
  proof (cases x)
    case (Inl e)
    have g: "keeps_on db Q ?g" "keeps_on socket S ?g" for Q S
      by (simp_all add: keeps_intro)
    have "db v = db w" "socket v = socket w"
      by (rule keeps_on_leaves [of db ?g, OF g(1) run], rule keeps_on_leaves [of socket ?g, OF g(2) run])
    with Inl run k show ?thesis by (simp add: try_bind_def)
  next
    case (Inr s)
    with run have "load_session E hs w = (Inr s, v)" "require_permission (s_user s) (admin_permission r) = Inr ()"
      "admin_reads r \<or> require_csrf hs s = Inr ()"
      by (auto simp: admin_guard_ok split: if_splits)
    then show ?thesis
      by (auto simp: require_permission_def list_ex_iff split: if_splits)
  qed
qed

section \<open>Moderation\<close>

lemma keeps_on_refresh [keeps_intro]:
  "keeps_on db Q (refresh_moderated_message E i)" "keeps_on socket S (refresh_moderated_message E i)"
  unfolding refresh_moderated_message_def by (intro keeps_intro)+

lemma refresh_never_fails: "\<exists>w'. refresh_moderated_message E i w = (Inr (), w')"
  by (auto simp: refresh_moderated_message_def try_bind_def attempt_run ignore_run split: sum.splits option.splits prod.splits)

lemma refresh_all_never_fails: "\<exists>us w'. for_each is (refresh_moderated_message E) w = (Inr us, w')"
proof (induction "is" arbitrary: w)
  case (Cons i "is")
  obtain v where "refresh_moderated_message E i w = (Inr (), v)" using refresh_never_fails by blast
  moreover obtain us w' where "for_each is (refresh_moderated_message E) v = (Inr us, w')" using Cons.IH by blast
  ultimately show ?case by (simp add: try_bind_def)
qed simp

text \<open>What a moderation means: the messages it concerns, and what becomes of them.\<close>

definition open_for :: "string \<Rightarrow> msg_row \<Rightarrow> bool" where
  "open_for action m = (if action = ''delete'' then m_deleted_at m = None else m_deleted_at m \<noteq> None)"

definition moderated :: "string \<Rightarrow> i64 \<Rightarrow> uuid \<Rightarrow> string option \<Rightarrow> msg_row \<Rightarrow> msg_row" where
  "moderated action now actor reason m =
     (if action = ''delete'' then m\<lparr>m_deleted_at := Some now, m_deleted_by := Some actor, m_deletion_reason := reason\<rparr>
      else m\<lparr>m_deleted_at := None, m_deleted_by := None, m_deletion_reason := None\<rparr>)"

definition moderated_all :: "string \<Rightarrow> i64 \<Rightarrow> uuid \<Rightarrow> string option \<Rightarrow> uuid list \<Rightarrow> msg_row \<Rightarrow> msg_row" where
  "moderated_all action now actor reason ids m =
     (if m_id m \<in> set ids \<and> open_for action m then moderated action now actor reason m else m)"

lemma moderated_simps [simp]:
  "m_id (moderated action now actor reason m) = m_id m" "\<not> open_for action (moderated action now actor reason m)"
  "m_id (moderated_all action now actor reason ids m) = m_id m"
  by (simp_all add: moderated_def open_for_def moderated_all_def)

lemma moderated_all_Cons:
  "moderated_all a now u r is (moderated_all a now u r [i] m) = moderated_all a now u r (i # is) m"
  by (auto simp: moderated_all_def)

lemma open_moderated_all:
  "open_for a (moderated_all a now u r [i] m) \<longleftrightarrow> open_for a m \<and> m_id m \<noteq> i"
  by (auto simp: moderated_all_def)

lemma rows_matching_pos [simp]: "0 < rows_matching p rs \<longleftrightarrow> (\<exists>r \<in> set rs. p r)"
  by (auto simp: rows_matching_def filter_empty_conv)

lemma record_audit_effect:
  "record_audit E conv ev w = (Inr x, w') \<Longrightarrow> \<exists>a. db w' = (db w)\<lparr>audit_events := audit_events (db w) @ [a]\<rparr>"
  by (auto simp: record_audit_ok dest!: insert_audit_ok)

lemma moderation_stmts:
  "hide_message (\<lambda>m. m_deleted_at m = None) now actor reason i d = Inr (n, d') \<Longrightarrow>
     (0 < n) = (\<exists>m \<in> set (messages d). m_id m = i \<and> open_for ''delete'' m) \<and>
     d' = d\<lparr>messages := map (moderated_all ''delete'' now actor reason [i]) (messages d)\<rparr>"
  "restore_message (\<lambda>m. m_deleted_at m \<noteq> None) i d = Inr (n, d') \<Longrightarrow> action \<noteq> ''delete'' \<Longrightarrow>
     (0 < n) = (\<exists>m \<in> set (messages d). m_id m = i \<and> open_for action m) \<and>
     d' = d\<lparr>messages := map (moderated_all action now actor reason [i]) (messages d)\<rparr>"
  by (auto simp: hide_message_def restore_message_def Let_def open_for_def update_where_def moderated_all_def moderated_def
      intro!: arg_cong [where f = "\<lambda>ms. d\<lparr>messages := ms\<rparr>"]) blast

lemma bulk_one_ok:
  assumes "bulk_one E actor action reason now i w = (Inr (j, flag), w')"
  shows "j = i \<and> flag = (\<exists>m \<in> set (messages (db w)). m_id m = i \<and> open_for action m) \<and>
     messages (db w') = map (moderated_all action now actor reason [i]) (messages (db w)) \<and>
     length (audit_events (db w')) = length (audit_events (db w)) + (if flag then 1 else 0)"
proof -
  have eff: "\<exists>n d v. (0 < n) = (\<exists>m \<in> set (messages (db w)). m_id m = i \<and> open_for action m) \<and>
      d = (db w)\<lparr>messages := map (moderated_all action now actor reason [i]) (messages (db w))\<rparr> \<and> j = i \<and> flag = (0 < (n :: nat)) \<and>
      db v = d \<and> when_do flag (record_audit E app_of_sqlx (audit actor (''message.'' @ action) ''message'' i
        (JObj [(''reason'', json_opt reason), (''bulk'', JBool True)]) now)) v = (Inr (), w')"
  proof (cases "action = ''delete''")
    case True
    with assms obtain n d v where h: "hide_message (\<lambda>m. m_deleted_at m = None) now actor reason i (db w) = Inr (n, d)" and r: "j = i" "flag = (0 < n)"
      "when_do flag (record_audit E app_of_sqlx (audit actor (''message.'' @ action) ''message'' i
        (JObj [(''reason'', json_opt reason), (''bulk'', JBool True)]) now)) v = (Inr (), w')" "db v = d"
      by (auto simp: bulk_one_def try_bind_okD db_exec_okD simp del: rows_matching_pos)
    from moderation_stmts(1) [OF h] r True show ?thesis
      by (intro exI [of _ n] exI [of _ d] exI [of _ v]) simp
  next
    case False
    with assms obtain n d v where h: "restore_message (\<lambda>m. m_deleted_at m \<noteq> None) i (db w) = Inr (n, d)" and r: "j = i" "flag = (0 < n)"
      "when_do flag (record_audit E app_of_sqlx (audit actor (''message.'' @ action) ''message'' i
        (JObj [(''reason'', json_opt reason), (''bulk'', JBool True)]) now)) v = (Inr (), w')" "db v = d"
      by (auto simp: bulk_one_def try_bind_okD db_exec_okD simp del: rows_matching_pos)
    from moderation_stmts(2) [OF h False, of now actor reason] r show ?thesis
      by (intro exI [of _ n] exI [of _ d] exI [of _ v]) simp
  qed
  then show ?thesis
    by (cases flag) (auto simp: when_do_def dest!: record_audit_effect)
qed

lemma bulk_all_ok:
  assumes "for_each ids (bulk_one E actor action reason now) w = (Inr results, w')"
  shows "map fst results = ids \<and> messages (db w') = map (moderated_all action now actor reason ids) (messages (db w)) \<and>
     (\<forall>i. (i, True) \<in> set results \<longleftrightarrow> i \<in> set ids \<and> (\<exists>m \<in> set (messages (db w)). m_id m = i \<and> open_for action m)) \<and>
     length (audit_events (db w')) = length (audit_events (db w)) + length (filter snd results)"
  using assms
proof (induction ids arbitrary: w results)
  case Nil
  then show ?case by (simp add: moderated_all_def)
next
  case (Cons i ids)
  then obtain j flag v rs where one: "bulk_one E actor action reason now i w = (Inr (j, flag), v)"
    and rest: "for_each ids (bulk_one E actor action reason now) v = (Inr rs, w')" and r: "results = (j, flag) # rs"
    by (auto simp: ok_simps)
  note one = bulk_one_ok [OF one] and rest = Cons.IH [OF rest]
  have "(\<exists>m \<in> set (messages (db v)). m_id m = k \<and> open_for action m) \<longleftrightarrow>
      k \<noteq> i \<and> (\<exists>m \<in> set (messages (db w)). m_id m = k \<and> open_for action m)" for k
    using one by (auto simp: open_moderated_all)
  with one rest r show ?case
    by (auto simp: moderated_all_Cons comp_def)
qed

text \<open>
  C23: a bulk moderation does all of what it answers, or nothing.  If it is answered, it had between 1 and 100
  ids; of the messages with these ids exactly those that were not in the wanted state are deleted or
  restored, with the actor and the reason, and all others are as before; the answer has one entry for
  each id, and marks as updated exactly the ids whose message changed; and the audit trail grows by one
  entry for each of them.  If it fails, no table has changed.
\<close>

theorem bulk_moderate_exact:
  "case admin_bulk_moderate E hs ids action reason w of
     (Inl e, w') \<Rightarrow> db w' = db w
   | (Inr results, w') \<Rightarrow> \<exists>session v now. load_session E hs w = (Inr session, v) \<and>
       1 \<le> length ids \<and> length ids \<le> 100 \<and> (action = ''delete'' \<or> action = ''restore'') \<and> map fst results = ids \<and>
       messages (db w') = map (moderated_all action now (actor_of session) reason ids) (messages (db w)) \<and>
       (\<forall>i. (i, True) \<in> set results \<longleftrightarrow> i \<in> set ids \<and> (\<exists>m \<in> set (messages (db w)). m_id m = i \<and> open_for action m)) \<and>
       length (audit_events (db w')) = length (audit_events (db w)) + length (filter snd results)"
proof -
  obtain r w' where run: "admin_bulk_moderate E hs ids action reason w = (r, w')"
    by (cases "admin_bulk_moderate E hs ids action reason w")
  have frame: "db v = db w" if "admin_writer E hs p w = (x, v)" for p x v
    by (rule keeps_on_leaves [of db "admin_writer E hs p", OF _ that]) (intro keeps_intro)
  have refresh: "db v' = db v" if "for_each is (refresh_moderated_message E) v = (x, v')" for "is" x v v'
    by (rule keeps_on_leaves [of db "for_each is (refresh_moderated_message E)", OF _ that]) (intro keeps_intro)
  have no_err: "for_each is (refresh_moderated_message E) v \<noteq> (Inl e, v')" for "is" v e v'
    using refresh_all_never_fails [of "is" E v] by force
  show ?thesis
  proof (cases r)
    case (Inl e)
    have "db w' = db w"
      using run [unfolded Inl admin_bulk_moderate_def]
      by (auto simp: try_bind_errD ok_simps no_err frame split: if_splits dest!: transaction_err_db)
    with run Inl show ?thesis by simp
  next
    case (Inr results)
    from run [unfolded Inr admin_bulk_moderate_def] obtain session v v1 v2 us now where
      s: "admin_writer E hs ''moderation:write'' w = (Inr session, v)" and ids: "ids \<noteq> []" "length ids \<le> 100"
        "action = ''delete'' \<or> action = ''restore''"
      and bulk: "for_each ids (bulk_one E (actor_of session) action reason now) v1 = (Inr results, v2)" "db v1 = db v"
      and ref: "for_each (map fst (filter snd results)) (refresh_moderated_message E) (next_tick v2) = (Inr us, w')"
      by (auto simp: ok_simps not_less split: if_splits)
    have "db w' = db v2" using refresh [OF ref] by simp
    moreover have "length ids \<ge> 1" using ids(1) by (cases ids) auto
    moreover note bulk_all_ok [OF bulk(1)] ids s frame [OF s] bulk(2)
    ultimately show ?thesis
      using run Inr by (auto simp: admin_guard_ok)
  qed
qed

section \<open>Administrators\<close>

definition roles_ok :: "database \<Rightarrow> bool" where
  "roles_ok d \<longleftrightarrow> distinct (map (\<lambda>x. (ur_user_id x, ur_role_id x)) (user_roles d)) \<and> distinct (map ro_id (roles d)) \<and>
     distinct (map ro_name (roles d)) \<and> distinct (map u_id (users d))"

lemma map_filter_product:
  "concat (map (\<lambda>r. map (h r) (filter (Q r) us)) rs) = map (\<lambda>(r, u). h r u) (filter (\<lambda>(r, u). Q r u) (List.product rs us))"
  by (induction rs) (simp_all add: filter_map comp_def)

lemma comprehension_filter: "[f u. u \<leftarrow> us, Q u] = map f (filter Q us)"
  by (induction us) auto

definition admin_triples :: "database \<Rightarrow> (user_role_row \<times> role_row \<times> user_row) list" where
  "admin_triples d = filter (\<lambda>(x, r, u). ro_id r = ur_role_id x \<and> u_id u = ur_user_id x \<and> ro_name r = ''admin'' \<and>
     u_deleted_at u = None \<and> u_disabled_at u = None) (List.product (user_roles d) (List.product (roles d) (users d)))"

lemma active_admins_triples: "active_admins d = map (\<lambda>(x, r, u). u_id u) (admin_triples d)"
  by (simp add: active_admins_def admin_triples_def comprehension_filter map_filter_product case_prod_unfold)

text \<open>With the keys of the schema every administrator is counted once.\<close>

lemma distinct_active_admins:
  assumes "roles_ok d"
  shows "distinct (active_admins d)"
proof -
  have rows: "distinct (user_roles d)" "distinct (roles d)" "distinct (users d)"
    using assms by (auto simp: roles_ok_def distinct_map)
  have inj: "u_id u = u_id u' \<Longrightarrow> (x, r, u) \<in> set (admin_triples d) \<Longrightarrow> (x', r', u') \<in> set (admin_triples d) \<Longrightarrow>
      x = x' \<and> r = r' \<and> u = u'" for x r u x' r' u'
  proof -
    assume u: "u_id u = u_id u'" and t: "(x, r, u) \<in> set (admin_triples d)" "(x', r', u') \<in> set (admin_triples d)"
    have "inj_on u_id (set (users d))" "inj_on ro_name (set (roles d))" "inj_on (\<lambda>x. (ur_user_id x, ur_role_id x)) (set (user_roles d))"
      using assms by (simp_all add: roles_ok_def distinct_map)
    note inj = this [THEN inj_onD]
    from t u have "u = u'" "r = r'" by (auto simp: admin_triples_def intro: inj(1,2))
    moreover from this t have "x = x'" by (auto simp: admin_triples_def intro: inj(3))
    ultimately show ?thesis by simp
  qed
  have "distinct (admin_triples d)"
    unfolding admin_triples_def by (intro distinct_filter distinct_product rows)
  then show ?thesis
    unfolding active_admins_triples by (auto simp: distinct_map inj_on_def dest: inj)
qed

lemma active_admins_iff:
  "i \<in> set (active_admins d) \<longleftrightarrow> (\<exists>x \<in> set (user_roles d). \<exists>r \<in> set (roles d). \<exists>u \<in> set (users d). u_id u = i \<and>
     ro_id r = ur_role_id x \<and> u_id u = ur_user_id x \<and> ro_name r = ''admin'' \<and> u_deleted_at u = None \<and> u_disabled_at u = None)"
  by (auto simp: active_admins_def)

lemma delete_user_role_admins:
  assumes keys: "roles_ok d" and some: "active_admins d \<noteq> []" and many: "role = ''admin'' \<Longrightarrow> 1 < length (active_admins d)"
    and del: "delete_user_role user role d = Inr (n, d')"
  shows "roles_ok d' \<and> active_admins d' \<noteq> []"
proof
  let ?p = "\<lambda>x. ur_user_id x = user \<and> list_ex (\<lambda>r. ro_id r = ur_role_id x \<and> ro_name r = role) (roles d)"
  have d': "d' = d\<lparr>user_roles := filter (\<lambda>x. \<not> ?p x) (user_roles d)\<rparr>"
    using del by (simp add: delete_user_role_def)
  show "roles_ok d'"
    using keys by (simp add: roles_ok_def d' distinct_map_filter)
  have "\<exists>i \<in> set (active_admins d). role = ''admin'' \<longrightarrow> i \<noteq> user"
  proof (cases "role = ''admin''")
    case True
    have "\<not> set (active_admins d) \<subseteq> {user}"
      using many [OF True] card_mono [of "{user}" "set (active_admins d)"] distinct_card [OF distinct_active_admins [OF keys]] by auto
    then show ?thesis by blast
  next
    case False
    with some show ?thesis by (cases "active_admins d") auto
  qed
  then obtain x r u where x: "x \<in> set (user_roles d)" "r \<in> set (roles d)" "u \<in> set (users d)" "ro_id r = ur_role_id x"
    "u_id u = ur_user_id x" "ro_name r = ''admin''" "u_deleted_at u = None" "u_disabled_at u = None"
    and other: "role = ''admin'' \<Longrightarrow> u_id u \<noteq> user"
    by (auto simp: active_admins_iff)
  have uniq: "r' = r" if "r' \<in> set (roles d)" "ro_id r' = ur_role_id x" for r'
    using keys that x(2,4) inj_onD [of ro_id "set (roles d)" r' r] by (simp add: roles_ok_def distinct_map)
  have "\<not> ?p x"
  proof
    assume "?p x"
    then obtain r' where r': "r' \<in> set (roles d)" "ro_id r' = ur_role_id x" "ro_name r' = role" and "ur_user_id x = user"
      by (auto simp: list_ex_iff)
    with uniq [OF r'(1,2)] x(5,6) other show False by simp
  qed
  with x show "active_admins d' \<noteq> []"
    using active_admins_iff [of "u_id u" d'] by (auto simp: d')
qed

lemma admins_frame [simp]:
  "roles_ok (d\<lparr>audit_events := a\<rparr>) = roles_ok d" "active_admins (d\<lparr>audit_events := a\<rparr>) = active_admins d"
  "roles_ok (d\<lparr>outbox_events := e\<rparr>) = roles_ok d" "active_admins (d\<lparr>outbox_events := e\<rparr>) = active_admins d"
  by (simp_all add: roles_ok_def active_admins_def)

lemma bump_role_version_admins:
  "bump_role_version now user d = Inr (n, d') \<Longrightarrow> roles_ok d' = roles_ok d \<and> active_admins d' = active_admins d"
proof -
  define g :: "user_row \<Rightarrow> user_row" where "g = (\<lambda>u. if u_id u = user then u\<lparr>u_role_version := u_role_version u + 1, u_updated_at := now\<rparr> else u)"
  have g: "u_id (g u) = u_id u" "u_deleted_at (g u) = u_deleted_at u" "u_disabled_at (g u) = u_disabled_at u" for u
    by (simp_all add: g_def)
  assume "bump_role_version now user d = Inr (n, d')"
  then have "d' = d\<lparr>users := map g (users d)\<rparr>"
    by (simp add: bump_role_version_def update_where_def g_def)
  then show ?thesis
    by (simp add: roles_ok_def active_admins_def comp_def g cong: if_cong)
qed


section \<open>Bans\<close>

lemma may_access_cong:
  "channels d' = channels d \<Longrightarrow> channel_members d' = channel_members d \<Longrightarrow>
     filter (\<lambda>b. b_user_id b = u) (user_bans d') = filter (\<lambda>b. b_user_id b = u) (user_bans d) \<Longrightarrow>
     may_access now d' name u = may_access now d name u"
proof -
  assume same: "channels d' = channels d" "channel_members d' = channel_members d"
    and bans: "filter (\<lambda>b. b_user_id b = u) (user_bans d') = filter (\<lambda>b. b_user_id b = u) (user_bans d)"
  have "(\<forall>b \<in> set (user_bans e). b_user_id b = u \<longrightarrow> X b) \<longleftrightarrow> (\<forall>b \<in> set (filter (\<lambda>b. b_user_id b = u) (user_bans e)). X b)" for e :: database and X
    by auto
  then show ?thesis by (simp only: may_access_def same bans)
qed

lemma ban_channel_ok:
  "ban_channel E channel w = (Inr i, w') \<Longrightarrow> db w' = db w \<and>
     (channel = None \<and> i = None \<or> (\<exists>c \<in> set (channels (db w)). channel = Some (ch_name c) \<and> i = Some (ch_id c)))"
  by (auto simp: ban_channel_def ok_simps find_Some_iff split: option.splits)

lemma create_ban_ok:
  assumes "admin_create_ban E hs request w = (Inr r, w')"
  shows "\<exists>channel_id b audits. trim (br_reason request) \<noteq> [] \<and> length (trim (br_reason request)) \<le> 500 \<and>
     (br_channel request = None \<and> channel_id = None \<or>
      (\<exists>c \<in> set (channels (db w)). br_channel request = Some (ch_name c) \<and> channel_id = Some (ch_id c))) \<and>
     b_user_id b = br_user_id request \<and> b_channel_id b = channel_id \<and> b_expires_at b = br_expires_at request \<and> b_revoked_at b = None \<and>
     db w' = (db w)\<lparr>user_bans := user_bans (db w) @ [b], audit_events := audits\<rparr>"
proof -
  from assms obtain session v v1 v2 v3 channel_id b ev where
    s: "admin_writer E hs ''moderation:write'' w = (Inr session, v)" and len: "trim (br_reason request) \<noteq> []" "length (trim (br_reason request)) \<le> 500"
    and exp: "check_expiry E (br_expires_at request) v = (Inr (), v1)"
    and ch: "ban_channel E (br_channel request) (next_tick v1) = (Inr channel_id, v2)"
    and audit: "record_audit_pool E app_of_sqlx ev v3 = (Inr (), w')"
    and ins: "insert_ban b (db v2) = Inr ((), db v3)"
    and b: "b_user_id b = br_user_id request" "b_channel_id b = channel_id" "b_expires_at b = br_expires_at request" "b_revoked_at b = None"
    by (fastforce simp: admin_create_ban_def Let_def ok_simps not_less split: if_splits)
  have "db v = db w"
    by (rule keeps_on_leaves [of db "admin_writer E hs ''moderation:write''", OF _ s]) (intro keeps_intro)
  moreover have "db v1 = db v"
    using exp by (auto simp: check_expiry_def ok_simps split: option.splits if_splits)
  moreover note ban_channel_ok [OF ch]
  moreover have "db v3 = (db v2)\<lparr>user_bans := user_bans (db v2) @ [b]\<rparr>" using ins by (simp add: insert_ban_def)
  moreover have "\<exists>a. db w' = (db v3)\<lparr>audit_events := a\<rparr>"
    using audit by (auto simp: record_audit_pool_def ok_simps dest!: record_audit_effect)
  ultimately show ?thesis using len b by auto
qed

text \<open>
  C28: a ban closes what it covers, and nothing else.  After a ban was created with a reason of 1 to 500 bytes,
  the user may not access the named channel, or any channel if none was named, as long as the ban has not
  expired; and what the other users may access has not changed.
\<close>

theorem ban_closes_conversations:
  assumes keys: "channel_keys_ok (db w)" and run: "admin_create_ban E hs request w = (Inr r, w')"
  shows "1 \<le> length (trim (br_reason request)) \<and> length (trim (br_reason request)) \<le> 500 \<and>
     (\<forall>now name. br_channel request \<in> {None, Some name} \<and> (\<forall>t. br_expires_at request = Some t \<longrightarrow> now < t) \<longrightarrow>
        \<not> may_access now (db w') name (br_user_id request)) \<and>
     (\<forall>now name u. u \<noteq> br_user_id request \<longrightarrow> may_access now (db w') name u = may_access now (db w) name u)"
proof -
  from create_ban_ok [OF run] obtain channel_id b audits where len: "trim (br_reason request) \<noteq> []" "length (trim (br_reason request)) \<le> 500"
    and ch: "br_channel request = None \<and> channel_id = None \<or>
      (\<exists>c \<in> set (channels (db w)). br_channel request = Some (ch_name c) \<and> channel_id = Some (ch_id c))"
    and b: "b_user_id b = br_user_id request" "b_channel_id b = channel_id" "b_expires_at b = br_expires_at request" "b_revoked_at b = None"
    and d: "db w' = (db w)\<lparr>user_bans := user_bans (db w) @ [b], audit_events := audits\<rparr>"
    by blast
  have "\<not> may_access now (db w') name (br_user_id request)"
    if "br_channel request \<in> {None, Some name}" "\<forall>t. br_expires_at request = Some t \<longrightarrow> now < t" for now name
  proof
    assume "may_access now (db w') name (br_user_id request)"
    then obtain c where c: "c \<in> set (channels (db w))" "ch_name c = name"
      and free: "b_channel_id b = None \<or> b_channel_id b = Some (ch_id c) \<Longrightarrow> \<exists>t. b_expires_at b = Some t \<and> t \<le> now"
      using b d by (auto simp: may_access_def)
    have "c' = c" if "c' \<in> set (channels (db w))" "ch_name c' = name" for c'
      using keys that c inj_onD [of ch_name "set (channels (db w))" c' c] by (simp add: channel_keys_ok_def distinct_map)
    with ch \<open>br_channel request \<in> {None, Some name}\<close> b have "b_channel_id b = None \<or> b_channel_id b = Some (ch_id c)" by auto
    from free [OF this] obtain t where "br_expires_at request = Some t" "t \<le> now" using b(3) by auto
    with \<open>\<forall>t. br_expires_at request = Some t \<longrightarrow> now < t\<close> show False by auto
  qed
  moreover have "may_access now (db w') name u = may_access now (db w) name u" if "u \<noteq> br_user_id request" for now name u
    by (rule may_access_cong) (use that b d in auto)
  moreover have "1 \<le> length (trim (br_reason request))" using len(1) by (cases "trim (br_reason request)") auto
  ultimately show ?thesis using len by blast
qed

section \<open>Two gaps\<close>

text \<open>
  Renaming a channel leaves its hot history under the old name, where a channel that is created with that
  name later finds it.
\<close>

lemma rename_keeps_hot_history:
  assumes V: "valkey (vk E) \<alpha>" and run: "admin_update_channel E hs i request w = (r, w')"
  shows "ks_hash (\<alpha> (cache w')) k = ks_hash (\<alpha> (cache w)) k \<and> ks_zset (\<alpha> (cache w')) k = ks_zset (\<alpha> (cache w)) k"
proof -
  let ?R = "\<lambda>s. ks_hash (\<alpha> s) k = ks_hash (\<alpha> (cache w)) k \<and> ks_zset (\<alpha> s) k = ks_zset (\<alpha> (cache w)) k"
  have "keeps_on cache ?R (admin_update_channel E hs i request)"
    unfolding admin_update_channel_def admin_writer_def load_session_def
    by (intro keeps_intro) (simp add: valkey.expire_abs [OF V] ks_expire_def)
  from keeps_onD [OF this _ run] show ?thesis by simp
qed

definition demo_admin_env :: "keyspace env" where
  "demo_admin_env = demo_env\<lparr>codec := demo_codecs\<lparr>user_parse := (\<lambda>_. Some (demo_user\<lparr>au_permissions :=
     [''users:write'', ''roles:write'', ''moderation:write'']\<rparr>))\<rparr>\<rparr>"

definition demo_staff :: "keyspace world" where
  "demo_staff = demo_signed_in\<lparr>db := demo_db\<lparr>roles := [\<lparr>ro_id = 20, ro_name = ''admin'', ro_created_at = 0\<rparr>],
     user_roles := [\<lparr>ur_user_id = 1, ur_role_id = 20, ur_assigned_at = 0\<rparr>, \<lparr>ur_user_id = 2, ur_role_id = 20, ur_assigned_at = 0\<rparr>]\<rparr>\<rparr>"

definition demo_lone_admin :: "keyspace world" where
  "demo_lone_admin = demo_signed_in\<lparr>db := demo_db\<lparr>roles := [\<lparr>ro_id = 20, ro_name = ''admin'', ro_created_at = 0\<rparr>],
     user_roles := [\<lparr>ur_user_id = 1, ur_role_id = 20, ur_assigned_at = 0\<rparr>]\<rparr>\<rparr>"

text \<open>The only administrator cannot give up the role, but can disable the own account.\<close>

lemma last_admin_can_be_disabled:
  "active_admins (db demo_lone_admin) = [1]"
  "fst (admin_remove_role demo_admin_env demo_headers 1 ''admin'' demo_lone_admin) = Inl (bad_request ''the final administrator cannot be removed'')"
  "fst (admin_disable_user demo_admin_env demo_headers 1 demo_lone_admin) = Inr NO_CONTENT"
  "active_admins (db (snd (admin_disable_user demo_admin_env demo_headers 1 demo_lone_admin))) = []"
  by code_simp+

section \<open>Concrete runs\<close>


theorem ban_closes_conversations_witness:
  "\<exists>r w'. admin_create_ban demo_admin_env demo_headers \<lparr>br_user_id = 3, br_channel = Some ''main'', br_reason = ''spam'', br_expires_at = None\<rparr>
     demo_staff = (Inr r, w') \<and> \<not> may_access 5 (db w') ''main'' 3"
proof -
  let ?q = "\<lparr>br_user_id = 3, br_channel = Some ''main'', br_reason = ''spam'', br_expires_at = None\<rparr>"
  have "(case fst (admin_create_ban demo_admin_env demo_headers ?q demo_staff) of Inl _ \<Rightarrow> False | Inr _ \<Rightarrow> True)"
    by code_simp
  then obtain r where run: "fst (admin_create_ban demo_admin_env demo_headers ?q demo_staff) = Inr r"
    by (auto split: sum.splits)
  have "channel_keys_ok (db demo_staff)"
    by (simp add: channel_keys_ok_def demo_staff_def demo_db_def demo_main_def demo_team_def new_channel_def)
  from ban_closes_conversations [OF this run_fst [OF run]] run_fst [OF run] show ?thesis
    by fastforce
qed

end
