(* ===== verification/Routes.thy ===== *)
theory Routes
  imports Handler Channel_Api Admin
begin

text \<open>
  \<^verbatim>\<open>backend/src/routes.rs\<close>: every route of the API with its method, its path and its handler, in the order of
  the handler modules.  The probes and the metrics page, which take no request data, are at the end.
\<close>

section \<open>What the handlers are given\<close>

text \<open>
  The fields of \<^verbatim>\<open>AppState\<close> that are services, and the libraries that the handlers call: the hash for unknown
  accounts, the full-text search, and what a link preview needs.
\<close>

record 's app_state =
  st_blob_store :: "disk blob_ops"
  st_scanner :: "'s scanner"
  st_recovery_notifier :: "'s notifier"
  st_dummy_hash :: string
  st_fts :: "string \<Rightarrow> string \<Rightarrow> bool"
  st_headline :: "string \<Rightarrow> string \<Rightarrow> string"
  st_port :: "url \<Rightarrow> nat option"
  st_resolve :: "string \<Rightarrow> nat \<Rightarrow> ('s, string, socket_addr list) io"
  st_fetch :: "url \<Rightarrow> socket_addr \<Rightarrow> ('s, string, preview_response) io"
  st_html :: "string \<Rightarrow> html_document"
  st_join :: "url \<Rightarrow> string \<Rightarrow> (url \<times> string) option"

datatype http_method = GET | POST | PATCH | PUT | DELETE

type_synonym http_route = "http_method \<times> string"

section \<open>Accounts\<close>

datatype account_request =
    Register string string string | Login string string | Request_Recovery string | Reset_Recovery string string
  | Logout | Me | Update_Account string | Delete_Account | Export_Account | Change_Password string string
  | List_Sessions | Revoke_Session uuid | Profile | Update_Profile "string option" "string option" "i64 option"

fun account_route :: "account_request \<Rightarrow> http_route" where
  "account_route (Register _ _ _) = (POST, ''/auth/register'')"
| "account_route (Login _ _) = (POST, ''/auth/login'')"
| "account_route (Request_Recovery _) = (POST, ''/auth/recovery/request'')"
| "account_route (Reset_Recovery _ _) = (POST, ''/auth/recovery/reset'')"
| "account_route Logout = (POST, ''/auth/logout'')"
| "account_route Me = (GET, ''/auth/me'')"
| "account_route (Update_Account _) = (PATCH, ''/account'')"
| "account_route Delete_Account = (DELETE, ''/account'')"
| "account_route Export_Account = (GET, ''/account/export'')"
| "account_route (Change_Password _ _) = (PATCH, ''/account/password'')"
| "account_route List_Sessions = (GET, ''/account/sessions'')"
| "account_route (Revoke_Session _) = (DELETE, ''/account/sessions/{id}'')"
| "account_route Profile = (GET, ''/profile'')"
| "account_route (Update_Profile _ _ _) = (PATCH, ''/profile'')"

fun handle_account :: "'s app_state \<Rightarrow> 's env \<Rightarrow> header_map \<Rightarrow> account_request \<Rightarrow> ('s, unit) app" where
  "handle_account A E hs (Register mail name pw) = answered (register E hs mail name pw)"
| "handle_account A E hs (Login mail pw) = answered (login E (st_dummy_hash A) hs mail pw)"
| "handle_account A E hs (Request_Recovery mail) = answered (request_recovery E (st_recovery_notifier A) mail)"
| "handle_account A E hs (Reset_Recovery token pw) = answered (reset_recovery E token pw)"
| "handle_account A E hs Logout = answered (logout E hs)"
| "handle_account A E hs Me = answered (me E hs)"
| "handle_account A E hs (Update_Account name) = answered (update_account E hs name)"
| "handle_account A E hs Delete_Account = answered (delete_account E hs)"
| "handle_account A E hs Export_Account = answered (export_account E hs)"
| "handle_account A E hs (Change_Password old pw) = answered (change_password E hs old pw)"
| "handle_account A E hs List_Sessions = answered (list_sessions E hs)"
| "handle_account A E hs (Revoke_Session i) = answered (revoke_session E hs i)"
| "handle_account A E hs Profile = answered (profile E hs)"
| "handle_account A E hs (Update_Profile display custom expiry) = answered (update_profile E hs display custom expiry)"

section \<open>Administration\<close>

fun admin_route :: "admin_request \<Rightarrow> http_route" where
  "admin_route (AUsers _ _ _) = (GET, ''/admin/users'')"
| "admin_route (ADisable _) = (POST, ''/admin/users/{user}/disable'')"
| "admin_route (AEnable _) = (POST, ''/admin/users/{user}/enable'')"
| "admin_route (ADelete _) = (DELETE, ''/admin/users/{user}'')"
| "admin_route (AResetPassword _ _) = (POST, ''/admin/users/{user}/password-reset'')"
| "admin_route (AInvalidate _) = (POST, ''/admin/users/{user}/invalidate-sessions'')"
| "admin_route (AAssignRole _ _) = (POST, ''/admin/users/{user}/roles/{role}'')"
| "admin_route (ARemoveRole _ _) = (DELETE, ''/admin/users/{user}/roles/{role}'')"
| "admin_route (AAudit _ _ _ _) = (GET, ''/admin/audit'')"
| "admin_route ARoles = (GET, ''/admin/roles'')"
| "admin_route APermissions = (GET, ''/admin/permissions'')"
| "admin_route (AParticipants _) = (GET, ''/admin/participants/{channel}'')"
| "admin_route AOperations = (GET, ''/admin/operations'')"
| "admin_route (ABans _ _) = (GET, ''/admin/bans'')"
| "admin_route (ACreateBan _) = (POST, ''/admin/bans'')"
| "admin_route (ARevokeBan _) = (DELETE, ''/admin/bans/{id}'')"
| "admin_route (AChannels _ _) = (GET, ''/admin/channels'')"
| "admin_route (ACreateChannel _) = (POST, ''/admin/channels'')"
| "admin_route (AUpdateChannel _ _) = (PATCH, ''/admin/channels/{id}'')"
| "admin_route (AChannelState _ _) = (POST, ''/admin/channels/{id}/{action}'')"
| "admin_route (AMessages _) = (GET, ''/admin/messages'')"
| "admin_route (ABulkModerate _ _ _) = (POST, ''/admin/messages/bulk-moderate'')"
| "admin_route (AHistory _) = (GET, ''/admin/messages/{id}/history'')"
| "admin_route (AModerate _ _ _) = (POST, ''/admin/messages/{id}/{action}'')"

section \<open>Conversations\<close>

datatype conversation_request =
    List_Channels | Create_Channel string | List_Unread | List_Conversations | Open_Direct uuid | Create_Private string
  | List_Members string | Invite_Member string uuid | Remove_Member string uuid | Leave string | Transfer string uuid
  | Promote string uuid | Demote string uuid | Favorite string | Unfavorite string | List_Favorites
  | Get_Draft string | Update_Draft string string | Delete_Draft string
  | Create_Invite string "i64 option" "int option" | Accept_Invite string

fun conversation_route :: "conversation_request \<Rightarrow> http_route" where
  "conversation_route List_Channels = (GET, ''/channels'')"
| "conversation_route (Create_Channel _) = (POST, ''/channels'')"
| "conversation_route List_Unread = (GET, ''/unread'')"
| "conversation_route List_Conversations = (GET, ''/conversations'')"
| "conversation_route (Open_Direct _) = (POST, ''/conversations/direct'')"
| "conversation_route (Create_Private _) = (POST, ''/channels/private'')"
| "conversation_route (List_Members _) = (GET, ''/channels/{name}/members'')"
| "conversation_route (Invite_Member _ _) = (POST, ''/channels/{name}/members'')"
| "conversation_route (Remove_Member _ _) = (DELETE, ''/channels/{name}/members/{user_id}'')"
| "conversation_route (Leave _) = (DELETE, ''/channels/{name}/membership'')"
| "conversation_route (Transfer _ _) = (POST, ''/channels/{name}/owner'')"
| "conversation_route (Promote _ _) = (POST, ''/channels/{name}/members/{user_id}/moderator'')"
| "conversation_route (Demote _ _) = (DELETE, ''/channels/{name}/members/{user_id}/moderator'')"
| "conversation_route (Favorite _) = (POST, ''/channels/{name}/favorite'')"
| "conversation_route (Unfavorite _) = (DELETE, ''/channels/{name}/favorite'')"
| "conversation_route List_Favorites = (GET, ''/favorites'')"
| "conversation_route (Get_Draft _) = (GET, ''/drafts/{channel}'')"
| "conversation_route (Update_Draft _ _) = (PUT, ''/drafts/{channel}'')"
| "conversation_route (Delete_Draft _) = (DELETE, ''/drafts/{channel}'')"
| "conversation_route (Create_Invite _ _ _) = (POST, ''/channels/{name}/invite-links'')"
| "conversation_route (Accept_Invite _) = (POST, ''/invite-links/{token}/accept'')"

fun handle_conversation :: "'s env \<Rightarrow> header_map \<Rightarrow> conversation_request \<Rightarrow> ('s, unit) app" where
  "handle_conversation E hs List_Channels = answered (list_channels_handler E hs)"
| "handle_conversation E hs (Create_Channel name) = answered (create_channel_handler E hs name)"
| "handle_conversation E hs List_Unread = answered (list_unread E hs)"
| "handle_conversation E hs List_Conversations = answered (list_conversations E hs)"
| "handle_conversation E hs (Open_Direct u) = answered (open_direct_conversation E hs u)"
| "handle_conversation E hs (Create_Private name) = answered (create_private_channel E hs name)"
| "handle_conversation E hs (List_Members name) = answered (list_channel_members E hs name)"
| "handle_conversation E hs (Invite_Member name u) = answered (invite_channel_member E hs name u)"
| "handle_conversation E hs (Remove_Member name u) = answered (remove_channel_member E hs name u)"
| "handle_conversation E hs (Leave name) = answered (leave_channel E hs name)"
| "handle_conversation E hs (Transfer name u) = answered (transfer_channel_ownership E hs name u)"
| "handle_conversation E hs (Promote name u) = answered (promote_channel_moderator E hs name u)"
| "handle_conversation E hs (Demote name u) = answered (demote_channel_moderator E hs name u)"
| "handle_conversation E hs (Favorite name) = answered (favorite_channel E hs name)"
| "handle_conversation E hs (Unfavorite name) = answered (unfavorite_channel E hs name)"
| "handle_conversation E hs List_Favorites = answered (list_favorite_channels E hs)"
| "handle_conversation E hs (Get_Draft name) = answered (get_draft E hs name)"
| "handle_conversation E hs (Update_Draft name body) = answered (update_draft E hs name body)"
| "handle_conversation E hs (Delete_Draft name) = answered (delete_draft E hs name)"
| "handle_conversation E hs (Create_Invite name expiry uses) = answered (create_invite_link E hs name expiry uses)"
| "handle_conversation E hs (Accept_Invite token) = answered (accept_invite_link E hs token)"

section \<open>Messages and files\<close>

datatype message_request =
    Search_Users "string option" | Search_Messages search_query | Link_Preview string | List_Saved "i64 option"
  | Get_Message uuid | Permalink uuid | Save uuid | Unsave uuid | Report uuid string
  | List_Reports "string option" "i64 option" | Update_Report uuid string
  | Upload "(unit + multipart_field) list" | Download uuid

fun message_route :: "message_request \<Rightarrow> http_route" where
  "message_route (Search_Users _) = (GET, ''/users/search'')"
| "message_route (Search_Messages _) = (GET, ''/messages/search'')"
| "message_route (Link_Preview _) = (GET, ''/link-preview'')"
| "message_route (List_Saved _) = (GET, ''/messages/saved'')"
| "message_route (Get_Message _) = (GET, ''/messages/{id}'')"
| "message_route (Permalink _) = (GET, ''/messages/{id}/permalink'')"
| "message_route (Save _) = (POST, ''/messages/{id}/save'')"
| "message_route (Unsave _) = (DELETE, ''/messages/{id}/save'')"
| "message_route (Report _ _) = (POST, ''/reports'')"
| "message_route (List_Reports _ _) = (GET, ''/moderation/reports'')"
| "message_route (Update_Report _ _) = (POST, ''/moderation/reports/{id}/{action}'')"
| "message_route (Upload _) = (POST, ''/files'')"
| "message_route (Download _) = (GET, ''/files/{id}'')"

text \<open>These handlers may use the blob store.\<close>

fun handle_message :: "'s app_state \<Rightarrow> 's env \<Rightarrow> header_map \<Rightarrow> message_request \<Rightarrow> ('s, disk, unit) media" where
  "handle_message A E hs (Search_Users q) = on_world (answered (search_users E hs q))"
| "handle_message A E hs (Search_Messages q) = on_world (answered (search_messages E (st_fts A) (st_headline A) hs q))"
| "handle_message A E hs (Link_Preview raw) =
     on_world (answered (link_preview E (st_port A) (st_resolve A) (st_fetch A) (st_html A) (st_join A) hs raw))"
| "handle_message A E hs (List_Saved n) = on_world (answered (list_saved_messages E hs n))"
| "handle_message A E hs (Get_Message i) = on_world (answered (get_message E hs i))"
| "handle_message A E hs (Permalink i) = on_world (answered (message_permalink E hs i))"
| "handle_message A E hs (Save i) = on_world (answered (bookmark_message E hs i))"
| "handle_message A E hs (Unsave i) = on_world (answered (unsave_message E hs i))"
| "handle_message A E hs (Report i reason) = on_world (answered (report_message E hs i reason))"
| "handle_message A E hs (List_Reports st n) = on_world (answered (list_message_reports E hs st n))"
| "handle_message A E hs (Update_Report i action) = on_world (answered (update_message_report E hs i action))"
| "handle_message A E hs (Upload parts) = try_bind (upload_file E (st_scanner A) (st_blob_store A) hs parts) (\<lambda>_. ok ())"
| "handle_message A E hs (Download i) = try_bind (download_file E (st_blob_store A) hs i) (\<lambda>_. ok ())"

section \<open>Notifications\<close>

datatype notification_request =
    List_Notifications "i64 option" | Get_Preferences | Update_Preferences preferences_update | Notification_Config
  | List_Subscriptions | Subscribe string string string | Unsubscribe uuid | Mark_Read uuid

fun notification_route :: "notification_request \<Rightarrow> http_route" where
  "notification_route (List_Notifications _) = (GET, ''/notifications'')"
| "notification_route Get_Preferences = (GET, ''/notifications/preferences'')"
| "notification_route (Update_Preferences _) = (PATCH, ''/notifications/preferences'')"
| "notification_route Notification_Config = (GET, ''/notifications/config'')"
| "notification_route List_Subscriptions = (GET, ''/notifications/subscriptions'')"
| "notification_route (Subscribe _ _ _) = (POST, ''/notifications/subscriptions'')"
| "notification_route (Unsubscribe _) = (DELETE, ''/notifications/subscriptions/{id}'')"
| "notification_route (Mark_Read _) = (POST, ''/notifications/{id}/read'')"

fun handle_notification :: "'s env \<Rightarrow> header_map \<Rightarrow> notification_request \<Rightarrow> ('s, unit) app" where
  "handle_notification E hs (List_Notifications n) = answered (list_notifications E hs n)"
| "handle_notification E hs Get_Preferences = answered (notification_preferences_handler E hs)"
| "handle_notification E hs (Update_Preferences q) = answered (update_notification_preferences E hs q)"
| "handle_notification E hs Notification_Config = answered (notification_config E hs)"
| "handle_notification E hs List_Subscriptions = answered (notification_subscriptions_handler E hs)"
| "handle_notification E hs (Subscribe endpoint p a) = answered (save_notification_subscription E hs endpoint p a)"
| "handle_notification E hs (Unsubscribe i) = answered (delete_notification_subscription E hs i)"
| "handle_notification E hs (Mark_Read i) = answered (mark_notification_read E hs i)"

section \<open>All routes\<close>

datatype api_request =
    Account_Request account_request | Admin_Request admin_request | Conversation_Request conversation_request
  | Message_Request message_request | Notification_Request notification_request | WebSocket_Request

fun api_route :: "api_request \<Rightarrow> http_route" where
  "api_route (Account_Request r) = account_route r"
| "api_route (Admin_Request r) = admin_route r"
| "api_route (Conversation_Request r) = conversation_route r"
| "api_route (Message_Request r) = message_route r"
| "api_route (Notification_Request r) = notification_route r"
| "api_route WebSocket_Request = (GET, ''/ws'')"

fun handle_request :: "'s app_state \<Rightarrow> 's env \<Rightarrow> header_map \<Rightarrow> api_request \<Rightarrow> ('s, disk, unit) media" where
  "handle_request A E hs (Account_Request r) = on_world (handle_account A E hs r)"
| "handle_request A E hs (Admin_Request r) = on_world (handle_admin E hs r)"
| "handle_request A E hs (Conversation_Request r) = on_world (handle_conversation E hs r)"
| "handle_request A E hs (Message_Request r) = handle_message A E hs r"
| "handle_request A E hs (Notification_Request r) = on_world (handle_notification E hs r)"
| "handle_request A E hs WebSocket_Request = on_world (answered (websocket E hs))"

text \<open>The routes that are open to everybody: those that lead to a session.\<close>

definition public_route :: "api_request \<Rightarrow> bool" where
  "public_route r = (snd (api_route r) \<in> set [''/auth/register'', ''/auth/login'', ''/auth/recovery/request'', ''/auth/recovery/reset''])"

section \<open>Probes\<close>

datatype cache_error = Connection_Error string | Command_Error string

fun show_cache_error :: "cache_error \<Rightarrow> string" where
  "show_cache_error (Connection_Error m) = ''cache connection: '' @ m"
| "show_cache_error (Command_Error m) = ''cache command: '' @ m"

text \<open>\<open>detail\<close> is the text of the client library's error.\<close>

definition cache_ping :: "'s env \<Rightarrow> string \<Rightarrow> ('s, cache_error, unit) io" where
  "cache_ping E detail =
     try_bind (external E (Connection_Error detail) (ok ())) (\<lambda>_.
     external E (Command_Error detail) (ok ()))"

definition database_ping :: "'s env \<Rightarrow> ('s, unit, unit) io" where
  "database_ping E = db_query E (\<lambda>_. ()) (\<lambda>_. ())"

text \<open>\<open>shutting_down\<close> is the flag that the shutdown signal sets.\<close>

definition ready :: "'s env \<Rightarrow> string \<Rightarrow> bool \<Rightarrow> ('s, status_code, string) io" where
  "ready E detail shutting_down =
     (if shutting_down then fail SERVICE_UNAVAILABLE
      else
      try_bind (map_err (\<lambda>_. SERVICE_UNAVAILABLE) (cache_ping E detail)) (\<lambda>_.
      try_bind (map_err (\<lambda>_. SERVICE_UNAVAILABLE) (database_ping E)) (\<lambda>_.
      ok ''ok'')))"

text \<open>A process is ready while it is not shutting down and each of the three calls succeeds.\<close>

lemma ready_iff:
  "fst (ready E detail down w) =
     (if \<not> down \<and> (\<forall>i < 3. \<not> faults E (tick w + i)) then Inr ''ok'' else Inl SERVICE_UNAVAILABLE)"
  by (auto simp: ready_def cache_ping_def database_ping_def try_bind_def io_defs map_err_run numeral_3_eq_3 less_Suc_eq)

section \<open>Every route but four asks for a session\<close>

definition session_writer :: "'s env \<Rightarrow> header_map \<Rightarrow> ('s, session) app" where
  "session_writer E hs =
     try_bind (load_session E hs) (\<lambda>session.
     try_bind (lift (require_csrf hs session)) (\<lambda>_.
     ok session))"

definition session_guard :: "'s env \<Rightarrow> header_map \<Rightarrow> http_route \<Rightarrow> ('s, session) app" where
  "session_guard E hs route = (if fst route = GET then load_session E hs else session_writer E hs)"

lemma guarded_read: "\<exists>k. answered (try_bind (load_session E hs) f) = try_bind (load_session E hs) k"
  by (auto simp: answered_def try_bind_assoc)

lemma session_writer_bind:
  "try_bind (load_session E hs) (\<lambda>s. try_bind (lift (require_csrf hs s)) (\<lambda>_. f s)) = try_bind (session_writer E hs) f"
  by (simp add: session_writer_def try_bind_assoc)

lemma guarded_write:
  "\<exists>k. answered (try_bind (load_session E hs) (\<lambda>s. try_bind (lift (require_csrf hs s)) (\<lambda>_. f s))) = try_bind (session_writer E hs) k"
  unfolding session_writer_bind by (auto simp: answered_def try_bind_assoc)

lemma on_world_bind: "on_world (try_bind m f) = try_bind (on_world m) (\<lambda>x. on_world (f x))"
  by (auto simp: on_world_def try_bind_def fun_eq_iff split: prod.splits sum.splits)

lemma on_world_guarded: "(\<exists>k. m = try_bind g k) \<Longrightarrow> \<exists>k. on_world m = try_bind (on_world g) k"
  by (auto simp: on_world_bind)

lemma account_guarded:
  assumes "snd (account_route r) \<notin> set [''/auth/register'', ''/auth/login'', ''/auth/recovery/request'', ''/auth/recovery/reset'']"
  shows "\<exists>k. handle_account A E hs r = try_bind (session_guard E hs (account_route r)) k"
  using assms
  by (cases r; simp only: handle_account.simps account_route.simps session_guard_def fst_conv http_method.distinct if_True if_False refl
        logout_def me_def update_account_def delete_account_def export_account_def change_password_def list_sessions_def
        revoke_session_def profile_def update_profile_def guarded_read guarded_write; simp)

lemma conversation_guarded: "\<exists>k. handle_conversation E hs r = try_bind (session_guard E hs (conversation_route r)) k"
  by (cases r; simp only: handle_conversation.simps conversation_route.simps session_guard_def fst_conv http_method.distinct
        if_True if_False refl list_channels_handler_def create_channel_handler_def list_unread_def list_conversations_def
        open_direct_conversation_def create_private_channel_def list_channel_members_def invite_channel_member_def
        remove_channel_member_def leave_channel_def transfer_channel_ownership_def promote_channel_moderator_def
        demote_channel_moderator_def favorite_channel_def unfavorite_channel_def list_favorite_channels_def get_draft_def
        update_draft_def delete_draft_def create_invite_link_def accept_invite_link_def guarded_read guarded_write)

lemma notification_guarded: "\<exists>k. handle_notification E hs r = try_bind (session_guard E hs (notification_route r)) k"
  by (cases r; simp only: handle_notification.simps notification_route.simps session_guard_def fst_conv http_method.distinct
        if_True if_False refl list_notifications_def notification_preferences_handler_def update_notification_preferences_def
        notification_config_def notification_subscriptions_handler_def save_notification_subscription_def
        delete_notification_subscription_def mark_notification_read_def guarded_read guarded_write)

lemma message_guarded: "\<exists>k. handle_message A E hs r = try_bind (on_world (session_guard E hs (message_route r))) k"
proof -
  have plain: "\<exists>k. on_world (answered (try_bind g f)) = try_bind (on_world g :: ('s, disk, session) media) k"
    for g :: "('s, session) app" and f :: "session \<Rightarrow> ('s, 'c) app"
    by (auto simp: on_world_bind answered_def try_bind_assoc)
  have up: "\<exists>k. try_bind (try_bind (on_world (try_bind g f)) h) h' = try_bind (on_world g) k"
    for g :: "('s, session) app" and f :: "session \<Rightarrow> ('s, 'c) app" and h :: "'c \<Rightarrow> ('s, disk, 'd) media"
      and h' :: "'d \<Rightarrow> ('s, disk, unit) media"
    by (auto simp: on_world_bind try_bind_assoc)
  have down: "\<exists>k. try_bind (try_bind (on_world g) h) h' = try_bind (on_world g) k"
    for g :: "('s, session) app" and h :: "session \<Rightarrow> ('s, disk, 'd) media" and h' :: "'d \<Rightarrow> ('s, disk, unit) media"
    by (auto simp: try_bind_assoc)
  show ?thesis
    by (cases r; simp only: handle_message.simps message_route.simps session_guard_def fst_conv http_method.distinct
          if_True if_False refl search_users_def search_messages_def link_preview_def list_saved_messages_def get_message_def
          message_permalink_def bookmark_message_def unsave_message_def report_message_def list_message_reports_def
          update_message_report_def upload_file_def accept_upload_def download_file_def session_writer_bind plain up down)
qed

lemma admin_reads_route: "admin_reads r \<longleftrightarrow> fst (admin_route r) = GET"
  by (cases r) (simp_all add: admin_reads_def)

lemma admin_guarded: "\<exists>k. handle_admin E hs r = try_bind (session_guard E hs (admin_route r)) k"
proof -
  have "\<exists>f. (if admin_reads r then admin_reader else admin_writer) E hs p = try_bind (session_guard E hs (admin_route r)) f" for p
    by (auto simp: admin_reads_route session_guard_def admin_reader_def admin_writer_def session_writer_bind)
  then show ?thesis
    using handle_admin_guarded [of E hs r] by (metis try_bind_assoc)
qed

lemma keeps_on_session_guard [keeps_intro]:
  "keeps_on db Q (session_guard E hs route)" "keeps_on socket S (session_guard E hs route)"
  unfolding session_guard_def session_writer_def by (intro keeps_intro)+

lemma session_guard_ok:
  "session_guard E hs route w = (Inr s, v) \<Longrightarrow>
     load_session E hs w = (Inr s, v) \<and> (fst route = GET \<or> require_csrf hs s = Inr ())"
  by (auto simp: session_guard_def session_writer_def ok_simps split: if_splits)

lemma guard_refuses:
  assumes "\<exists>k. m = try_bind (on_world (session_guard E hs route)) k"
  shows "(\<exists>s v. load_session E hs w = (Inr s, v) \<and> (fst route = GET \<or> require_csrf hs s = Inr ())) \<or>
     (\<exists>e w'. m (w, b) = (Inl e, (w', b)) \<and> db w' = db w \<and> socket w' = socket w)"
proof -
  obtain k where k: "m = try_bind (on_world (session_guard E hs route)) k" using assms by blast
  obtain x v where run: "session_guard E hs route w = (x, v)" by (cases "session_guard E hs route w")
  show ?thesis
  proof (cases x)
    case (Inl e)
    have "db v = db w" "socket v = socket w"
      by (rule keeps_on_leaves [of db "session_guard E hs route", OF _ run], intro keeps_intro,
          rule keeps_on_leaves [of socket "session_guard E hs route", OF _ run], intro keeps_intro)
    with Inl run k show ?thesis by (simp add: try_bind_def on_world_def)
  next
    case (Inr s)
    with run session_guard_ok [of E hs route w s v] show ?thesis by blast
  qed
qed


section \<open>A GET request writes to no table\<close>

text \<open>What lies outside the program does not write to its tables.\<close>

definition outside_ok :: "'s app_state \<Rightarrow> bool" where
  "outside_ok A \<longleftrightarrow> (\<forall>Q n t c. keeps_on db Q (st_scanner A n t c)) \<and> (\<forall>Q a t. keeps_on db Q (st_recovery_notifier A a t)) \<and>
     (\<forall>Q h p. keeps_on db Q (st_resolve A h p)) \<and> (\<forall>Q u a. keeps_on db Q (st_fetch A u a))"

lemma keeps_on_answered [keeps_intro]: "keeps_on db Q m \<Longrightarrow> keeps_on db Q (answered m)"
  unfolding answered_def by (intro keeps_intro)

lemma keeps_on_view_session [keeps_intro]: "keeps_on db Q (view_session E s raw)"
  unfolding view_session_def by (intro keeps_intro)

lemma account_reads_keep:
  "fst (account_route r) = GET \<Longrightarrow> keeps_on db Q (handle_account A E hs r)"
  by (cases r; simp only: handle_account.simps account_route.simps fst_conv http_method.distinct me_def export_account_def
      list_sessions_def profile_def; (intro keeps_intro)?)

lemma conversation_reads_keep:
  "fst (conversation_route r) = GET \<Longrightarrow> keeps_on db Q (handle_conversation E hs r)"
  by (cases r; simp only: handle_conversation.simps conversation_route.simps fst_conv http_method.distinct
      list_channels_handler_def list_unread_def list_conversations_def list_channel_members_def list_favorite_channels_def
      get_draft_def; (intro keeps_intro)?)

lemma admin_get_keeps: "fst (admin_route r) = GET \<Longrightarrow> keeps_on db Q (handle_admin E hs r)"
  unfolding admin_reads_route [symmetric]
  by (cases r; simp only: admin_reads_def admin_request.case handle_admin.simps admin_users_def admin_audit_def
      admin_roles_def admin_permissions_def admin_participants_def admin_operations_def admin_bans_def admin_channels_def
      admin_messages_def admin_message_history_def; (intro keeps_intro)?)

text \<open>A step on the world keeps what it keeps of the tables; a step on the blob store keeps all of them.\<close>

lemma keeps_on_world: "keeps_on db I m \<Longrightarrow> keeps (\<lambda>p. I (db (fst p))) (on_world m)"
  by (fastforce simp: keeps_on_def keeps_def on_world_def split: prod.splits)

lemma keeps_on_blobs: "keeps (\<lambda>p. I (db (fst p))) (on_blobs m)"
  by (auto simp: keeps_def on_blobs_def split: prod.splits)

lemma message_reads_keep:
  assumes A: "outside_ok A"
  shows "fst (message_route r) = GET \<Longrightarrow> keeps (\<lambda>p. Q (db (fst p))) (handle_message A E hs r)"
proof -
  have out: "keeps_on db Q (st_resolve A h p)" "keeps_on db Q (st_fetch A u a)" for h p u a
    using A unfolding outside_ok_def by blast+
  show "fst (message_route r) = GET \<Longrightarrow> keeps (\<lambda>p. Q (db (fst p))) (handle_message A E hs r)"
    by (cases r; simp only: handle_message.simps message_route.simps fst_conv http_method.distinct search_users_def
        search_messages_def link_preview_def ensure_public_preview_host_def list_saved_messages_def get_message_def
        message_permalink_def list_message_reports_def download_file_def;
        (intro keeps_intro keeps_on_world keeps_on_blobs out)?)
qed

lemma preferences_read_keeps:
  "keeps_on db (\<lambda>d. \<exists>ps. d = x\<lparr>notification_preferences := ps\<rparr>) (notification_preferences_handler E hs)"
  unfolding notification_preferences_handler_def
  by (intro keeps_intro) (auto simp: insert_preferences_or_ignore_def insert_preferences_def map_sum_def split: if_splits sum.splits)

lemma notification_reads_keep:
  "fst (notification_route r) = GET \<Longrightarrow> r \<noteq> Get_Preferences \<Longrightarrow> keeps_on db Q (handle_notification E hs r)"
  by (cases r; simp only: handle_notification.simps notification_route.simps fst_conv http_method.distinct
      list_notifications_def notification_config_def notification_subscriptions_handler_def; (intro keeps_intro)?; blast)

lemma handle_reads_keep:
  assumes A: "outside_ok A" and get: "fst (api_route r) = GET" and r: "r \<noteq> Notification_Request Get_Preferences"
  shows "keeps (\<lambda>p. Q (db (fst p))) (handle_request A E hs r)"
proof (cases r)
  case WebSocket_Request
  then show ?thesis
    by (simp only: handle_request.simps websocket_def) (intro keeps_on_world keeps_intro)
qed (use get r in \<open>auto intro!: keeps_on_world account_reads_keep admin_get_keeps conversation_reads_keep
      notification_reads_keep message_reads_keep [OF A]\<close>)

text \<open>
  C21: a \<^verbatim>\<open>GET\<close> request is safe.  As long as the services outside the program do not write to its tables, a
  \<^verbatim>\<open>GET\<close> request to any route, the opening of a WebSocket included, changes no table, whatever it answers;
  only the request for the notification preferences may store the defaults of a user who has none.
\<close>

theorem get_requests_are_safe:
  assumes A: "outside_ok A" and get: "fst (api_route r) = GET" and run: "handle_request A E hs r (w, b) = (x, (w', b'))"
  shows "db w' = db w \<or>
     r = Notification_Request Get_Preferences \<and> (\<exists>ps. db w' = (db w)\<lparr>notification_preferences := ps\<rparr>)"
proof (cases "r = Notification_Request Get_Preferences")
  case True
  have start: "\<exists>ps. db w = (db w)\<lparr>notification_preferences := ps\<rparr>"
    by (rule exI [of _ "notification_preferences (db w)"]) simp
  have "\<exists>ps. db w' = (db w)\<lparr>notification_preferences := ps\<rparr>"
    using keeps_runD [OF keeps_on_world [OF keeps_on_answered [OF preferences_read_keeps [of "db w" E hs]]], of "(w, b)" x "(w', b')"]
      start run by (simp add: True)
  with True show ?thesis by blast
next
  case False
  from keeps_runD [OF handle_reads_keep [OF A get False, of "\<lambda>d. d = db w"] _ run] show ?thesis by simp
qed

text \<open>A process with files on disk, no scanner and no recovery mail.\<close>

definition demo_state :: "keyspace app_state" where
  "demo_state = \<lparr>st_blob_store = filesystem_store calm_disk ''uploads'', st_scanner = noop_scan,
     st_recovery_notifier = disabled_notify, st_dummy_hash = ''-'', st_fts = (\<lambda>_ _. False), st_headline = (\<lambda>_ s. s),
     st_port = (\<lambda>_. None), st_resolve = (\<lambda>_ _. fail ''no such host''), st_fetch = (\<lambda>_ _. fail ''unreachable''),
     st_html = (\<lambda>_. \<lparr>ht_title = None, ht_meta = []\<rparr>), st_join = (\<lambda>_ _. None)\<rparr>"

lemma demo_state_ok: "outside_ok demo_state"
  by (auto simp: outside_ok_def demo_state_def noop_scan_def disabled_notify_def intro!: keeps_intro)

theorem get_requests_are_safe_witness:
  "\<exists>w' b'. handle_request demo_state demo_env demo_headers (Account_Request Me) (demo_signed_in, demo_disk) = (Inr (), (w', b')) \<and>
     db w' = db demo_signed_in"
proof -
  let ?m = "handle_request demo_state demo_env demo_headers (Account_Request Me) (demo_signed_in, demo_disk)"
  have run: "fst ?m = Inr ()"
    by code_simp
  obtain w' b' where w: "snd ?m = (w', b')" by (cases "snd ?m")
  from run w have eq: "?m = (Inr (), (w', b'))" by (metis prod.collapse)
  have "fst (api_route (Account_Request Me)) = GET" by simp
  from get_requests_are_safe [OF demo_state_ok this eq] eq show ?thesis by blast
qed

end
