(* ===== verification/Startup.thy ===== *)
theory Startup
  imports Media Account Delivery
begin

text \<open>
  \<^verbatim>\<open>backend/src/bootstrap.rs\<close>: what a process does before it serves requests, and its periodic clean-up of files.
  The wiring of the frameworks (listener, tracing, metrics recorder, signal handler) is left out.
\<close>

section \<open>Accounts from the environment\<close>

text \<open>
  \<^verbatim>\<open>INSERT INTO users ... ON CONFLICT (lower(email)) DO UPDATE SET ... RETURNING id\<close>; \<open>change\<close> is the update,
  which may set the name too.
\<close>

definition upsert_user :: "'s env \<Rightarrow> (user_row \<Rightarrow> user_row) \<Rightarrow> user_row \<Rightarrow> uuid stmt" where
  "upsert_user E change u d =
     (let same = (\<lambda>x. pg_lower E (u_email x) = pg_lower E (u_email u)) in
      case find same (users d) of
        Some x \<Rightarrow>
          constrained [(\<not> list_ex (\<lambda>y. u_id y \<noteq> u_id x \<and> pg_lower E (u_username y) = pg_lower E (u_username (change x))) (users d),
                        ''users_username_lower_idx'')]
            (u_id x, d\<lparr>users := update_where same change (users d)\<rparr>)
      | None \<Rightarrow> map_sum (\<lambda>e. e) (\<lambda>(_, d'). (u_id u, d')) (insert_user E u d))"

definition reset_account :: "string \<Rightarrow> i64 \<Rightarrow> user_row \<Rightarrow> user_row" where
  "reset_account hash now u = u\<lparr>u_password_hash := hash, u_disabled_at := None, u_updated_at := now\<rparr>"

definition rename_user :: "'s env \<Rightarrow> string \<Rightarrow> uuid \<Rightarrow> unit stmt" where
  "rename_user E name i d =
     constrained [(\<not> has_user d i \<or> \<not> list_ex (\<lambda>u. u_id u \<noteq> i \<and> pg_lower E (u_username u) = pg_lower E name) (users d),
                   ''users_username_lower_idx'')]
       ((), d\<lparr>users := update_where (\<lambda>u. u_id u = i) (\<lambda>u. u\<lparr>u_username := name\<rparr>) (users d)\<rparr>)"

text \<open>An account that has the name but not the address of the administrator makes room.\<close>

definition make_room :: "'s env \<Rightarrow> string \<Rightarrow> ('s, repository_error, unit) io" where
  "make_room E email =
     try_bind (db_query E Database (\<lambda>d. find (\<lambda>u. pg_lower E (u_username u) = ''admin'') (users d))) (\<lambda>row.
     case row of
       None \<Rightarrow> ok ()
     | Some u \<Rightarrow>
         when_do (to_lowercase (uni E) (u_email u) \<noteq> to_lowercase (uni E) email)
           (db_exec E Database (rename_user E (''admin_renamed_'' @ take 8 (uuid_str E (u_id u))) (u_id u))))"

definition bootstrap_admin :: "'s env \<Rightarrow> ('s, repository_error, unit) io" where
  "bootstrap_admin E =
     (case (env_var E ''ADMIN_EMAIL'', env_var E ''ADMIN_PASSWORD'') of
        (Some email, Some password) \<Rightarrow>
          try_bind (map_err (\<lambda>e. Migration (message e)) (password_hash E password)) (\<lambda>hash.
          transaction E Database
            (try_bind (make_room E email) (\<lambda>_.
             try_bind (uuid_now_v7 E) (\<lambda>i.
             try_bind (now_i64 E) (\<lambda>now.
             try_bind (db_exec E Database (upsert_user E (reset_account hash now)
               (new_user i (pg_lower E email) ''admin'' hash now))) (\<lambda>user.
             try_bind (db_exec E Database (insert_user_roles_or_ignore user ''admin'' now)) (\<lambda>_.
             ok ())))))))
      | _ \<Rightarrow> ok ())"

text \<open>\<^verbatim>\<open>repository.seed_test_accounts()\<close>\<close>

definition seed_test_account :: "'s env \<Rightarrow> nat \<Rightarrow> ('s, repository_error, unit) io" where
  "seed_test_account E number =
     (let username = ''test'' @ show_nat number; email = username @ ''@example.com'' in
      try_bind (map_err (\<lambda>e. Migration (message e)) (hash_password_unchecked E username)) (\<lambda>hash.
      try_bind (now_i64 E) (\<lambda>now.
      try_bind (uuid_now_v7 E) (\<lambda>i.
      try_bind (db_exec E Database (upsert_user E (\<lambda>u. (reset_account hash now u)\<lparr>u_username := username\<rparr>)
        (new_user i (pg_lower E email) username hash now))) (\<lambda>user.
      try_bind (db_exec E Database (insert_user_roles_or_ignore user (if number = 1 then ''admin'' else ''user'') now)) (\<lambda>_.
      ok ()))))))"

definition seed_test_accounts :: "'s env \<Rightarrow> ('s, repository_error, unit) io" where
  "seed_test_accounts E = try_bind (for_each [1..<7] (seed_test_account E)) (\<lambda>_. ok ())"

text \<open>The database part of \<^verbatim>\<open>run\<close>; the answer is whether the process goes on to serve requests.\<close>

definition prepare_database :: "'s env \<Rightarrow> ('s, repository_error, bool) io" where
  "prepare_database E =
     try_bind (ensure_main_channel E) (\<lambda>_.
     try_bind (seed_authorization E) (\<lambda>_.
     try_bind (when_do (env_var E ''SEED_TEST_ACCOUNTS'' = Some ''true'') (seed_test_accounts E)) (\<lambda>_.
     try_bind (bootstrap_admin E) (\<lambda>_.
     ok (env_var E ''MIGRATIONS_ONLY'' \<noteq> Some ''true'')))))"

section \<open>Configuration\<close>

definition valkey_pool_size :: "'s env \<Rightarrow> nat" where
  "valkey_pool_size E =
     (let n = (case env_var E ''VALKEY_POOL_SIZE'' of
                 None \<Rightarrow> 16
               | Some v \<Rightarrow> (case parse_usize v of None \<Rightarrow> 16 | Some n \<Rightarrow> if n > 0 then n else 16))
      in min 64 (max 1 n))"

datatype storage_backend = S3_Backend | Filesystem_Backend

definition storage_backend_of :: "'s env \<Rightarrow> string + storage_backend" where
  "storage_backend_of E =
     (let backend = (case env_var E ''STORAGE_BACKEND'' of None \<Rightarrow> ''filesystem'' | Some b \<Rightarrow> b) in
      if backend = ''s3'' then Inr S3_Backend
      else if backend = ''filesystem'' then Inr Filesystem_Backend
      else Inl (''unsupported STORAGE_BACKEND='' @ backend))"

text \<open>
  The services outside the process: each one is off unless it is configured, and a configuration that is not
  accepted stops the start.  \<open>post\<close> is the HTTP client, \<open>client_build\<close> the error of its builder, \<open>debug\<close> the
  derived \<^verbatim>\<open>Debug\<close> text of an error.
\<close>

definition scanner_of ::
  "'s env \<Rightarrow> string option \<Rightarrow> (scan_error \<Rightarrow> string) \<Rightarrow>
   (string \<Rightarrow> (string \<times> string) list \<Rightarrow> string \<Rightarrow> ('s, string, nat \<times> string) io) \<Rightarrow> string + 's scanner" where
  "scanner_of E client_build debug post =
     (if env_var E ''FILE_SCANNER_URL'' \<noteq> None
      then (case http_scanner_from_env E client_build of
              Inl e \<Rightarrow> Inl (''file scanner configuration failed: '' @ debug e)
            | Inr endpoint \<Rightarrow> Inr (http_scan post endpoint))
      else Inr noop_scan)"

definition recovery_notifier_of ::
  "'s env \<Rightarrow> string option \<Rightarrow> (recovery_error \<Rightarrow> string) \<Rightarrow> (string \<Rightarrow> json \<Rightarrow> ('s, string, nat \<times> string) io) \<Rightarrow> string + 's notifier" where
  "recovery_notifier_of E client_build debug post =
     (if env_var E ''RECOVERY_WEBHOOK_URL'' \<noteq> None
      then (case recovery_webhook_from_env E client_build of
              Inl e \<Rightarrow> Inl (''recovery delivery configuration failed: '' @ debug e)
            | Inr endpoint \<Rightarrow> Inr (recovery_webhook_notify post endpoint))
      else Inr disabled_notify)"

definition notification_sink ::
  "'s env \<Rightarrow> string option \<Rightarrow> (string \<Rightarrow> json \<Rightarrow> ('s, string, nat \<times> string) io) \<Rightarrow> string \<Rightarrow> string \<Rightarrow> string \<Rightarrow> string + 's sink" where
  "notification_sink E client_build post variable kind context' =
     (if env_var E variable \<noteq> None
      then (case webhook_from_env E client_build variable kind of
              Inl e \<Rightarrow> Inl (context' @ '': '' @ show_delivery_error e)
            | Inr hook \<Rightarrow> Inr (webhook_deliver E post hook))
      else Inr disabled_sink)"

section \<open>Clean-up of files\<close>

text \<open>The body of the loop over the claimed files: the blob goes first, and the row only after it.\<close>

definition cleanup_one :: "'s env \<Rightarrow> 'b blob_ops \<Rightarrow> uuid \<times> string \<Rightarrow> ('s, 'b, unit) media" where
  "cleanup_one E store = (\<lambda>(i, key).
     try_bind (attempt (on_blobs (blob_delete store key))) (\<lambda>r.
     case r of
       Inl _ \<Rightarrow> ok ()
     | Inr _ \<Rightarrow> ignore (on_world (delete_file_metadata E i))))"

definition cleanup_pass :: "'s env \<Rightarrow> 'b blob_ops \<Rightarrow> ('s, 'b, unit) media" where
  "cleanup_pass E store =
     try_bind (on_world (now_i64 E)) (\<lambda>now.
     try_bind (attempt (on_world (claim_orphan_files E (now - 60 * 60 * 1000)))) (\<lambda>r.
     case r of
       Inl _ \<Rightarrow> ok ()
     | Inr claimed \<Rightarrow> try_bind (for_each claimed (cleanup_one E store)) (\<lambda>_. ok ())))"

section \<open>The administrator\<close>

lemma upsert_user_effect:
  assumes "upsert_user E change u d = Inr (i, d')" "\<And>x. u_id (change x) = u_id x \<and> u_email (change x) = u_email x"
  shows "roles d' = roles d \<and> user_roles d' = user_roles d \<and>
     (\<exists>x \<in> set (users d'). pg_lower E (u_email x) = pg_lower E (u_email u) \<and> u_id x = i \<and> (x = u \<or> x \<in> range change))"
proof (cases "find (\<lambda>x. pg_lower E (u_email x) = pg_lower E (u_email u)) (users d)")
  case None
  with assms(1) show ?thesis
    by (auto simp: upsert_user_def insert_user_def map_sum_def split: sum.splits)
next
  case (Some x)
  from find_SomeD [OF Some] have "x \<in> set (users d)" "pg_lower E (u_email x) = pg_lower E (u_email u)" by auto
  with Some assms(1) have "change x \<in> set (users d')" "roles d' = roles d" "user_roles d' = user_roles d" "i = u_id x"
    by (auto simp: upsert_user_def in_update_where)
  then show ?thesis
    using assms(2) [of x] \<open>pg_lower E (u_email x) = pg_lower E (u_email u)\<close> by (auto intro!: bexI [of _ "change x"])
qed

lemma insert_all_roles: "insert_all insert_user_role rs d = Inr (n, d') \<Longrightarrow> d' = d\<lparr>user_roles := user_roles d @ rs\<rparr>"
proof (induction rs arbitrary: d n)
  case (Cons r rs)
  from Cons.prems obtain d1 m where "insert_user_role r d = Inr ((), d1)" "insert_all insert_user_role rs d1 = Inr (m, d')"
    by (auto simp: map_sum_def split: sum.splits)
  moreover have "insert_user_role r d = Inr ((), d1) \<Longrightarrow> d1 = d\<lparr>user_roles := user_roles d @ [r]\<rparr>"
    by (simp add: insert_user_role_def)
  ultimately show ?case
    using Cons.IH [of d1 m] by simp
qed simp

lemma role_given:
  assumes "insert_user_roles_or_ignore u role now d = Inr (n, d')" "r \<in> set (roles d)" "ro_name r = role"
  shows "users d' = users d \<and> role \<in> set (roles_of d' u)"
proof -
  have d': "d' = d\<lparr>user_roles := user_roles d @
      filter (\<lambda>x. \<not> has_user_role d (ur_user_id x) (ur_role_id x)) (role_assignments d u role now)\<rparr>"
    using assms(1) by (simp add: insert_user_roles_or_ignore_def insert_all_roles)
  have "\<exists>x \<in> set (user_roles d'). ur_role_id x = ro_id r \<and> ur_user_id x = u"
  proof (cases "has_user_role d u (ro_id r)")
    case True
    then show ?thesis by (auto simp: d' has_user_role_def list_ex_iff)
  next
    case False
    let ?x = "\<lparr>ur_user_id = u, ur_role_id = ro_id r, ur_assigned_at = now\<rparr>"
    have "?x \<in> set (role_assignments d u role now)"
      using assms(2,3) by (auto simp: role_assignments_def)
    with False show ?thesis by (intro bexI [of _ ?x]) (auto simp: d')
  qed
  with assms(2,3) show ?thesis
    by (auto simp: d' roles_of_def)
qed

lemma password_hash_ok:
  "password_hash E password w = (Inr hash, v) \<Longrightarrow>
     12 \<le> length password \<and> length password \<le> 200 \<and> (\<exists>salt. argon2_hash E password salt = Some hash) \<and> db v = db w"
  by (auto simp: password_hash_def hash_password_unchecked_def ok_simps split: if_splits option.splits)

lemma make_room_ok: "make_room E email w = (Inr x, v) \<Longrightarrow> roles (db v) = roles (db w)"
  by (auto simp: make_room_def when_do_def ok_simps rename_user_def split: option.splits if_splits)

text \<open>
  C31: the configured administrator can log in.  When a process starts with an address and a password for the
  administrator and the roles are seeded, a start without error had a password of an accepted length and
  leaves an account with that address that is not disabled, whose stored hash is one of that password, and
  that has the role of an administrator.
\<close>

theorem bootstrap_admin_ready:
  assumes "env_var E ''ADMIN_EMAIL'' = Some email" "env_var E ''ADMIN_PASSWORD'' = Some password"
    and "r \<in> set (roles (db w))" "ro_name r = ''admin''" and "bootstrap_admin E w = (Inr (), w')"
  shows "12 \<le> length password \<and> length password \<le> 200 \<and>
     (\<exists>u \<in> set (users (db w')). pg_lower E (u_email u) = pg_lower E (pg_lower E email) \<and> u_disabled_at u = None \<and>
        (\<exists>salt. argon2_hash E password salt = Some (u_password_hash u)) \<and> ''admin'' \<in> set (roles_of (db w') (u_id u)))"
proof -
  from assms(1,2,5) obtain hash v v1 i now user d1 n d2 where hash: "password_hash E password w = (Inr hash, v)"
    and room: "make_room E email (next_tick v) = (Inr (), v1)"
    and up: "upsert_user E (reset_account hash now) (new_user i (pg_lower E email) ''admin'' hash now) (db v1) = Inr (user, d1)"
    and role: "insert_user_roles_or_ignore user ''admin'' now d1 = Inr (n, d2)" and w': "db w' = d2"
    by (auto simp: bootstrap_admin_def ok_simps)
  note h = password_hash_ok [OF hash]
  have "roles d1 = roles (db v1) \<and> (\<exists>u \<in> set (users d1). pg_lower E (u_email u) = pg_lower E (pg_lower E email) \<and>
      u_id u = user \<and> (u = new_user i (pg_lower E email) ''admin'' hash now \<or> u \<in> range (reset_account hash now)))"
    using upsert_user_effect [OF up] by (simp add: reset_account_def new_user_def)
  then obtain u where roles: "roles d1 = roles (db v1)"
    and u: "pg_lower E (u_email u) = pg_lower E (pg_lower E email)" "u_id u = user" "u_disabled_at u = None"
      "u_password_hash u = hash" "u \<in> set (users d1)"
    by (force simp: reset_account_def new_user_def)
  have "r \<in> set (roles d1)"
    using assms(3) h make_room_ok [OF room] roles by simp
  from role_given [OF role this assms(4)] u(2,5) have "u \<in> set (users (db w'))" "''admin'' \<in> set (roles_of (db w') (u_id u))"
    by (simp_all add: w')
  with u(1,3,4) h show ?thesis by blast
qed

section \<open>Clean-up\<close>

lemma keeps_for_each_in: "(\<And>x. x \<in> set xs \<Longrightarrow> keeps P (f x)) \<Longrightarrow> keeps P (for_each xs f)"
  by (induction xs) (auto intro!: keeps_intro)

lemma for_each_total: "(\<And>x p. \<exists>y p'. f x p = (Inr y, p')) \<Longrightarrow> \<exists>ys p'. for_each xs f p = (Inr ys, p')"
proof (induction xs arbitrary: p)
  case (Cons x xs)
  obtain y p1 where "f x p = (Inr y, p1)" using Cons.prems by blast
  moreover obtain ys p2 where "for_each xs f p1 = (Inr ys, p2)" using Cons.IH [OF Cons.prems] by blast
  ultimately show ?case by (simp add: try_bind_def)
qed simp

lemma delete_metadata_run:
  "snd (delete_file_metadata E i w) = (next_tick w)\<lparr>db := db w\<rparr> \<or>
   snd (delete_file_metadata E i w) = (next_tick w)\<lparr>db := (db w)
     \<lparr>files := filter (\<lambda>f. \<not> (f_id f = i \<and> f_deleted_at f \<noteq> None)) (files (db w)),
      message_files := (if list_ex (\<lambda>f. f_id f = i \<and> f_deleted_at f \<noteq> None) (files (db w))
                        then filter (\<lambda>x. mf_file_id x \<noteq> i) (message_files (db w)) else message_files (db w))\<rparr>\<rparr>"
  by (auto simp: delete_file_metadata_def io_defs map_err_run Let_def next_tick_def)

text \<open>What the clean-up that started from \<open>d\<close> and \<open>v\<close> never breaks.\<close>

definition cleaned :: "('b \<Rightarrow> string \<Rightarrow> string option) \<Rightarrow> i64 \<Rightarrow> database \<Rightarrow> (string \<Rightarrow> string option) \<Rightarrow> 's world \<times> 'b \<Rightarrow> bool" where
  "cleaned view t d v p \<longleftrightarrow> message_files (db (fst p)) = message_files d \<and>
     (\<forall>f \<in> set (files d). \<not> orphaned d t f \<longrightarrow>
        f \<in> set (files (db (fst p))) \<and> view (snd p) (f_storage_key f) = v (f_storage_key f)) \<and>
     (\<forall>g \<in> set (files d). f_id g \<in> f_id ` set (files (db (fst p))) \<or> view (snd p) (f_storage_key g) = None)"

context blob_store
begin

lemma cleanup_one_run:
  "\<exists>w' b'. cleanup_one E store (i, key) (w, b) = (Inr (), (w', b')) \<and>
     (db w' = db w \<and> view b' = view b \<or>
      view b' = (view b)(key := None) \<and> db w' = db (snd (delete_file_metadata E i w)))"
proof -
  obtain r b1 where del: "blob_delete store key b = (r, b1)" by (cases "blob_delete store key b")
  obtain x w1 where meta: "delete_file_metadata E i w = (x, w1)" by (cases "delete_file_metadata E i w")
  show ?thesis
  proof (cases r)
    case (Inl e)
    with del delete_err [of key b e b1] show ?thesis
      by (simp add: cleanup_one_def try_bind_def attempt_run on_blobs_def)
  next
    case (Inr u)
    with del meta delete_ok [of key b b1] show ?thesis
      by (simp add: cleanup_one_def try_bind_def attempt_run ignore_run on_blobs_def on_world_def)
  qed
qed

lemma cleanup_one_keeps:
  fixes E :: "'s env"
  assumes ids: "distinct (map f_id (files d))" and keys: "distinct (map f_storage_key (files d))"
    and o: "f0 \<in> set (files d)" "orphaned d t f0"
  shows "keeps (cleaned view t d v) (cleanup_one E store (f_id f0, f_storage_key f0))"
proof (rule keepsI)
  fix p :: "'s world \<times> 'b"
  assume ok: "cleaned view t d v p"
  obtain w b where p: "p = (w, b)" by (cases p)
  obtain w' b' where run: "cleanup_one E store (f_id f0, f_storage_key f0) (w, b) = (Inr (), (w', b'))"
    and cases: "db w' = db w \<and> view b' = view b \<or>
      view b' = (view b)(f_storage_key f0 := None) \<and> db w' = db (snd (delete_file_metadata E (f_id f0) w))"
    using cleanup_one_run [of E "f_id f0" "f_storage_key f0" w b] by blast
  have other: "f \<in> set (files d) \<Longrightarrow> f_id f = f_id f0 \<or> f_storage_key f = f_storage_key f0 \<Longrightarrow> f = f0" for f
    using ids keys o(1) by (auto simp: distinct_map dest: inj_onD)
  have free: "filter (\<lambda>x. mf_file_id x \<noteq> f_id f0) (message_files d) = message_files d"
    using o(2) by (auto simp: orphaned_def list_ex_iff intro: filter_True)
  have "cleaned view t d v (w', b')"
    using cases
  proof
    assume "db w' = db w \<and> view b' = view b"
    with ok show ?thesis by (simp add: cleaned_def p)
  next
    assume gone: "view b' = (view b)(f_storage_key f0 := None) \<and> db w' = db (snd (delete_file_metadata E (f_id f0) w))"
    have "message_files (db w') = message_files d"
      using ok gone delete_metadata_run [of E "f_id f0" w] free by (auto simp: cleaned_def p)
    moreover have rest: "h \<in> set (files (db w)) \<Longrightarrow> f_id h \<noteq> f_id f0 \<Longrightarrow> h \<in> set (files (db w'))" for h
      using gone delete_metadata_run [of E "f_id f0" w] by auto
    moreover have "f_id g \<in> f_id ` set (files (db w')) \<or> view b' (f_storage_key g) = None" if g: "g \<in> set (files d)" for g
    proof (cases "f_id g = f_id f0")
      case False
      from ok g consider h where "h \<in> set (files (db w))" "f_id h = f_id g" | "view b (f_storage_key g) = None"
        by (fastforce simp: cleaned_def p)
      then show ?thesis
      proof cases
        case 1
        with rest [of h] False have "f_id g \<in> f_id ` set (files (db w'))" by (metis imageI)
        then show ?thesis ..
      qed (use gone in simp)
    qed (use other [OF g] gone in simp)
    moreover have "f \<in> set (files (db w')) \<and> view b' (f_storage_key f) = v (f_storage_key f)"
      if "f \<in> set (files d)" "\<not> orphaned d t f" for f
      using that ok gone rest [of f] other [of f] o(2) by (auto simp: cleaned_def p)
    ultimately show ?thesis by (simp add: cleaned_def)
  qed
  with run show "cleaned view t d v (snd (cleanup_one E store (f_id f0, f_storage_key f0) p))" by (simp add: p)
qed

lemma cleanup_pass_cleaned:
  assumes ids: "distinct (map f_id (files (db w)))" and keys: "distinct (map f_storage_key (files (db w)))"
    and run: "cleanup_pass E store (w, b) = (r, p')"
  shows "r = Inr () \<and> cleaned view (sint (clock E (tick w)) - 3600000) (db w) (view b) p'"
proof -
  let ?t = "sint (clock E (tick w)) - 3600000"
  let ?C = "cleaned view ?t (db w) (view b)"
  have same: "db v = db w \<Longrightarrow> ?C (v, b)" for v :: "'s world"
    by (simp add: cleaned_def)
  obtain x v where claim: "claim_orphan_files E ?t (next_tick w) = (x, v)" by (cases "claim_orphan_files E ?t (next_tick w)")
  show ?thesis
  proof (cases x)
    case (Inl e)
    with claim have "db v = db w"
      by (auto simp: claim_orphan_files_def try_bind_def io_defs map_err_run split: if_splits)
    with same [of v] run claim Inl show ?thesis
      by (simp add: cleanup_pass_def try_bind_def now_i64_def on_world_def attempt_run)
  next
    case (Inr claimed)
    with claim obtain now where c: "claimed = map (\<lambda>f. (f_id f, f_storage_key f)) (filter (orphaned (db w) ?t) (files (db w)))"
      and v: "db v = (db w)\<lparr>files := update_where (orphaned (db w) ?t) (\<lambda>f. f\<lparr>f_deleted_at := coalesce (f_deleted_at f) now\<rparr>) (files (db w))\<rparr>"
      by (auto simp: claim_orphan_files_def try_bind_def io_defs map_err_run split: if_splits)
    have start: "?C (v, b)"
      by (auto simp: cleaned_def v in_update_where update_where_image)
    have keep: "keeps ?C (for_each claimed (cleanup_one E store))"
      by (rule keeps_for_each_in) (auto simp: c intro!: cleanup_one_keeps [OF ids keys])
    obtain us p1 where loop: "for_each claimed (cleanup_one E store) (v, b) = (Inr us, p1)"
      using for_each_total [of "cleanup_one E store" claimed "(v, b)"] cleanup_one_run by (metis surj_pair)
    from keeps_runD [OF keep start loop] run claim Inr loop show ?thesis
      by (simp add: cleanup_pass_def try_bind_def now_i64_def on_world_def attempt_run)
  qed
qed

end

text \<open>
  C26: the clean-up spares files in use and forgets no blob.  A pass never fails, whatever calls fail in it.
  A file that is attached to a message, or that is neither deleted nor older than an hour, keeps its row and
  its content, no attachment is removed, and when the row of a file is gone so is its content.
\<close>

theorem cleanup_spares_files_in_use:
  assumes "distinct (map f_id (files (db w)))" "distinct (map f_storage_key (files (db w)))"
    and "cleanup_pass E (filesystem_store K root) (w, b) = (r, (w', b'))" and f: "f \<in> set (files (db w))"
  shows "r = Inr () \<and> message_files (db w') = message_files (db w) \<and>
     (orphaned (db w) (sint (clock E (tick w)) - 3600000) f \<or>
      f \<in> set (files (db w')) \<and> stored_files root b' (f_storage_key f) = stored_files root b (f_storage_key f)) \<and>
     (f_id f \<in> f_id ` set (files (db w')) \<or> stored_files root b' (f_storage_key f) = None)"
  using fs.cleanup_pass_cleaned [OF assms(1-3)] f by (auto simp: cleaned_def)

text \<open>Once a scanner is configured no upload goes unscanned: the process starts only with a scanner at that address.\<close>

lemma configured_scanner_is_used:
  assumes "env_var E ''FILE_SCANNER_URL'' = Some endpoint" "scanner_of E client_build debug post = Inr scan"
  shows "scan = http_scan post endpoint \<and> (\<exists>u. url_parse E endpoint = Some u \<and> url_scheme u \<in> {''http'', ''https''})"
  using assms
  by (auto simp: scanner_of_def http_scanner_from_env_def http_scanner_new_def split: sum.splits option.splits if_splits)

text \<open>The services do not write to the tables if the HTTP client does not.\<close>

lemma services_keep_tables:
  assumes "\<And>Q a hs c. keeps_on db Q (send a hs c)" "\<And>Q a j. keeps_on db Q (post a j)"
  shows "scanner_of E client_build debug send = Inr scan \<Longrightarrow> keeps_on db Q (scan n t c)"
    and "recovery_notifier_of E client_build debug' post = Inr notify \<Longrightarrow> keeps_on db Q (notify mail token)"
    and "notification_sink E client_build post variable kind what = Inr sink \<Longrightarrow> keeps_on db Q (sink target k b)"
  by (auto simp: scanner_of_def noop_scan_def http_scan_def recovery_notifier_of_def disabled_notify_def
      recovery_webhook_notify_def notification_sink_def disabled_sink_def webhook_deliver_def
      split: if_splits sum.splits intro!: keeps_intro assms)

text \<open>A lower bound and an upper bound of the connection pool.\<close>

lemma valkey_pool_size_bounds: "1 \<le> valkey_pool_size E" "valkey_pool_size E \<le> 64"
  by (simp_all add: valkey_pool_size_def Let_def)

section \<open>Examples\<close>

text \<open>The attached file 7, and the file 8, which nobody refers to.\<close>

definition demo_litter :: "keyspace world" where
  "demo_litter = demo_shared\<lparr>db := (db demo_shared)\<lparr>files := files (db demo_shared) @ [\<lparr>f_id = 8, f_uploader_user_id = 2,
     f_storage_key = ''8.bin'', f_original_name = ''b.txt'', f_content_type = ''text/plain'', f_size_bytes = 3, f_checksum = ''y'',
     f_created_at = - 4000000, f_deleted_at = None\<rparr>]\<rparr>\<rparr>"

definition demo_littered :: disk where
  "demo_littered = \<lparr>d_files = [''/data/7.bin'' \<mapsto> ''hello'', ''/data/8.bin'' \<mapsto> ''bye''], d_tick = 0\<rparr>"

theorem cleanup_spares_files_in_use_witness:
  "\<exists>w' b'. cleanup_pass demo_env (filesystem_store calm_disk ''/data'') (demo_litter, demo_littered) = (Inr (), (w', b')) \<and>
     stored_files ''/data'' b' ''7.bin'' = Some ''hello'' \<and> map f_id (files (db w')) = [7] \<and> stored_files ''/data'' b' ''8.bin'' = None"
proof -
  let ?m = "cleanup_pass demo_env (filesystem_store calm_disk ''/data'') (demo_litter, demo_littered)"
  obtain r w' b' where run: "?m = (r, (w', b'))" by (metis surj_pair)
  have keys: "distinct (map f_id (files (db demo_litter)))" "distinct (map f_storage_key (files (db demo_litter)))"
    by (simp_all add: demo_litter_def demo_shared_def)
  have files: "map f_id (files (db (fst (snd ?m)))) = [7]"
    by code_simp
  let ?f = "hd (files (db demo_litter))" and ?g = "last (files (db demo_litter))"
  have in7: "?f \<in> set (files (db demo_litter))" "f_storage_key ?f = ''7.bin''"
    "\<not> orphaned (db demo_litter) (sint (clock demo_env (tick demo_litter)) - 3600000) ?f"
    by (simp_all add: demo_litter_def demo_shared_def orphaned_def)
  have in8: "?g \<in> set (files (db demo_litter))" "f_storage_key ?g = ''8.bin''" "f_id ?g = 8"
    by (simp_all add: demo_litter_def demo_shared_def)
  have before: "stored_files ''/data'' demo_littered ''7.bin'' = Some ''hello''"
    by code_simp
  have "f_id ` set (files (db w')) = {7}"
    using files run by (metis fst_conv snd_conv list.set_map list.simps(15) empty_set)
  then show ?thesis
    using cleanup_spares_files_in_use [OF keys run in7(1)] cleanup_spares_files_in_use [OF keys run in8(1)] in7 in8 before
      files run by simp
qed

definition demo_boot :: "keyspace env" where
  "demo_boot = demo_env\<lparr>env_var := (\<lambda>n. if n = ''ADMIN_EMAIL'' then Some ''ada@example.com'' else if n = ''ADMIN_PASSWORD'' then Some ''longpassword'' else None),
     argon2_hash := (\<lambda>p _. Some p)\<rparr>"

definition demo_seeded :: "keyspace world \<Rightarrow> keyspace world" where
  "demo_seeded w = w\<lparr>db := (db w)\<lparr>roles := [\<lparr>ro_id = 30, ro_name = ''admin'', ro_created_at = 0\<rparr>]\<rparr>\<rparr>"

theorem bootstrap_admin_ready_witness:
  "\<exists>w' u. bootstrap_admin demo_boot (demo_seeded demo_chat) = (Inr (), w') \<and> u \<in> set (users (db w')) \<and>
     u_disabled_at u = None \<and> ''admin'' \<in> set (roles_of (db w') (u_id u))"
proof -
  have "fst (bootstrap_admin demo_boot (demo_seeded demo_chat)) = Inr ()"
    by code_simp
  from run_fst [OF this] obtain w' where run: "bootstrap_admin demo_boot (demo_seeded demo_chat) = (Inr (), w')"
    by blast
  have role: "\<lparr>ro_id = 30, ro_name = ''admin'', ro_created_at = 0\<rparr> \<in> set (roles (db (demo_seeded demo_chat)))"
    by (simp add: demo_seeded_def)
  have vars: "env_var demo_boot ''ADMIN_EMAIL'' = Some ''ada@example.com''" "env_var demo_boot ''ADMIN_PASSWORD'' = Some ''longpassword''"
    by (simp_all add: demo_boot_def)
  from bootstrap_admin_ready [OF vars role _ run] run show ?thesis by auto
qed

text \<open>
  The upsert clears \<^verbatim>\<open>disabled_at\<close> but not \<^verbatim>\<open>deleted_at\<close>: when the account of the configured address was
  deleted, after the next start a login finds it again and as not disabled, while it stays marked as deleted.
\<close>

definition demo_reopened :: "keyspace world" where
  "demo_reopened = demo_seeded (demo_chat\<lparr>db := demo_db\<lparr>users := [(demo_account 1 ''ada'')\<lparr>u_password_hash := ''longpassword'',
     u_deleted_at := Some 1003, u_role_version := 2, u_updated_at := 1004\<rparr>, demo_account 2 ''bob'', demo_account 3 ''eve'']\<rparr>\<rparr>)"

lemma bootstrap_reopens_deleted_account:
  "users (db (snd (bootstrap_admin demo_boot (demo_seeded demo_without_ada)))) = users (db demo_reopened)"
  "fst (find_user_for_login demo_boot ''ada'' demo_reopened) =
     Inr (Some (user_from_row (db demo_reopened) (hd (users (db demo_reopened))), ''longpassword'', False))"
  by code_simp+

end
