(* ===== verification/Side_Tables.thy ===== *)
theory Side_Tables
  imports Routes Startup
begin

text \<open>
  Most requests only write to tables that no conversation depends on: accounts, roles, bans, recovery
  tokens, preferences, notifications, favorites, drafts, read markers, reactions, saved messages, reports,
  uploaded files, the audit trail and the two queues.  The
  locale \<open>side_invariant\<close> states what an invariant of the conversations has to satisfy, namely to be a
  property of the five core tables, and shows once for every such invariant that these requests keep it.
\<close>

definition core :: "database \<Rightarrow>
    channel_row list \<times> member_row list \<times> msg_row list \<times> message_file_row list \<times> invite_link_row list" where
  "core d = (channels d, channel_members d, messages d, message_files d, channel_invite_links d)"

section \<open>Statements that leave the core tables alone\<close>

named_theorems core_same \<open>statements that leave the core tables alone\<close>

lemma core_insert_all:
  "insert_all f xs d = Inr (n, d') \<Longrightarrow> (\<And>x d y d'. f x d = Inr (y, d') \<Longrightarrow> core d' = core d) \<Longrightarrow> core d' = core d"
  by (rule insert_all_ind [where P = "\<lambda>e. core e = core d"]) auto

lemma core_accounts [core_same]:
  "insert_permission_or_ignore i n d = Inr (x, d') \<Longrightarrow> core d' = core d"
  "insert_role_or_ignore i n t d = Inr (x, d') \<Longrightarrow> core d' = core d"
  "grant role wanted d = Inr (x, d') \<Longrightarrow> core d' = core d"
  "insert_user E u d = Inr (x, d') \<Longrightarrow> core d' = core d"
  "insert_all insert_user_role rs d = Inr (m, d') \<Longrightarrow> core d' = core d"
  "insert_user_roles_or_ignore i n t d = Inr (m, d') \<Longrightarrow> core d' = core d"
  "update_user_disabled b t i d = Inr (m, d') \<Longrightarrow> core d' = core d"
  "update_user_name E n t i d = Inr (m, d') \<Longrightarrow> core d' = core d"
  "bump_role_version t i d = Inr (x, d') \<Longrightarrow> core d' = core d"
  "update_user_profile p q e t i d = Inr (x, d') \<Longrightarrow> core d' = core d"
proof -
  have role: "insert_user_role r d = Inr (x, d') \<Longrightarrow> core d' = core d" for r d x d'
    by (auto simp: insert_user_role_def core_def)
  show roles: "insert_all insert_user_role rs d = Inr (m, d') \<Longrightarrow> core d' = core d" for rs m
    by (rule core_insert_all) (auto dest: role)
  show "insert_user_roles_or_ignore i n t d = Inr (m, d') \<Longrightarrow> core d' = core d"
    unfolding insert_user_roles_or_ignore_def by (rule roles)
qed (auto simp: insert_permission_or_ignore_def insert_role_or_ignore_def grant_def insert_user_def
    update_user_disabled_def update_user_name_def bump_role_version_def update_user_profile_def core_def Let_def
    split: if_splits)

lemma core_notifications [core_same]:
  "set_notification_read t i u d = Inr (x, d') \<Longrightarrow> core d' = core d"
  "insert_preferences_or_ignore p d = Inr (y, d') \<Longrightarrow> core d' = core d"
  "upsert_preferences u q t d = Inr (z, d') \<Longrightarrow> core d' = core d"
  "upsert_subscription s d = Inr (v, d') \<Longrightarrow> core d' = core d"
  "delete_subscription i u d = Inr (x, d') \<Longrightarrow> core d' = core d"
  by (auto simp: set_notification_read_def insert_preferences_or_ignore_def insert_preferences_def
      upsert_preferences_def upsert_subscription_def delete_subscription_def core_def Let_def map_sum_def
      split: if_splits sum.splits option.splits)

lemma core_channel_extras [core_same]:
  "insert_all (insert_favorite_or_ignore u t) cs d = Inr (n, d') \<Longrightarrow> core d' = core d"
  "delete_favorite u name d = Inr (x, d') \<Longrightarrow> core d' = core d"
  "insert_all (upsert_draft u b t) cs d = Inr (n, d') \<Longrightarrow> core d' = core d"
  "delete_draft_rows u name d = Inr (x, d') \<Longrightarrow> core d' = core d"
  "insert_all (insert_reaction_or_ignore u emoji t) ms d = Inr (n, d') \<Longrightarrow> core d' = core d"
  "delete_reaction i u emoji name d = Inr (x, d') \<Longrightarrow> core d' = core d"
  "insert_all (upsert_read u p i t) cs d = Inr (n, d') \<Longrightarrow> core d' = core d"
proof -
  show "insert_all (insert_favorite_or_ignore u t) cs d = Inr (n, d') \<Longrightarrow> core d' = core d"
    by (rule core_insert_all) (auto simp: insert_favorite_or_ignore_def core_def split: if_splits)
  show "insert_all (upsert_draft u b t) cs d = Inr (n, d') \<Longrightarrow> core d' = core d"
    by (rule core_insert_all) (auto simp: upsert_draft_def Let_def core_def split: if_splits)
  show "insert_all (insert_reaction_or_ignore u emoji t) ms d = Inr (n, d') \<Longrightarrow> core d' = core d"
    by (rule core_insert_all) (auto simp: insert_reaction_or_ignore_def core_def split: if_splits)
  show "insert_all (upsert_read u p i t) cs d = Inr (n, d') \<Longrightarrow> core d' = core d"
    by (rule core_insert_all) (auto simp: upsert_read_def Let_def core_def split: if_splits)
qed (auto simp: delete_favorite_def delete_draft_rows_def delete_reaction_def core_def)

lemma core_queues [core_same]:
  "claim_stmt t d = Inr (r, d') \<Longrightarrow> core d' = core d"
  "set_published t i d = Inr (x, d') \<Longrightarrow> core d' = core d"
  "set_unclaimed i d = Inr (x, d') \<Longrightarrow> core d' = core d"
  "claim_deliveries t d = Inr (s, d') \<Longrightarrow> core d' = core d"
  "set_sent t i d = Inr (x, d') \<Longrightarrow> core d' = core d"
  "set_retry t e i d = Inr (x, d') \<Longrightarrow> core d' = core d"
  "queue_notification_retry E i a m t d = Inr (x, d') \<Longrightarrow> core d' = core d"
  by (auto simp: claim_stmt_def set_published_def set_unclaimed_def claim_deliveries_def set_sent_def set_retry_def
      queue_notification_retry_def core_def Let_def split: if_splits dest!: insert_outbox_ok)

lemma core_recovery [core_same]:
  "delete_open_tokens u d = Inr (x, d') \<Longrightarrow> core d' = core d"
  "insert_recovery_token r d = Inr (x, d') \<Longrightarrow> core d' = core d"
  "set_password h t u d = Inr (n, d') \<Longrightarrow> core d' = core d"
  "use_token t h d = Inr (x, d') \<Longrightarrow> core d' = core d"
  "mark_user_deleted t u d = Inr (x, d') \<Longrightarrow> core d' = core d"
  by (auto simp: delete_open_tokens_def insert_recovery_token_def set_password_def use_token_def mark_user_deleted_def
      core_def Let_def)

lemma core_media [core_same]:
  "insert_saved_or_ignore s d = Inr (x, d') \<Longrightarrow> core d' = core d"
  "delete_saved u i d = Inr (x, d') \<Longrightarrow> core d' = core d"
  "upsert_report r d = Inr (i, d') \<Longrightarrow> core d' = core d"
  "update_report st a b i d = Inr (n, d') \<Longrightarrow> core d' = core d"
  "insert_file f d = Inr (x, d') \<Longrightarrow> core d' = core d"
  by (auto simp: insert_saved_or_ignore_def delete_saved_def upsert_report_def update_report_def insert_file_def core_def
      Let_def split: if_splits option.splits)

lemma core_administration [core_same]:
  "close_user t u d = Inr (n, d') \<Longrightarrow> core d' = core d"
  "replace_password h t u d = Inr (n, d') \<Longrightarrow> core d' = core d"
  "delete_user_role u role d = Inr (n, d') \<Longrightarrow> core d' = core d"
  "insert_ban b d = Inr (x, d') \<Longrightarrow> core d' = core d"
  "revoke_ban t a i d = Inr (o1, d') \<Longrightarrow> core d' = core d"
  by (auto simp: close_user_def replace_password_def delete_user_role_def insert_ban_def revoke_ban_def core_def Let_def)

lemma core_startup [core_same]:
  "upsert_user E change u d = Inr (i, d') \<Longrightarrow> core d' = core d"
  "rename_user E name i d = Inr (x, d') \<Longrightarrow> core d' = core d"
  by (auto simp: upsert_user_def rename_user_def insert_user_def core_def Let_def map_sum_def split: sum.splits option.splits)

section \<open>Requests that keep every invariant of the core tables\<close>

locale side_invariant =
  fixes I :: "database \<Rightarrow> bool"
  assumes core_only: "core d' = core d \<Longrightarrow> I d' = I d"
begin

lemma frame [simp]:
  "I (d\<lparr>audit_events := a\<rparr>) = I d" "I (d\<lparr>outbox_events := b\<rparr>) = I d" "I (d\<lparr>notifications := c\<rparr>) = I d"
  "I (d\<lparr>notification_deliveries := e\<rparr>) = I d" "I (d\<lparr>files := f\<rparr>) = I d"
  by (rule core_only; simp add: core_def)+

lemma same: "I d \<Longrightarrow> core d' = core d \<Longrightarrow> I d'"
  using core_only by blast

lemma accounts_keep:
  "keeps_on db I (seed_authorization E)" "keeps_on db I (register_user E mail n h)"
  "keeps_on db I (set_user_disabled E a u b)" "keeps_on db I (update_username E u n)"
  "keeps_on db I (assign_role E a u n)" "keeps_on db I (claim_orphan_files E t)"
  unfolding seed_authorization_def register_user_def set_user_disabled_def update_username_def assign_role_def
    claim_orphan_files_def
  by (intro keeps_intro keeps_on_transaction_db; (erule same, erule core_same | auto))+

lemma notifications_keep:
  "keeps_on db I (list_notifications E hs c)" "keeps_on db I (mark_notification_read E hs i)"
  "keeps_on db I (notification_preferences_handler E hs)" "keeps_on db I (update_notification_preferences E hs pu)"
  "keeps_on db I (notification_subscriptions_handler E hs)" "keeps_on db I (save_notification_subscription E hs e p a)"
  "keeps_on db I (delete_notification_subscription E hs i)" "keeps_on db I (profile E hs)"
  "keeps_on db I (update_profile E hs dn cs ex)"
  unfolding list_notifications_def mark_notification_read_def notification_preferences_handler_def
    update_notification_preferences_def notification_subscriptions_handler_def save_notification_subscription_def
    delete_notification_subscription_def profile_def update_profile_def
  by (intro keeps_intro keeps_on_transaction_db; (erule same, erule core_same | auto))+

lemma channel_extras_keep:
  "keeps_on db I (favorite_channel E hs n)" "keeps_on db I (unfavorite_channel E hs n)"
  "keeps_on db I (list_favorite_channels E hs)" "keeps_on db I (get_draft E hs n)"
  "keeps_on db I (update_draft E hs n b)" "keeps_on db I (delete_draft E hs n)"
  unfolding favorite_channel_def unfavorite_channel_def list_favorite_channels_def get_draft_def update_draft_def
    delete_draft_def
  by (intro keeps_intro; (erule same, erule core_same | auto))+

lemma notify_keep:
  "keeps_on db I (create_message_notifications E a m)" "keeps_on db I (retry_message_notifications E u i)"
  by (intro keeps_intro; simp)+

text \<open>The routes of an account.\<close>

lemma sessions_keep:
  "keeps_on db I (register E hs mail name pw)" "keeps_on db I (login E dummy hs mail pw)"
  "keeps_on db I (logout E hs)" "keeps_on db I (list_sessions E hs)" "keeps_on db I (revoke_session E hs i)"
  "keeps_on db I (update_account E hs name)" "keeps_on db I (delete_account E hs)"
  "keeps_on db I (change_password E hs old pw)" "keeps_on db I (reset_recovery E token pw)"
  unfolding register_def login_def logout_def list_sessions_def view_session_def revoke_session_def update_account_def
    delete_account_def change_password_def end_other_session_def reset_recovery_def
  by (intro keeps_intro keeps_on_transaction_db accounts_keep; (erule same, erule core_same | auto))+

lemma recovery_keep:
  assumes "\<And>mail token. keeps_on db I (notify mail token)"
  shows "keeps_on db I (request_recovery E notify mail)"
  unfolding request_recovery_def
  by (intro keeps_intro keeps_on_transaction_db assms; (erule same, erule core_same | auto))

text \<open>Saved messages, reports and uploads.\<close>

lemma media_keep:
  "keeps_on db I (bookmark_message E hs i)" "keeps_on db I (unsave_message E hs i)"
  "keeps_on db I (report_message E hs i reason)" "keeps_on db I (update_message_report E hs i action)"
  unfolding bookmark_message_def unsave_message_def report_message_def update_message_report_def
  by (intro keeps_intro; (erule same, erule core_same | auto))+

lemma upload_keeps:
  assumes "\<And>n t c. keeps_on db I (scan n t c)"
  shows "keeps (\<lambda>p. I (db (fst p))) (upload_file E scan store hs parts)"
proof -
  have accepted: "keeps_on db I (accept_upload E scan hs parts)"
    unfolding accept_upload_def by (intro keeps_intro assms)
  show ?thesis
    unfolding upload_file_def store_upload_def
    by (intro keeps_intro keeps_on_world keeps_on_blobs accepted; erule same, erule core_same)
qed

text \<open>Administration of users, roles and bans.\<close>

lemma administration_keep:
  "keeps_on db I (admin_disable_user E hs u)" "keeps_on db I (admin_enable_user E hs u)"
  "keeps_on db I (admin_delete_user E hs u)" "keeps_on db I (admin_reset_password E hs u pw)"
  "keeps_on db I (admin_invalidate_sessions E hs u)" "keeps_on db I (admin_assign_role E hs u role)"
  "keeps_on db I (admin_remove_role E hs u role)" "keeps_on db I (admin_create_ban E hs request)"
  "keeps_on db I (admin_revoke_ban E hs i)"
  unfolding admin_disable_user_def admin_enable_user_def admin_delete_user_def admin_reset_password_def
    admin_invalidate_sessions_def admin_assign_role_def admin_remove_role_def admin_create_ban_def check_expiry_def
    ban_channel_def admin_revoke_ban_def
  by (intro keeps_intro keeps_on_transaction_db accounts_keep; (erule same, erule core_same | auto))+

text \<open>All routes but those of conversations and of the administration of channels and messages.\<close>

lemma account_requests_keep:
  assumes "outside_ok A"
  shows "keeps_on db I (handle_account A E hs r)"
proof (cases "fst (account_route r) = GET")
  case False
  have "keeps_on db I (st_recovery_notifier A mail token)" for mail token
    using assms by (simp add: outside_ok_def)
  with False show ?thesis
    by (cases r; simp; intro keeps_on_answered sessions_keep recovery_keep notifications_keep)
qed (rule account_reads_keep)

lemma notification_requests_keep: "keeps_on db I (handle_notification E hs r)"
proof (cases "fst (notification_route r) = GET \<and> r \<noteq> Get_Preferences")
  case False
  then show ?thesis
    by (cases r; simp; intro keeps_on_answered notifications_keep)
qed (blast intro: notification_reads_keep)

lemma message_requests_keep:
  assumes A: "outside_ok A"
  shows "keeps (\<lambda>p. I (db (fst p))) (handle_message A E hs r)"
proof (cases "fst (message_route r) = GET")
  case False
  have "keeps_on db I (st_scanner A n t c)" for n t c
    using A by (simp add: outside_ok_def)
  with False show ?thesis
    by (cases r; simp; intro keeps_intro keeps_on_world keeps_on_answered media_keep upload_keeps)
qed (rule message_reads_keep [OF A])

text \<open>The accounts that a start creates.\<close>

lemma startup_keeps: "keeps_on db I (bootstrap_admin E)" "keeps_on db I (seed_test_accounts E)"
proof -
  have room: "keeps_on db I (make_room E email)" for email
    unfolding make_room_def by (intro keeps_intro; erule same, erule core_same)
  have "keeps_on db I (seed_test_account E n)" for n
    unfolding seed_test_account_def by (intro keeps_intro; erule same, erule core_same)
  then show "keeps_on db I (seed_test_accounts E)"
    unfolding seed_test_accounts_def by (intro keeps_intro)
  show "keeps_on db I (bootstrap_admin E)"
    unfolding bootstrap_admin_def
    by (intro keeps_intro keeps_on_transaction_db room; erule same, erule core_same)
qed

lemma outbox_keep: "keeps_on db I (run_outbox E n)"
proof (induction n)
  case (Suc n)
  have "keeps_on db I (outbox_pass E)"
    unfolding outbox_pass_def claim_events_def process_event_def finish_event_def dispatch_def handle_auth_invalidate_def
      handle_notification_retry_def
    by (intro keeps_intro notify_keep; (erule same, erule core_same | auto))
  with Suc show ?case by (simp only: run_outbox.simps) (intro keeps_intro)
qed (simp only: run_outbox.simps, intro keeps_intro)

lemma delivery_keep:
  assumes "\<And>t k b. keeps_on db I (email t k b)" "\<And>t k b. keeps_on db I (browser t k b)"
  shows "keeps_on db I (run_notification_delivery E email browser n)"
proof (induction n)
  case (Suc n)
  have "keeps_on db I (delivery_pass E email browser)"
    unfolding delivery_pass_def delivery_task_def
    by (intro keeps_intro assms; (erule same, erule core_same | auto))
  with Suc show ?case by (simp only: run_notification_delivery.simps) (intro keeps_intro)
qed (simp only: run_notification_delivery.simps, intro keeps_intro)

lemma events_keep:
  "keeps_on db I (add_reaction E user ch i emoji)" "keeps_on db I (remove_reaction E user ch i emoji)"
  "keeps_on db I (mark_read E user ch i t)" "keeps_on db I (publish_message E user s ch m)"
  "keeps_on db I (answer_existing E user ex ch txt root fs)"
  unfolding add_reaction_def remove_reaction_def mark_read_def writer_in_def publish_message_def answer_existing_def
  by (intro keeps_intro notify_keep; (erule same, erule core_same | auto))+

end

end
