(* ===== verification/Channel_Writes.thy ===== *)
theory Channel_Writes
  imports Side_Tables
begin

text \<open>
  The administration writes to the channels too: to their settings, their name and their state.  The
  statements it uses keep the invariant of memberships, because an id belongs to one channel only and
  because the schema refuses a name or a direct key that is taken.
\<close>

lemma distinct_update_one:
  assumes "distinct (map k rs)" "distinct (map j rs)" "\<And>r. r \<in> set rs \<Longrightarrow> j r = i \<Longrightarrow> k (f r) \<notin> k ` {r \<in> set rs. j r \<noteq> i}"
  shows "distinct (map k (update_where (\<lambda>r. j r = i) f rs))"
proof -
  have inj: "inj_on k (set rs)" "inj_on j (set rs)"
    using assms(1,2) by (simp_all add: distinct_map)
  have new: "r \<in> set rs \<Longrightarrow> s \<in> set rs \<Longrightarrow> j r = i \<Longrightarrow> j s \<noteq> i \<Longrightarrow> k (f r) \<noteq> k s" for r s
    using assms(3) [of r] by blast
  have "r = s" if "r \<in> set rs" "s \<in> set rs" "k (if j r = i then f r else r) = k (if j s = i then f s else s)" for r s
    using that new [of r s] new [of s r] inj_onD [OF inj(1), of r s] inj_onD [OF inj(2), of r s]
    by (cases "j r = i"; cases "j s = i") auto
  then have "inj_on (\<lambda>r. k (if j r = i then f r else r)) (set rs)"
    by (rule inj_onI)
  then show ?thesis
    using assms(1) by (simp add: update_where_def distinct_map comp_def)
qed

lemma live_update:
  assumes "distinct (map ch_direct_key (filter live_direct cs))"
    and "\<And>c. live_direct (f c) \<Longrightarrow> live_direct c \<and> ch_direct_key (f c) = ch_direct_key c"
  shows "distinct (map ch_direct_key (filter live_direct (update_where p f cs)))"
  unfolding update_where_def by (rule filter_map_live [OF _ assms(1)]) (use assms(2) in \<open>auto split: if_splits\<close>)

lemma settings_membership:
  assumes ok: "membership_ok d" and run: "set_channel_settings q name d = Inr (x, d')"
  shows "membership_ok d'"
proof (rule update_channels_membership [OF ok])
  show d': "d' = d\<lparr>channels := update_where (\<lambda>c. ch_name c = name) (apply_settings q) (channels d)\<rparr>"
    using run by (simp add: set_channel_settings_def)
  show "direct_keys_ok d'"
    using ok by (auto simp: d' membership_defs live_direct_def apply_settings_def intro!: live_update)
qed (simp add: apply_settings_def)

lemma update_channel_membership:
  assumes ok: "membership_ok d" and run: "update_channel name q i d = Inr (x, d')"
  shows "membership_ok d'"
proof -
  let ?f = "\<lambda>c. apply_settings q (c\<lparr>ch_name := or_keep name (ch_name c)\<rparr>)"
  from run have d': "d' = d\<lparr>channels := update_where (\<lambda>c. ch_id c = i) ?f (channels d)\<rparr>"
    and free: "name = Some n \<Longrightarrow> has_channel d i \<Longrightarrow> c \<in> set (channels d) \<Longrightarrow> ch_id c \<noteq> i \<Longrightarrow> ch_name c \<noteq> n" for n c
    by (auto simp: update_channel_def list_ex_iff)
  have keys: "distinct (map ch_id (channels d))" "distinct (map ch_name (channels d))"
    using ok by (simp_all add: membership_defs)
  have "ch_name (?f c) \<notin> ch_name ` {c \<in> set (channels d). ch_id c \<noteq> i}" if c: "c \<in> set (channels d)" "ch_id c = i" for c
  proof (cases name)
    case None
    with c keys inj_onD [of ch_name "set (channels d)" c] show ?thesis
      by (auto simp: apply_settings_def or_keep_def distinct_map)
  next
    case (Some n)
    with c free [of n] show ?thesis
      by (auto simp: apply_settings_def or_keep_def has_channel_iff)
  qed
  then have names: "distinct (map ch_name (channels d'))"
    by (simp add: d' distinct_update_one [OF keys(2,1)])
  have direct: "direct_keys_ok d'"
    using ok by (auto simp: d' membership_defs live_direct_def apply_settings_def intro!: live_update)
  show ?thesis
    by (rule renamed_channels_membership [OF ok _ d' names direct]) (simp add: apply_settings_def)
qed

lemma undelete_direct_keys:
  assumes ok: "membership_ok d"
    and free: "\<And>c k. c \<in> set (channels d) \<Longrightarrow> ch_id c = i \<Longrightarrow> ch_deleted_at c \<noteq> None \<Longrightarrow> ch_kind c = Direct \<Longrightarrow>
      ch_direct_key c = Some k \<Longrightarrow> \<not> direct_key_taken d k"
  shows "distinct (map ch_direct_key (filter live_direct
      (update_where (\<lambda>c. ch_id c = i) (\<lambda>c. c\<lparr>ch_deleted_at := None\<rparr>) (channels d))))"
proof (cases "\<exists>c \<in> set (channels d). ch_id c = i \<and> ch_deleted_at c \<noteq> None")
  case True
  then obtain c where c: "c \<in> set (channels d)" "ch_id c = i" "ch_deleted_at c \<noteq> None" by blast
  have keys: "inj_on ch_id (set (channels d))" "inj_on ch_name (set (channels d))" "distinct (map ch_name (channels d))"
    "distinct (map ch_direct_key (filter live_direct (channels d)))"
    using ok by (simp_all add: membership_defs distinct_map)
  have "ch_id r = i \<longleftrightarrow> ch_name r = ch_name c" if "r \<in> set (channels d)" for r
    using inj_onD [OF keys(1), of r c] inj_onD [OF keys(2), of r c] that c by auto
  then have "update_where (\<lambda>c. ch_id c = i) (\<lambda>c. c\<lparr>ch_deleted_at := None\<rparr>) (channels d) =
      map (\<lambda>r. if ch_name r = ch_name c then r\<lparr>ch_deleted_at := None\<rparr> else r) (channels d)"
    by (simp add: update_where_def)
  moreover have "distinct (map ch_direct_key (filter live_direct
      (map (\<lambda>r. if ch_name r = ch_name c then r\<lparr>ch_deleted_at := None\<rparr> else r) (channels d))))"
    by (rule revive_direct_keys [OF keys(4) c(1) refl c(3) keys(3)]) (use free c direct_key_taken_iff in blast)
  ultimately show ?thesis by simp
next
  case False
  then have "update_where (\<lambda>c. ch_id c = i) (\<lambda>c. c\<lparr>ch_deleted_at := None\<rparr>) (channels d) = channels d"
    unfolding update_where_def by (intro map_idI) auto
  with ok show ?thesis by (simp add: membership_defs)
qed

text \<open>The effect of an action on a channel.\<close>

definition state_change :: "string \<Rightarrow> i64 \<Rightarrow> channel_row \<Rightarrow> channel_row" where
  "state_change action now c =
     (if action = ''archive'' then c\<lparr>ch_archived_at := coalesce (ch_archived_at c) now\<rparr>
      else if action = ''restore'' then c\<lparr>ch_archived_at := None\<rparr>
      else if action = ''delete'' then c\<lparr>ch_deleted_at := coalesce (ch_deleted_at c) now\<rparr>
      else c\<lparr>ch_deleted_at := None\<rparr>)"

lemma state_change_simps [simp]:
  "ch_id (state_change a t c) = ch_id c" "ch_name (state_change a t c) = ch_name c"
  "ch_owner_user_id (state_change a t c) = ch_owner_user_id c"
  by (simp_all add: state_change_def)

lemma set_channel_state_effect:
  "set_channel_state action now i d = Inr (x, d') \<Longrightarrow>
     d' = d\<lparr>channels := update_where (\<lambda>c. ch_id c = i) (state_change action now) (channels d)\<rparr>"
  by (auto simp: set_channel_state_def Let_def state_change_def [abs_def] split: if_splits)

lemma set_channel_state_membership:
  assumes ok: "membership_ok d" and run: "set_channel_state action now i d = Inr (x, d')"
  shows "membership_ok d'"
proof (rule update_channels_membership [OF ok _ set_channel_state_effect [OF run]])
  let ?ds = "\<lambda>f. map ch_direct_key (filter live_direct (update_where (\<lambda>c. ch_id c = i) f (channels d)))"
  have live: "distinct (map ch_direct_key (filter live_direct (channels d)))"
    using ok by (simp add: membership_defs)
  have "distinct (?ds (state_change action now))"
  proof (cases "action \<in> {''archive'', ''restore'', ''delete''}")
    case True
    then show ?thesis
      by (intro live_update [OF live]) (auto simp: state_change_def live_direct_def coalesce_def split: if_splits option.splits)
  next
    case False
    with run have "\<not> direct_key_taken d k"
      if "c \<in> set (channels d)" "ch_id c = i" "ch_deleted_at c \<noteq> None" "ch_kind c = Direct" "ch_direct_key c = Some k" for c k
      using that by (auto simp: set_channel_state_def Let_def list_ex_iff split: option.splits)
    from undelete_direct_keys [OF ok this] False show ?thesis
      by (simp add: state_change_def [abs_def])
  qed
  then show "direct_keys_ok d'"
    by (simp add: direct_keys_ok_def set_channel_state_effect [OF run])
qed simp

end
