(* ===== verification/System.thy ===== *)
theory System
  imports Channel_Writes
begin

text \<open>
  The backend as a whole.  \<open>backend_step\<close> is one request, one connection, or some rounds of a background
  worker, and \<open>backend_reachable\<close> holds of the worlds that any sequence of them leads to from an empty
  database.  The locale \<open>conversation_invariant\<close> collects what the writing operations have to promise for
  an invariant of the conversations, and shows that it then holds in every reachable world; the
  invariants of memberships, of messages and of invite links are its interpretations.
\<close>

section \<open>Steps\<close>

inductive backend_step :: "'s env \<Rightarrow> 's world \<Rightarrow> 's world \<Rightarrow> bool" for E where
  prepared: "backend_step E w (snd (prepare_database E w))"
| requested: "outside_ok A \<Longrightarrow> backend_step E w (fst (snd (handle_request A E headers request (w, b))))"
| connected: "backend_step E w (snd (handle_socket E session inputs w))"
| outbox_run: "backend_step E w (snd (run_outbox E n w))"
| delivery_run: "(\<And>Q t k b. keeps_on db Q (email t k b)) \<Longrightarrow> (\<And>Q t k b. keeps_on db Q (browser t k b)) \<Longrightarrow>
    backend_step E w (snd (run_notification_delivery E email browser n w))"
| retention: "backend_step E w (snd (prune_expired E w))"
| cleaned_up: "backend_step E w (fst (snd (cleanup_pass E (store :: disk blob_ops) (w, b))))"

inductive backend_reachable :: "'s env \<Rightarrow> 's world \<Rightarrow> bool" for E where
  initial: "db w = empty_db \<Longrightarrow> backend_reachable E w"
| step: "backend_reachable E w \<Longrightarrow> backend_step E w w' \<Longrightarrow> backend_reachable E w'"

inductive_cases backend_stepE: "backend_step E w w'"

section \<open>Invariants of the conversations\<close>

locale conversation_invariant = side_invariant I for I +
  fixes E :: "'s env"
  assumes initial_ok: "I empty_db"
    and services: "keeps_on db I (create_public_channel E a name)" "keeps_on db I (create_private_conversation E a name)"
      "keeps_on db I (open_direct E a u)" "keeps_on db I (invite_member E a name u)"
      "keeps_on db I (remove_member E a name u)" "keeps_on db I (delete_channel_service E a name)"
    and members: "keeps_on db I (leave_channel E headers name)" "keeps_on db I (promote_channel_moderator E headers name u)"
      "keeps_on db I (demote_channel_moderator E headers name u)" "keeps_on db I (transfer_channel_ownership E headers name u)"
    and links: "keeps_on db I (create_invite_link E headers name expires uses)" "keeps_on db I (accept_invite_link E headers token)"
    and message_writes: "keeps_on db I (save_message E m s u)" "keeps_on db I (edit_message E name i s txt)"
      "keeps_on db I (delete_message E name i s flag)" "keeps_on db I (prune_expired E)"
      "keeps_on db I (create_channel E name)" "keeps_on db I (delete_file_metadata E i)"
      "keeps_on db I (publish_system_message E name txt)"
    and settings: "I d \<Longrightarrow> set_channel_settings q name d = Inr (x, d') \<Longrightarrow> I d'"
    and renaming: "I d \<Longrightarrow> find (\<lambda>c. ch_id c = i \<and> ch_deleted_at c = None) (channels d) = Some c \<Longrightarrow>
      update_channel n q i d = Inr (x, d') \<Longrightarrow> I d'"
    and channel_states: "I d \<Longrightarrow> find (\<lambda>c. ch_id c = i) (channels d) = Some c \<Longrightarrow>
      ch_name c \<noteq> MAIN_CHANNEL \<Longrightarrow> set_channel_state act t i d = Inr (x, d') \<Longrightarrow> I d'"
    and moderation: "I d \<Longrightarrow> hide_message guard t actor reason i d = Inr (k, d') \<Longrightarrow> I d'"
      "I d \<Longrightarrow> restore_message guard i d = Inr (k, d') \<Longrightarrow> I d'"
begin

lemmas writes = services members links message_writes

lemma audit_frame: "record_audit E conv e w = (Inr x, w') \<Longrightarrow> I (db w') = I (db w)"
  by (auto dest!: record_audit_effect)

lemma admin_writes_keep:
  "keeps_on db I (admin_create_channel E hs q)" "keeps_on db I (admin_update_channel E hs i q)"
  "keeps_on db I (admin_channel_state E hs i action)" "keeps_on db I (admin_moderate_message E hs i action reason)"
  "keeps_on db I (admin_bulk_moderate E hs ids action reason)"
proof -
  show "keeps_on db I (admin_create_channel E hs q)"
    unfolding admin_create_channel_def by (intro keeps_intro writes; (erule (1) settings | simp))
  show "keeps_on db I (admin_update_channel E hs i q)"
    unfolding admin_update_channel_def
    by (intro keeps_intro keeps_on_transaction_commit) (auto simp: ok_simps audit_frame elim: renaming)
  show "keeps_on db I (admin_channel_state E hs i action)"
    unfolding admin_channel_state_def
    by (intro keeps_intro keeps_on_transaction_commit writes)
      (auto simp: ok_simps audit_frame elim: channel_states split: if_splits)
  show "keeps_on db I (admin_moderate_message E hs i action reason)"
    "keeps_on db I (admin_bulk_moderate E hs ids action reason)"
    unfolding admin_moderate_message_def admin_bulk_moderate_def bulk_one_def
    by (intro keeps_intro keeps_on_transaction_db; (erule (1) moderation | simp))+
qed

lemma handle_admin_keeps: "keeps_on db I (handle_admin E hs r)"
proof (cases "admin_reads r")
  case False
  then show ?thesis
    by (cases r; simp add: admin_reads_def answered_def; intro keeps_intro administration_keep admin_writes_keep)
qed (simp add: admin_reads_route admin_get_keeps)

lemma client_action_keeps: "keeps_on db I (client_action E user name s ch ev)"
proof -
  have send: "keeps_on db I (send_message E user name s ch raw root k fs)" for raw root k fs
    unfolding send_message_def send_guards_def build_message_def save_and_publish_def
    by (intro keeps_intro writes events_keep)
  show ?thesis
    by (cases ev; hypsubst;
        simp only: client_action.simps no_switch_def join_event_def edit_event_def delete_event_def
          typing_event_def load_history_event_def load_thread_event_def heartbeat_def writer_in_def
          participant_for_user_def send_channels_def send_private_conversations_def;
        intro keeps_intro writes events_keep send)
qed

lemma rooms_keep:
  "keeps_on db I (rooms_subscribe E c)" "keeps_on db I (rooms_release c :: ('s, app_error, unit) io)"
  by (simp_all add: keeps_on_def keeps_def rooms_subscribe_def rooms_release_def try_bind_def external_def)

lemma socket_loop_keeps: "keeps_on db I (socket_loop E session ch inputs)"
proof (induction inputs arbitrary: ch)
  case (Cons x xs)
  have "keeps_on db I (on_input E session ch x)"
    by (cases x; hypsubst;
        simp only: on_input.simps on_text_def handle_client_event_def switch_channel_def relay_def send_members_def
          participant_for_user_def;
        intro keeps_intro rooms_keep client_action_keeps)
  moreover have "keeps_on db I (case n of Break c \<Rightarrow> ok c | Continue c \<Rightarrow> socket_loop E session c xs)" for n
    using Cons.IH by (cases n) (simp_all add: keeps_intro)
  ultimately show ?case
    by (simp only: socket_loop.simps) (intro keeps_intro)
qed (simp only: socket_loop.simps, intro keeps_intro)

lemma handle_socket_keeps: "keeps_on db I (handle_socket E session inputs)"
  unfolding handle_socket_def participant_for_user_def send_channels_def send_private_conversations_def
    enter_main_def send_members_def disconnect_def
  by (intro keeps_intro rooms_keep socket_loop_keeps)

lemma handlers_keep:
  "keeps_on db I (create_channel_handler E headers name)" "keeps_on db I (create_private_channel E headers name)"
  "keeps_on db I (open_direct_conversation E headers u)" "keeps_on db I (invite_channel_member E headers name u)"
  "keeps_on db I (remove_channel_member E headers name u)" "keeps_on db I (ensure_main_channel E)"
  unfolding create_channel_handler_def create_private_channel_def open_direct_conversation_def visible_summary_def
    invite_channel_member_def remove_channel_member_def ensure_main_channel_def
  by (intro keeps_intro writes)+

lemma conversation_requests_keep: "keeps_on db I (handle_conversation E hs r)"
proof (cases "fst (conversation_route r) = GET")
  case False
  then show ?thesis
    by (cases r; simp; intro keeps_on_answered handlers_keep writes channel_extras_keep)
qed (rule conversation_reads_keep)

lemma requests_keep:
  assumes A: "outside_ok A"
  shows "keeps (\<lambda>p. I (db (fst p))) (handle_request A E hs r)"
proof (cases r)
  case WebSocket_Request
  then show ?thesis
    by (simp only: handle_request.simps websocket_def) (intro keeps_on_world keeps_intro)
qed (auto intro!: keeps_on_world account_requests_keep [OF A] handle_admin_keeps conversation_requests_keep
      message_requests_keep [OF A] notification_requests_keep)

lemma start_keeps: "keeps_on db I (prepare_database E)"
  unfolding prepare_database_def by (intro keeps_intro handlers_keep accounts_keep startup_keeps)

lemma cleanup_keeps: "keeps (\<lambda>p. I (db (fst p))) (cleanup_pass E store)"
proof -
  have "keeps (\<lambda>p. I (db (fst p))) (cleanup_one E store x)" for x
    unfolding cleanup_one_def by (intro keeps_intro keeps_on_world keeps_on_blobs writes)
  then show ?thesis
    unfolding cleanup_pass_def by (intro keeps_intro keeps_on_world accounts_keep)
qed

lemma step_keeps:
  assumes "backend_step E w w'" "I (db w)"
  shows "I (db w')"
proof -
  have kept: "keeps_on db I m \<Longrightarrow> I (db (snd (m w)))" for m :: "('s, 'e, 'a) io"
    using assms(2) by (simp add: keeps_on_def keeps_def)
  have stored: "keeps (\<lambda>p. I (db (fst p))) m \<Longrightarrow> I (db (fst (snd (m (w, b)))))" for m :: "('s, disk, 'a) media" and b
    using assms(2) keepsD [of "\<lambda>p. I (db (fst p))" m "(w, b)"] by simp
  from assms(1) show ?thesis
    by cases (auto intro!: kept stored start_keeps requests_keep cleanup_keeps handle_socket_keeps outbox_keep
      delivery_keep writes)
qed

lemma reachable_ok: "backend_reachable E w \<Longrightarrow> I (db w)"
  by (induction rule: backend_reachable.induct) (simp_all add: initial_ok step_keeps)

end

section \<open>Memberships\<close>

text \<open>Statements on messages leave channels and members alone.\<close>

lemma message_stmts_membership:
  "membership_ok d \<Longrightarrow> insert_message_row m s u d = Inr (n, d') \<Longrightarrow> membership_ok d'"
  "membership_ok d \<Longrightarrow> insert_message_file_or_ignore i f d = Inr (x, d') \<Longrightarrow> membership_ok d'"
  "membership_ok d \<Longrightarrow> set_message_text txt i d = Inr (x, d') \<Longrightarrow> membership_ok d'"
  "membership_ok d \<Longrightarrow> set_message_deleted t i d = Inr (x, d') \<Longrightarrow> membership_ok d'"
proof -
  show "membership_ok d \<Longrightarrow> insert_message_row m s u d = Inr (n, d') \<Longrightarrow> membership_ok d'"
    by (auto simp: insert_message_row_def dest!: insert_all_messages_ok)
  show "membership_ok d \<Longrightarrow> insert_message_file_or_ignore i f d = Inr (x, d') \<Longrightarrow> membership_ok d'"
    using membership_ok_cong [of d' d] by (auto simp: insert_message_file_or_ignore_def split: if_splits)
qed (auto simp: set_message_text_def set_message_deleted_def)

interpretation memberships: conversation_invariant membership_ok E for E :: "'s env"
proof unfold_locales
  show "core d' = core d \<Longrightarrow> membership_ok d' = membership_ok d" for d d'
    by (rule membership_ok_cong) (simp_all add: core_def)
  show "membership_ok empty_db"
    by (simp add: membership_defs empty_db_def)
  show "keeps_on db membership_ok (save_message E m s u)" for m s u
    unfolding save_message_def
    by (intro keeps_intro keeps_on_transaction_db) (erule (1) message_stmts_membership)+
  show "keeps_on db membership_ok (edit_message E name i s t)" for name i s t
    unfolding edit_message_def by (intro keeps_intro keeps_on_transaction_db) (erule (1) message_stmts_membership)
  show "keeps_on db membership_ok (delete_message E name i s flag)" for name i s flag
    unfolding delete_message_def by (intro keeps_intro keeps_on_transaction_db) (erule (1) message_stmts_membership)
  have del: "membership_ok (delete_messages ids d) = membership_ok d" for ids d
    by (rule membership_ok_cong) (simp_all add: delete_messages_def Let_def)
  show "keeps_on db membership_ok (prune_expired E)"
    unfolding prune_expired_def by (intro keeps_intro) (auto simp: Let_def del)
  show "keeps_on db membership_ok (create_channel E name)" for name
    unfolding create_channel_def by (intro keeps_intro) (erule (1) upsert_channel_membership)
  have files: "membership_ok (d\<lparr>files := a, message_files := b\<rparr>) = membership_ok d" for d a b
    by (rule membership_ok_cong) simp_all
  show "keeps_on db membership_ok (delete_file_metadata E i)" for i
    unfolding delete_file_metadata_def by (intro keeps_intro) (auto simp: Let_def files)
  show "membership_ok d \<Longrightarrow> hide_message guard t actor reason i d = Inr (k, d') \<Longrightarrow> membership_ok d'"
    "membership_ok d \<Longrightarrow> restore_message guard i d = Inr (k, d') \<Longrightarrow> membership_ok d'" for d guard t actor reason i k d'
    by (auto simp: hide_message_def restore_message_def Let_def)
  show "keeps_on db membership_ok (publish_system_message E name s)" for name s
    by (intro keeps_intro) simp
qed (intro keeps_intro | erule (1) settings_membership update_channel_membership set_channel_state_membership)+

section \<open>Messages\<close>

text \<open>A statement that keeps the messages and attachments and removes no channel keeps the invariant.\<close>

lemma messages_ok_mono:
  "messages_ok d \<Longrightarrow> messages d' = messages d \<Longrightarrow> message_files d' = message_files d \<Longrightarrow>
     ch_id ` set (channels d) \<subseteq> ch_id ` set (channels d') \<Longrightarrow> messages_ok d'"
  by (auto simp: messages_ok_def)

lemma channel_stmts_messages:
  "messages_ok d \<Longrightarrow> insert_private_channel i name u t d = Inr (n, d') \<Longrightarrow> messages_ok d'"
  "messages_ok d \<Longrightarrow> insert_direct_channel i name key t d = Inr (r, d') \<Longrightarrow> messages_ok d'"
  "messages_ok d \<Longrightarrow> soft_delete_channel t name d = Inr (o1, d') \<Longrightarrow> messages_ok d'"
  "messages_ok d \<Longrightarrow> set_channel_owner c u d = Inr (x, d') \<Longrightarrow> messages_ok d'"
  "messages_ok d \<Longrightarrow> set_channel_settings q name d = Inr (x, d') \<Longrightarrow> messages_ok d'"
  "messages_ok d \<Longrightarrow> update_channel new q i d = Inr (x, d') \<Longrightarrow> messages_ok d'"
  "messages_ok d \<Longrightarrow> set_channel_state act t i d = Inr (x, d') \<Longrightarrow> messages_ok d'"
  by (erule messages_ok_mono;
      auto simp: set_channel_settings_def update_channel_def apply_settings_def insert_private_channel_def insert_direct_channel_def soft_delete_channel_def set_channel_owner_def
        insert_channel_ok map_sum_def Let_def update_where_image split: if_splits sum.splits dest!: set_channel_state_effect)+

lemma member_stmts_messages:
  "messages_ok d \<Longrightarrow> insert_member m d = Inr (x, d') \<Longrightarrow> messages_ok d'"
  "messages_ok d \<Longrightarrow> insert_member_or_ignore m d = Inr (n, d') \<Longrightarrow> messages_ok d'"
  "messages_ok d \<Longrightarrow> delete_plain_member c u d = Inr (n, d') \<Longrightarrow> messages_ok d'"
  "messages_ok d \<Longrightarrow> delete_member c u d = Inr (x, d') \<Longrightarrow> messages_ok d'"
  "messages_ok d \<Longrightarrow> set_member_role p r c u d = Inr (n, d') \<Longrightarrow> messages_ok d'"
  "messages_ok d \<Longrightarrow> insert_invite_link l d = Inr (x, d') \<Longrightarrow> messages_ok d'"
  "messages_ok d \<Longrightarrow> use_link h d = Inr (x, d') \<Longrightarrow> messages_ok d'"
  by (erule messages_ok_mono;
      auto simp: insert_member_or_ignore_def insert_member_def delete_plain_member_def delete_member_def set_member_role_def
        insert_invite_link_def use_link_def map_sum_def Let_def split: if_splits sum.splits)+

lemma system_message_messages:
  "keeps_on db messages_ok (publish_system_message E ch txt)"
  unfolding publish_system_message_def create_system_message_def
  by (intro keeps_intro) (erule (1) insert_all_messages_messages_ok)

lemmas stmts_messages = upsert_channel_messages_ok channel_stmts_messages member_stmts_messages

interpretation message_rows: conversation_invariant messages_ok E for E :: "'s env"
proof unfold_locales
  show "core d' = core d \<Longrightarrow> messages_ok d' = messages_ok d" for d d'
    by (simp add: messages_ok_def core_def)
  show "messages_ok empty_db"
    by (simp add: messages_ok_def empty_db_def)
  show "keeps_on db messages_ok (create_public_channel E a name)" "keeps_on db messages_ok (create_private_conversation E a name)"
    "keeps_on db messages_ok (open_direct E a u)" "keeps_on db messages_ok (invite_member E a name u)"
    "keeps_on db messages_ok (remove_member E a name u)" "keeps_on db messages_ok (delete_channel_service E a name)" for a name u
    unfolding create_public_channel_def create_private_conversation_def create_private_tx_def open_direct_def
      open_direct_tx_def invite_member_def remove_member_def delete_channel_service_def
    by (intro keeps_intro keeps_on_transaction_db system_message_messages; (erule (1) stmts_messages | simp))+
  show "keeps_on db messages_ok (leave_channel E headers name)" for headers name
    unfolding leave_channel_def leave_conversation_def
    by (intro keeps_intro system_message_messages; (erule (1) stmts_messages | simp))
  show "keeps_on db messages_ok (promote_channel_moderator E headers name u)"
    "keeps_on db messages_ok (demote_channel_moderator E headers name u)"
    "keeps_on db messages_ok (transfer_channel_ownership E headers name u)" for headers name u
    unfolding promote_channel_moderator_def demote_channel_moderator_def transfer_channel_ownership_def
      transfer_ownership_def transfer_tx_def
    by (intro keeps_intro keeps_on_transaction_db; (erule (1) stmts_messages | simp))+
  show "keeps_on db messages_ok (create_invite_link E headers name expires uses)" for headers name expires uses
    unfolding create_invite_link_def by (intro keeps_intro; (erule (1) stmts_messages | simp))
  show "keeps_on db messages_ok (accept_invite_link E headers token)" for headers token
    unfolding accept_invite_link_def accept_link_tx_def
    by (intro keeps_intro keeps_on_transaction_db system_message_messages; (erule (1) stmts_messages | simp))
  have attachments: "messages_ok (d\<lparr>files := fs, message_files := filter P (message_files d)\<rparr>)"
    "messages_ok (d\<lparr>files := fs\<rparr>)" if "messages_ok d" for d fs P
    using that by (auto simp: messages_ok_def)
  show "keeps_on db messages_ok (delete_file_metadata E i)" for i
    unfolding delete_file_metadata_def by (intro keeps_intro) (auto simp: Let_def attachments split: if_splits)
  show "messages_ok d \<Longrightarrow> hide_message guard t actor reason i d = Inr (k, d') \<Longrightarrow> messages_ok d'"
    "messages_ok d \<Longrightarrow> restore_message guard i d = Inr (k, d') \<Longrightarrow> messages_ok d'" for d guard t actor reason i k d'
    by (auto simp: hide_message_def restore_message_def Let_def client_key_def intro!: update_messages_ok)
qed (intro keeps_intro system_message_messages | erule (1) stmts_messages)+

section \<open>Invite links\<close>

lemma stmts_links:
  "links_ok d \<Longrightarrow> upsert_channel i name t d = Inr (o1, d') \<Longrightarrow> links_ok d'"
  "links_ok d \<Longrightarrow> insert_private_channel i name u t d = Inr (n, d') \<Longrightarrow> links_ok d'"
  "links_ok d \<Longrightarrow> insert_direct_channel i name key t d = Inr (r, d') \<Longrightarrow> links_ok d'"
  "links_ok d \<Longrightarrow> soft_delete_channel t name d = Inr (o1, d') \<Longrightarrow> links_ok d'"
  "links_ok d \<Longrightarrow> set_channel_owner c u d = Inr (x, d') \<Longrightarrow> links_ok d'"
  "links_ok d \<Longrightarrow> insert_member m d = Inr (x, d') \<Longrightarrow> links_ok d'"
  "links_ok d \<Longrightarrow> insert_member_or_ignore m d = Inr (n, d') \<Longrightarrow> links_ok d'"
  "links_ok d \<Longrightarrow> delete_plain_member c u d = Inr (n, d') \<Longrightarrow> links_ok d'"
  "links_ok d \<Longrightarrow> delete_member c u d = Inr (x, d') \<Longrightarrow> links_ok d'"
  "links_ok d \<Longrightarrow> set_member_role p rl c u d = Inr (n, d') \<Longrightarrow> links_ok d'"
  "links_ok d \<Longrightarrow> insert_message_row msg s u d = Inr (n, d') \<Longrightarrow> links_ok d'"
  "links_ok d \<Longrightarrow> insert_message_file_or_ignore i f d = Inr (x, d') \<Longrightarrow> links_ok d'"
  "links_ok d \<Longrightarrow> set_message_text txt i d = Inr (x, d') \<Longrightarrow> links_ok d'"
  "links_ok d \<Longrightarrow> set_message_deleted t i d = Inr (x, d') \<Longrightarrow> links_ok d'"
  "links_ok d \<Longrightarrow> set_channel_settings q name d = Inr (x, d') \<Longrightarrow> links_ok d'"
  "links_ok d \<Longrightarrow> update_channel new q i d = Inr (x, d') \<Longrightarrow> links_ok d'"
  "links_ok d \<Longrightarrow> set_channel_state act t i d = Inr (x, d') \<Longrightarrow> links_ok d'"
  "links_ok d \<Longrightarrow> hide_message guard t actor reason i d = Inr (n, d') \<Longrightarrow> links_ok d'"
  "links_ok d \<Longrightarrow> restore_message guard i d = Inr (n, d') \<Longrightarrow> links_ok d'"
  by (erule links_ok_cong [THEN iffD2, rotated];
      auto simp: upsert_channel_def insert_private_channel_def insert_direct_channel_def soft_delete_channel_def
        set_channel_owner_def insert_channel_ok insert_member_or_ignore_def insert_member_def delete_plain_member_def
        delete_member_def set_member_role_def insert_message_row_def insert_message_file_or_ignore_def
        set_message_text_def set_message_deleted_def set_channel_settings_def update_channel_def hide_message_def
        restore_message_def map_sum_def Let_def
        split: if_splits sum.splits option.splits dest!: insert_all_messages_ok set_channel_state_effect)+

lemma links_ok_frame [simp]:
  "links_ok (d\<lparr>audit_events := a\<rparr>) = links_ok d" "links_ok (d\<lparr>messages := b\<rparr>) = links_ok d"
  "links_ok (d\<lparr>files := f, message_files := g\<rparr>) = links_ok d" "links_ok (delete_messages ids d) = links_ok d"
  by (rule links_ok_cong; simp add: delete_messages_def Let_def)+

interpretation link_rows: conversation_invariant links_ok E for E :: "'s env"
proof unfold_locales
  show "core d' = core d \<Longrightarrow> links_ok d' = links_ok d" for d d'
    by (rule links_ok_cong) (simp add: core_def)
  show "links_ok empty_db"
    by (simp add: links_ok_def empty_db_def)
  show "keeps_on db links_ok (create_public_channel E a name)" "keeps_on db links_ok (create_private_conversation E a name)"
    "keeps_on db links_ok (open_direct E a u)" "keeps_on db links_ok (invite_member E a name u)"
    "keeps_on db links_ok (remove_member E a name u)" "keeps_on db links_ok (delete_channel_service E a name)" for a name u
    unfolding create_public_channel_def create_private_conversation_def create_private_tx_def open_direct_def
      open_direct_tx_def invite_member_def remove_member_def delete_channel_service_def
    by (intro keeps_intro keeps_on_transaction_db; (erule (1) stmts_links | simp))+
  show "keeps_on db links_ok (leave_channel E headers name)" for headers name
    unfolding leave_channel_def leave_conversation_def
    by (intro keeps_intro; (erule (1) stmts_links | simp))
  show "keeps_on db links_ok (promote_channel_moderator E headers name u)"
    "keeps_on db links_ok (demote_channel_moderator E headers name u)"
    "keeps_on db links_ok (transfer_channel_ownership E headers name u)" for headers name u
    unfolding promote_channel_moderator_def demote_channel_moderator_def transfer_channel_ownership_def
      transfer_ownership_def transfer_tx_def
    by (intro keeps_intro keeps_on_transaction_db; (erule (1) stmts_links | simp))+
  show "keeps_on db links_ok (save_message E m s u)" for m s u
    unfolding save_message_def by (intro keeps_intro keeps_on_transaction_db) (erule (1) stmts_links)+
  show "keeps_on db links_ok (edit_message E name i s t)" for name i s t
    unfolding edit_message_def by (intro keeps_intro keeps_on_transaction_db) (erule (1) stmts_links)
  show "keeps_on db links_ok (delete_message E name i s flag)" for name i s flag
    unfolding delete_message_def by (intro keeps_intro keeps_on_transaction_db) (erule (1) stmts_links)
  show "keeps_on db links_ok (prune_expired E)"
    unfolding prune_expired_def by (intro keeps_intro) (auto simp: Let_def)
  show "keeps_on db links_ok (create_channel E name)" for name
    unfolding create_channel_def by (intro keeps_intro) (erule (1) stmts_links)
  show "keeps_on db links_ok (delete_file_metadata E i)" for i
    unfolding delete_file_metadata_def by (intro keeps_intro) (auto simp: Let_def)
  show "keeps_on db links_ok (publish_system_message E name s)" for name s
    by (intro keeps_intro) simp
qed (rule invite_handlers_links_ok | erule (1) stmts_links)+

section \<open>The main channel\<close>

definition main_alive :: "database \<Rightarrow> bool" where
  "main_alive d \<longleftrightarrow> (\<forall>c \<in> set (channels d). ch_name c = MAIN_CHANNEL \<longrightarrow> ch_deleted_at c = None)"

lemma main_alive_cong: "channels d' = channels d \<Longrightarrow> main_alive d' = main_alive d"
  by (simp add: main_alive_def)

lemma main_alive_channels:
  "main_alive d \<Longrightarrow> upsert_channel i name t d = Inr (o1, d') \<Longrightarrow> main_alive d'"
  "main_alive d \<Longrightarrow> insert_private_channel i name u t d = Inr (n, d') \<Longrightarrow> main_alive d'"
  "main_alive d \<Longrightarrow> insert_direct_channel i name key t d = Inr (r, d') \<Longrightarrow> main_alive d'"
  "main_alive d \<Longrightarrow> set_channel_owner c u d = Inr (x, d') \<Longrightarrow> main_alive d'"
  "main_alive d \<Longrightarrow> name \<noteq> MAIN_CHANNEL \<Longrightarrow> soft_delete_channel t name d = Inr (o1, d') \<Longrightarrow> main_alive d'"
  by (auto simp: main_alive_def upsert_channel_def insert_private_channel_def insert_direct_channel_def new_channel_def
      soft_delete_channel_def set_channel_owner_def insert_channel_ok map_sum_def Let_def in_update_where
      split: if_splits sum.splits option.splits)

lemma main_alive_others:
  "main_alive d \<Longrightarrow> insert_member m d = Inr (x, d') \<Longrightarrow> main_alive d'"
  "main_alive d \<Longrightarrow> insert_member_or_ignore m d = Inr (n, d') \<Longrightarrow> main_alive d'"
  "main_alive d \<Longrightarrow> delete_plain_member c u d = Inr (n, d') \<Longrightarrow> main_alive d'"
  "main_alive d \<Longrightarrow> delete_member c u d = Inr (x, d') \<Longrightarrow> main_alive d'"
  "main_alive d \<Longrightarrow> set_member_role p rl c u d = Inr (n, d') \<Longrightarrow> main_alive d'"
  "main_alive d \<Longrightarrow> insert_invite_link l d = Inr (x, d') \<Longrightarrow> main_alive d'"
  "main_alive d \<Longrightarrow> use_link h d = Inr (x, d') \<Longrightarrow> main_alive d'"
  "main_alive d \<Longrightarrow> insert_message_row msg s u d = Inr (n, d') \<Longrightarrow> main_alive d'"
  "main_alive d \<Longrightarrow> insert_message_file_or_ignore i f d = Inr (x, d') \<Longrightarrow> main_alive d'"
  "main_alive d \<Longrightarrow> set_message_text txt i d = Inr (x, d') \<Longrightarrow> main_alive d'"
  "main_alive d \<Longrightarrow> set_message_deleted t i d = Inr (x, d') \<Longrightarrow> main_alive d'"
  by (erule main_alive_cong [THEN iffD2, rotated];
      auto simp: insert_member_or_ignore_def insert_member_def delete_plain_member_def delete_member_def set_member_role_def
        insert_invite_link_def use_link_def insert_message_row_def insert_message_file_or_ignore_def set_message_text_def
        set_message_deleted_def map_sum_def Let_def split: if_splits sum.splits dest!: insert_all_messages_ok)+

lemmas stmts_main = main_alive_channels(1-4) main_alive_others

lemma main_alive_frame [simp]:
  "main_alive (d\<lparr>audit_events := a\<rparr>) = main_alive d" "main_alive (d\<lparr>messages := b\<rparr>) = main_alive d"
  "main_alive (d\<lparr>files := f, message_files := g\<rparr>) = main_alive d" "main_alive (delete_messages ids d) = main_alive d"
  by (rule main_alive_cong; simp add: delete_messages_def Let_def)+

text \<open>
  Administration writes to the channel with a given id; that there is only one is part of the invariant of
  memberships, which therefore belongs to this one.
\<close>

definition main_ok :: "database \<Rightarrow> bool" where
  "main_ok d \<longleftrightarrow> membership_ok d \<and> main_alive d"

lemma keeps_main_ok: "keeps_on db membership_ok m \<Longrightarrow> keeps_on db main_alive m \<Longrightarrow> keeps_on db main_ok m"
  by (simp add: keeps_on_def keeps_def main_ok_def)

lemma find_only:
  "membership_ok d \<Longrightarrow> find (\<lambda>c. ch_id c = i \<and> Q c) (channels d) = Some c \<Longrightarrow> r \<in> set (channels d) \<Longrightarrow> ch_id r = i \<Longrightarrow>
     r = c \<and> Q c"
  using find_SomeD [of "\<lambda>c. ch_id c = i \<and> Q c" "channels d" c] inj_onD [of ch_id "set (channels d)" r c]
  by (simp add: membership_ok_def channel_keys_ok_def distinct_map)

lemma main_ok_admin:
  "main_ok d \<Longrightarrow> set_channel_settings q name d = Inr (x, d') \<Longrightarrow> main_ok d'"
  "main_ok d \<Longrightarrow> find (\<lambda>c. ch_id c = i \<and> ch_deleted_at c = None) (channels d) = Some c \<Longrightarrow>
     update_channel new q i d = Inr (x, d') \<Longrightarrow> main_ok d'"
  "main_ok d \<Longrightarrow> find (\<lambda>c. ch_id c = i) (channels d) = Some c \<Longrightarrow> ch_name c \<noteq> MAIN_CHANNEL \<Longrightarrow>
     set_channel_state act t i d = Inr (x, d') \<Longrightarrow> main_ok d'"
  "main_ok d \<Longrightarrow> hide_message guard t actor reason i d = Inr (n, d') \<Longrightarrow> main_ok d'"
  "main_ok d \<Longrightarrow> restore_message guard i d = Inr (n, d') \<Longrightarrow> main_ok d'"
proof -
  show "main_ok d \<Longrightarrow> set_channel_settings q name d = Inr (x, d') \<Longrightarrow> main_ok d'"
    using settings_membership [of d q name x d']
    by (auto simp: main_ok_def main_alive_def set_channel_settings_def in_update_where apply_settings_def split: if_splits)
  show "main_ok d'" if ok: "main_ok d" and c: "find (\<lambda>c. ch_id c = i \<and> ch_deleted_at c = None) (channels d) = Some c"
    and run: "update_channel new q i d = Inr (x, d')"
  proof -
    have live: "r \<in> set (channels d) \<Longrightarrow> ch_id r = i \<Longrightarrow> ch_deleted_at r = None" for r
      using ok find_only [OF _ c, of r] by (auto simp: main_ok_def)
    have "main_alive d'"
      using ok run live
      by (auto simp: main_ok_def main_alive_def update_channel_def in_update_where apply_settings_def split: if_splits)
    then show ?thesis
      using ok update_channel_membership [OF _ run] by (simp add: main_ok_def)
  qed
  show "main_ok d'" if ok: "main_ok d" and c: "find (\<lambda>c. ch_id c = i) (channels d) = Some c"
    and name: "ch_name c \<noteq> MAIN_CHANNEL" and run: "set_channel_state act t i d = Inr (x, d')"
  proof -
    have "main_alive d'"
      using ok name find_only [of d i "\<lambda>_. True" c] c
      by (auto simp: main_ok_def main_alive_def set_channel_state_effect [OF run] in_update_where)
    then show ?thesis
      using ok set_channel_state_membership [OF _ run] by (simp add: main_ok_def)
  qed
qed (auto simp: main_ok_def hide_message_def restore_message_def Let_def)

lemma main_alive_writes:
  "keeps_on db main_alive (create_public_channel E a name)" "keeps_on db main_alive (create_private_conversation E a name)"
  "keeps_on db main_alive (open_direct E a u)" "keeps_on db main_alive (invite_member E a name u)"
  "keeps_on db main_alive (remove_member E a name u)" "keeps_on db main_alive (delete_channel_service E a name)"
  "keeps_on db main_alive (leave_channel E headers name)" "keeps_on db main_alive (promote_channel_moderator E headers name u)"
  "keeps_on db main_alive (demote_channel_moderator E headers name u)"
  "keeps_on db main_alive (transfer_channel_ownership E headers name u)"
  "keeps_on db main_alive (create_invite_link E headers name expires uses)"
  "keeps_on db main_alive (accept_invite_link E headers token)" "keeps_on db main_alive (save_message E m s u)"
  "keeps_on db main_alive (edit_message E name i s str)" "keeps_on db main_alive (delete_message E name i s flag)"
  "keeps_on db main_alive (prune_expired E)" "keeps_on db main_alive (create_channel E name)"
  "keeps_on db main_alive (delete_file_metadata E i)" "keeps_on db main_alive (publish_system_message E name str)"
proof -
  show "keeps_on db main_alive (create_public_channel E a name)" "keeps_on db main_alive (create_private_conversation E a name)"
    "keeps_on db main_alive (open_direct E a u)" "keeps_on db main_alive (invite_member E a name u)"
    "keeps_on db main_alive (remove_member E a name u)"
    unfolding create_public_channel_def create_private_conversation_def create_private_tx_def open_direct_def
      open_direct_tx_def invite_member_def remove_member_def
    by (intro keeps_intro keeps_on_transaction_db; (erule (1) stmts_main | simp))+
  show "keeps_on db main_alive (delete_channel_service E a name)"
  proof (cases "normalize_channel_name (uni E) name")
    case (Inl e)
    then show ?thesis
      unfolding delete_channel_service_def by (simp only: try_bind_lift_Inl) (intro keeps_intro)
  next
    case (Inr n)
    show ?thesis
      unfolding delete_channel_service_def Inr try_bind_lift_Inr
      by (cases "n = MAIN_CHANNEL"; simp only: if_True if_False refl; intro keeps_intro keeps_on_transaction_db;
          (erule (2) main_alive_channels(5) | simp))
  qed
  show "keeps_on db main_alive (leave_channel E headers name)"
    unfolding leave_channel_def leave_conversation_def
    by (intro keeps_intro; (erule (1) stmts_main | simp))
  show "keeps_on db main_alive (promote_channel_moderator E headers name u)"
    "keeps_on db main_alive (demote_channel_moderator E headers name u)"
    "keeps_on db main_alive (transfer_channel_ownership E headers name u)"
    unfolding promote_channel_moderator_def demote_channel_moderator_def transfer_channel_ownership_def
      transfer_ownership_def transfer_tx_def
    by (intro keeps_intro keeps_on_transaction_db; (erule (1) stmts_main | simp))+
  show "keeps_on db main_alive (create_invite_link E headers name expires uses)"
    unfolding create_invite_link_def by (intro keeps_intro; (erule (1) stmts_main | simp))
  show "keeps_on db main_alive (accept_invite_link E headers token)"
    unfolding accept_invite_link_def accept_link_tx_def
    by (intro keeps_intro keeps_on_transaction_db; (erule (1) stmts_main | simp))
  show "keeps_on db main_alive (save_message E m s u)"
    unfolding save_message_def by (intro keeps_intro keeps_on_transaction_db) (erule (1) stmts_main)+
  show "keeps_on db main_alive (edit_message E name i s str)"
    unfolding edit_message_def by (intro keeps_intro keeps_on_transaction_db) (erule (1) stmts_main)
  show "keeps_on db main_alive (delete_message E name i s flag)"
    unfolding delete_message_def by (intro keeps_intro keeps_on_transaction_db) (erule (1) stmts_main)
  show "keeps_on db main_alive (prune_expired E)"
    unfolding prune_expired_def by (intro keeps_intro) (auto simp: Let_def)
  show "keeps_on db main_alive (create_channel E name)"
    unfolding create_channel_def by (intro keeps_intro) (erule (1) stmts_main)
  show "keeps_on db main_alive (delete_file_metadata E i)"
    unfolding delete_file_metadata_def by (intro keeps_intro) (auto simp: Let_def)
  show "keeps_on db main_alive (publish_system_message E name str)"
    by (intro keeps_intro) simp
qed

interpretation main_row: conversation_invariant main_ok E for E :: "'s env"
proof unfold_locales
  show "core d' = core d \<Longrightarrow> main_ok d' = main_ok d" for d d'
    unfolding main_ok_def
    by (intro arg_cong2 [where f = "(\<and>)"] membership_ok_cong main_alive_cong) (simp_all add: core_def)
  show "main_ok empty_db"
    by (simp add: main_ok_def membership_defs main_alive_def empty_db_def)
qed (intro keeps_main_ok memberships.writes main_alive_writes | erule main_ok_admin; assumption)+

end
