(* ===== verification/Connection.thy ===== *)
theory Connection
  imports Handler Failures
begin

text \<open>
  The life of a connection (\<^verbatim>\<open>handle_socket\<close> and the errors of \<^verbatim>\<open>handle_client_event\<close>): every room
  that was granted is given back, only a heartbeat without a session ends the connection, and the
  invalidation of a user's sessions does so.
\<close>

section \<open>Frames\<close>

text \<open>No event of the client reaches the room manager; only the connection's task does.\<close>

lemma room_log_basics [keeps_intro]:
  "keeps_on room_log L (broadcast E ch ev)" "keeps_on room_log L (broadcast_control E ev)"
  "keeps_on room_log L (send_event E ev)" "keeps_on room_log L (record_audit E conv ae)"
  "keeps_on room_log L (enforce_rate_limit E k limit t)"
  "keeps_on room_log L (list_visible_conversations E u)" "keeps_on room_log L (channel_members_of E n)"
  "keeps_on room_log L (ensure_channel_access E n u)" "keeps_on room_log L (ensure_not_globally_banned E u)"
  "keeps_on room_log L (ensure_channel_posting_access E n u ps)" "keeps_on room_log L (owned_private_channel E n u)"
  unfolding broadcast_control_def broadcast_def send_event_def record_audit_def enforce_rate_limit_def
    list_visible_conversations_def channel_members_of_def ensure_channel_access_def
    ensure_not_globally_banned_def ensure_channel_posting_access_def owned_private_channel_def
  by - (intro keeps_intro)+

lemma room_log_services [keeps_intro]:
  "keeps_on room_log L (publish_system_message E ch t)" "keeps_on room_log L (broadcast_members E ch)"
  unfolding publish_system_message_def create_system_message_def broadcast_members_def
  by - (intro keeps_intro)+

lemma room_log_conversations [keeps_intro]:
  "keeps_on room_log L (create_public_channel E a n)" "keeps_on room_log L (create_private_conversation E a n)"
  "keeps_on room_log L (open_direct E a u)" "keeps_on room_log L (invite_member E a n u)"
  "keeps_on room_log L (remove_member E a n u)" "keeps_on room_log L (delete_channel_service E a n)"
  unfolding create_public_channel_def create_private_conversation_def create_private_tx_def open_direct_def
    open_direct_tx_def invite_member_def remove_member_def delete_channel_service_def
  by - (intro keeps_intro)+

lemma room_log_messages [keeps_intro]:
  "keeps_on room_log L (list_channels E u)" "keeps_on room_log L (find_message_by_client_id E s c)"
  "keeps_on room_log L (load_messages E ch b n)" "keeps_on room_log L (save_message E m s u)"
  "keeps_on room_log L (edit_message E ch i s t)" "keeps_on room_log L (delete_message E ch i s md)"
  unfolding list_channels_def find_message_by_client_id_def load_messages_def save_message_def edit_message_def
    delete_message_def
  by - (intro keeps_intro)+

lemma room_log_history [keeps_intro]:
  "keeps_on room_log L (load_thread E ch root b lim)" "keeps_on room_log L (broadcast_reaction E ch i emoji)"
  "keeps_on room_log L (load_hot_history_before E ch before)" "keeps_on room_log L (hydrate_hot_history E ch ms)"
  "keeps_on room_log L (store_message E m o1)" "keeps_on room_log L (update_hot_message E m)"
  "keeps_on room_log L (refresh_presence E ch p)" "keeps_on room_log L (remove_presence E ch u)"
  "keeps_on room_log L (list_presence E ch)"
  unfolding load_thread_def broadcast_reaction_def load_hot_history_before_def load_hot_history_def
    hydrate_hot_history_def store_message_def update_hot_message_def refresh_presence_def remove_presence_def
    list_presence_def
  by - (intro keeps_intro)+

lemma room_log_pages [keeps_intro]:
  "keeps_on room_log L (send_history_page E ch before)" "keeps_on room_log L (send_joined_with_history E ch)"
  "keeps_on room_log L (sync_presence E ch)" "keeps_on room_log L (create_message_notifications E a m)"
  unfolding send_joined_with_history_def send_history_page_def sync_presence_def create_message_notifications_def
    create_message_notifications_with_clock_def recipient_of_def notify_tx_def delivery_jobs_def recipient_jobs_def
  by - (intro keeps_intro)+

lemma room_log_events [keeps_intro]:
  "keeps_on room_log L (participant_for_user E user)" "keeps_on room_log L (send_channels E u)"
  "keeps_on room_log L (send_private_conversations E u)" "keeps_on room_log L (send_members E ch)"
  "keeps_on room_log L (writer_in E user ch)"
  unfolding participant_for_user_def send_channels_def send_private_conversations_def send_members_def writer_in_def
  by - (intro keeps_intro)+

lemma room_log_send [keeps_intro]:
  "keeps_on room_log L (send_message E user name s ch raw root k fs)"
  unfolding send_message_def send_guards_def answer_existing_def build_message_def save_and_publish_def
    publish_message_def
  by (intro keeps_intro)

lemma room_log_client_action [keeps_intro]:
  "keeps_on room_log L (client_action E user name s ch ev)"
  by (cases ev; hypsubst;
      simp only: client_action.simps no_switch_def join_event_def edit_event_def delete_event_def add_reaction_def
        remove_reaction_def typing_event_def mark_read_def load_history_event_def load_thread_event_def heartbeat_def;
      intro keeps_intro)

lemma room_log_handle_client_event [keeps_intro]:
  "keeps_on room_log L (handle_client_event E ch name user s txt)"
  unfolding handle_client_event_def by (intro keeps_intro)

section \<open>Rooms are given back\<close>

lemmas room_log_snd =
  leaves_snd [of room_log, OF room_log_handle_client_event] leaves_snd [of room_log, OF keeps_on_room_log(11)]
  leaves_snd [of room_log, OF room_log_basics(1)] leaves_snd [of room_log, OF room_log_basics(3)]
  leaves_snd [of room_log, OF room_log_history(7)] leaves_snd [of room_log, OF room_log_history(8)]
  leaves_snd [of room_log, OF room_log_pages(2)] leaves_snd [of room_log, OF room_log_pages(3)]
  leaves_snd [of room_log, OF room_log_events(1)] leaves_snd [of room_log, OF room_log_events(4)]

lemma participant_total: "\<exists>p. fst (participant_for_user E user w) = Inr p"
  by (simp add: participant_for_user_def try_bind_def now_i64_def attempt_run Let_def)

lemma rooms_subscribe_log:
  "room_log (snd (rooms_subscribe E ch w)) =
     room_log w @ [if is_ok (fst (rooms_subscribe E ch w)) then Subscribed ch else SubscribeFailed ch]"
  by (simp add: rooms_subscribe_def try_bind_def external_def)

definition target_of_next :: "loop_next \<Rightarrow> string" where
  "target_of_next n = (case n of Continue ch \<Rightarrow> ch | Break ch \<Rightarrow> ch)"

lemma switch_channel_log:
  "\<exists>n w'. switch_channel E session prev t w = (Inr n, w') \<and> target_of_next n = t \<and>
     (room_log w' = room_log w @ [Released prev, Subscribed t] \<or>
      n = Break t \<and> room_log w' = room_log w @ [Released prev, SubscribeFailed t])"
proof -
  define w1 where "w1 = w\<lparr>room_log := room_log w @ [Released prev]\<rparr>"
  define w2 where "w2 = snd (remove_presence E prev (au_id (s_user session)) w1)"
  define w3 where "w3 = snd (broadcast E prev (ParticipantLeft prev (au_id (s_user session))) w2)"
  define w4 where "w4 = snd (rooms_subscribe E t w3)"
  have log3: "room_log w3 = room_log w @ [Released prev]"
    by (simp add: w3_def w2_def w1_def room_log_snd)
  have step: "switch_channel E session prev t w = (case fst (rooms_subscribe E t w3) of
       Inl e \<Rightarrow> try_bind (ignore (send_event E (ErrorEvent (message e)))) (\<lambda>_. ok (Break t)) w4
     | Inr _ \<Rightarrow>
         try_bind (attempt (send_joined_with_history E t)) (\<lambda>joined.
         case joined of
           Inl _ \<Rightarrow> ok (Break t)
         | Inr _ \<Rightarrow>
             try_bind (ignore (send_members E t)) (\<lambda>_.
             try_bind (participant_for_user E (s_user session)) (\<lambda>participant.
             try_bind (ignore (refresh_presence E t participant)) (\<lambda>_.
             try_bind (ignore (sync_presence E t)) (\<lambda>_.
             try_bind (ignore (broadcast E t (ParticipantJoined t participant))) (\<lambda>_.
             ok (Continue t))))))) w4)"
    by (simp add: switch_channel_def try_bind_def ignore_run attempt_run rooms_release_def w1_def w2_def w3_def w4_def
        split: sum.split)
  show ?thesis
  proof (cases "fst (rooms_subscribe E t w3)")
    case (Inl e)
    then show ?thesis
      using rooms_subscribe_log [of E t w3] log3
      by (simp add: step try_bind_def ignore_run room_log_snd target_of_next_def w4_def)
  next
    case (Inr x)
    then have log4: "room_log w4 = room_log w @ [Released prev, Subscribed t]"
      using rooms_subscribe_log [of E t w3] log3 by (simp add: w4_def)
    obtain p where p: "fst (participant_for_user E (s_user session) v) = (Inr (p v) :: app_error + participant)" for v
      using participant_total [of E "s_user session"] by metis
    show ?thesis
      using log4 p Inr
      by (cases "fst (send_joined_with_history E t w4)")
        (simp_all add: step try_bind_def ignore_run attempt_run room_log_snd target_of_next_def case_prod_beta)
  qed
qed

lemma on_input_log:
  "\<exists>n w'. on_input E session ch x w = (Inr n, w') \<and>
     (target_of_next n = ch \<and> room_log w' = room_log w \<or>
      room_log w' = room_log w @ [Released ch, Subscribed (target_of_next n)] \<or>
      (\<exists>t. n = Break t \<and> room_log w' = room_log w @ [Released ch, SubscribeFailed t]))"
proof -
  have relay: "\<exists>n. fst (relay E ch wire w) = Inr n \<and> target_of_next n = ch \<and> room_log (snd (relay E ch wire w)) = room_log w" for wire
    by (simp add: relay_def try_bind_def attempt_run room_log_snd target_of_next_def split: sum.split)
  have frame: ?thesis if x: "x = TextFrame t" for t
  proof -
    let ?run = "handle_client_event E ch (au_username (s_user session)) (s_user session) (s_id session) t w"
    show ?thesis
    proof (cases "fst ?run")
      case (Inl e)
      then show ?thesis
        by (simp add: x on_text_def try_bind_def attempt_run ignore_run room_log_snd target_of_next_def)
    next
      case (Inr sw)
      show ?thesis
      proof (cases sw)
        case None
        with Inr show ?thesis
          by (simp add: x on_text_def try_bind_def attempt_run room_log_snd target_of_next_def)
      next
        case (Some c)
        with Inr switch_channel_log [of E session ch c "snd ?run"] show ?thesis
          by (auto simp: x on_text_def try_bind_def attempt_run room_log_snd)
      qed
    qed
  qed
  show ?thesis
  proof (cases x)
    case (ControlMessage wire)
    with relay [of wire] show ?thesis by (auto simp: prod_eq_iff)
  next
    case (RoomMessage wire)
    with relay [of wire] show ?thesis by (auto simp: prod_eq_iff)
  next
    case ShuttingDown
    then show ?thesis by (simp add: try_bind_def ignore_run external_def target_of_next_def)
  qed (use frame in \<open>simp_all add: target_of_next_def\<close>)
qed

text \<open>The log of a connection that is in the room of \<open>ch\<close>, and of one whose last switch was refused.\<close>

definition in_room :: "room_action list \<Rightarrow> string \<Rightarrow> bool" where
  "in_room log ch \<longleftrightarrow> (\<forall>x. SubscribeFailed x \<notin> set log) \<and>
     (\<forall>x. count_list log (Subscribed x) = count_list log (Released x) + (if x = ch then 1 else 0))"

definition lost_room :: "room_action list \<Rightarrow> string \<Rightarrow> bool" where
  "lost_room log ch \<longleftrightarrow> (\<exists>before. log = before @ [SubscribeFailed ch] \<and> (\<forall>x. SubscribeFailed x \<notin> set before) \<and>
     (\<forall>x. count_list before (Subscribed x) = count_list before (Released x)))"

lemma in_room_switch:
  "in_room log ch \<Longrightarrow> in_room (log @ [Released ch, Subscribed t]) t"
  "in_room log ch \<Longrightarrow> lost_room (log @ [Released ch, SubscribeFailed t]) t"
  by (auto simp: in_room_def lost_room_def intro!: exI [of _ "log @ [Released ch]"])

lemma socket_loop_log:
  assumes "room_log w = l0 @ log" "in_room log ch"
  shows "\<exists>c w' log'. socket_loop E session ch xs w = (Inr c, w') \<and> room_log w' = l0 @ log' \<and>
     (in_room log' c \<or> lost_room log' c)"
  using assms
proof (induction xs arbitrary: ch w log)
  case Nil
  then show ?case by auto
next
  case (Cons x xs)
  obtain n w1 where n: "on_input E session ch x w = (Inr n, w1)"
    "target_of_next n = ch \<and> room_log w1 = room_log w \<or>
     room_log w1 = room_log w @ [Released ch, Subscribed (target_of_next n)] \<or>
     (\<exists>t. n = Break t \<and> room_log w1 = room_log w @ [Released ch, SubscribeFailed t])"
    using on_input_log [of E session ch x w] by (elim exE conjE) (rule that)
  from n(2) have "(\<exists>log1. room_log w1 = l0 @ log1 \<and> in_room log1 (target_of_next n)) \<or>
      (\<exists>t log1. n = Break t \<and> room_log w1 = l0 @ log1 \<and> lost_room log1 t)"
    using Cons.prems in_room_switch [OF Cons.prems(2)] by (elim disjE conjE exE) auto
  with n(1) Cons.IH show ?case
    by (cases n) (auto simp: try_bind_def target_of_next_def)
qed

definition rooms_settled :: "room_action list \<Rightarrow> bool" where
  "rooms_settled log \<longleftrightarrow> (\<forall>ch. count_list log (Subscribed ch) \<le> count_list log (Released ch) \<and>
     count_list log (Released ch) \<le> count_list log (Subscribed ch) + count_list log (SubscribeFailed ch))"

lemma in_room_settled:
  "in_room log ch \<Longrightarrow> rooms_settled (log @ [Released ch])"
  "lost_room log ch \<Longrightarrow> rooms_settled (log @ [Released ch])"
  by (auto simp: in_room_def lost_room_def rooms_settled_def)

lemma disconnect_log:
  "fst (disconnect E session ch w) = Inr ()" "room_log (snd (disconnect E session ch w)) = room_log w @ [Released ch]"
  by (simp_all add: disconnect_def try_bind_def ignore_run rooms_release_def room_log_snd)

lemma enter_main_keeps [keeps_intro]: "keeps_on room_log L (enter_main E p)"
  unfolding enter_main_def by (intro keeps_intro)

lemma in_main: "in_room [Subscribed MAIN_CHANNEL] MAIN_CHANNEL"
  by (simp add: in_room_def)

lemma connected_log:
  assumes "room_log w = l0 @ [Subscribed MAIN_CHANNEL]"
  shows "\<exists>log. fst (try_bind (socket_loop E session MAIN_CHANNEL inputs) (disconnect E session) w) = Inr () \<and>
     room_log (snd (try_bind (socket_loop E session MAIN_CHANNEL inputs) (disconnect E session) w)) = l0 @ log \<and>
     rooms_settled log"
proof -
  obtain c w' log where "socket_loop E session MAIN_CHANNEL inputs w = (Inr c, w')" "room_log w' = l0 @ log"
      "in_room log c \<or> lost_room log c"
    using socket_loop_log [OF assms in_main] by blast
  then show ?thesis
    using in_room_settled [of log c] by (auto simp: try_bind_def disconnect_log intro!: exI [of _ "log @ [Released c]"])
qed

lemma handle_socket_phases:
  "(\<exists>log. fst (handle_socket E session inputs w) = Inr () \<and> room_log (snd (handle_socket E session inputs w)) = room_log w @ log \<and>
      log \<in> {[], [SubscribeFailed MAIN_CHANNEL], [Subscribed MAIN_CHANNEL, Released MAIN_CHANNEL]}) \<or>
   (\<exists>v. room_log v = room_log w @ [Subscribed MAIN_CHANNEL] \<and>
      handle_socket E session inputs w = try_bind (socket_loop E session MAIN_CHANNEL inputs) (disconnect E session) v)"
proof -
  let ?greet = "try_bind (send_event E (Welcome (au_username (s_user session)))) (\<lambda>_.
     try_bind (send_channels E (au_id (s_user session))) (\<lambda>_. send_private_conversations E (au_id (s_user session))))"
  obtain p where p: "fst (participant_for_user E (s_user session) w) = (Inr p :: app_error + participant)"
    using participant_total by blast
  define w1 :: "'a world" where "w1 = snd (participant_for_user E (s_user session) w :: (app_error + participant) \<times> 'a world)"
  define w2 where "w2 = snd (?greet w1)"
  define w3 where "w3 = snd (rooms_subscribe E MAIN_CHANNEL w2)"
  define w4 where "w4 = snd (enter_main E p w3)"
  define w5 where "w5 = snd (broadcast E MAIN_CHANNEL (ParticipantJoined MAIN_CHANNEL p) w4)"
  have "keeps_on room_log L ?greet" for L by (intro keeps_intro)
  then have log: "room_log w2 = room_log w" "room_log w5 = room_log w3" "room_log w4 = room_log w3"
    by (simp_all add: w1_def w2_def w4_def w5_def room_log_snd leaves_snd [OF enter_main_keeps] leaves_snd)
  have run: "handle_socket E session inputs w =
      (case fst (?greet w1) of Inl _ \<Rightarrow> (Inr (), w2) | Inr _ \<Rightarrow>
       case fst (rooms_subscribe E MAIN_CHANNEL w2) of Inl _ \<Rightarrow> (Inr (), w3) | Inr _ \<Rightarrow>
       case fst (enter_main E p w3) of Inl _ \<Rightarrow> rooms_release MAIN_CHANNEL w4 | Inr _ \<Rightarrow>
       try_bind (socket_loop E session MAIN_CHANNEL inputs) (disconnect E session) w5)"
    unfolding handle_socket_def try_bind_def [of "participant_for_user E (s_user session)"]
      try_bind_def [of "attempt _"] try_bind_def [of "ignore _"] attempt_run ignore_run
    by (simp add: p w1_def w2_def w3_def w4_def w5_def case_prod_beta split: sum.split)
  have sub: "room_log w3 = room_log w @ [if is_ok (fst (rooms_subscribe E MAIN_CHANNEL w2))
      then Subscribed MAIN_CHANNEL else SubscribeFailed MAIN_CHANNEL]"
    using rooms_subscribe_log [of E MAIN_CHANNEL w2] log(1) by (simp add: w3_def)
  consider (refused) e where "fst (?greet w1) = Inl e"
    | (no_room) x e where "fst (?greet w1) = Inr x" "fst (rooms_subscribe E MAIN_CHANNEL w2) = Inl e"
    | (left) x y e where "fst (?greet w1) = Inr x" "fst (rooms_subscribe E MAIN_CHANNEL w2) = Inr y" "fst (enter_main E p w3) = Inl e"
    | (entered) x y z where "fst (?greet w1) = Inr x" "fst (rooms_subscribe E MAIN_CHANNEL w2) = Inr y" "fst (enter_main E p w3) = Inr z"
    by (metis sum.exhaust)
  then show ?thesis
  proof cases
    case entered
    then show ?thesis using sub log by (intro disjI2 exI [of _ w5]) (simp add: run)
  qed (use log sub in \<open>simp_all add: run rooms_release_def\<close>)
qed

text \<open>
  C7: a connection gives back every room it was granted.  Whatever the client sends, whatever fails and
  however the connection ends, its task ends without an error, it has released each room at least as
  often as it was granted the room, and at most as often as it asked for it: exactly as often when no
  request was refused.
\<close>

theorem socket_gives_rooms_back:
  "\<exists>log. fst (handle_socket E session inputs w) = Inr () \<and>
     room_log (snd (handle_socket E session inputs w)) = room_log w @ log \<and> rooms_settled log"
  using handle_socket_phases [of E session inputs w]
proof (elim disjE exE conjE)
  fix v assume "room_log v = room_log w @ [Subscribed MAIN_CHANNEL]"
    and "handle_socket E session inputs w = try_bind (socket_loop E session MAIN_CHANNEL inputs) (disconnect E session) v"
  then show ?thesis using connected_log [of v "room_log w" E session inputs] by simp
qed (auto simp: rooms_settled_def)

section \<open>Errors that end the connection\<close>

definition stays :: "app_error \<Rightarrow> bool" where
  "stays e \<longleftrightarrow> status e \<noteq> UNAUTHORIZED"

lemma stays_simps [simp]:
  "stays (bad_request m)" "stays (forbidden m)" "stays (not_found m)" "stays (service_unavailable m)"
  "stays (too_many_requests m)" "stays (app_of_sqlx x)" "stays app_of_redis" "\<not> stays (unauthorized m)"
  by (simp_all add: stays_def)

lemma stays_repository [simp]: "stays (app_of_repository r)"
  by (cases r) (simp_all add: stays_def)

lemma stays_pure:
  "require_permission u p = Inl e \<Longrightarrow> stays e" "normalize_channel_name U n = Inl e \<Longrightarrow> stays e"
  "normalize_emoji x = Inl e \<Longrightarrow> stays e" "channel_argument E a = Inl e \<Longrightarrow> stays e"
  by (auto simp: require_permission_def normalize_channel_name_def normalize_emoji_def channel_argument_def Let_def
      split: if_splits sum.splits)

lemma stays_guards [fails_intro]:
  "fails_only stays (ensure_channel_access E n u)" "fails_only stays (ensure_not_globally_banned E u)"
  "fails_only stays (ensure_channel_posting_access E n u ps)" "fails_only stays (owned_private_channel E n u)"
  "fails_only stays (enforce_rate_limit E k limit t)" "fails_only stays (writer_in E user n)"
  unfolding ensure_channel_access_def ensure_not_globally_banned_def ensure_channel_posting_access_def
    owned_private_channel_def enforce_rate_limit_def writer_in_def
  by - (intro fails_intro; simp add: stays_pure)+

lemma stays_effects [fails_intro]:
  "fails_only stays (broadcast E ch ev)" "fails_only stays (broadcast_control E ev)" "fails_only stays (send_event E ev)"
  "fails_only stays (record_audit E app_of_sqlx ae)" "fails_only stays (list_visible_conversations E u)"
  "fails_only stays (publish_system_message E ch t)" "fails_only stays (broadcast_members E ch)"
  unfolding broadcast_control_def broadcast_def send_event_def record_audit_def list_visible_conversations_def
    publish_system_message_def create_system_message_def broadcast_members_def
  by - (intro fails_intro; simp)+

lemma stays_services [fails_intro]:
  "fails_only stays (create_public_channel E a n)" "fails_only stays (create_private_conversation E a n)"
  "fails_only stays (open_direct E a u)" "fails_only stays (invite_member E a n u)"
  "fails_only stays (remove_member E a n u)" "fails_only stays (delete_channel_service E a n)"
  unfolding create_public_channel_def create_private_conversation_def create_private_tx_def open_direct_def
    open_direct_tx_def invite_member_def remove_member_def delete_channel_service_def
  by - (intro fails_intro; simp add: stays_pure)+

lemma stays_history [fails_intro]:
  "fails_only stays (load_thread E ch root b lim)" "fails_only stays (broadcast_reaction E ch i emoji)"
  "fails_only stays (store_message E m o1)" "fails_only stays (update_hot_message E m)"
  "fails_only stays (send_history_page E ch before)" "fails_only stays (create_message_notifications E a m)"
  unfolding load_thread_def broadcast_reaction_def store_message_def update_hot_message_def send_history_page_def
    load_hot_history_before_def load_hot_history_def hydrate_hot_history_def create_message_notifications_def
    create_message_notifications_with_clock_def recipient_of_def notify_tx_def delivery_jobs_def recipient_jobs_def
  by - (intro fails_intro; simp)+

lemma stays_send [fails_intro]: "fails_only stays (send_message E user name s ch raw root k fs)"
  unfolding send_message_def send_guards_def answer_existing_def build_message_def save_and_publish_def publish_message_def
  by (intro fails_intro; simp add: stays_pure)

lemma stays_client_action:
  "ev \<noteq> Heartbeat \<Longrightarrow> fails_only stays (client_action E user name s ch ev)"
  by (cases ev; hypsubst;
      simp only: client_action.simps no_switch_def join_event_def edit_event_def delete_event_def add_reaction_def
        remove_reaction_def typing_event_def mark_read_def load_history_event_def load_thread_event_def
        send_channels_def send_private_conversations_def not_False_eq_True;
      (intro fails_intro)?; simp add: stays_pure)

lemma heartbeat_err:
  assumes run: "heartbeat E user s ch w = (Inl e, w')" and e: "\<not> stays e"
  shows "\<not> exists_key (vk E) (session_key E s) (cache w)"
proof
  assume ex: "exists_key (vk E) (session_key E s) (cache w)"
  let ?rest = "try_bind (participant_for_user E user) (\<lambda>p.
      try_bind (ignore (refresh_presence E ch p)) (\<lambda>_. ignore (broadcast E ch (ParticipantJoined ch p))))"
  have rest: "fails_only stays ?rest"
    unfolding participant_for_user_def by (intro fails_intro)
  have "heartbeat E user s ch w =
      (if faults E (tick w) then (Inl (service_unavailable ''cache connection unavailable''), next_tick w)
       else if faults E (Suc (tick w)) then (Inl app_of_redis, next_tick (next_tick w))
       else ?rest (next_tick (next_tick w)))"
    unfolding heartbeat_def try_bind_def [of "connection E"] try_bind_def [of "vk_read _ _"] by (simp add: io_defs ex)
  with run e fails_onlyD [OF rest] show False by (auto split: if_splits)
qed

lemma no_switch_err: "no_switch m w = (Inl e, w') \<longleftrightarrow> m w = (Inl e, w')"
  by (auto simp: no_switch_def try_bind_def split: prod.splits sum.splits)

text \<open>
  C9: no chat action costs a client its connection.  The only event answered with 401, and so the only
  error after which the server ends the connection, is a heartbeat whose session is gone.
\<close>

theorem only_expired_session_disconnects:
  assumes run: "handle_client_event E ch name user s txt w = (Inl e, w')" and status: "status e = UNAUTHORIZED"
  shows "client_event_parse (codec E) txt = Some Heartbeat \<and> \<not> exists_key (vk E) (session_key E s) (cache w)"
proof (cases "client_event_parse (codec E) txt")
  case None
  with assms show ?thesis by (auto simp: handle_client_event_def)
next
  case (Some ev)
  with run have act: "client_action E user name s ch ev w = (Inl e, w')"
    by (simp add: handle_client_event_def)
  have "\<not> stays e" using status by (simp add: stays_def)
  then have ev: "ev = Heartbeat"
    using fails_onlyD [OF stays_client_action act] by blast
  have "heartbeat E user s ch w = (Inl e, w')"
    using act by (simp add: ev no_switch_err)
  from heartbeat_err [OF this \<open>\<not> stays e\<close>]
  show ?thesis using Some ev by simp
qed

lemma auth_invalidate_gone:
  assumes V: "valkey (vk E) \<alpha>" and run: "handle_auth_invalidate E payload w = (Inr (), w1)"
    and user: "payload_uuid E ''user_id'' payload = Some u"
    and sess: "uuid_str E i \<in> set (ks_set (\<alpha> (cache w)) (user_sessions_key E u))"
    and uuid: "uuid_parse E (uuid_str E i) = Some i"
  shows "\<not> exists_key (vk E) (session_key E i) (cache w1)"
proof -
  define ids where "ids = smembers (vk E) (user_sessions_key E u) (cache w)"
  have "uuid_str E i \<in> set ids"
    using sess by (simp add: ids_def valkey.smembers_abs [OF V])
  then have i: "i \<in> set (List.map_filter (uuid_parse E) ids)"
    using uuid by (force simp: map_filter_def)
  then have ne: "List.map_filter (uuid_parse E) ids \<noteq> []" "ids \<noteq> []" by (auto simp: map_filter_simps)
  let ?keys = "map (session_key E) (List.map_filter (uuid_parse E) ids)"
  have "cache w1 = publish (vk E) ''auth.invalidate'' (json_display (codec E) payload)
      (del (vk E) [user_sessions_key E u] (del (vk E) ?keys (cache w)))"
    using run user ne by (auto simp: handle_auth_invalidate_def ok_simps Let_def ids_def [symmetric])
  then show ?thesis
    using i by (simp add: valkey.del_abs [OF V] valkey.publish_abs [OF V] valkey.exists_abs [OF V] ks_del_def
        ks_publish_def ks_exists_def)
qed

text \<open>
  C10: logging a user out also ends the user's open connections.  Once the outbox worker has processed the
  invalidation of a user (disabled, new role, new password), the next heartbeat of any connection with
  one of the user's sessions ends the connection's loop, whatever would follow it.
\<close>

theorem invalidation_ends_connections:
  assumes V: "valkey (vk E) \<alpha>" and run: "handle_auth_invalidate E payload w = (Inr (), w1)"
    and user: "payload_uuid E ''user_id'' payload = Some u"
    and sess: "uuid_str E (s_id session) \<in> set (ks_set (\<alpha> (cache w)) (user_sessions_key E u))"
    and uuid: "uuid_parse E (uuid_str E (s_id session)) = Some (s_id session)"
    and beat: "client_event_parse (codec E) txt = Some Heartbeat"
    and up: "\<not> faults E (tick w1)" "\<not> faults E (Suc (tick w1))"
  shows "\<exists>w2. \<forall>inputs. socket_loop E session ch (TextFrame txt # inputs) w1 = (Inr ch, w2)"
proof -
  let ?event = "handle_client_event E ch (au_username (s_user session)) (s_user session) (s_id session) txt"
  have "\<not> exists_key (vk E) (session_key E (s_id session)) (cache w1)"
    by (rule auth_invalidate_gone [OF V run user sess uuid])
  then have "?event w1 = (Inl (unauthorized ''session expired''), next_tick (next_tick w1))"
    using up beat by (simp add: handle_client_event_def no_switch_err heartbeat_def try_bind_def io_defs)
  then show ?thesis
    by (simp add: on_text_def try_bind_def attempt_run ignore_run)
qed

section \<open>Concrete runs\<close>

text \<open>A client that only sends heartbeats.\<close>

definition beat_env :: "keyspace env" where
  "beat_env = demo_env\<lparr>codec := demo_codecs\<lparr>client_event_parse := (\<lambda>_. Some Heartbeat)\<rparr>\<rparr>"

definition demo_session :: session where
  "demo_session = \<lparr>s_id = 100, s_csrf = ''c0ffee'', s_user = demo_user\<rparr>"

lemma beat_valkey: "valkey (vk beat_env) (\<lambda>s. s)"
  using demo_valkey by (simp add: beat_env_def)

theorem only_expired_session_disconnects_witness:
  "client_event_parse (codec beat_env) ''x'' = Some Heartbeat \<and>
   \<not> exists_key (vk beat_env) (session_key beat_env 100) (cache demo_chat)"
proof -
  have run: "fst (handle_client_event beat_env ''main'' ''ada'' demo_user 100 ''x'' demo_chat) = Inl (unauthorized ''session expired'')"
    by code_simp
  show ?thesis by (rule only_expired_session_disconnects [OF run_fst [OF run]]) simp
qed

theorem invalidation_ends_connections_witness:
  "\<exists>w2. socket_loop beat_env demo_session ''main'' [TextFrame ''x'', TextFrame ''x'']
     (snd (handle_auth_invalidate beat_env (JObj [(''user_id'', JStr ''1'')]) demo_queue)) = (Inr ''main'', w2)"
proof -
  let ?p = "JObj [(''user_id'', JStr ''1'')]"
  have run: "handle_auth_invalidate beat_env ?p demo_queue = (Inr (), snd (handle_auth_invalidate beat_env ?p demo_queue))"
    by (rule run_fst) code_simp
  have "payload_uuid beat_env ''user_id'' ?p = Some 1"
    and "uuid_str beat_env (s_id demo_session) \<in> set (ks_set (cache demo_queue) (user_sessions_key beat_env 1))"
    and "uuid_parse beat_env (uuid_str beat_env (s_id demo_session)) = Some (s_id demo_session)"
    by code_simp+
  moreover have "client_event_parse (codec beat_env) ''x'' = Some Heartbeat" "\<not> faults beat_env n" for n
    by (simp_all add: beat_env_def)
  ultimately show ?thesis
    using invalidation_ends_connections [OF beat_valkey run, of 1 demo_session "''x''" "''main''"] by blast
qed

end
