(* ===== verification/Chat_Events.thy ===== *)
theory Chat_Events
  imports Handler
begin

text \<open>
  What the events of a channel do: nothing for those who may not access it, one stored message per client
  id, and read markers that only move forward.
\<close>

section \<open>Access\<close>

text \<open>\<open>quiet \<alpha> w w'\<close>: nothing was stored in the database, sent to the client or published.\<close>

definition quiet :: "('s \<Rightarrow> keyspace) \<Rightarrow> 's world \<Rightarrow> 's world \<Rightarrow> bool" where
  "quiet \<alpha> w w' \<longleftrightarrow> db w' = db w \<and> socket w' = socket w \<and> ks_pub (\<alpha> (cache w')) = ks_pub (\<alpha> (cache w))"

lemma rate_limit_quiet:
  assumes V: "valkey (vk E) \<alpha>"
  shows "quiet \<alpha> w (snd (enforce_rate_limit E key limit window w))"
proof -
  have inc: "ks_pub (\<alpha> (snd (incr (vk E) key s))) = ks_pub (\<alpha> s)" and ex: "ks_pub (\<alpha> (expire (vk E) key t s)) = ks_pub (\<alpha> s)" for s t
    using valkey.incr_abs [OF V, of key s] valkey.expire_abs [OF V, of key t s]
    by (simp_all add: ks_incr_def Let_def ks_expire_def prod_eq_iff split: if_splits)
  have "keeps_on cache (\<lambda>s. ks_pub (\<alpha> s) = P) (enforce_rate_limit E key limit window)" for P
    unfolding enforce_rate_limit_def by (intro keeps_intro) (simp_all add: inc ex)
  then have "ks_pub (\<alpha> (cache (snd (enforce_rate_limit E key limit window w)))) = ks_pub (\<alpha> (cache w))"
    by (rule keeps_onD) (rule refl, rule surjective_pairing)
  then show ?thesis
    by (simp add: quiet_def leaves_snd [of db, OF keeps_on_auth(1)] leaves_snd [of socket, OF keeps_on_auth(7)])
qed

lemma access_denied:
  assumes "\<And>t. \<not> may_access t (db w) ch u"
  shows "\<exists>e w'. ensure_channel_access E ch u w = (Inl e, w') \<and> quiet \<alpha> w w'"
  using assms
  by (simp add: ensure_channel_access_def try_bind_def io_defs map_err_run access_allowed_iff quiet_def)

lemma writer_denied:
  assumes "\<And>t. \<not> may_access t (db w) ch (au_id user)"
  shows "\<exists>e w'. writer_in E user ch w = (Inl e, w') \<and> quiet \<alpha> w w'"
proof (cases "require_permission user ''chat:write''")
  case (Inl e)
  then show ?thesis by (simp add: writer_in_def quiet_def)
next
  case (Inr x)
  then show ?thesis using access_denied [OF assms] by (simp add: writer_in_def)
qed

lemma quiet_denied:
  "\<exists>e w'. m w = (Inl e, w') \<and> quiet \<alpha> w w' \<Longrightarrow> \<exists>e w'. try_bind m f w = (Inl e, w') \<and> quiet \<alpha> w w'"
  by (auto simp: try_bind_def)

lemma send_denied:
  assumes V: "valkey (vk E) \<alpha>" and no: "\<And>t. \<not> may_access t (db w) ch (au_id user)"
  shows "\<exists>e w'. send_message E user name s ch raw root k fs w = (Inl e, w') \<and> quiet \<alpha> w w'"
  unfolding send_message_def
proof (rule quiet_denied)
  show "\<exists>e w'. send_guards E user ch raw fs w = (Inl e, w') \<and> quiet \<alpha> w w'"
  proof (cases "require_permission user ''chat:write''")
    case (Inl e)
    then show ?thesis by (simp add: send_guards_def quiet_def)
  next
    case perm: (Inr x)
    let ?rate = "enforce_rate_limit E (message_rate_key E (au_id user)) 60 60"
    note rate = rate_limit_quiet [OF V, of w "message_rate_key E (au_id user)" 60 60]
    obtain r w1 where run: "?rate w = (r, w1)" by (cases "?rate w")
    then have q: "quiet \<alpha> w w1" using rate by simp
    show ?thesis
    proof (cases r)
      case (Inl e)
      with perm run q show ?thesis by (simp add: send_guards_def try_bind_def)
    next
      case (Inr y)
      have "\<And>t. \<not> may_access t (db w1) ch (au_id user)" using no q by (simp add: quiet_def)
      from access_denied [OF this, of E \<alpha>] obtain e w2 where
        "ensure_channel_access E ch (au_id user) w1 = (Inl e, w2)" "quiet \<alpha> w1 w2" by blast
      with perm run Inr q show ?thesis by (simp add: send_guards_def try_bind_def quiet_def)
    qed
  qed
qed

fun acts_on_channel :: "client_event \<Rightarrow> bool" where
  "acts_on_channel (SendMessage _ _ _ _) = True"
| "acts_on_channel (EditMessage _ _) = True"
| "acts_on_channel (DeleteMessage _) = True"
| "acts_on_channel (AddReaction _ _) = True"
| "acts_on_channel (RemoveReaction _ _) = True"
| "acts_on_channel (TypingEvent _) = True"
| "acts_on_channel (MarkRead _ _) = True"
| "acts_on_channel (LoadThread _ _ _) = True"
| "acts_on_channel _ = False"


section \<open>Sending\<close>

text \<open>The two tables that a message lives in.\<close>

definition chat_is :: "channel_row list \<Rightarrow> msg_row list \<Rightarrow> database \<Rightarrow> bool" where
  "chat_is cs ms d \<longleftrightarrow> channels d = cs \<and> messages d = ms"

lemma chat_is_frame [simp]:
  "chat_is cs ms (d\<lparr>notifications := x\<rparr>) = chat_is cs ms d"
  "chat_is cs ms (d\<lparr>notification_deliveries := y\<rparr>) = chat_is cs ms d"
  "chat_is cs ms (d\<lparr>outbox_events := z\<rparr>) = chat_is cs ms d"
  by (simp_all add: chat_is_def)

lemma send_guards_keeps [keeps_intro]:
  "keeps_on db Q (send_guards E user ch raw fs)"
  "keeps_on db Q (build_message E user name ch t root k fs)"
  unfolding send_guards_def build_message_def by - (intro keeps_intro)+

lemma answer_existing_keeps [keeps_intro]:
  "keeps_on db (chat_is cs ms) (answer_existing E user ex ch t root fs)"
  unfolding answer_existing_def by (intro keeps_intro) simp_all

lemma publish_message_keeps [keeps_intro]:
  "keeps_on db (chat_is cs ms) (publish_message E user s ch m)"
  unfolding publish_message_def queue_notification_retry_def
  by (intro keeps_intro) (auto split: if_splits dest!: insert_outbox_ok)

lemma chat_is_D: "keeps_on db (chat_is (channels (db w)) (messages (db w))) m \<Longrightarrow> m w = (r, w') \<Longrightarrow>
    channels (db w') = channels (db w) \<and> messages (db w') = messages (db w)"
  by (drule keeps_onD) (simp_all add: chat_is_def)

lemma save_message_rows:
  assumes "save_message E m s u w = (Inr (), w')"
  shows "\<exists>c \<in> set (channels (db w)). ch_name c = cm_channel m \<and> ch_deleted_at c = None \<and>
     message_to_row m s u c \<in> set (messages (db w')) \<and> channels (db w') = channels (db w)"
proof -
  from assms obtain n d1 w2 r where
    n: "insert_message_row m s u (db w) = Inr (n, d1)" "n \<noteq> 0"
    and fs: "for_each (cm_file_ids m) (\<lambda>f. db_exec E Database (insert_message_file_or_ignore (cm_id m) f))
        ((next_tick (next_tick w))\<lparr>db := d1\<rparr>) = (Inr r, w2)" and w': "db w' = db w2"
    by (auto simp: save_message_def ok_simps split: if_splits)
  from n have d1: "d1 = (db w)\<lparr>messages := messages (db w) @ map (message_to_row m s u) (message_targets (db w) m)\<rparr>"
    and "message_targets (db w) m \<noteq> []"
    by (auto simp: insert_message_row_def dest: insert_all_messages_ok)
  then obtain c where c: "c \<in> set (message_targets (db w) m)" by fastforce
  have attach: "chat_is cs ms d \<Longrightarrow> insert_message_file_or_ignore i f d = Inr (x, d') \<Longrightarrow> chat_is cs ms d'" for cs ms d i f x d'
    by (auto simp: insert_message_file_or_ignore_def chat_is_def split: if_splits)
  have "keeps_on db (chat_is (channels d1) (messages d1))
      (for_each (cm_file_ids m) (\<lambda>f. db_exec E Database (insert_message_file_or_ignore (cm_id m) f)))"
    by (intro keeps_intro) (erule (1) attach)
  from keeps_onD [OF this _ fs] have "channels (db w') = channels d1" "messages (db w') = messages d1"
    by (simp_all add: chat_is_def w')
  with c d1 show ?thesis
    by (auto simp: message_targets_def live_channels_def)
qed

text \<open>A row of the session with the client id, in a live channel.\<close>

definition known_client_id :: "database \<Rightarrow> uuid \<Rightarrow> string \<Rightarrow> bool" where
  "known_client_id d s k \<longleftrightarrow> (\<exists>(m, c) \<in> set (messages_join_channels d).
     ch_deleted_at c = None \<and> m_owner_session m = s \<and> m_client_id m = Some k)"

lemma find_by_client_id_known:
  assumes "find_message_by_client_id E s k w = (Inr x, w')"
  shows "db w' = db w" and "x = None \<longleftrightarrow> \<not> known_client_id (db w) s k"
proof -
  show "db w' = db w"
    by (rule keeps_on_leaves [of db "find_message_by_client_id E s k", OF _ assms]) (rule keeps_on_repository_reads)
  have "known_client_id (db w) s k \<longleftrightarrow> find (\<lambda>(m, c). ch_deleted_at c = None \<and> m_owner_session m = s \<and>
      m_client_id m = Some k) (messages_join_channels (db w)) \<noteq> None"
    unfolding known_client_id_def find_None_iff by auto
  then show "x = None \<longleftrightarrow> \<not> known_client_id (db w) s k"
    using assms
    by (auto simp: find_message_by_client_id_def ok_simps map_sum_def split: option.splits sum.splits)
qed

lemma save_and_publish_chat:
  assumes run: "save_and_publish E user s ch m w = (r, w')"
  shows "channels (db w') = channels (db w) \<and> messages (db w') = messages (db w) \<or>
     (\<forall>k. cm_client_id m = Some k \<longrightarrow> known_client_id (db w') s k)"
proof -
  obtain saved w1 where saved: "save_message E m s (au_id user) w = (saved, w1)"
    by (cases "save_message E m s (au_id user) w")
  show ?thesis
  proof (cases saved)
    case (Inl e)
    have db1: "db w1 = db w"
      using saved Inl by (auto simp: save_message_def dest: transaction_err_db)
    have "keeps_on db (chat_is (channels (db w1)) (messages (db w1)))
       (case cm_client_id m of None \<Rightarrow> fail (app_of_repository e)
          | Some client_id \<Rightarrow>
              try_bind (map_err app_of_repository (find_message_by_client_id E s client_id)) (\<lambda>found.
              case found of None \<Rightarrow> fail (app_of_repository e)
              | Some existing \<Rightarrow>
                  answer_existing E user existing (cm_channel m) (cm_text m) (cm_root_message_id m) (cm_file_ids m)))"
      by (intro keeps_intro)
    from chat_is_D [OF this, of r w'] show ?thesis
      using run saved Inl by (simp add: save_and_publish_def try_bind_def attempt_run db1)
  next
    case (Inr x)
    with saved obtain c where c: "c \<in> set (channels (db w))" "ch_deleted_at c = None"
        "message_to_row m s (au_id user) c \<in> set (messages (db w1))" "channels (db w1) = channels (db w)"
      using save_message_rows by fastforce
    have "publish_message E user s ch m w1 = (r, w')"
      using run saved Inr by (simp add: save_and_publish_def try_bind_def attempt_run)
    from chat_is_D [OF publish_message_keeps this] c show ?thesis
      by (auto simp: known_client_id_def in_join message_to_row_def intro!: bexI [of _ "(message_to_row m s (au_id user) c, c)"])
  qed
qed

lemma send_guards_ok:
  assumes "send_guards E user ch raw fs w = (Inr t, w')"
  shows "t = trim raw" "trim raw \<noteq> []" "length (trim raw) \<le> 2000" "length fs \<le> 10" "db w' = db w"
    "owned_files (db w) fs (au_id user) = length fs \<or> fs = []"
    "\<exists>now. may_access now (db w) ch (au_id user)"
proof -
  show "db w' = db w"
    by (rule keeps_on_leaves [of db "send_guards E user ch raw fs", OF _ assms]) (rule send_guards_keeps)
  have rate: "enforce_rate_limit E key limit window w = (x, w1) \<Longrightarrow> db w1 = db w" for key limit window x w w1
    by (rule keeps_on_leaves [of db "enforce_rate_limit E key limit window"]) (rule keeps_on_auth)
  have post: "ensure_channel_posting_access E ch u ps w = (x, w1) \<Longrightarrow> db w1 = db w" for u ps x w w1
    by (rule keeps_on_leaves [of db "ensure_channel_posting_access E ch u ps"]) (rule keeps_on_channel_reads)
  have "t = trim raw \<and> trim raw \<noteq> [] \<and> length (trim raw) \<le> 2000 \<and> length fs \<le> 10 \<and>
      (owned_files (db w) fs (au_id user) = length fs \<or> fs = []) \<and> (\<exists>now. may_access now (db w) ch (au_id user))"
    using assms
    by (auto simp: send_guards_def ok_simps Let_def ensure_channel_access_ok dest!: rate post split: if_splits)
  then show "t = trim raw" "trim raw \<noteq> []" "length (trim raw) \<le> 2000" "length fs \<le> 10"
    "owned_files (db w) fs (au_id user) = length fs \<or> fs = []" "\<exists>now. may_access now (db w) ch (au_id user)"
    by simp_all
qed

lemma build_message_ok:
  obtains m w' where "build_message E user name ch t root k fs w = (Inr m, w')" "db w' = db w"
    "cm_channel m = ch" "cm_text m = t" "cm_root_message_id m = root" "cm_client_id m = k" "cm_file_ids m = fs"
proof -
  obtain r w' where run: "build_message E user name ch t root k fs w = (r, w')"
    by (cases "build_message E user name ch t root k fs w")
  have "db w' = db w"
    by (rule keeps_on_leaves [of db "build_message E user name ch t root k fs", OF _ run]) (rule send_guards_keeps)
  with run that show ?thesis
    by (auto simp: build_message_def try_bind_def io_defs attempt_run split: if_splits)
qed

definition clean_client_id :: "string option \<Rightarrow> string option" where
  "clean_client_id c = (case c of None \<Rightarrow> None | Some k \<Rightarrow> if trim k = [] then None else Some k)"

lemma send_message_cases:
  assumes run: "send_message E user name s ch raw root client fs w = (r, w')"
  obtains (refused) e where "r = Inl e" "db w' = db w"
  | (repeated) k ex w1 w2 where "clean_client_id client = Some k" "db w1 = db w" "db w2 = db w" "trim raw \<noteq> []"
      "find_message_by_client_id E s k w1 = (Inr (Some ex), w2)" "answer_existing E user ex ch (trim raw) root fs w2 = (r, w')"
  | (fresh) m w1 where "cm_client_id m = clean_client_id client" "db w1 = db w" "trim raw \<noteq> []"
      "\<And>k. cm_client_id m = Some k \<Longrightarrow> \<not> known_client_id (db w) s k" "cm_channel m = ch" "cm_text m = trim raw"
      "cm_root_message_id m = root" "cm_file_ids m = fs" "save_and_publish E user s ch m w1 = (r, w')"
proof -
  obtain g w1 where g: "send_guards E user ch raw fs w = (g, w1)" by (cases "send_guards E user ch raw fs w")
  have db1: "db w1 = db w"
    by (rule keeps_on_leaves [of db "send_guards E user ch raw fs", OF _ g]) (rule send_guards_keeps)
  show ?thesis
  proof (cases g)
    case (Inl e)
    with run g db1 refused show ?thesis by (auto simp: send_message_def try_bind_def)
  next
    case (Inr t)
    then have t: "t = trim raw" "trim raw \<noteq> []" using send_guards_ok [of E user ch raw fs w t w1] g by auto
    have new: thesis if "(\<And>k. clean_client_id client = Some k \<Longrightarrow> \<not> known_client_id (db w) s k)" "db v = db w"
      "try_bind (build_message E user name ch (trim raw) root (clean_client_id client) fs)
         (save_and_publish E user s ch) v = (r, w')" for v
    proof -
      obtain m v' where m: "build_message E user name ch (trim raw) root (clean_client_id client) fs v = (Inr m, v')"
          "db v' = db v" "cm_channel m = ch" "cm_text m = trim raw" "cm_root_message_id m = root"
          "cm_client_id m = clean_client_id client" "cm_file_ids m = fs"
        by (rule build_message_ok)
      with that(3) have "save_and_publish E user s ch m v' = (r, w')" by (simp add: try_bind_def)
      with m that show thesis by (intro fresh [of m v']) (simp_all add: t(2))
    qed
    show ?thesis
    proof (cases "clean_client_id client")
      case None
      then show ?thesis
        using new [of w1] run g Inr db1 t by (simp add: send_message_def try_bind_def clean_client_id_def Let_def)
    next
      case (Some k)
      obtain f w2 where f: "find_message_by_client_id E s k w1 = (f, w2)" by (cases "find_message_by_client_id E s k w1")
      have db2: "db w2 = db w1"
        by (rule keeps_on_leaves [of db "find_message_by_client_id E s k", OF _ f]) (rule keeps_on_repository_reads)
      have rest: "(case map_sum app_of_repository id f of Inl e \<Rightarrow> (Inl e, w2)
          | Inr None \<Rightarrow> try_bind (build_message E user name ch (trim raw) root (clean_client_id client) fs)
              (save_and_publish E user s ch) w2
          | Inr (Some ex) \<Rightarrow> answer_existing E user ex ch (trim raw) root fs w2) = (r, w')"
        using run g Inr f Some t
        by (simp add: send_message_def try_bind_def [of "send_guards _ _ _ _ _"] try_bind_def [of "map_err _ _"]
            map_err_run Let_def flip: clean_client_id_def split: sum.splits option.splits)
      show ?thesis
      proof (cases f)
        case (Inl e)
        with rest db1 db2 refused show ?thesis by auto
      next
        case (Inr found)
        note known = find_by_client_id_known(2) [of E s k w1 found w2]
        show ?thesis
        proof (cases found)
          case None
          show ?thesis
            by (rule new [of w2]) (use known rest f Inr None Some db1 db2 in simp_all)
        next
          case ex: (Some ex)
          show ?thesis
            by (rule repeated [OF Some db1 _ t(2)]) (use rest f Inr ex db1 db2 in simp_all)
        qed
      qed
    qed
  qed
qed

lemma known_client_id_cong:
  "channels d' = channels d \<Longrightarrow> messages d' = messages d \<Longrightarrow> known_client_id d' s k = known_client_id d s k"
  by (simp add: known_client_id_def messages_join_channels_def)

lemma send_message_chat:
  assumes run: "send_message E user name s ch raw root (Some k) fs w = (r, w')" and k: "trim k \<noteq> []"
  shows "channels (db w') = channels (db w) \<and> messages (db w') = messages (db w) \<or>
     \<not> known_client_id (db w) s k \<and> known_client_id (db w') s k"
  using run
proof (cases rule: send_message_cases)
  case (repeated k' ex w1 w2)
  then show ?thesis using chat_is_D [OF answer_existing_keeps repeated(6)] by simp
next
  case (fresh m w1)
  then show ?thesis using save_and_publish_chat [OF fresh(9)] k by (auto simp: clean_client_id_def)
qed simp

text \<open>
  C6: retrying a message with a client id is safe.  After one attempt to send, whatever it answered and
  whatever failed in it, a second attempt of the session with the same client id, be it the same message
  or another one, stores nothing if the first one did.
\<close>

theorem send_retry_stores_once:
  assumes k: "trim k \<noteq> []"
    and first: "send_message E user name s ch raw root (Some k) fs w = (r1, w1)"
    and second: "send_message E user name s ch' raw' root' (Some k) fs' w1 = (r2, w2)"
  shows "messages (db w1) = messages (db w) \<or> messages (db w2) = messages (db w1)"
  using send_message_chat [OF first k] send_message_chat [OF second k] by blast

text \<open>What the look-up of a client id returns, when it is the message that was asked for.\<close>

lemma found_row:
  assumes "find_message_by_client_id E s k w = (Inr (Some ex), w')" "same_request ex ch t root fs" "t \<noteq> []"
  shows "\<exists>m c. (m, c) \<in> set (messages_join_channels (db w)) \<and> ch_name c = ch \<and> ch_deleted_at c = None \<and>
     m_owner_session m = s \<and> m_client_id m = Some k \<and> m_text m = t \<and> m_root_message_id m = root \<and> m_deleted_at m = None"
proof -
  from assms(1) obtain m c where mc: "find (\<lambda>(m, c). ch_deleted_at c = None \<and> m_owner_session m = s \<and> m_client_id m = Some k)
      (messages_join_channels (db w)) = Some (m, c)" and ex: "try_from_row (select_message (db w) (m, c)) = Inr ex"
    by (auto simp: find_message_by_client_id_def ok_simps map_sum_def split: option.splits sum.splits)
  have "(m, c) \<in> set (messages_join_channels (db w))" "ch_deleted_at c = None" "m_owner_session m = s" "m_client_id m = Some k"
    using mc by (auto simp: find_Some_iff) (metis nth_mem)
  with ex assms(2,3) show ?thesis
    by (auto simp: try_from_row_ok select_message_def same_request_def split: if_splits)
qed

lemma answer_existing_same: "answer_existing E user ex ch t root fs w = (Inr x, w') \<Longrightarrow> same_request ex ch t root fs"
  by (auto simp: answer_existing_def split: if_splits)

lemma save_and_publish_stored:
  assumes run: "save_and_publish E user s ch m w = (Inr x, w')" and t: "cm_text m \<noteq> []"
  shows "\<exists>r c. (r, c) \<in> set (messages_join_channels (db w')) \<and> ch_name c = cm_channel m \<and> ch_deleted_at c = None \<and>
     m_owner_session r = s \<and> m_client_id r = cm_client_id m \<and> m_text r = cm_text m \<and>
     m_root_message_id r = cm_root_message_id m \<and> m_deleted_at r = None"
proof -
  obtain saved v where saved: "save_message E m s (au_id user) w = (saved, v)"
    by (cases "save_message E m s (au_id user) w")
  with run consider w1 where "save_message E m s (au_id user) w = (Inr (), w1)" "publish_message E user s ch m w1 = (Inr x, w')"
    | k ex w1 w2 where "cm_client_id m = Some k" "find_message_by_client_id E s k w1 = (Inr (Some ex), w2)"
        "answer_existing E user ex (cm_channel m) (cm_text m) (cm_root_message_id m) (cm_file_ids m) w2 = (Inr x, w')"
    by (cases saved; cases "cm_client_id m") (auto simp: save_and_publish_def ok_simps split: option.splits)
  then show ?thesis
  proof cases
    case 1
    from save_message_rows [OF 1(1)] obtain c where "c \<in> set (channels (db w1))" "ch_name c = cm_channel m"
        "ch_deleted_at c = None" "message_to_row m s (au_id user) c \<in> set (messages (db w1))" by auto
    with chat_is_D [OF publish_message_keeps 1(2)] show ?thesis
      by (intro exI [of _ "message_to_row m s (au_id user) c"] exI [of _ c]) (simp add: in_join message_to_row_def)
  next
    case 2
    note found = found_row [OF 2(2) answer_existing_same [OF 2(3)] t]
    have "channels (db w') = channels (db w1)" "messages (db w') = messages (db w1)"
      using chat_is_D [OF answer_existing_keeps 2(3)] find_by_client_id_known(1) [OF 2(2)] by simp_all
    with found 2(1) show ?thesis by (simp add: messages_join_channels_def)
  qed
qed

text \<open>
  C5: a message that was accepted is stored.  When sending succeeds, by storing the message or by
  recognising an earlier attempt, the live channel has a message of the session with exactly the
  trimmed text, the thread and the client id of the request, not deleted; the text has 1 to 2000 bytes,
  at most ten files are attached, and the user may access the channel.
\<close>

theorem accepted_message_is_stored:
  assumes run: "send_message E user name s ch raw root client fs w = (Inr (), w')"
  shows "(\<exists>m c. (m, c) \<in> set (messages_join_channels (db w')) \<and> ch_name c = ch \<and> ch_deleted_at c = None \<and>
       m_owner_session m = s \<and> m_client_id m = clean_client_id client \<and> m_text m = trim raw \<and>
       m_root_message_id m = root \<and> m_deleted_at m = None) \<and>
     1 \<le> length (trim raw) \<and> length (trim raw) \<le> 2000 \<and> length fs \<le> 10 \<and>
     (\<exists>now. may_access now (db w) ch (au_id user))"
proof -
  from run obtain t w1 where "send_guards E user ch raw fs w = (Inr t, w1)"
    by (auto simp: send_message_def ok_simps)
  note guards = send_guards_ok [OF this]
  show ?thesis
    using run
  proof (cases rule: send_message_cases)
    case (repeated k ex w1 w2)
    note found = found_row [OF repeated(5) answer_existing_same [OF repeated(6)] repeated(4)]
    have "channels (db w') = channels (db w1)" "messages (db w') = messages (db w1)"
      using chat_is_D [OF answer_existing_keeps repeated(6)] repeated(2,3) by simp_all
    with found repeated(1) guards show ?thesis by (simp add: messages_join_channels_def Suc_le_eq)
  next
    case (fresh m w1)
    then show ?thesis using save_and_publish_stored [OF fresh(9)] guards by (simp add: Suc_le_eq)
  qed simp
qed

section \<open>Read markers\<close>

definition read_key :: "read_row \<Rightarrow> uuid \<times> uuid" where
  "read_key r = (cr_user_id r, cr_channel_id r)"

text \<open>No marker is lost or moved back, and those of other users stay as they are.\<close>

definition reads_advance :: "uuid \<Rightarrow> database \<Rightarrow> database \<Rightarrow> bool" where
  "reads_advance u d d' \<longleftrightarrow> (\<forall>r \<in> set (channel_reads d). \<exists>r' \<in> set (channel_reads d'). read_key r' = read_key r \<and>
     cr_last_read_created_at r \<le> cr_last_read_created_at r' \<and> (cr_user_id r \<noteq> u \<longrightarrow> r' = r))"

lemma reads_advance_refl [simp]: "reads_advance u d d"
  unfolding reads_advance_def by (intro ballI bexI) auto

lemma reads_advance_trans: "reads_advance u a b \<Longrightarrow> reads_advance u b c \<Longrightarrow> reads_advance u a c"
  unfolding reads_advance_def read_key_def by (metis (no_types, lifting) dual_order.trans prod.inject)

lemma upsert_read_ok:
  assumes "upsert_read u t i now c d = Inr (x, d')"
  shows "reads_advance u d d'" and "channels d' = channels d"
    and "\<exists>r \<in> set (channel_reads d'). read_key r = (u, ch_id c) \<and> t \<le> cr_last_read_created_at r"
proof -
  let ?same = "\<lambda>r. cr_user_id r = u \<and> cr_channel_id r = ch_id c"
  let ?new = "\<lambda>r. r\<lparr>cr_last_read_created_at := max (cr_last_read_created_at r) t,
       cr_last_read_message_id := (if t \<ge> cr_last_read_created_at r then Some i else cr_last_read_message_id r),
       cr_updated_at := now\<rparr>"
  show "channels d' = channels d"
    using assms by (simp add: upsert_read_def Let_def split: if_splits)
  show "reads_advance u d d'"
  proof (cases "\<exists>r \<in> set (channel_reads d). ?same r")
    case True
    then have d': "channel_reads d' = update_where ?same ?new (channel_reads d)"
      using assms by (simp add: upsert_read_def Let_def list_ex_iff)
    show ?thesis
      unfolding reads_advance_def
    proof
      fix r assume r: "r \<in> set (channel_reads d)"
      let ?r = "if ?same r then ?new r else r"
      have "?r \<in> set (channel_reads d')"
        unfolding d' in_update_where using r by blast
      then show "\<exists>r' \<in> set (channel_reads d'). read_key r' = read_key r \<and>
          cr_last_read_created_at r \<le> cr_last_read_created_at r' \<and> (cr_user_id r \<noteq> u \<longrightarrow> r' = r)"
        by (rule bexI [rotated]) (simp add: read_key_def)
    qed
  next
    case False
    then show ?thesis
      using assms by (auto simp: upsert_read_def Let_def list_ex_iff reads_advance_def)
  qed
  show "\<exists>r \<in> set (channel_reads d'). read_key r = (u, ch_id c) \<and> t \<le> cr_last_read_created_at r"
  proof (cases "\<exists>r \<in> set (channel_reads d). ?same r")
    case True
    then obtain r where r: "r \<in> set (channel_reads d)" "?same r" by blast
    have d': "channel_reads d' = update_where ?same ?new (channel_reads d)"
      using assms True by (simp add: upsert_read_def Let_def list_ex_iff)
    have "?new r \<in> set (channel_reads d')"
      using r by (auto simp: d' in_update_where intro!: bexI [of _ r])
    with r show ?thesis by (intro bexI [of _ "?new r"]) (simp_all add: read_key_def)
  next
    case False
    then show ?thesis
      using assms by (auto simp: upsert_read_def Let_def list_ex_iff read_key_def)
  qed
qed

lemma insert_all_reads:
  "insert_all (upsert_read u t i now) cs d = Inr (n, d') \<Longrightarrow>
     reads_advance u d d' \<and>
     (\<forall>c \<in> set cs. \<exists>r \<in> set (channel_reads d'). read_key r = (u, ch_id c) \<and> t \<le> cr_last_read_created_at r)"
proof (induction cs arbitrary: d n)
  case (Cons c cs)
  then obtain x d1 n' where 1: "upsert_read u t i now c d = Inr (x, d1)" "insert_all (upsert_read u t i now) cs d1 = Inr (n', d')"
    by (auto split: sum.splits prod.splits simp: map_sum_def)
  note first = upsert_read_ok [OF 1(1)] and rest = Cons.IH [OF 1(2)]
  from first(3) obtain r where r: "r \<in> set (channel_reads d1)" "read_key r = (u, ch_id c)" "t \<le> cr_last_read_created_at r"
    by blast
  then obtain r' where "r' \<in> set (channel_reads d')" "read_key r' = (u, ch_id c)" "t \<le> cr_last_read_created_at r'"
    using rest unfolding reads_advance_def by (metis dual_order.trans)
  then show ?case
    using reads_advance_trans [OF first(1)] rest by auto
qed simp

text \<open>
  Read markers only move forward.  Whatever a client reports as read, and whatever fails, every
  marker is kept and none moves back, those of other users do not change at all, and when the report
  succeeds the user's marker of the channel is at the reported position or past it.
\<close>

theorem mark_read_monotone:
  assumes run: "mark_read E user ch i t w = (r, w')"
  shows "reads_advance (au_id user) (db w) (db w') \<and>
     (r = Inr () \<longrightarrow> (\<forall>c \<in> set (channels (db w)). ch_name c = ch \<longrightarrow>
        (\<exists>m \<in> set (channel_reads (db w')). read_key m = (au_id user, ch_id c) \<and> sint t \<le> cr_last_read_created_at m)))"
proof -
  have "keeps_on db (reads_advance (au_id user) (db w)) (mark_read E user ch i t)"
    unfolding mark_read_def writer_in_def
    by (intro keeps_intro) (blast dest: insert_all_reads intro: reads_advance_trans)
  from keeps_onD [OF this _ run] have "reads_advance (au_id user) (db w) (db w')" by simp
  moreover have "\<exists>m \<in> set (channel_reads (db w')). read_key m = (au_id user, ch_id c) \<and> sint t \<le> cr_last_read_created_at m"
    if ok: "r = Inr ()" and c: "c \<in> set (channels (db w))" "ch_name c = ch" for c
  proof -
    have guard: "writer_in E user ch v = (x, v') \<Longrightarrow> db v' = db v" for x v v'
      by (rule keeps_on_leaves [of db "writer_in E user ch"]) (unfold writer_in_def, intro keeps_intro)
    have event: "send_event E ev v = (x, v') \<Longrightarrow> db v' = db v" for ev x v v'
      by (rule keeps_on_leaves [of db "send_event E ev"]) (intro keeps_intro)
    obtain now n where "insert_all (upsert_read (au_id user) (sint t) i now) (filter (\<lambda>c. ch_name c = ch) (channels (db w))) (db w) =
        Inr (n, db w')"
      using run ok by (auto simp: mark_read_def ok_simps dest!: guard event)
    from insert_all_reads [OF this] c show ?thesis by simp
  qed
  ultimately show ?thesis by blast
qed

section \<open>Concrete runs\<close>

text \<open>Eve is not in the private channel.\<close>

definition demo_eve :: auth_user where
  "demo_eve = demo_user\<lparr>au_id := 3, au_username := ''eve''\<rparr>"

lemma eve_outside: "\<not> may_access t (db demo_chat) ''team'' (au_id demo_eve)"
  by (simp add: may_access_def demo_chat_def demo_db_def demo_main_def demo_team_def new_channel_def demo_member_def demo_eve_def)


theorem accepted_message_is_stored_witness:
  "\<exists>m c. (m, c) \<in> set (messages_join_channels
       (db (snd (send_message demo_env demo_user ''ada'' 100 ''main'' '' hi '' None (Some ''c9'') [] demo_chat)))) \<and>
     ch_name c = ''main'' \<and> m_client_id m = clean_client_id (Some ''c9'') \<and> m_text m = trim '' hi ''"
proof -
  have "fst (send_message demo_env demo_user ''ada'' 100 ''main'' '' hi '' None (Some ''c9'') [] demo_chat) = Inr ()"
    by code_simp
  from accepted_message_is_stored [OF run_fst [OF this]] show ?thesis by blast
qed

theorem send_retry_stores_once_witness:
  "let send = send_message demo_env demo_user ''ada'' 100 ''main'' '' hi '' None (Some ''c9'') [];
       w1 = snd (send demo_chat)
   in messages (db w1) = messages (db demo_chat) \<or> messages (db (snd (send w1))) = messages (db w1)"
proof -
  have "trim ''c9'' \<noteq> []" by code_simp
  from send_retry_stores_once [OF this surjective_pairing surjective_pairing] show ?thesis
    unfolding Let_def .
qed

theorem mark_read_monotone_witness:
  "reads_advance (au_id demo_user) (db demo_chat) (db (snd (mark_read demo_env demo_user ''main'' 50 900 demo_chat))) \<and>
   (\<exists>m \<in> set (channel_reads (db (snd (mark_read demo_env demo_user ''main'' 50 900 demo_chat)))).
      read_key m = (au_id demo_user, ch_id demo_main) \<and> sint (900 :: u64) \<le> cr_last_read_created_at m)"
proof -
  have run: "fst (mark_read demo_env demo_user ''main'' 50 900 demo_chat) = Inr ()"
    by code_simp
  have "demo_main \<in> set (channels (db demo_chat))" "ch_name demo_main = ''main''"
    by (simp_all add: demo_chat_def demo_db_def demo_main_def new_channel_def)
  with mark_read_monotone [OF run_fst [OF run]] show ?thesis by blast
qed

end
