(* ===== verification/Pool.thy ===== *)
theory Pool
  imports Errors "HOL-Library.Word"
begin

text \<open>
  \<^verbatim>\<open>backend/src/cache.rs\<close>: the pool of Valkey connections.  Connections are handed out in turn, by a counter that
  wraps around, and a background task replaces the ones that no longer answer.  A poisoned lock is left
  out: nothing panics while it is held.
\<close>

type_synonym usize = "64 word"

record 'c valkey_pool =
  vp_connections :: "'c list"
  vp_index :: usize

text \<open>\<open>connect n\<close> is the outcome of the \<open>n\<close>-th attempt to connect; the first error ends the loop.\<close>

fun connect_all :: "(nat \<Rightarrow> 'e + 'c) \<Rightarrow> nat \<Rightarrow> nat \<Rightarrow> 'e + 'c list" where
  "connect_all connect n 0 = Inr []"
| "connect_all connect n (Suc k) =
     (case connect n of
        Inl e \<Rightarrow> Inl e
      | Inr c \<Rightarrow> (case connect_all connect (Suc n) k of Inl e \<Rightarrow> Inl e | Inr cs \<Rightarrow> Inr (c # cs)))"

definition pool_new :: "(nat \<Rightarrow> 'e + 'c) \<Rightarrow> nat \<Rightarrow> 'e + 'c valkey_pool" where
  "pool_new connect k =
     (case connect_all connect 0 k of Inl e \<Rightarrow> Inl e | Inr cs \<Rightarrow> Inr \<lparr>vp_connections = cs, vp_index = 0\<rparr>)"

text \<open>\<^verbatim>\<open>fetch_add\<close> gives the old value and wraps; it is not reached when there is no connection.\<close>

definition pool_connection :: "'c valkey_pool \<Rightarrow> (app_error + 'c) \<times> 'c valkey_pool" where
  "pool_connection p =
     (if vp_connections p = [] then (Inl (service_unavailable ''cache connection unavailable''), p)
      else (Inr (vp_connections p ! (unat (vp_index p) mod length (vp_connections p))), p\<lparr>vp_index := vp_index p + 1\<rparr>))"

text \<open>
  One round of \<^verbatim>\<open>recover_forever\<close> over a copy of the connections; \<open>answers\<close> says at which places the
  connection answered within its time, \<open>connect\<close> what a new connection for a place would be, if there is one.
\<close>

fun recover_from :: "(nat \<Rightarrow> bool) \<Rightarrow> (nat \<Rightarrow> 'c option) \<Rightarrow> nat \<Rightarrow> 'c list \<Rightarrow> 'c list \<Rightarrow> 'c list" where
  "recover_from answers connect i [] slots = slots"
| "recover_from answers connect i (c # cs) slots =
     recover_from answers connect (Suc i) cs
       (if answers i then slots
        else (case connect i of
                None \<Rightarrow> slots
              | Some new \<Rightarrow> if i < length slots then slots[i := new] else slots))"

definition recover_round :: "(nat \<Rightarrow> bool) \<Rightarrow> (nat \<Rightarrow> 'c option) \<Rightarrow> 'c valkey_pool \<Rightarrow> 'c valkey_pool" where
  "recover_round answers connect p =
     p\<lparr>vp_connections := recover_from answers connect 0 (vp_connections p) (vp_connections p)\<rparr>"

section \<open>A new pool\<close>

lemma connect_all_ok:
  "connect_all connect n k = Inr cs \<Longrightarrow> length cs = k \<and> (\<forall>i < k. connect (n + i) = Inr (cs ! i))"
proof (induction k arbitrary: n cs)
  case (Suc k)
  from Suc.prems obtain c ds where cs: "cs = c # ds" "connect n = Inr c" "connect_all connect (Suc n) k = Inr ds"
    by (auto split: sum.splits)
  with Suc.IH [OF cs(3)] show ?case
    by (auto simp: less_Suc_eq_0_disj)
qed simp

lemma pool_new_size: "pool_new connect k = Inr p \<Longrightarrow> length (vp_connections p) = k"
  by (auto simp: pool_new_def connect_all_ok split: sum.splits)

section \<open>Taking turns\<close>

fun take_turns :: "nat \<Rightarrow> 'c valkey_pool \<Rightarrow> (app_error + 'c) list \<times> 'c valkey_pool" where
  "take_turns 0 p = ([], p)"
| "take_turns (Suc n) p = (let (r, p') = pool_connection p; (rs, p'') = take_turns n p' in (r # rs, p''))"

lemma take_turns_run:
  assumes "vp_connections p \<noteq> []" "unat (vp_index p) + n \<le> 2 ^ 64"
  shows "fst (take_turns n p) =
     map (\<lambda>i. Inr (vp_connections p ! ((unat (vp_index p) + i) mod length (vp_connections p)))) [0..<n]"
  using assms
proof (induction n arbitrary: p)
  case (Suc n)
  let ?p = "p\<lparr>vp_index := vp_index p + 1\<rparr>"
  show ?case
  proof (cases n)
    case 0
    with Suc.prems show ?thesis by (simp add: pool_connection_def)
  next
    case (Suc m)
    with Suc.prems have "unat (vp_index p + 1) = unat (vp_index p) + 1"
      by (simp add: unat_word_ariths)
    with Suc.prems Suc.IH [of ?p] show ?thesis
      by (simp add: pool_connection_def Let_def split_beta upt_conv_Cons map_Suc_upt [symmetric] del: upt_Suc)
  qed
qed simp

text \<open>
  The connections take turns.  As long as the counter does not wrap, as many calls as there are
  connections hand out each place of the pool exactly once, starting from the place of the counter.
\<close>

theorem pool_takes_turns:
  assumes "vp_connections p \<noteq> []" "unat (vp_index p) + length (vp_connections p) \<le> 2 ^ 64"
  shows "fst (take_turns (length (vp_connections p)) p) =
     map Inr (rotate (unat (vp_index p)) (vp_connections p))"
  using take_turns_run [OF assms] by (intro nth_equalityI) (simp_all add: nth_rotate)

theorem pool_takes_turns_witness:
  "fst (take_turns 3 \<lparr>vp_connections = [''a'', ''b'', ''c''], vp_index = 4\<rparr>) = [Inr ''b'', Inr ''c'', Inr ''a'']"
proof -
  let ?p = "\<lparr>vp_connections = [''a'', ''b'', ''c''], vp_index = 4\<rparr>"
  have "fst (take_turns (length (vp_connections ?p)) ?p) = map Inr (rotate (unat (vp_index ?p)) (vp_connections ?p))"
    by (rule pool_takes_turns) simp_all
  moreover have "rotate (unat (vp_index ?p)) (vp_connections ?p) = [''b'', ''c'', ''a'']" "length (vp_connections ?p) = 3"
    by code_simp+
  ultimately show ?thesis by (simp only: list.map)
qed

section \<open>Recovery\<close>

lemma recover_from_nth:
  "length cs + i = length slots \<Longrightarrow> length (recover_from answers connect i cs slots) = length slots \<and>
   (\<forall>j < length slots. recover_from answers connect i cs slots ! j =
      (if i \<le> j \<and> \<not> answers j \<and> connect j \<noteq> None then the (connect j) else slots ! j))"
proof (induction cs arbitrary: i slots)
  case (Cons c cs)
  let ?s = "if answers i then slots else (case connect i of None \<Rightarrow> slots | Some new \<Rightarrow> if i < length slots then slots[i := new] else slots)"
  have len: "length ?s = length slots" and at: "j < length slots \<Longrightarrow>
      ?s ! j = (if j = i \<and> \<not> answers j \<and> connect j \<noteq> None then the (connect j) else slots ! j)" for j
    by (auto split: option.splits)
  have "length cs + Suc i = length ?s" using Cons.prems len by simp
  from Cons.IH [OF this] len at show ?case
    by (auto simp: nth_Cons' Suc_le_eq le_less)
qed simp

text \<open>
  A round keeps the number of connections; the place of a connection that answered, or that cannot be
  replaced, keeps it, and every other place gets the new connection.
\<close>

theorem recover_round_replaces_dead:
  "vp_connections (recover_round answers connect p) =
     map (\<lambda>(i, c). if answers i then c else (case connect i of None \<Rightarrow> c | Some new \<Rightarrow> new)) (enumerate 0 (vp_connections p))"
  using recover_from_nth [of "vp_connections p" 0 "vp_connections p" answers connect]
  by (intro nth_equalityI) (auto simp: recover_round_def nth_enumerate_eq split: option.splits)

end
