(* ===== verification/Spec2Isabelle.thy ===== *)
theory Spec2Isabelle
  imports System Connection Chat_Events Pool
begin

text \<open>
  Verification of the Vussa chat backend (\<^verbatim>\<open>src/backend\<close>, Rust).

  \<^bold>\<open>The program.\<close>  A number of identical backend processes serve a chat.  Accounts, channels, memberships, bans,
  messages, notifications and two work queues live in PostgreSQL; sessions, rate counters, presence and
  the most recent history of each channel live in Valkey, whose publish/subscribe also connects the
  processes; uploaded files live on disk or in an object store.  A client uses HTTP handlers
  (\<^verbatim>\<open>api/*.rs\<close>, reached through \<^verbatim>\<open>routes.rs\<close>) and a WebSocket (\<^verbatim>\<open>websocket/handler.rs\<close>).  An
  event published to a channel's topic is routed by each process's room manager
  (\<^verbatim>\<open>websocket/rooms.rs\<close>) to the sockets that are in the room.  Two background workers drain the outbox
  (\<^verbatim>\<open>outbox.rs\<close>) and the notification jobs (\<^verbatim>\<open>notifications/delivery.rs\<close>).

  \<^bold>\<open>The model.\<close>  An \<^verbatim>\<open>async fn ... -> Result<T, E>\<close> is a function from the world to a result and the new
  world (\<open>comp\<close> in \<open>Prelude\<close>; \<^verbatim>\<open>?\<close> is \<open>try_bind\<close>, \<^verbatim>\<open>map_err\<close> is \<open>map_err\<close>, a transaction is
  \<open>transaction\<close> and puts the tables back on an error).  The world (\<open>World\<close>) holds the tables, the Valkey
  state, what was sent to the client's socket, the commands given to the room manager, and a tick that
  counts external calls.  Everything that is not in the repository is a parameter, the record \<open>env\<close>:
  the Valkey commands, the serializers, password hashing, SHA-256, the Unicode tables, the URL parser, the
  HTTP client, and the oracles for faults, clock, UUIDs and randomness, each indexed by the tick.  So a
  theorem about a run covers every pattern of failing calls and every reading of the clock.  SQL
  statements are functions on lists of rows (\<open>stmt\<close>) that check the constraints of the schema.

  The theories, in the order of their imports:
  \<^item> \<open>Prelude\<close>, \<open>Rust_Str\<close>: computations, frame rules (\<open>keeps_on\<close>, \<open>leaves_snd\<close>), \<^verbatim>\<open>str\<close> and \<^verbatim>\<open>char\<close>.
  \<^item> \<open>Errors\<close> (\<^verbatim>\<open>error.rs\<close>), \<open>Models\<close> (\<^verbatim>\<open>models.rs\<close>, \<^verbatim>\<open>config.rs\<close>), \<open>Keyspace\<close> (Valkey, the locale
    \<open>valkey\<close>), \<open>Database\<close> (\<^verbatim>\<open>migrations/\<close>), \<open>World\<close>, \<open>Demo\<close> (a concrete environment and concrete tables).
  \<^item> \<open>Auth\<close> (\<^verbatim>\<open>auth.rs\<close>): cookies, sessions, CSRF, permissions, the rate limiter.  Shown: what a session
    gives back, that a request without a stored session is refused, the CSRF guard is equality, and the
    limiter lets at most its limit through in a window.
  \<^item> \<open>Broadcast\<close> (\<^verbatim>\<open>broadcast.rs\<close>, \<^verbatim>\<open>persistence.rs\<close>), \<open>Channels\<close> (the access layer of
    \<^verbatim>\<open>api/channels.rs\<close>), \<open>Services\<close> (\<^verbatim>\<open>services.rs\<close>), \<open>Membership\<close> (the invariant \<open>membership_ok\<close> and
    that every service keeps it), \<open>Members\<close> (\<^verbatim>\<open>api/members.rs\<close>).
  \<^item> \<open>Repository\<close>, \<open>Messages\<close> (\<^verbatim>\<open>repository/postgres.rs\<close>): accounts and roles; storing, finding, paging,
    editing, deleting and pruning messages, with the invariant \<open>messages_ok\<close>.
  \<^item> \<open>History\<close>, \<open>Presence\<close> (\<^verbatim>\<open>websocket/history.rs\<close>, \<^verbatim>\<open>presence.rs\<close>): the hot cache and the pages a client
    gets; who is in a room.
  \<^item> \<open>Notifications\<close> (\<^verbatim>\<open>api/notifications.rs\<close>), \<open>Queue\<close> (the locale \<open>job_queue\<close> of the two work queues),
    \<open>Outbox\<close> (\<^verbatim>\<open>outbox.rs\<close>), \<open>Delivery\<close> (\<^verbatim>\<open>notifications/delivery.rs\<close>).  Shown: who is notified of a
    message, that claimed jobs are the oldest open ones, that finished jobs stay finished, and that the
    worker refines the statement-by-statement interleaving relation \<open>delivery_step\<close>.
  \<^item> \<open>Rooms\<close> (\<^verbatim>\<open>websocket/rooms.rs\<close>): the room manager as a state machine (\<open>manager_step\<close>), its client
    counts, its routing and its recovery after a lost connection.
  \<^item> \<open>Channel_Api\<close> (the handlers of \<^verbatim>\<open>api/channels.rs\<close> and \<^verbatim>\<open>api/drafts.rs\<close>), \<open>Handler\<close>
    (\<^verbatim>\<open>websocket/handler.rs\<close>), with \<open>Chat_Events\<close> (what the events of a channel do) and \<open>Connection\<close> (the
    life of a connection; \<open>Failures\<close> holds the rules for the errors a computation can answer).
  \<^item> \<open>Verifier\<close>, \<open>Account\<close> (the password checks of \<^verbatim>\<open>auth.rs\<close>, \<^verbatim>\<open>api/account.rs\<close>, \<^verbatim>\<open>auth/recovery.rs\<close>): the shared
    checks as a state machine (\<open>flight_step\<close>), in which every caller gets the answer to its own question and
    all come to an end; login, recovery, password change and deletion of an account.
  \<^item> \<open>Discovery\<close> (\<^verbatim>\<open>api/discovery.rs\<close>): lists, searches with their cursors, and the link preview, which contacts
    public addresses only.
  \<^item> \<open>Storage\<close> (\<^verbatim>\<open>storage.rs\<close>, \<^verbatim>\<open>storage/scanner.rs\<close>): the locale \<open>blob_store\<close> says what a store promises, and is
    interpreted on the store on disk; the signature of S3 requests.  \<open>Media\<close> (\<^verbatim>\<open>api/media.rs\<close>): saved messages,
    reports, uploads and downloads, with the round trip proved in that locale.
  \<^item> \<open>Admin\<close> (\<^verbatim>\<open>api/admin.rs\<close>): users, roles, bans, channels, moderation and the audit trail.
  \<^item> \<open>Routes\<close> (\<^verbatim>\<open>routes.rs\<close>): every route with its method, path and handler (\<open>handle_request\<close>).  Shown: every route
    but four asks for a session, and for its CSRF token unless it is a \<^verbatim>\<open>GET\<close>; a \<^verbatim>\<open>GET\<close> changes no table.
  \<^item> \<open>Startup\<close> (\<^verbatim>\<open>bootstrap.rs\<close>): the accounts that a start creates, the configured services, and the clean-up of
    files, which spares files in use and forgets no blob.  \<open>Pool\<close> (\<^verbatim>\<open>cache.rs\<close>): the connections to Valkey.
  \<^item> \<open>Side_Tables\<close>, \<open>Channel_Writes\<close>, \<open>System\<close>: one step of the backend (\<open>backend_step\<close>: a start, a request to any
    route, a whole connection, some rounds of a worker, a round of retention or of clean-up) and what any
    sequence of steps can lead to.  The locales \<open>side_invariant\<close> and \<open>conversation_invariant\<close> say what an
    invariant has to satisfy, and are interpreted on the four invariants of memberships, messages, invite
    links and the main channel.
  \<^item> this theory: the properties of the whole backend.

  \<^bold>\<open>Modelling decisions.\<close>
  \<^item> A failed external call has no effect.  Of \<^verbatim>\<open>sqlx::Error\<close> only the variants that the code tells apart
    are kept.
  \<^item> A request runs from start to end before the next one starts; in \<open>backend_step\<close> statements of two
    requests do not interleave.  The exceptions are the delivery jobs (\<open>delivery_step\<close>), the room
    manager (\<open>manager_step\<close>), the password checks (\<open>flight_step\<close>) and the claims of the work queues (\<open>job_queue\<close>), whose theorems hold for every
    interleaving.
  \<^item> A query without \<^verbatim>\<open>ORDER BY\<close> returns rows in insertion order.  A \<^verbatim>\<open>u64\<close> or \<^verbatim>\<open>u8\<close> that the code computes with is
    a word; an \<^verbatim>\<open>i64\<close> column or timestamp is an \<open>int\<close>, after the code's own conversion from the \<^verbatim>\<open>u64\<close> clock.
  \<^item> A Valkey key with a lifetime does not vanish by itself during a run; a theorem about expiry speaks of
    the lifetime that was set.
  \<^item> The endless loops of the workers are \<open>n\<close> rounds for an arbitrary \<open>n\<close>; the loop of a connection
    consumes a list of inputs, whose end is the end of the connection.  The closure of a thread's
    replies iterates as often as there are messages, which \<open>reply_closure_closed\<close> shows to be enough.
  \<^item> The mail and push sinks, the recovery notifier, the file scanner, name resolution and the HTTP client of
    the link preview are parameters; \<open>backend_step\<close> assumes that they do not write to the database
    (\<open>outside_ok\<close>).  Full-text search and the HTML parser are functions given to the handlers.
  \<^item> A disk holds the contents of files by path; an oracle says which call fails, and a failed write may leave a
    torn file.  A handler that uses the blob store runs on the world and the store together.
  \<^item> A request is the data that the framework hands to a handler: headers, path and query parameters and
    the decoded body.  That a path reaches its handler, and the decoding of a body, is the framework's part.
  \<^item> In the world of a request a connection to Valkey may fail to be had at any time;
    \<open>pool_always_serves\<close> shows that the pool itself never runs out.
  \<^item> Metrics, log lines, close frames and the gauge of open sockets are not recorded.

  \<^bold>\<open>Not modelled.\<close>  The load generator \<^verbatim>\<open>bench/\<close> and the web client \<^verbatim>\<open>frontend/\<close>; the wiring of third-party
  frameworks (\<^verbatim>\<open>main.rs\<close>, the rest of \<^verbatim>\<open>bootstrap.rs\<close>, the CORS layer of \<^verbatim>\<open>routes.rs\<close>, \<^verbatim>\<open>metrics.rs\<close>), the
  migrations and the pool of PostgreSQL connections, and the probes that answer a constant.
\<close>

section \<open>The database of a running backend\<close>

text \<open>
  C1: the tables stay consistent.  Whatever requests, connections and background workers run, in whatever
  order and with whatever failures, starting from an empty database: channel ids, names, membership rows
  and live direct keys stay unique, the owner column of a channel names exactly its members with the
  owner role, message ids are unique, replies, attachments and messages point to existing rows, a session
  uses a client id for one message only, and no invite link is used more often than it allows.
\<close>

theorem reachable_database_consistent:
  assumes "backend_reachable E w"
  shows "membership_ok (db w) \<and> messages_ok (db w) \<and> links_ok (db w)"
  using memberships.reachable_ok [OF assms] message_rows.reachable_ok [OF assms] link_rows.reachable_ok [OF assms]
  by blast

theorem reachable_database_consistent_witness:
  "let w = fst (snd (handle_request demo_state demo_env [] (Account_Request (Register ''a@b.c'' ''ada'' ''correct horse'')) (demo_world, demo_disk)))
   in membership_ok (db w) \<and> messages_ok (db w) \<and> links_ok (db w)"
  unfolding Let_def
proof (rule reachable_database_consistent)
  have "backend_reachable demo_env demo_world"
    by (rule backend_reachable.initial) (simp add: demo_world_def)
  then show "backend_reachable demo_env
      (fst (snd (handle_request demo_state demo_env [] (Account_Request (Register ''a@b.c'' ''ada'' ''correct horse'')) (demo_world, demo_disk))))"
    by (rule backend_reachable.step) (rule backend_step.requested [OF demo_state_ok])
qed



section \<open>Access\<close>


section \<open>The connection pool of a process\<close>

text \<open>
  A process opens as many connections as its configuration says, takes them in turns, and replaces them.  It is
  never without one: a pool that was opened always has a connection to hand out.
\<close>

inductive pool_reach :: "nat \<Rightarrow> 'c valkey_pool \<Rightarrow> bool" for n where
  opened: "pool_new (connect :: nat \<Rightarrow> string + 'c) n = Inr p \<Longrightarrow> pool_reach n p"
| taken: "pool_reach n p \<Longrightarrow> pool_reach n (snd (pool_connection p))"
| recovered: "pool_reach n p \<Longrightarrow> pool_reach n (recover_round answers connect p)"

lemma pool_reach_size: "pool_reach n p \<Longrightarrow> length (vp_connections p) = n"
  by (induction rule: pool_reach.induct)
    (auto simp: pool_new_size pool_connection_def recover_round_replaces_dead)

theorem pool_always_serves:
  assumes "pool_reach (valkey_pool_size E) p"
  shows "\<exists>c \<in> set (vp_connections p). fst (pool_connection p) = Inr c"
proof -
  have "0 < length (vp_connections p)"
    using pool_reach_size [OF assms] valkey_pool_size_bounds(1) [of E] by linarith
  then show ?thesis
    by (auto simp: pool_connection_def)
qed

end
